(* ===== verification/Prelude.thy ===== *)
theory Prelude
  imports Main "HOL-Library.Sublist"
begin

text \<open>
  The prelude of the development: the collections of rules the component theories add to,
  generic facts on lists of rows addressed by a key (the shape of the agent's SQLite tables),
  and the signed 64-bit arithmetic of Go's \<open>int\<close>, \<open>int64\<close> and \<open>time.Duration\<close>.
  Nothing here is specific to the agent.
\<close>

section \<open>Collections\<close>

named_theorems row_simps \<open>lookups in tables of rows after an update or an insert\<close>
named_theorems port_simps \<open>projections of the concrete ports\<close>

section \<open>Rows addressed by a key\<close>

text \<open>
  A table is the list of its rows in insertion order. \<open>row_find\<close> is
  \<open>SELECT ... WHERE key = k\<close> on a unique key, \<open>row_update\<close> is
  \<open>UPDATE ... WHERE key = k\<close> (every matching row).
\<close>

definition row_find :: "('r \<Rightarrow> 'k) \<Rightarrow> 'k \<Rightarrow> 'r list \<Rightarrow> 'r option" where
  "row_find key k rows = find (\<lambda>r. key r = k) rows"

definition row_update :: "('r \<Rightarrow> 'k) \<Rightarrow> 'k \<Rightarrow> ('r \<Rightarrow> 'r) \<Rightarrow> 'r list \<Rightarrow> 'r list" where
  "row_update key k f rows = map (\<lambda>r. if key r = k then f r else r) rows"

lemma row_find_Nil [simp]: "row_find key k [] = None"
  by (simp add: row_find_def)

lemma row_find_Cons [simp]:
  "row_find key k (r # rows) = (if key r = k then Some r else row_find key k rows)"
  by (simp add: row_find_def)

lemma row_find_append [row_simps]:
  "row_find key k (rows @ rows') =
     (case row_find key k rows of None \<Rightarrow> row_find key k rows' | Some r \<Rightarrow> Some r)"
  by (induction rows) auto

lemma row_find_None [row_simps]: "row_find key k rows = None \<longleftrightarrow> k \<notin> key ` set rows"
  by (induction rows) auto

lemma row_find_Some_in: "row_find key k rows = Some r \<Longrightarrow> r \<in> set rows \<and> key r = k"
  by (induction rows) (auto split: if_splits)

lemma row_find_unique:
  "distinct (map key rows) \<Longrightarrow> r \<in> set rows \<Longrightarrow> row_find key (key r) rows = Some r"
  by (induction rows) (auto simp: image_iff)

lemma row_update_Nil [simp]: "row_update key k f [] = []"
  by (simp add: row_update_def)

lemma row_update_Cons [simp]:
  "row_update key k f (r # rows) = (if key r = k then f r else r) # row_update key k f rows"
  by (simp add: row_update_def)

lemma length_row_update [simp]: "length (row_update key k f rows) = length rows"
  by (simp add: row_update_def)

lemma map_row_update:
  assumes "\<And>r. g (f r) = g r"
  shows "map g (row_update key k f rows) = map g rows"
  using assms by (induction rows) auto

lemma row_find_update [row_simps]:
  assumes "\<And>r. key (f r) = key r"
  shows "row_find key k' (row_update key k f rows) =
     (if k' = k then map_option f (row_find key k rows) else row_find key k' rows)"
  using assms by (induction rows) auto

lemma set_row_update:
  "set (row_update key k f rows) = (\<lambda>r. if key r = k then f r else r) ` set rows"
  by (simp add: row_update_def)

section \<open>Signed 64-bit arithmetic\<close>

text \<open>
  Go's \<open>int\<close> (on the 64-bit builds the agent ships), \<open>int64\<close> and
  \<open>time.Duration\<close> wrap around silently. \<open>wrap64\<close> reads an integer modulo
  \<open>2^64\<close> as two's complement.
\<close>

definition max_int64 :: int where "max_int64 = 9223372036854775807"
definition min_int64 :: int where "min_int64 = -9223372036854775808"

definition wrap64 :: "int \<Rightarrow> int" where
  "wrap64 n = (n + 9223372036854775808) mod 18446744073709551616 - 9223372036854775808"

definition in_int64 :: "int \<Rightarrow> bool" where
  "in_int64 n \<longleftrightarrow> min_int64 \<le> n \<and> n \<le> max_int64"

lemma wrap64_in_int64: "in_int64 (wrap64 n)"
  by (simp add: wrap64_def in_int64_def min_int64_def max_int64_def)

lemma wrap64_id: "in_int64 n \<Longrightarrow> wrap64 n = n"
  by (simp add: wrap64_def in_int64_def min_int64_def max_int64_def)

end
