(* ===== verification/GoTime.thy ===== *)
theory GoTime
  imports GoStrings
begin

text \<open>
  The parts of Go's package \<open>time\<close> that the agent uses. A \<open>time.Time\<close> is the
  number of nanoseconds since Go's zero time (0001-01-01T00:00:00Z), so \<open>IsZero\<close> is
  \<open>t = 0\<close>; a \<open>time.Duration\<close> is a signed 64-bit count of nanoseconds. A
  \<open>*time.Location\<close> is the offset from UTC, in seconds, at every UTC second: what the
  time-zone database says of a zone. Civil dates are day numbers since 0001-01-01 with
  the Gregorian rules; \<open>time.Date\<close> follows the two lookups of the Go library.
\<close>

type_synonym time = int
type_synonym duration = int
type_synonym location = "int \<Rightarrow> int"

abbreviation second_ns :: duration where "second_ns \<equiv> 1000000000"
abbreviation minute_ns :: duration where "minute_ns \<equiv> 60000000000"
abbreviation hour_ns :: duration where "hour_ns \<equiv> 3600000000000"

definition is_zero :: "time \<Rightarrow> bool" where "is_zero t \<longleftrightarrow> t = 0"

text \<open>\<open>Time.Sub\<close> saturates at the ends of the range of a duration.\<close>

definition time_sub :: "time \<Rightarrow> time \<Rightarrow> duration" where
  "time_sub t u = max min_int64 (min max_int64 (t - u))"

definition utc :: location where "utc = (\<lambda>_. 0)"

section \<open>Civil dates\<close>

definition is_leap :: "int \<Rightarrow> bool" where
  "is_leap y \<longleftrightarrow> y mod 4 = 0 \<and> (y mod 100 \<noteq> 0 \<or> y mod 400 = 0)"

definition year_start :: "int \<Rightarrow> int" where
  "year_start y = 365 * (y - 1) + (y - 1) div 4 - (y - 1) div 100 + (y - 1) div 400"

text \<open>The days of a year before the first of a month; \<open>l\<close> says whether the year is leap.\<close>

definition month_start :: "bool \<Rightarrow> int \<Rightarrow> int" where
  "month_start l m = (if m \<le> 1 then 0 else if m = 2 then 31
     else (if l then 1 else 0) +
       (if m = 3 then 59 else if m = 4 then 90 else if m = 5 then 120 else if m = 6 then 151
        else if m = 7 then 181 else if m = 8 then 212 else if m = 9 then 243
        else if m = 10 then 273 else if m = 11 then 304 else if m = 12 then 334 else 365))"

definition days_in :: "bool \<Rightarrow> int \<Rightarrow> int" where
  "days_in l m = month_start l (m + 1) - month_start l m"

definition day_number :: "int \<Rightarrow> int \<Rightarrow> int \<Rightarrow> int" where
  "day_number y m d = year_start y + month_start (is_leap y) m + d - 1"

definition year_of_day :: "int \<Rightarrow> int" where
  "year_of_day n =
     (let n400 = n div 146097; r400 = n mod 146097;
          n100 = min 3 (r400 div 36524); r100 = r400 - 36524 * n100;
          n4 = r100 div 1461; r4 = r100 mod 1461;
          n1 = min 3 (r4 div 365)
      in 400 * n400 + 100 * n100 + 4 * n4 + n1 + 1)"

definition month_of_yday :: "bool \<Rightarrow> int \<Rightarrow> int" where
  "month_of_yday l k =
     (if k < 31 then 1 else
      let j = (if l then k - 1 else k) in
      if j < 59 then 2 else if j < 90 then 3 else if j < 120 then 4 else if j < 151 then 5
      else if j < 181 then 6 else if j < 212 then 7 else if j < 243 then 8
      else if j < 273 then 9 else if j < 304 then 10 else if j < 334 then 11 else 12)"

definition civil_of_day :: "int \<Rightarrow> int \<times> int \<times> int" where
  "civil_of_day n =
     (let y = year_of_day n; k = n - year_start y; m = month_of_yday (is_leap y) k
      in (y, m, k - month_start (is_leap y) m + 1))"

lemma year_of_day_bounds:
  "year_start (year_of_day n) \<le> n \<and> n < year_start (year_of_day n) + 365 + (if is_leap (year_of_day n) then 1 else 0)"
proof -
  define a where "a = n div 146097"
  define r where "r = n mod 146097"
  define b where "b = min 3 (r div 36524)"
  define s where "s = r - 36524 * b"
  define c where "c = s div 1461"
  define u where "u = s mod 1461"
  define e where "e = min 3 (u div 365)"
  have n: "n = 146097 * a + 36524 * b + 1461 * c + u"
    by (simp add: a_def r_def s_def c_def u_def)
  have r: "0 \<le> r" "r < 146097" by (simp_all add: r_def)
  have b: "0 \<le> b" "b \<le> 3" "0 \<le> s" "s < 36524 \<or> b = 3 \<and> s < 36525"
    using r by (auto simp: b_def s_def min_def)
  have c: "0 \<le> c" "c \<le> 24" "0 \<le> u" "u < 1461" "c = 24 \<Longrightarrow> b \<noteq> 3 \<Longrightarrow> u < 1460"
    using b minus_mult_div_eq_mod [of s 1461] by (auto simp: c_def u_def)
  have e: "0 \<le> e" "e \<le> 3" "365 * e \<le> u" "u < 365 * e + 365 \<or> e = 3 \<and> u < 1461"
    using c by (auto simp: e_def min_def)
  have y: "year_of_day n = 400 * a + 100 * b + 4 * c + e + 1"
    by (simp add: year_of_day_def Let_def a_def b_def c_def e_def r_def s_def u_def)
  define y0 where "y0 = 400 * a + 100 * b + 4 * c + e"
  have d4: "y0 div 4 = 100 * a + 25 * b + c" using e by (simp add: y0_def)
  have d100: "y0 div 100 = 4 * a + b" using e c by (simp add: y0_def)
  have d400: "y0 div 400 = a" using e c b by (simp add: y0_def)
  have ys: "year_start (y0 + 1) = 146097 * a + 36524 * b + 1461 * c + 365 * e"
    by (simp add: year_start_def d4 d100 d400) (simp add: y0_def)
  have leap: "is_leap (y0 + 1)" if "e = 3" "\<not> (c = 24 \<and> b \<noteq> 3)"
  proof -
    have m4: "(y0 + 1) mod 4 = 0" using that by (simp add: y0_def)
    show ?thesis
    proof (cases "c = 24")
      case True
      with that have "b = 3" by simp
      with True that have "y0 + 1 = 400 * (a + 1)" by (simp add: y0_def)
      then have "(y0 + 1) mod 400 = 0" by simp
      with m4 show ?thesis by (simp add: is_leap_def)
    next
      case False
      have "y0 + 1 = 100 * (4 * a + b) + (4 * c + 4)" using that by (simp add: y0_def)
      then have "(y0 + 1) mod 100 = (4 * c + 4) mod 100" by (simp only: mod_mult_self4)
      then have "(y0 + 1) mod 100 = 4 * c + 4" using False c(1,2) by simp
      then have "(y0 + 1) mod 100 \<noteq> 0" using c(1) by simp
      with m4 show ?thesis by (simp add: is_leap_def)
    qed
  qed
  have "u < 365 * e + 365 + (if is_leap (y0 + 1) then 1 else 0)"
  proof (cases "e = 3 \<and> \<not> (c = 24 \<and> b \<noteq> 3)")
    case True
    with leap c show ?thesis by simp
  next
    case False
    with e c show ?thesis by auto
  qed
  with n ys e y show ?thesis by (simp add: y0_def)
qed

lemma month_of_yday_cases:
  fixes l k
  defines "m \<equiv> month_of_yday l k" and "x \<equiv> (if l then 1 else 0 :: int)"
  shows "m = 1 \<and> k < 31
   \<or> m = 2 \<and> 31 \<le> k \<and> k < 59 + x
   \<or> m = 3 \<and> 59 + x \<le> k \<and> k < 90 + x
   \<or> m = 4 \<and> 90 + x \<le> k \<and> k < 120 + x
   \<or> m = 5 \<and> 120 + x \<le> k \<and> k < 151 + x
   \<or> m = 6 \<and> 151 + x \<le> k \<and> k < 181 + x
   \<or> m = 7 \<and> 181 + x \<le> k \<and> k < 212 + x
   \<or> m = 8 \<and> 212 + x \<le> k \<and> k < 243 + x
   \<or> m = 9 \<and> 243 + x \<le> k \<and> k < 273 + x
   \<or> m = 10 \<and> 273 + x \<le> k \<and> k < 304 + x
   \<or> m = 11 \<and> 304 + x \<le> k \<and> k < 334 + x
   \<or> m = 12 \<and> 334 + x \<le> k"
  unfolding m_def x_def month_of_yday_def Let_def by (cases l) (simp_all split: if_split)

lemma month_of_yday_bounds:
  assumes "0 \<le> k" "k < 365 + (if l then 1 else 0)"
  defines "m \<equiv> month_of_yday l k"
  shows "1 \<le> m \<and> m \<le> 12 \<and> month_start l m \<le> k \<and> k < month_start l m + days_in l m"
  using month_of_yday_cases [of l k] assms(1,2)
  by (cases l; elim disjE) (simp_all add: m_def month_start_def days_in_def)

text \<open>Every day number has one civil date, and the civil date gives the day number back.\<close>

lemma day_number_civil_of_day:
  assumes "civil_of_day n = (y, m, d)"
  shows "day_number y m d = n" "1 \<le> m" "m \<le> 12" "1 \<le> d" "d \<le> days_in (is_leap y) m"
  using assms year_of_day_bounds [of n]
    month_of_yday_bounds [of "n - year_start (year_of_day n)" "is_leap (year_of_day n)"]
  by (auto simp: civil_of_day_def day_number_def Let_def)

section \<open>Instants and civil clocks\<close>

definition unix_secs :: "time \<Rightarrow> int" where "unix_secs t = t div second_ns"

text \<open>\<open>t.In(loc)\<close>: the seconds of the civil clock at \<open>t\<close>, and the civil day.\<close>

definition civil_secs :: "location \<Rightarrow> time \<Rightarrow> int" where
  "civil_secs loc t = unix_secs t + loc (unix_secs t)"

definition civil_day_of :: "location \<Rightarrow> time \<Rightarrow> int" where
  "civil_day_of loc t = civil_secs loc t div 86400"

text \<open>
  \<open>time.Date\<close> for the local second \<open>u\<close> (the civil fields as one number): the offset at
  \<open>u\<close> read as UTC, then the offset at the instant that gives.
\<close>

definition time_of_local :: "location \<Rightarrow> int \<Rightarrow> time" where
  "time_of_local loc u = second_ns * (if loc u \<noteq> 0 then u - loc (u - loc u) else u)"

text \<open>\<open>time.Date(y, m, d, h, min, 0, 0, loc)\<close>, the date given as its day number.\<close>

definition time_date :: "location \<Rightarrow> int \<Rightarrow> int \<Rightarrow> int \<Rightarrow> time" where
  "time_date loc day h m = time_of_local loc (86400 * day + 3600 * h + 60 * m)"

text \<open>\<open>t.AddDate(0, 0, k)\<close> for a time in \<open>loc\<close>.\<close>

definition add_days :: "location \<Rightarrow> time \<Rightarrow> int \<Rightarrow> time" where
  "add_days loc t k = time_of_local loc (civil_secs loc t + 86400 * k) + t mod second_ns"

lemma time_date_utc: "time_date utc day h m = second_ns * (86400 * day + 3600 * h + 60 * m)"
  by (simp add: time_date_def time_of_local_def utc_def)

lemma time_date_fixed:
  "time_date (\<lambda>_. off) day h m = second_ns * (86400 * day + 3600 * h + 60 * m - off)"
  by (simp add: time_date_def time_of_local_def algebra_simps)

section \<open>RFC 3339\<close>

definition format_date_time :: "time \<Rightarrow> string" where
  "format_date_time t =
     (let secs = unix_secs t; sod = secs mod 86400; (y, m, d) = civil_of_day (secs div 86400)
      in fixed_digits 4 y @ ''-'' @ fixed_digits 2 m @ ''-'' @ fixed_digits 2 d @ ''T'' @
         fixed_digits 2 (sod div 3600) @ '':'' @ fixed_digits 2 (sod div 60 mod 60) @ '':'' @
         fixed_digits 2 (sod mod 60))"

text \<open>\<open>t.In(loc).Format("2006-01-02")\<close>.\<close>

definition format_civil_date :: "location \<Rightarrow> time \<Rightarrow> string" where
  "format_civil_date loc t =
     (let (y, m, d) = civil_of_day (civil_day_of loc t)
      in fixed_digits 4 y @ ''-'' @ fixed_digits 2 m @ ''-'' @ fixed_digits 2 d)"

text \<open>\<open>t.UTC().Format(time.RFC3339)\<close>.\<close>

definition format_rfc3339 :: "time \<Rightarrow> string" where
  "format_rfc3339 t = format_date_time t @ ''Z''"

text \<open>\<open>t.UTC().Format(time.RFC3339Nano)\<close>: the fraction loses its trailing zeros.\<close>

definition format_frac :: "time \<Rightarrow> string" where
  "format_frac t =
     (if t mod second_ns = 0 then []
      else CHR ''.'' # rev (dropWhile (\<lambda>c. c = CHR ''0'') (rev (fixed_digits 9 (t mod second_ns)))))"

definition format_rfc3339nano :: "time \<Rightarrow> string" where
  "format_rfc3339nano t = format_date_time t @ format_frac t @ ''Z''"

text \<open>
  \<open>time.Parse(time.RFC3339, s)\<close>, the library's direct parser of this layout: each number
  in its place and in its range, an optional fraction, \<open>Z\<close> or a numeric zone.
\<close>

definition parse_uint :: "string \<Rightarrow> nat \<Rightarrow> nat \<Rightarrow> int \<Rightarrow> int \<Rightarrow> int option" where
  "parse_uint s i w lo hi =
     (let ds = take w (drop i s); v = digits_val ds
      in if length ds = w \<and> list_all is_digit ds \<and> lo \<le> v \<and> v \<le> hi then Some v else None)"

definition char_at :: "string \<Rightarrow> nat \<Rightarrow> char \<Rightarrow> bool" where
  "char_at s i c \<longleftrightarrow> i < length s \<and> s ! i = c"

definition parse_frac :: "string \<Rightarrow> int \<times> string" where
  "parse_frac s =
     (case s of
        c # d # r \<Rightarrow>
          if c = CHR ''.'' \<and> is_digit d then
            (let ds = takeWhile is_digit (d # r); ds9 = take 9 ds
             in (digits_val ds9 * 10 ^ (9 - length ds9), dropWhile is_digit (d # r)))
          else (0, s)
      | _ \<Rightarrow> (0, s))"

definition parse_zone :: "string \<Rightarrow> int option" where
  "parse_zone s =
     (if s = ''Z'' then Some 0
      else if length s \<noteq> 6 then None
      else case (parse_uint s 1 2 0 23, parse_uint s 4 2 0 59) of
             (Some hr, Some mm) \<Rightarrow>
               if (char_at s 0 CHR ''-'' \<or> char_at s 0 CHR ''+'') \<and> char_at s 3 CHR '':''
               then Some ((if char_at s 0 CHR ''-'' then -1 else 1) * ((hr * 60 + mm) * 60))
               else None
           | _ \<Rightarrow> None)"

definition parse_date_time :: "string \<Rightarrow> int option" where
  "parse_date_time s =
     (case (parse_uint s 0 4 0 9999, parse_uint s 5 2 1 12) of
        (Some y, Some mo) \<Rightarrow>
          (case (parse_uint s 8 2 1 (days_in (is_leap y) mo), parse_uint s 11 2 0 23,
                 parse_uint s 14 2 0 59, parse_uint s 17 2 0 59) of
             (Some d, Some h, Some mi, Some sec) \<Rightarrow>
               if char_at s 4 CHR ''-'' \<and> char_at s 7 CHR ''-'' \<and> char_at s 10 CHR ''T''
                  \<and> char_at s 13 CHR '':'' \<and> char_at s 16 CHR '':''
               then Some (86400 * day_number y mo d + 3600 * h + 60 * mi + sec) else None
           | _ \<Rightarrow> None)
      | _ \<Rightarrow> None)"

definition parse_rfc3339 :: "string \<Rightarrow> time option" where
  "parse_rfc3339 s =
     (case parse_date_time s of
        None \<Rightarrow> None
      | Some secs \<Rightarrow>
          (let (nsec, z) = parse_frac (drop 19 s)
           in case parse_zone z of None \<Rightarrow> None
              | Some off \<Rightarrow> Some (second_ns * (secs - off) + nsec)))"

text \<open>\<open>Duration.String\<close>; the micro sign is the two bytes of its UTF-8 form.\<close>

definition frac_text :: "nat \<Rightarrow> int \<Rightarrow> string" where
  "frac_text w n =
     (if n = 0 then []
      else CHR ''.'' # rev (dropWhile (\<lambda>c. c = CHR ''0'') (rev (fixed_digits w n))))"

definition duration_text :: "duration \<Rightarrow> string" where
  "duration_text d =
     (let u = \<bar>d\<bar>; secs = u div second_ns; m = secs div 60 in
      (if d < 0 then ''-'' else []) @
      (if u = 0 then ''0s''
       else if u < 1000 then show_int u @ ''ns''
       else if u < 1000000 then show_int (u div 1000) @ frac_text 3 (u mod 1000) @
         [char_of (194::nat), char_of (181::nat), CHR ''s'']
       else if u < second_ns then show_int (u div 1000000) @ frac_text 6 (u mod 1000000) @ ''ms''
       else (if secs div 3600 > 0 then show_int (secs div 3600) @ ''h'' else []) @
            (if m > 0 then show_int (m mod 60) @ ''m'' else []) @
            show_int (secs mod 60) @ frac_text 9 (u mod second_ns) @ ''s''))"

section \<open>Round trips\<close>

lemma year_start_mono: "y \<le> z \<Longrightarrow> year_start y \<le> year_start z"
proof -
  assume "y \<le> z"
  then have "(z - 1) div 100 \<le> (y - 1) div 100 + (z - y)" "(y - 1) div 4 \<le> (z - 1) div 4"
    "(y - 1) div 400 \<le> (z - 1) div 400"
    by (simp_all add: zdiv_mono1)
  with \<open>y \<le> z\<close> show ?thesis by (simp add: year_start_def)
qed

text \<open>The instants whose year has four digits: from the zero time to the end of year 9999.\<close>

definition in_rfc3339_range :: "time \<Rightarrow> bool" where
  "in_rfc3339_range t \<longleftrightarrow> 0 \<le> t \<and> t < 315537897600 * second_ns"

lemma year_of_day_range:
  assumes "0 \<le> n" "n < 3652059"
  shows "1 \<le> year_of_day n" "year_of_day n \<le> 9999"
proof -
  note b = year_of_day_bounds [of n]
  show "1 \<le> year_of_day n"
  proof (rule ccontr)
    assume "\<not> ?thesis"
    then have "year_start (year_of_day n) \<le> year_start 0" by (intro year_start_mono) simp
    with b assms show False by (simp add: year_start_def split: if_splits)
  qed
  show "year_of_day n \<le> 9999"
  proof (rule ccontr)
    assume "\<not> ?thesis"
    then have "year_start 10000 \<le> year_start (year_of_day n)" by (intro year_start_mono) simp
    with b assms show False by (simp add: year_start_def)
  qed
qed

lemma parse_uint_at:
  assumes "s = pre @ fixed_digits w v @ post" "length pre = i"
    "lo \<le> v" "v \<le> hi" "0 \<le> v" "v < 10 ^ w"
  shows "parse_uint s i w lo hi = Some v"
  using assms by (simp add: parse_uint_def fixed_digits_is_digit digits_val_fixed_digits)

lemma char_at_at: "s = pre @ c # post \<Longrightarrow> length pre = i \<Longrightarrow> char_at s i c"
  by (auto simp: char_at_def)

lemma days_in_le: "1 \<le> m \<Longrightarrow> m \<le> 12 \<Longrightarrow> days_in l m \<le> 31"
  by (simp add: days_in_def month_start_def)

lemma sod_bounds:
  fixes sod :: int assumes "0 \<le> sod" "sod < 86400"
  shows "0 \<le> sod div 3600" "sod div 3600 \<le> 23"
    "0 \<le> sod div 60 mod 60" "sod div 60 mod 60 \<le> 59" "0 \<le> sod mod 60" "sod mod 60 \<le> 59"
    "3600 * (sod div 3600) + 60 * (sod div 60 mod 60) + sod mod 60 = sod"
proof -
  have "sod div 3600 = sod div 60 div 60" by (simp add: zdiv_zmult2_eq [symmetric])
  moreover have "60 * (sod div 60 div 60) + sod div 60 mod 60 = sod div 60"
    and "60 * (sod div 60) + sod mod 60 = sod" by (rule mult_div_mod_eq)+
  ultimately show "3600 * (sod div 3600) + 60 * (sod div 60 mod 60) + sod mod 60 = sod" by linarith
  show "0 \<le> sod div 3600" using assms by (simp add: pos_imp_zdiv_nonneg_iff)
  show "sod div 3600 \<le> 23" using zdiv_mono1 [of sod 86399 3600] assms by simp
qed (use pos_mod_bound [of 60 "sod div 60"] pos_mod_bound [of 60 sod] in \<open>simp_all\<close>)

text \<open>The date and time of six numbers, laid out, is read back.\<close>

lemma parse_date_time_layout:
  assumes "s = fixed_digits 4 y @ CHR ''-'' # fixed_digits 2 m @ CHR ''-'' # fixed_digits 2 d
     @ CHR ''T'' # fixed_digits 2 h @ CHR '':'' # fixed_digits 2 mi @ CHR '':'' # fixed_digits 2 se @ rest"
    and "0 \<le> y" "y \<le> 9999" "1 \<le> m" "m \<le> 12" "1 \<le> d" "d \<le> days_in (is_leap y) m"
    "0 \<le> h" "h \<le> 23" "0 \<le> mi" "mi \<le> 59" "0 \<le> se" "se \<le> 59"
  shows "parse_date_time s = Some (86400 * day_number y m d + 3600 * h + 60 * mi + se)"
proof -
  have d: "d \<le> 31" using assms days_in_le [of m "is_leap y"] by linarith
  have Y: "parse_uint s 0 4 0 9999 = Some y"
    by (rule parse_uint_at [where pre = "[]"]) (use assms(2,3) in \<open>simp_all only: assms(1) append_assoc append_Cons append_Nil length_append length_fixed_digits, simp_all\<close>)
  have M: "parse_uint s 5 2 1 12 = Some m"
    by (rule parse_uint_at [where pre = "fixed_digits 4 y @ ''-''"]) (use assms(4,5) in \<open>simp_all only: assms(1) append_assoc append_Cons append_Nil length_append length_fixed_digits, simp_all\<close>)
  have D: "parse_uint s 8 2 1 (days_in (is_leap y) m) = Some d"
    by (rule parse_uint_at [where pre = "fixed_digits 4 y @ ''-'' @ fixed_digits 2 m @ ''-''"])
      (use assms(6,7) d in \<open>simp_all only: assms(1) append_assoc append_Cons append_Nil length_append length_fixed_digits, simp_all\<close>)
  have H: "parse_uint s 11 2 0 23 = Some h"
    by (rule parse_uint_at [where pre = "fixed_digits 4 y @ ''-'' @ fixed_digits 2 m @ ''-''
        @ fixed_digits 2 d @ ''T''"]) (use assms(8,9) in \<open>simp_all only: assms(1) append_assoc append_Cons append_Nil length_append length_fixed_digits, simp_all\<close>)
  have I: "parse_uint s 14 2 0 59 = Some mi"
    by (rule parse_uint_at [where pre = "fixed_digits 4 y @ ''-'' @ fixed_digits 2 m @ ''-''
        @ fixed_digits 2 d @ ''T'' @ fixed_digits 2 h @ '':''"]) (use assms(10,11) in \<open>simp_all only: assms(1) append_assoc append_Cons append_Nil length_append length_fixed_digits, simp_all\<close>)
  have S: "parse_uint s 17 2 0 59 = Some se"
    by (rule parse_uint_at [where pre = "fixed_digits 4 y @ ''-'' @ fixed_digits 2 m @ ''-''
        @ fixed_digits 2 d @ ''T'' @ fixed_digits 2 h @ '':'' @ fixed_digits 2 mi @ '':''"])
      (use assms(12,13) in \<open>simp_all only: assms(1) append_assoc append_Cons append_Nil length_append length_fixed_digits, simp_all\<close>)
  have C: "char_at s 4 CHR ''-''" "char_at s 7 CHR ''-''" "char_at s 10 CHR ''T''"
    "char_at s 13 CHR '':''" "char_at s 16 CHR '':''"
    by (rule char_at_at [of _ "fixed_digits 4 y"], simp add: assms(1), simp)
      (rule char_at_at [of _ "fixed_digits 4 y @ ''-'' @ fixed_digits 2 m"], simp add: assms(1), simp,
       rule char_at_at [of _ "fixed_digits 4 y @ ''-'' @ fixed_digits 2 m @ ''-'' @ fixed_digits 2 d"],
       simp add: assms(1), simp,
       rule char_at_at [of _ "fixed_digits 4 y @ ''-'' @ fixed_digits 2 m @ ''-'' @ fixed_digits 2 d
         @ ''T'' @ fixed_digits 2 h"], simp add: assms(1), simp,
       rule char_at_at [of _ "fixed_digits 4 y @ ''-'' @ fixed_digits 2 m @ ''-'' @ fixed_digits 2 d
         @ ''T'' @ fixed_digits 2 h @ '':'' @ fixed_digits 2 mi"], simp add: assms(1), simp)
  show ?thesis
    unfolding parse_date_time_def by (simp only: Y M D H I S C option.case prod.case simp_thms if_True)
qed

lemma parse_date_time_format:
  assumes "in_rfc3339_range t"
  shows "parse_date_time (format_date_time t @ rest) = Some (unix_secs t)"
proof -
  define secs where "secs = unix_secs t"
  define sod where "sod = secs mod 86400"
  obtain y m d where c: "civil_of_day (secs div 86400) = (y, m, d)"
    by (cases "civil_of_day (secs div 86400)") auto
  have secs: "0 \<le> secs" "secs < 315537897600"
    using assms unfolding secs_def unix_secs_def in_rfc3339_range_def
    by (simp_all add: pos_imp_zdiv_nonneg_iff, linarith)
  have y: "1 \<le> y" "y \<le> 9999"
  proof -
    have "0 \<le> secs div 86400" "secs div 86400 < 3652059" using secs by simp_all
    moreover have "y = year_of_day (secs div 86400)" using c by (simp only: civil_of_day_def Let_def prod.inject)
    ultimately show "1 \<le> y" "y \<le> 9999" using year_of_day_range by simp_all
  qed
  note ymd = day_number_civil_of_day [OF c]
  have "0 \<le> sod" "sod < 86400" by (simp_all add: sod_def)
  note sod = sod_bounds [OF this]
  have "format_date_time t @ rest = fixed_digits 4 y @ CHR ''-'' # fixed_digits 2 m @ CHR ''-''
      # fixed_digits 2 d @ CHR ''T'' # fixed_digits 2 (sod div 3600) @ CHR '':''
      # fixed_digits 2 (sod div 60 mod 60) @ CHR '':'' # fixed_digits 2 (sod mod 60) @ rest"
    using c unfolding format_date_time_def Let_def sod_def secs_def
    by (simp only: prod.case append_assoc append_Cons append_Nil)
  then have "parse_date_time (format_date_time t @ rest) =
      Some (86400 * day_number y m d + 3600 * (sod div 3600) + 60 * (sod div 60 mod 60) + sod mod 60)"
    by (rule parse_date_time_layout) (use y ymd(2-5) sod(1-6) in \<open>linarith\<close>)+
  moreover have "86400 * (secs div 86400) + sod = secs" unfolding sod_def by (rule mult_div_mod_eq)
  ultimately show ?thesis using ymd(1) sod(7) unfolding secs_def by (simp only: add.assoc)
qed

theorem parse_format_rfc3339:
  assumes "in_rfc3339_range t" "t mod second_ns = 0"
  shows "parse_rfc3339 (format_rfc3339 t) = Some t"
proof -
  have "length (format_date_time t) = 19"
    by (simp add: format_date_time_def Let_def split: prod.splits)
  moreover have "second_ns * unix_secs t = t"
    using mult_div_mod_eq [of second_ns t] assms(2) unfolding unix_secs_def by linarith
  ultimately show ?thesis
    using parse_date_time_format [OF assms(1), of "''Z''"]
    by (simp add: parse_rfc3339_def format_rfc3339_def parse_frac_def parse_zone_def)
qed

lemma digits_val_zeros: "digits_val (s @ replicate k CHR ''0'') = digits_val s * 10 ^ k"
proof (induction k)
  case (Suc k)
  have "s @ replicate (Suc k) CHR ''0'' = (s @ replicate k CHR ''0'') @ ''0''"
    by (simp add: replicate_append_same)
  then have "digits_val (s @ replicate (Suc k) CHR ''0'') = 10 * digits_val (s @ replicate k CHR ''0'')"
    by (simp only: digits_val_append) (simp add: digit_val_def)
  with Suc show ?case by simp
qed simp

lemma trim_zeros:
  obtains k where "s = rev (dropWhile (\<lambda>c. c = x) (rev s)) @ replicate k x"
proof -
  have "\<exists>k. xs = replicate k x @ dropWhile (\<lambda>c. c = x) xs" for xs :: "'a list"
  proof (induction xs)
    case (Cons y xs)
    then obtain k where "xs = replicate k x @ dropWhile (\<lambda>c. c = x) xs" by blast
    then have xs: "x # xs = replicate (Suc k) x @ dropWhile (\<lambda>c. c = x) (x # xs)" by simp
    show ?case
    proof (cases "y = x")
      case True
      with xs show ?thesis by blast
    next
      case False
      then have "y # xs = replicate 0 x @ dropWhile (\<lambda>c. c = x) (y # xs)" by simp
      then show ?thesis by blast
    qed
  qed simp
  then obtain k where "rev s = replicate k x @ dropWhile (\<lambda>c. c = x) (rev s)" by blast
  then have "s = rev (dropWhile (\<lambda>c. c = x) (rev s)) @ replicate k x"
    by (metis rev_append rev_replicate rev_rev_ident)
  then show ?thesis by (rule that)
qed

lemma parse_frac_format: "parse_frac (format_frac t @ ''Z'') = (t mod second_ns, ''Z'')"
proof (cases "t mod second_ns = 0")
  case True
  then show ?thesis by (simp add: format_frac_def parse_frac_def)
next
  case False
  let ?f = "fixed_digits 9 (t mod second_ns)"
  define ds where "ds = rev (dropWhile (\<lambda>c. c = CHR ''0'') (rev ?f))"
  obtain k where k: "?f = ds @ replicate k CHR ''0''"
    using trim_zeros [of ?f "CHR ''0''"] unfolding ds_def by blast
  have len: "length ds + k = 9" using arg_cong [OF k, of length] by simp
  have dig: "list_all is_digit ds"
    using fixed_digits_is_digit [of 9 "t mod second_ns"] unfolding k by simp
  have "digits_val ?f = t mod second_ns" by (simp add: digits_val_fixed_digits)
  then have v: "digits_val ds * 10 ^ k = t mod second_ns" unfolding k digits_val_zeros .
  with False have ne: "ds \<noteq> []" by (auto simp: digits_val_def)
  then obtain d r where dr: "ds = d # r" by (cases ds) auto
  have tw: "takeWhile is_digit (ds @ ''Z'') = ds" "dropWhile is_digit (ds @ ''Z'') = ''Z''"
    using dig by (auto simp: takeWhile_append dropWhile_append list_all_iff is_digit_def)
  have "format_frac t = CHR ''.'' # ds" using False by (simp add: format_frac_def ds_def)
  moreover have "k = 8 - length r" using len dr by simp
  ultimately show ?thesis
    using tw v dig len dr by (simp add: parse_frac_def Let_def)
qed

theorem parse_format_rfc3339nano:
  assumes "in_rfc3339_range t"
  shows "parse_rfc3339 (format_rfc3339nano t) = Some t"
proof -
  have "length (format_date_time t) = 19"
    by (simp add: format_date_time_def Let_def split: prod.splits)
  moreover have "second_ns * unix_secs t + t mod second_ns = t"
    unfolding unix_secs_def by (rule mult_div_mod_eq)
  ultimately show ?thesis
    using parse_date_time_format [OF assms, of "format_frac t @ ''Z''"]
    by (simp add: parse_rfc3339_def format_rfc3339nano_def parse_frac_format parse_zone_def)
qed

end
