(* ===== verification/Domain_Types.thy ===== *)
theory Domain_Types
  imports GoTime
begin

text \<open>
  The vocabulary of \<open>src/agent/internal/domain\<close>: the states of jobs and attempts, the
  error classes, the error values with their text and \<open>errors.Is\<close>, ids and slot keys. A
  Go string type with a closed set of constants is a datatype whose first constructor is
  the zero value \<open>""\<close>; a type whose values also come from outside (configuration, the
  server) keeps the other strings under a constructor of their own.
\<close>

section \<open>States (states.go)\<close>

datatype job_kind = NoKind | JobBackup | JobQualificationBackup | JobRestore | JobBrowse | JobCheck

definition is_backup_work :: "job_kind \<Rightarrow> bool" where
  "is_backup_work k \<longleftrightarrow> k = JobBackup \<or> k = JobQualificationBackup"

datatype job_state = NoJobState | JobQueued | JobActive | JobBackoff | JobReconciling
  | JobSucceeded | JobPartial | JobFailed | JobCancelled | JobExpired

datatype attempt_phase = NoPhase | PhaseQueued | PhasePreparing | PhaseVSSPreparing
  | PhaseBackingUp | PhaseVerifying | PhaseFinalizing | PhaseSucceeded | PhasePartial
  | PhaseFailed | PhaseCancelling | PhaseCancelled | PhaseInterrupted | PhaseReconciling

primrec phase_text :: "attempt_phase \<Rightarrow> string" where
  "phase_text NoPhase = ''''"
| "phase_text PhaseQueued = ''QUEUED''"
| "phase_text PhasePreparing = ''PREPARING''"
| "phase_text PhaseVSSPreparing = ''VSS_PREPARING''"
| "phase_text PhaseBackingUp = ''BACKING_UP''"
| "phase_text PhaseVerifying = ''VERIFYING''"
| "phase_text PhaseFinalizing = ''FINALIZING''"
| "phase_text PhaseSucceeded = ''SUCCEEDED''"
| "phase_text PhasePartial = ''PARTIAL''"
| "phase_text PhaseFailed = ''FAILED''"
| "phase_text PhaseCancelling = ''CANCELLING''"
| "phase_text PhaseCancelled = ''CANCELLED''"
| "phase_text PhaseInterrupted = ''INTERRUPTED''"
| "phase_text PhaseReconciling = ''RECONCILING''"

datatype restore_state = NoRestoreState | RestoreRequested | RestorePlanning
  | RestoreAwaitingAuthorization | RestoreQueued | RestorePreparing | RestoreRestoring
  | RestoreVerifying | RestoreReady | RestoreCompleted | RestoreFailed | RestoreCancelled
  | RestoreCancelling | RestoreExpired

definition phase_terminal :: "attempt_phase \<Rightarrow> bool" where
  "phase_terminal p =
     (case p of PhaseSucceeded \<Rightarrow> True | PhasePartial \<Rightarrow> True | PhaseFailed \<Rightarrow> True
      | PhaseCancelled \<Rightarrow> True | _ \<Rightarrow> False)"

definition job_terminal :: "job_state \<Rightarrow> bool" where
  "job_terminal s =
     (case s of JobSucceeded \<Rightarrow> True | JobPartial \<Rightarrow> True | JobFailed \<Rightarrow> True
      | JobCancelled \<Rightarrow> True | JobExpired \<Rightarrow> True | _ \<Rightarrow> False)"

section \<open>Classes of errors, consistency, admission\<close>

datatype error_class = NoErrorClass | ErrorNetwork | ErrorProviderRateLimit
  | ErrorProviderQuota | ErrorAuth | ErrorSourceMissing | ErrorSourceUnreadable
  | ErrorConsistencyNotMet | ErrorVSS | ErrorRepositoryLocked | ErrorIntegrity
  | ErrorResourceExhausted | ErrorEngineCrash | ErrorCancelled | ErrorInternal
  | ErrorPathSafety | ErrorConfig | ErrorPreflight

primrec error_class_text :: "error_class \<Rightarrow> string" where
  "error_class_text NoErrorClass = ''''"
| "error_class_text ErrorNetwork = ''NETWORK''"
| "error_class_text ErrorProviderRateLimit = ''PROVIDER_RATE_LIMIT''"
| "error_class_text ErrorProviderQuota = ''PROVIDER_QUOTA''"
| "error_class_text ErrorAuth = ''AUTH''"
| "error_class_text ErrorSourceMissing = ''SOURCE_MISSING''"
| "error_class_text ErrorSourceUnreadable = ''SOURCE_UNREADABLE''"
| "error_class_text ErrorConsistencyNotMet = ''CONSISTENCY_NOT_MET''"
| "error_class_text ErrorVSS = ''VSS''"
| "error_class_text ErrorRepositoryLocked = ''REPOSITORY_LOCKED''"
| "error_class_text ErrorIntegrity = ''INTEGRITY''"
| "error_class_text ErrorResourceExhausted = ''RESOURCE_EXHAUSTED''"
| "error_class_text ErrorEngineCrash = ''ENGINE_CRASH''"
| "error_class_text ErrorCancelled = ''CANCELLED''"
| "error_class_text ErrorInternal = ''INTERNAL''"
| "error_class_text ErrorPathSafety = ''PATH_SAFETY''"
| "error_class_text ErrorConfig = ''CONFIG''"
| "error_class_text ErrorPreflight = ''PREFLIGHT''"

datatype consistency_class = NoConsistency | ConsistencyVerified | ConsistencyNotMet | LiveReadAllowed

datatype vss_mode = NoVSSMode | VSSRequired | VSSDisabled | OtherVSSMode string

datatype wan_class = NoWANClass | WANClassNormalBackup | WANClassInitialSeed | WANClassRestore
  | WANClassCanary | WANClassMaintenance | OtherWANClass string

definition wan_class_valid :: "wan_class \<Rightarrow> bool" where
  "wan_class_valid c =
     (case c of NoWANClass \<Rightarrow> False | OtherWANClass _ \<Rightarrow> False | _ \<Rightarrow> True)"

text \<open>The admission statuses, strings on the wire.\<close>

abbreviation admission_granted :: string where "admission_granted \<equiv> ''GRANTED''"
abbreviation admission_queued :: string where "admission_queued \<equiv> ''QUEUED''"
abbreviation admission_site_capacity_wait :: string where "admission_site_capacity_wait \<equiv> ''SITE_CAPACITY_WAIT''"
abbreviation admission_deferred :: string where "admission_deferred \<equiv> ''DEFERRED''"
abbreviation admission_provider_unavailable :: string where "admission_provider_unavailable \<equiv> ''PROVIDER_UNAVAILABLE''"
abbreviation admission_paused :: string where "admission_paused \<equiv> ''PAUSED''"
abbreviation admission_site_unmeasured :: string where "admission_site_unmeasured \<equiv> ''SITE_UNMEASURED''"
abbreviation admission_control_unavailable :: string where "admission_control_unavailable \<equiv> ''CONTROL_UNAVAILABLE''"
abbreviation admission_denied :: string where "admission_denied \<equiv> ''DENIED''"

section \<open>Errors (errors.go)\<close>

datatype sentinel = ErrMaintenanceForbidden | ErrUnknownExitCode | ErrPartialNotSuccess
  | ErrMissingSnapshotID | ErrSnapshotReadback | ErrConsistencyNotMet | ErrIntentNotPersisted
  | ErrOperationInProgress | ErrArbitraryFlags | ErrForbiddenCommand | ErrSecretInArguments
  | ErrRestorePathRejected | ErrStagingEscape | ErrBinaryDigestMismatch
  | ErrBinaryVersionMismatch | ErrRepositoryBinding | ErrCapabilityUnsupported
  | ErrShellInvocation | ErrRemoteExecutable | ErrTLSVerification | ErrIncompleteStaging
  | ErrOriginalLocation | ErrUnlockAutomatic | ErrConfig | ErrAuth | ErrSecretScopeMismatch
  | ErrRestoreConflict | ErrPolicyInvalid | ErrBrowsePathRejected | ErrSelectionRejected
  | ErrCatalogEnumerationFailed | ErrWANAdmissionDeclined
  | ContextCanceled | ContextDeadlineExceeded

primrec sentinel_text :: "sentinel \<Rightarrow> string" where
  "sentinel_text ErrMaintenanceForbidden = ''endpoint must not perform repository maintenance''"
| "sentinel_text ErrUnknownExitCode = ''unknown restic exit code is a failure''"
| "sentinel_text ErrPartialNotSuccess = ''restic partial outcome cannot be SUCCESS''"
| "sentinel_text ErrMissingSnapshotID = ''backup did not produce an exact snapshot id''"
| "sentinel_text ErrSnapshotReadback = ''published snapshot could not be read back''"
| "sentinel_text ErrConsistencyNotMet = ''required consistency evidence was not met''"
| "sentinel_text ErrIntentNotPersisted = ''durable intent could not be recorded; refusing to launch''"
| "sentinel_text ErrOperationInProgress = ''another backup, restore, or check is already active''"
| "sentinel_text ErrArbitraryFlags = ''engine does not accept arbitrary flags or executable paths''"
| "sentinel_text ErrForbiddenCommand = ''command is not in the endpoint allowlist''"
| "sentinel_text ErrSecretInArguments = ''refusing to put a secret in process arguments''"
| "sentinel_text ErrRestorePathRejected = ''restore destination failed path safety checks''"
| "sentinel_text ErrStagingEscape = ''restore path escapes the approved staging root''"
| "sentinel_text ErrBinaryDigestMismatch = ''pinned executable digest mismatch''"
| "sentinel_text ErrBinaryVersionMismatch = ''pinned executable version mismatch''"
| "sentinel_text ErrRepositoryBinding = ''repository binding does not match expected identity''"
| "sentinel_text ErrCapabilityUnsupported = ''storage profile lacks a required capability''"
| "sentinel_text ErrShellInvocation = ''shell invocation is forbidden''"
| "sentinel_text ErrRemoteExecutable = ''refusing remotely supplied executable path or script''"
| "sentinel_text ErrTLSVerification = ''TLS verification must not be disabled''"
| "sentinel_text ErrIncompleteStaging = ''restore staging is incomplete''"
| "sentinel_text ErrOriginalLocation = ''original-location restore is out of scope''"
| "sentinel_text ErrUnlockAutomatic = ''automatic repository unlock is forbidden''"
| "sentinel_text ErrConfig = ''invalid configuration''"
| "sentinel_text ErrAuth = ''repository authentication failed''"
| "sentinel_text ErrSecretScopeMismatch = ''secret blob scope does not match the requested provider''"
| "sentinel_text ErrRestoreConflict = ''restore job id already exists with a different request''"
| "sentinel_text ErrPolicyInvalid = ''policy is invalid''"
| "sentinel_text ErrBrowsePathRejected = ''browse path failed safety checks''"
| "sentinel_text ErrSelectionRejected = ''selection failed validation''"
| "sentinel_text ErrCatalogEnumerationFailed = ''catalog enumeration failed''"
| "sentinel_text ErrWANAdmissionDeclined = ''WAN admission declined; backup did not start''"
| "sentinel_text ContextCanceled = ''context canceled''"
| "sentinel_text ContextDeadlineExceeded = ''context deadline exceeded''"

datatype attempt_class = NoAttemptClass | AttemptScheduled | AttemptQualification
  | OtherAttemptClass string

text \<open>
  The stages and the diagnostic events of the command executor
  (\<open>control/execute.go\<close>).
\<close>

datatype poll_stage = StageHeartbeat | StageClaim | StageConsume | StageDispatch
  | StageFinishCommand | StageAck

primrec poll_stage_text :: "poll_stage \<Rightarrow> string" where
  "poll_stage_text StageHeartbeat = ''heartbeat''"
| "poll_stage_text StageClaim = ''claim''"
| "poll_stage_text StageConsume = ''consume''"
| "poll_stage_text StageDispatch = ''dispatch''"
| "poll_stage_text StageFinishCommand = ''finish_command''"
| "poll_stage_text StageAck = ''ack''"

text \<open>
  An error value: a sentinel; \<open>fmt.Errorf\<close> around one \<open>%w\<close> (the text before, the error,
  the text after); the \<open>typedError\<close> of backup.go; a declined WAN admission with its
  reason; the \<open>TickError\<close> of \<open>windows/service/outcome.go\<close> (outcome, class, attempt, job,
  attempt class); the \<open>PollError\<close> of \<open>control/execute.go\<close> (stage, command id, kind, event,
  class, cause); \<open>errors.Join\<close>; any other error, by its text.
\<close>

datatype go_error = Sentinel sentinel | Wrapped string go_error string
  | TypedError error_class string | WANAdmissionDeclinedError string
  | TickError attempt_phase error_class string string attempt_class
  | PollError poll_stage string string string error_class go_error
  | Joined "go_error list" | PlainError string

text \<open>\<open>errors.As\<close> for the two types it is used with: the first in the tree of causes.\<close>

fun as_wan_declined :: "go_error \<Rightarrow> string option" where
  "as_wan_declined (WANAdmissionDeclinedError r) = Some r"
| "as_wan_declined (Wrapped _ e _) = as_wan_declined e"
| "as_wan_declined (PollError _ _ _ _ _ e) = as_wan_declined e"
| "as_wan_declined (Joined es) =
     (case filter (\<lambda>x. x \<noteq> None) (map as_wan_declined es) of [] \<Rightarrow> None | x # _ \<Rightarrow> x)"
| "as_wan_declined _ = None"

fun as_tick_error :: "go_error \<Rightarrow> (attempt_phase \<times> error_class \<times> string \<times> string \<times> attempt_class) option" where
  "as_tick_error (TickError p c a j k) = Some (p, c, a, j, k)"
| "as_tick_error (Wrapped _ e _) = as_tick_error e"
| "as_tick_error (PollError _ _ _ _ _ e) = as_tick_error e"
| "as_tick_error (Joined es) =
     (case filter (\<lambda>x. x \<noteq> None) (map as_tick_error es) of [] \<Rightarrow> None | x # _ \<Rightarrow> x)"
| "as_tick_error _ = None"

subsection \<open>The text of a tick (windows/service/outcome.go)\<close>

definition kind_label :: "attempt_class \<Rightarrow> string" where
  "kind_label k = (if k = AttemptQualification then ''Qualification backup'' else ''Scheduled backup'')"

definition safe_attempt :: "string \<Rightarrow> string" where
  "safe_attempt i = (if i = [] then ''unknown'' else i)"

definition tick_text :: "attempt_phase \<Rightarrow> error_class \<Rightarrow> string \<Rightarrow> attempt_class \<Rightarrow> string" where
  "tick_text p c a k =
     (let i = safe_attempt a; cls = error_class_text (if c = NoErrorClass then ErrorInternal else c) in
      if p = PhaseSucceeded then kind_label k @ '' SUCCEEDED attempt='' @ i
      else kind_label k @ '' '' @ phase_text p @ '': class='' @ cls @ '' attempt='' @ i)"

subsection \<open>Diagnostic lines (control/execute.go)\<close>

definition log_char :: "char \<Rightarrow> bool" where
  "log_char c \<longleftrightarrow> (let n = (of_char c :: nat) in
     97 \<le> n \<and> n \<le> 122 \<or> 65 \<le> n \<and> n \<le> 90 \<or> 48 \<le> n \<and> n \<le> 57 \<or> n = 45 \<or> n = 95)"

function log_runes :: "string \<Rightarrow> string" where
  "log_runes [] = []"
| "log_runes (c # cs) =
     (if log_char c then c else CHR ''_'') # log_runes (drop (utf8_width (c # cs) - 1) cs)"
  by pat_completeness auto
termination by (relation "measure length") auto

definition safe_log_token :: "string \<Rightarrow> string" where
  "safe_log_token v = (if v = [] then ''-'' else take 96 (log_runes v))"

definition diagnostic_text :: "string \<Rightarrow> poll_stage \<Rightarrow> string \<Rightarrow> string \<Rightarrow> error_class \<Rightarrow> string \<Rightarrow> string" where
  "diagnostic_text event stage command_id kind cls reason =
     (let c = (if cls = NoErrorClass then ''NONE'' else error_class_text cls);
          base = ''event='' @ safe_log_token event @ '' stage='' @ safe_log_token (poll_stage_text stage) @
                 '' command_id='' @ safe_log_token command_id @ '' kind='' @ safe_log_token kind @
                 '' error_class='' @ safe_log_token c
      in if reason \<noteq> [] then base @ '' reason='' @ safe_log_token reason else base)"

definition poll_error_text :: "poll_stage \<Rightarrow> string \<Rightarrow> string \<Rightarrow> string \<Rightarrow> error_class \<Rightarrow> string option \<Rightarrow> string" where
  "poll_error_text stage command_id kind event cls declined =
     diagnostic_text (if event = [] then to_upper (poll_stage_text stage) @ ''_FAILED'' else event)
       stage command_id kind (if cls = NoErrorClass then ErrorInternal else cls)
       (case declined of None \<Rightarrow> [] | Some r \<Rightarrow> r)"

subsection \<open>Text and identity of an error\<close>

fun error_text :: "go_error \<Rightarrow> string" where
  "error_text (Sentinel s) = sentinel_text s"
| "error_text (Wrapped pre e post) = pre @ error_text e @ post"
| "error_text (TypedError _ msg) = msg"
| "error_text (WANAdmissionDeclinedError r) = ''WAN admission declined; backup did not start: '' @ r"
| "error_text (TickError p c a _ k) = tick_text p c a k"
| "error_text (PollError st i k ev c e) = poll_error_text st i k ev c (as_wan_declined e)"
| "error_text (Joined es) = join_with [char_of (10::nat)] (map error_text es)"
| "error_text (PlainError t) = t"

text \<open>\<open>errors.Is(err, sentinel)\<close>.\<close>

fun errors_is :: "go_error \<Rightarrow> sentinel \<Rightarrow> bool" where
  "errors_is (Sentinel s) t = (s = t)"
| "errors_is (Wrapped _ e _) t = errors_is e t"
| "errors_is (TypedError _ _) t = False"
| "errors_is (WANAdmissionDeclinedError _) t = (t = ErrWANAdmissionDeclined)"
| "errors_is (TickError _ _ _ _ _) t = False"
| "errors_is (PollError _ _ _ _ _ e) t = errors_is e t"
| "errors_is (Joined es) t = (\<exists>e\<in>set es. errors_is e t)"
| "errors_is (PlainError _) t = False"

text \<open>\<open>fmt.Errorf("%w: msg", s)\<close>.\<close>

definition wrap_msg :: "sentinel \<Rightarrow> string \<Rightarrow> go_error" where
  "wrap_msg s msg = Wrapped [] (Sentinel s) ('': '' @ msg)"

definition fmt_backup_err :: "string \<Rightarrow> go_error" where
  "fmt_backup_err msg = TypedError ErrorConfig msg"

lemma errors_is_wrap_msg [simp]: "errors_is (wrap_msg s msg) t = (s = t)"
  by (simp add: wrap_msg_def)

section \<open>Ids and slot keys (ids.go, backup.go)\<close>

definition hex_digit :: "nat \<Rightarrow> char" where
  "hex_digit n = (if n < 10 then char_of (48 + n) else char_of (87 + n))"

fun hex_encode :: "nat list \<Rightarrow> string" where
  "hex_encode [] = []"
| "hex_encode (b # bs) = hex_digit (b div 16 mod 16) # hex_digit (b mod 16) # hex_encode bs"

text \<open>\<open>NewID\<close> of the sixteen bytes the random source returned.\<close>

definition new_id :: "string \<Rightarrow> nat list \<Rightarrow> string" where
  "new_id pre b0 =
     (let b1 = b0[6 := (b0 ! 6) mod 16 + 64]; b = b1[8 := (b1 ! 8) mod 64 + 128];
          h = hex_encode b
      in pre @ take 8 h @ ''-'' @ take 4 (drop 8 h) @ ''-'' @ take 4 (drop 12 h) @ ''-'' @
         take 4 (drop 16 h) @ ''-'' @ take 12 (drop 20 h))"

definition slot_key_of :: "string \<Rightarrow> string \<Rightarrow> string \<Rightarrow> time \<Rightarrow> string" where
  "slot_key_of device_id installation_id schedule_epoch due =
     device_id @ ''|'' @ installation_id @ ''|'' @ schedule_epoch @ ''|'' @ format_rfc3339 due"

abbreviation qualification_slot_prefix :: string where "qualification_slot_prefix \<equiv> ''qualification|''"
abbreviation control_slot_prefix :: string where "control_slot_prefix \<equiv> ''control|''"

definition control_slot_key :: "string \<Rightarrow> string" where
  "control_slot_key device_id = control_slot_prefix @ device_id"

definition is_control_slot_key :: "string \<Rightarrow> bool" where
  "is_control_slot_key slot = has_prefix slot control_slot_prefix"

definition qualification_slot_key :: "string \<Rightarrow> string" where
  "qualification_slot_key run_id = qualification_slot_prefix @ run_id"

definition qualification_job_id :: "string \<Rightarrow> string" where
  "qualification_job_id run_id = ''qual-job-'' @ run_id"

definition qualification_attempt_id :: "string \<Rightarrow> string" where
  "qualification_attempt_id run_id = ''qual-att-'' @ run_id"

definition is_qualification_slot_key :: "string \<Rightarrow> bool" where
  "is_qualification_slot_key slot = has_prefix slot qualification_slot_prefix"

lemma slot_key_kinds:
  "is_control_slot_key (control_slot_key d)" "\<not> is_qualification_slot_key (control_slot_key d)"
  "is_qualification_slot_key (qualification_slot_key r)" "\<not> is_control_slot_key (qualification_slot_key r)"
  by (simp_all add: is_control_slot_key_def control_slot_key_def is_qualification_slot_key_def
      qualification_slot_key_def)

end
