(* ===== verification/Domain_Repository.thy ===== *)
theory Domain_Repository
  imports Domain_Types
begin

text \<open>
  Repository descriptors (\<open>internal/domain/repository.go\<close>), secret references
  (\<open>secrets.go\<close>), the backends that need a WAN rate limit and the bounds of a rate
  (\<open>rateconv.go\<close>). The only use of \<open>net/url\<close> is whether a location carries user
  information; that part of \<open>url.Parse\<close> is written out.
\<close>

section \<open>Secrets (secrets.go)\<close>

record secret_ref =
  sr_purpose :: string
  sr_provider :: string
  sr_locator :: string
  sr_version :: string

definition no_secret_ref :: secret_ref where
  "no_secret_ref = \<lparr>sr_purpose = [], sr_provider = [], sr_locator = [], sr_version = []\<rparr>"

abbreviation canary_secret :: string where
  "canary_secret \<equiv> ''STOWLINE_CANARY_SECRET_DO_NOT_LEAK_9f3a2c1b''"

definition secret_env_names :: "string list" where
  "secret_env_names =
     [''RESTIC_PASSWORD'', ''RESTIC_PASSWORD_FILE'', ''RESTIC_PASSWORD_COMMAND'',
      ''RESTIC_FROM_PASSWORD'', ''RESTIC_FROM_PASSWORD_FILE'', ''RESTIC_FROM_PASSWORD_COMMAND'',
      ''RESTIC_REST_PASSWORD'', ''RESTIC_REST_USERNAME'', ''RCLONE_CONFIG_PASS'',
      ''RCLONE_PASSWORD'', ''AWS_SECRET_ACCESS_KEY'', ''AWS_SESSION_TOKEN'', ''B2_ACCOUNT_KEY'',
      ''OS_PASSWORD'', ''AZURE_ACCOUNT_KEY'']"

definition is_secret_env_name :: "string \<Rightarrow> bool" where
  "is_secret_env_name name =
     (let upper = to_upper name in
      upper \<in> set secret_env_names \<or>
      (str_contains upper ''PASSWORD'' \<or> str_contains upper ''SECRET'' \<or> str_contains upper ''TOKEN'') \<and>
      (str_contains upper ''RESTIC'' \<or> str_contains upper ''RCLONE'' \<or>
       str_contains upper ''OAUTH'' \<or> str_contains upper ''AUTHORIZATION''))"

section \<open>User information in a location (net/url)\<close>

definition is_alnum :: "char \<Rightarrow> bool" where
  "is_alnum c = (let n = (of_char c :: nat) in
     48 \<le> n \<and> n \<le> 57 \<or> 65 \<le> n \<and> n \<le> 90 \<or> 97 \<le> n \<and> n \<le> 122)"

definition is_hex_char :: "char \<Rightarrow> bool" where
  "is_hex_char c = (let n = (of_char c :: nat) in
     48 \<le> n \<and> n \<le> 57 \<or> 65 \<le> n \<and> n \<le> 70 \<or> 97 \<le> n \<and> n \<le> 102)"

definition is_ctl :: "char \<Rightarrow> bool" where
  "is_ctl c = (let n = (of_char c :: nat) in n < 32 \<or> n = 127)"

text \<open>Every percent sign starts an escape of two hexadecimal digits.\<close>

fun escapes_ok :: "string \<Rightarrow> bool" where
  "escapes_ok [] = True"
| "escapes_ok (c # s) =
     (if c = CHR ''%'' then
        (case s of a # b # r \<Rightarrow> is_hex_char a \<and> is_hex_char b \<and> escapes_ok r | _ \<Rightarrow> False)
      else escapes_ok s)"

definition valid_userinfo :: "string \<Rightarrow> bool" where
  "valid_userinfo s = list_all (\<lambda>c. is_alnum c \<or> c \<in> set ''-._:~!$&()*+,;=%@'' \<or> of_char c = (39::nat)) s"

definition valid_optional_port :: "string \<Rightarrow> bool" where
  "valid_optional_port p = (case p of [] \<Rightarrow> True | c # ds \<Rightarrow> c = CHR '':'' \<and> list_all is_digit ds)"

definition host_char_ok :: "char \<Rightarrow> bool" where
  "host_char_ok c \<longleftrightarrow> is_alnum c \<or> c \<in> set ''!$&()*+,;=:[]<>-_.~%'' \<or> of_char c = (34::nat)
     \<or> of_char c = (39::nat) \<or> (128::nat) \<le> of_char c"

definition valid_host :: "string \<Rightarrow> bool" where
  "valid_host h =
     (list_all host_char_ok h \<and> escapes_ok h \<and>
      (if has_prefix h ''['' then
         (case last_index_char CHR '']'' h of None \<Rightarrow> False
          | Some i \<Rightarrow> valid_optional_port (drop (Suc i) h))
       else (case index_char CHR '':'' h of None \<Rightarrow> True
             | Some i \<Rightarrow> valid_optional_port (drop i h))))"

definition cut_at :: "char \<Rightarrow> string \<Rightarrow> string \<times> string" where
  "cut_at c s = (takeWhile (\<lambda>x. x \<noteq> c) s, drop 1 (dropWhile (\<lambda>x. x \<noteq> c) s))"

text \<open>
  \<open>url.Parse(s)\<close> succeeds with \<open>User != nil\<close>, for an \<open>s\<close> without a scheme and an
  authority after it: the only case the caller leaves to it.
\<close>

definition url_user_without_scheme :: "string \<Rightarrow> bool" where
  "url_user_without_scheme s =
     (let (u, frag) = cut_at CHR ''#'' s; rest = fst (cut_at CHR ''?'' u) in
      \<not> list_ex is_ctl u \<and> escapes_ok frag \<and>
      has_prefix rest ''//'' \<and> \<not> has_prefix rest ''///'' \<and>
      (let (authority, path) = cut_at CHR ''/'' (drop 2 rest) in
       escapes_ok path \<and>
       (case last_index_char CHR ''@'' authority of None \<Rightarrow> False
        | Some i \<Rightarrow>
            valid_host (drop (Suc i) authority) \<and> valid_userinfo (take i authority) \<and>
            escapes_ok (take i authority))))"

section \<open>Repositories (repository.go)\<close>

datatype backend_kind = NoBackend | BackendPilotRcloneDrive | BackendPilotRcloneLocal
  | BackendRESTGateway | BackendS3 | BackendB2 | BackendLocal | OtherBackend string

primrec backend_kind_text :: "backend_kind \<Rightarrow> string" where
  "backend_kind_text NoBackend = ''''"
| "backend_kind_text BackendPilotRcloneDrive = ''PILOT_RCLONE_DRIVE''"
| "backend_kind_text BackendPilotRcloneLocal = ''PILOT_RCLONE_LOCAL''"
| "backend_kind_text BackendRESTGateway = ''REST_GATEWAY''"
| "backend_kind_text BackendS3 = ''S3''"
| "backend_kind_text BackendB2 = ''B2''"
| "backend_kind_text BackendLocal = ''LOCAL''"
| "backend_kind_text (OtherBackend s) = s"

record capabilities =
  cap_read :: bool
  cap_write :: bool
  cap_list :: bool
  cap_append_restrictions :: bool
  cap_deletion :: bool
  cap_overwrite :: bool
  cap_lock_support :: bool
  cap_maintenance :: bool
  cap_immutability_qualified :: bool
  cap_quota_scope :: string
  cap_qualification_only :: bool
  cap_append_only_is_not_immutable :: bool

definition no_capabilities :: capabilities where
  "no_capabilities =
     \<lparr>cap_read = False, cap_write = False, cap_list = False, cap_append_restrictions = False,
      cap_deletion = False, cap_overwrite = False, cap_lock_support = False,
      cap_maintenance = False, cap_immutability_qualified = False, cap_quota_scope = [],
      cap_qualification_only = False, cap_append_only_is_not_immutable = False\<rparr>"

record tls_config =
  tls_min_version :: string
  tls_insecure_skip_verify :: bool
  tls_pinned_ca_path :: string

record repository_descriptor =
  rd_backend_kind :: backend_kind
  rd_location :: string
  rd_expected_repo_id :: string
  rd_generation_id :: string
  rd_device_id :: string
  rd_transport_profile :: string
  rd_credential_refs :: "(string \<times> secret_ref) list"
  rd_tls :: tls_config
  rd_capabilities :: capabilities

definition looks_like_credential_url :: "string \<Rightarrow> bool" where
  "looks_like_credential_url location =
     (if str_contains location ''@'' \<and> str_contains location ''://'' then True
      else url_user_without_scheme location)"

text \<open>The quoted form of the \<open>%q\<close> verb, for printable text.\<close>

definition go_quote :: "string \<Rightarrow> string" where
  "go_quote s = char_of (34::nat) #
     concat (map (\<lambda>c. if of_char c = (34::nat) \<or> of_char c = (92::nat)
                      then [char_of (92::nat), c] else [c]) s) @ [char_of (34::nat)]"

definition repository_validate :: "repository_descriptor \<Rightarrow> go_error option" where
  "repository_validate d =
     (let caps = rd_capabilities d in
      if rd_backend_kind d = NoBackend then Some (wrap_msg ErrConfig ''backend_kind required'')
      else case rd_backend_kind d of
        OtherBackend k \<Rightarrow> Some (wrap_msg ErrConfig (''unknown backend_kind '' @ go_quote k))
      | _ \<Rightarrow>
        if trim_space (rd_location d) = [] then Some (wrap_msg ErrConfig ''location required'')
        else if tls_insecure_skip_verify (rd_tls d) then Some (Sentinel ErrTLSVerification)
        else if looks_like_credential_url (rd_location d)
        then Some (wrap_msg ErrConfig ''credentials must not appear in repository URLs'')
        else if \<not> cap_read caps \<or> \<not> cap_write caps
        then Some (wrap_msg ErrCapabilityUnsupported ''backup repository requires read and write'')
        else if rd_backend_kind d = BackendRESTGateway \<and> \<not> cap_lock_support caps
        then Some (wrap_msg ErrCapabilityUnsupported ''REST gateway requires lock support'')
        else None)"

definition default_capabilities :: "backend_kind \<Rightarrow> capabilities" where
  "default_capabilities kind =
     (let base = no_capabilities\<lparr>cap_read := True, cap_write := True, cap_list := True,
            cap_lock_support := True, cap_deletion := True, cap_overwrite := True,
            cap_append_only_is_not_immutable := True\<rparr>
      in if kind = BackendLocal \<or> kind = BackendPilotRcloneLocal
         then base\<lparr>cap_maintenance := True, cap_qualification_only := True,
                   cap_quota_scope := ''local-disk''\<rparr>
         else if kind = BackendPilotRcloneDrive
         then base\<lparr>cap_qualification_only := True, cap_quota_scope := ''workspace-shared-drive''\<rparr>
         else if kind = BackendRESTGateway
         then base\<lparr>cap_list := False, cap_append_restrictions := True, cap_deletion := False,
                   cap_overwrite := False, cap_quota_scope := ''gateway-route''\<rparr>
         else if kind = BackendS3 \<or> kind = BackendB2
         then base\<lparr>cap_quota_scope := ''bucket''\<rparr>
         else no_capabilities)"

section \<open>Rates (rateconv.go)\<close>

definition requires_wan_rate_limit :: "backend_kind \<Rightarrow> bool" where
  "requires_wan_rate_limit kind =
     (case kind of BackendRESTGateway \<Rightarrow> True | BackendPilotRcloneDrive \<Rightarrow> True
      | BackendS3 \<Rightarrow> True | BackendB2 \<Rightarrow> True | _ \<Rightarrow> False)"

abbreviation max_restic_kibps :: int where "max_restic_kibps \<equiv> 100000"

definition validate_restic_kibps :: "int \<Rightarrow> go_error option" where
  "validate_restic_kibps kibps =
     (if kibps < 0 then Some (wrap_msg ErrPolicyInvalid ''bandwidth must not be negative'')
      else if kibps = 0
      then Some (wrap_msg ErrPolicyInvalid ''bandwidth 0 is invalid for WAN; unset means do not start'')
      else if kibps > max_restic_kibps
      then Some (wrap_msg ErrPolicyInvalid ''bandwidth KiB/s exceeds maximum'')
      else None)"

lemma validate_restic_kibps_None:
  "validate_restic_kibps k = None \<longleftrightarrow> 0 < k \<and> k \<le> max_restic_kibps"
  by (auto simp: validate_restic_kibps_def)

section \<open>Facts\<close>

text \<open>What an accepted descriptor is.\<close>

lemma repository_validate_None:
  "repository_validate d = None \<longleftrightarrow>
     rd_backend_kind d \<noteq> NoBackend \<and> (\<forall>k. rd_backend_kind d \<noteq> OtherBackend k) \<and>
     trim_space (rd_location d) \<noteq> [] \<and> \<not> tls_insecure_skip_verify (rd_tls d) \<and>
     \<not> looks_like_credential_url (rd_location d) \<and>
     cap_read (rd_capabilities d) \<and> cap_write (rd_capabilities d) \<and>
     (rd_backend_kind d = BackendRESTGateway \<longrightarrow> cap_lock_support (rd_capabilities d))"
  by (cases "rd_backend_kind d") (auto simp: repository_validate_def Let_def)

lemma default_capabilities_accepted:
  assumes "\<And>k. kind \<noteq> OtherBackend k" "kind \<noteq> NoBackend"
  shows "cap_read (default_capabilities kind)" "cap_write (default_capabilities kind)"
    "cap_lock_support (default_capabilities kind)"
    "cap_append_only_is_not_immutable (default_capabilities kind)"
    "\<not> cap_immutability_qualified (default_capabilities kind)"
  using assms by (cases kind; simp add: default_capabilities_def no_capabilities_def Let_def)+

end
