(* ===== verification/Domain_Policy.thy ===== *)
theory Domain_Policy
  imports Domain_Repository
begin

text \<open>
  Endpoint policies (\<open>internal/domain/policy.go\<close>): the schedule, its validation and
  defaults. The time-zone database is a parameter: for a zone name it gives the zone's
  offsets or the error of \<open>time.LoadLocation\<close>.
\<close>

type_synonym tz_database = "string \<Rightarrow> string + location"

definition load_location :: "tz_database \<Rightarrow> string \<Rightarrow> string + location" where
  "load_location tz name = (if name = '''' \<or> name = ''UTC'' then Inr utc else tz name)"

record schedule_policy =
  sp_epoch :: string
  sp_eligibility_start :: string
  sp_window_start :: string
  sp_window_end :: string
  sp_hard_stop :: string
  sp_timezone :: string
  sp_catch_up :: bool
  sp_jitter_max_minutes :: int
  sp_max_attempts :: int
  sp_retry_delay1 :: duration
  sp_retry_delay2 :: duration
  sp_boot_delay_min :: duration
  sp_boot_delay_max :: duration
  sp_normal_max_runtime :: duration
  sp_seed_max_runtime :: duration

record local_policy =
  lp_revision_id :: string
  lp_schema_version :: int
  lp_content_hash :: string
  lp_accepted_at :: time
  lp_issued_at :: time
  lp_effective_at :: time
  lp_source_roots :: "string list"
  lp_optional_roots :: "string list"
  lp_excludes :: "string list"
  lp_vss_mode :: vss_mode
  lp_schedule :: schedule_policy
  lp_bandwidth_kibps :: int
  lp_restore_download_kibps :: int
  lp_lab_local_unlimited :: bool
  lp_job_deadline :: duration
  lp_cache_budget_mib :: int
  lp_free_space_floor :: int
  lp_site_id :: string

definition parse_hhmm :: "string \<Rightarrow> go_error + int \<times> int" where
  "parse_hhmm s =
     (case split_on CHR '':'' s of
        [h, m] \<Rightarrow>
          if length h \<noteq> 2 \<or> length m \<noteq> 2 then Inl (PlainError ''HH:MM required'')
          else (case atoi h of
                  None \<Rightarrow> Inl (PlainError ''invalid hour'')
                | Some hour \<Rightarrow>
                    if hour < 0 \<or> hour > 23 then Inl (PlainError ''invalid hour'')
                    else (case atoi m of
                            None \<Rightarrow> Inl (PlainError ''invalid minute'')
                          | Some minute \<Rightarrow>
                              if minute < 0 \<or> minute > 59 then Inl (PlainError ''invalid minute'')
                              else Inr (hour, minute)))
      | _ \<Rightarrow> Inl (PlainError ''HH:MM required''))"

definition policy_err :: "string \<Rightarrow> go_error option" where
  "policy_err msg = Some (wrap_msg ErrPolicyInvalid msg)"

text \<open>The optional bounds around the window: eligibility before it, the hard stop after it.\<close>

definition eligibility_check :: "schedule_policy \<Rightarrow> int \<Rightarrow> go_error option" where
  "eligibility_check s start =
     (if sp_eligibility_start s = [] then None
      else case parse_hhmm (sp_eligibility_start s) of
             Inl e \<Rightarrow> policy_err (''eligibility start: '' @ error_text e)
           | Inr (xh, xm) \<Rightarrow>
               if xh * 60 + xm > start
               then policy_err ''eligibility start must be at or before window start'' else None)"

definition hard_stop_check :: "schedule_policy \<Rightarrow> int \<Rightarrow> go_error option" where
  "hard_stop_check s deadline =
     (if sp_hard_stop s = [] then None
      else case parse_hhmm (sp_hard_stop s) of
             Inl e \<Rightarrow> policy_err (''hard stop: '' @ error_text e)
           | Inr (hh, hm) \<Rightarrow>
               if hh * 60 + hm < deadline
               then policy_err ''hard stop must be at or after start deadline'' else None)"

definition schedule_validate :: "tz_database \<Rightarrow> schedule_policy \<Rightarrow> go_error option" where
  "schedule_validate tz s =
     (if sp_timezone s = [] then policy_err ''timezone required''
      else case load_location tz (sp_timezone s) of
        Inl e \<Rightarrow> policy_err (''timezone '' @ go_quote (sp_timezone s) @ '': '' @ e)
      | Inr _ \<Rightarrow>
        (case parse_hhmm (sp_window_start s) of
           Inl e \<Rightarrow> policy_err (''window start: '' @ error_text e)
         | Inr (sh, sm) \<Rightarrow>
           (case parse_hhmm (sp_window_end s) of
              Inl e \<Rightarrow> policy_err (''window end: '' @ error_text e)
            | Inr (eh, em) \<Rightarrow>
              (let start = sh * 60 + sm; deadline = eh * 60 + em in
               if deadline \<le> start
               then policy_err ''overnight windows are not implemented; WindowEnd must be after WindowStart''
               else case eligibility_check s start of Some e \<Rightarrow> Some e
               | None \<Rightarrow>
                 (case hard_stop_check s deadline of Some e \<Rightarrow> Some e
                  | None \<Rightarrow>
                    if sp_jitter_max_minutes s < 0 then policy_err ''jitter must not be negative''
                    else if sp_max_attempts s < 0 then policy_err ''max attempts must not be negative''
                    else None)))))"

definition policy_validate :: "tz_database \<Rightarrow> local_policy \<Rightarrow> go_error option" where
  "policy_validate tz p =
     (case schedule_validate tz (lp_schedule p) of
        Some e \<Rightarrow> Some e
      | None \<Rightarrow>
        if lp_bandwidth_kibps p < 0 \<or> lp_restore_download_kibps p < 0
        then policy_err ''bandwidth must not be negative''
        else if lp_bandwidth_kibps p > max_restic_kibps \<or> lp_restore_download_kibps p > max_restic_kibps
        then policy_err ''bandwidth overflow'' else None)"

definition policy_validate_for_backend ::
    "tz_database \<Rightarrow> local_policy \<Rightarrow> backend_kind \<Rightarrow> go_error option" where
  "policy_validate_for_backend tz p kind =
     (case policy_validate tz p of
        Some e \<Rightarrow> Some e
      | None \<Rightarrow>
        if requires_wan_rate_limit kind then
          if lp_lab_local_unlimited p then policy_err ''LabLocalUnlimited is forbidden on WAN backends''
          else validate_restic_kibps (lp_bandwidth_kibps p)
        else if lp_bandwidth_kibps p = 0 \<and> \<not> lp_lab_local_unlimited p
        then policy_err ''local unlimited upload requires LabLocalUnlimited''
        else if lp_bandwidth_kibps p > 0 then validate_restic_kibps (lp_bandwidth_kibps p)
        else None)"

definition max_attempts_or_default :: "schedule_policy \<Rightarrow> int" where
  "max_attempts_or_default s = (if sp_max_attempts s > 0 then sp_max_attempts s else 3)"

definition retry_after :: "schedule_policy \<Rightarrow> int \<Rightarrow> duration" where
  "retry_after s failed_attempt_no =
     (if failed_attempt_no = 1 then
        (if sp_retry_delay1 s > 0 then sp_retry_delay1 s else 15 * minute_ns)
      else if failed_attempt_no = 2 then
        (if sp_retry_delay2 s > 0 then sp_retry_delay2 s else 60 * minute_ns)
      else hour_ns)"

definition runtime_for_class :: "schedule_policy \<Rightarrow> wan_class \<Rightarrow> duration" where
  "runtime_for_class s c =
     (if c = WANClassInitialSeed then
        (if sp_seed_max_runtime s > 0 then sp_seed_max_runtime s else 8 * hour_ns)
      else if sp_normal_max_runtime s > 0 then sp_normal_max_runtime s else 4 * hour_ns)"

definition default_schedule :: schedule_policy where
  "default_schedule =
     \<lparr>sp_epoch = ''pilot'', sp_eligibility_start = ''08:30'', sp_window_start = ''12:00'',
      sp_window_end = ''16:30'', sp_hard_stop = ''17:45'', sp_timezone = ''Europe/Istanbul'',
      sp_catch_up = True, sp_jitter_max_minutes = 15, sp_max_attempts = 3,
      sp_retry_delay1 = 15 * minute_ns, sp_retry_delay2 = 60 * minute_ns,
      sp_boot_delay_min = 5 * minute_ns, sp_boot_delay_max = 20 * minute_ns,
      sp_normal_max_runtime = 4 * hour_ns, sp_seed_max_runtime = 8 * hour_ns\<rparr>"

definition default_pilot_policy :: "time \<Rightarrow> string list \<Rightarrow> local_policy" where
  "default_pilot_policy now roots =
     \<lparr>lp_revision_id = ''pilot-local-1'', lp_schema_version = 1, lp_content_hash = ''pilot'',
      lp_accepted_at = now, lp_issued_at = 0, lp_effective_at = 0, lp_source_roots = roots,
      lp_optional_roots = [], lp_excludes = [], lp_vss_mode = VSSRequired,
      lp_schedule = default_schedule, lp_bandwidth_kibps = 0, lp_restore_download_kibps = 0,
      lp_lab_local_unlimited = True, lp_job_deadline = 4 * hour_ns,
      lp_cache_budget_mib = 2048, lp_free_space_floor = 2 * 1024 * 1024 * 1024, lp_site_id = []\<rparr>"

section \<open>Facts\<close>

lemma parse_hhmm_range:
  "parse_hhmm s = Inr (h, m) \<Longrightarrow> 0 \<le> h \<and> h \<le> 23 \<and> 0 \<le> m \<and> m \<le> 59"
  by (auto simp: parse_hhmm_def split: list.splits option.splits if_splits)

lemma policy_err_not_None [simp]: "policy_err msg \<noteq> None" "(policy_err msg = Some e) = (wrap_msg ErrPolicyInvalid msg = e)"
  by (simp_all add: policy_err_def)

text \<open>What an accepted schedule is: the facts the slot computation uses.\<close>

lemma schedule_validate_None:
  assumes "schedule_validate tz s = None"
  obtains loc sh sm eh em where
    "load_location tz (sp_timezone s) = Inr loc"
    "parse_hhmm (sp_window_start s) = Inr (sh, sm)" "parse_hhmm (sp_window_end s) = Inr (eh, em)"
    "sh * 60 + sm < eh * 60 + em" "0 \<le> sp_jitter_max_minutes s" "0 \<le> sp_max_attempts s"
    "sp_timezone s \<noteq> []" "eligibility_check s (sh * 60 + sm) = None"
    "hard_stop_check s (eh * 60 + em) = None"
  using assms unfolding schedule_validate_def Let_def
  by (auto split: if_splits sum.splits option.splits prod.splits)

text \<open>Every rejection of a policy is the sentinel \<open>ErrPolicyInvalid\<close>.\<close>

lemma eligibility_check_sentinel: "eligibility_check s a = Some e \<Longrightarrow> errors_is e ErrPolicyInvalid"
  by (auto simp: eligibility_check_def split: if_splits sum.splits)

lemma hard_stop_check_sentinel: "hard_stop_check s a = Some e \<Longrightarrow> errors_is e ErrPolicyInvalid"
  by (auto simp: hard_stop_check_def split: if_splits sum.splits)

lemma schedule_validate_sentinel: "schedule_validate tz s = Some e \<Longrightarrow> errors_is e ErrPolicyInvalid"
  unfolding schedule_validate_def Let_def
  by (auto split: if_splits sum.splits option.splits prod.splits
      dest: eligibility_check_sentinel hard_stop_check_sentinel)

lemma retry_after_pos: "0 < retry_after s n"
  by (simp add: retry_after_def)

lemma max_attempts_pos: "0 < max_attempts_or_default s"
  by (simp add: max_attempts_or_default_def)

end
