(* ===== verification/Domain_Backup.thy ===== *)
theory Domain_Backup
  imports Domain_Policy "HOL-Library.List_Lexorder" "HOL-Library.Char_ord"
begin

text \<open>
  Backup and restore requests and results (\<open>internal/domain/backup.go\<close>,
  \<open>consistency.go\<close>, \<open>restore.go\<close>) and the redaction of argument vectors
  (\<open>redact.go\<close>). Progress callbacks carry counts only and are not modelled. A summary
  stored as JSON is kept as the value it encodes; \<open>json.Marshal\<close> refuses a time outside
  the four-digit years.
\<close>

section \<open>Consistency evidence (consistency.go)\<close>

record volume_evidence =
  vv_volume :: string
  vv_creating_seen :: bool
  vv_success_seen :: bool
  vv_failure_seen :: bool
  vv_failure_message :: string
  vv_excluded_by_user :: bool
  vv_live_fallback_likely :: bool

record vss_evidence =
  ve_engine_version :: string
  ve_parser_bound_to :: string
  ve_mode :: vss_mode
  ve_volumes :: "volume_evidence list"
  ve_raw_matched_lines :: "string list"
  ve_positive_all_required :: bool
  ve_parser_notes :: "string list"

definition vss_class :: "vss_evidence \<Rightarrow> consistency_class" where
  "vss_class e =
     (case ve_mode e of
        VSSDisabled \<Rightarrow> LiveReadAllowed
      | VSSRequired \<Rightarrow> if ve_positive_all_required e then ConsistencyVerified else ConsistencyNotMet
      | _ \<Rightarrow> ConsistencyNotMet)"

section \<open>Backups (backup.go)\<close>

definition effective_class :: "attempt_class \<Rightarrow> attempt_class" where
  "effective_class c = (if c = NoAttemptClass then AttemptScheduled else c)"

definition class_job_kind :: "attempt_class \<Rightarrow> job_kind" where
  "class_job_kind c = (if c = AttemptQualification then JobQualificationBackup else JobBackup)"

record binary_pin =
  bp_product :: string
  bp_version :: string
  bp_path :: string
  bp_sha256 :: string

record backup_request =
  bq_job_id :: string
  bq_attempt_id :: string
  bq_correlation_id :: string
  bq_device_id :: string
  bq_installation_id :: string
  bq_policy_revision_id :: string
  bq_repository :: repository_descriptor
  bq_source_roots :: "string list"
  bq_optional_roots :: "string list"
  bq_excludes :: "string list"
  bq_tags :: "string list"
  bq_vss_mode :: vss_mode
  bq_password_ref :: secret_ref
  bq_cache_dir :: string
  bq_bandwidth_kibps :: int
  bq_wan_class :: wan_class
  bq_deadline :: time
  bq_host :: string
  bq_slot_key :: string
  bq_free_space_floor :: int
  bq_attempt_class :: attempt_class
  bq_qualification_run_id :: string

record backup_summary =
  bs_files_new :: int
  bs_files_changed :: int
  bs_files_unmodified :: int
  bs_dirs_new :: int
  bs_dirs_changed :: int
  bs_dirs_unmodified :: int
  bs_data_added :: int
  bs_data_added_packed :: int
  bs_total_files_processed :: int
  bs_total_bytes_processed :: int
  bs_snapshot_id :: string
  bs_message_seen :: bool

record backup_result =
  br_outcome :: attempt_phase
  br_error_class :: error_class
  br_error_message :: string
  br_job_id :: string
  br_attempt_id :: string
  br_exit_code :: int
  br_exit_known :: bool
  br_snapshot_id :: string
  br_repository_id :: string
  br_summary :: backup_summary
  br_vss :: vss_evidence
  br_consistency :: consistency_class
  br_required_roots_ok :: bool
  br_missing_roots :: "string list"
  br_readback_ok :: bool
  br_cleanup_ok :: bool
  br_published_not_green :: bool
  br_duration :: duration
  br_started_at :: time
  br_ended_at :: time
  br_expected_manifest_path :: string
  br_expected_manifest_sha256 :: string
  br_attempt_class :: attempt_class
  br_qualification_run_id :: string

definition zero_summary :: backup_summary where
  "zero_summary =
     \<lparr>bs_files_new = 0, bs_files_changed = 0, bs_files_unmodified = 0, bs_dirs_new = 0,
      bs_dirs_changed = 0, bs_dirs_unmodified = 0, bs_data_added = 0, bs_data_added_packed = 0,
      bs_total_files_processed = 0, bs_total_bytes_processed = 0, bs_snapshot_id = [],
      bs_message_seen = False\<rparr>"

definition zero_evidence :: vss_evidence where
  "zero_evidence =
     \<lparr>ve_engine_version = [], ve_parser_bound_to = [], ve_mode = NoVSSMode, ve_volumes = [],
      ve_raw_matched_lines = [], ve_positive_all_required = False, ve_parser_notes = []\<rparr>"

text \<open>The zero value \<open>domain.BackupResult{}\<close>.\<close>

definition zero_result :: backup_result where
  "zero_result =
     \<lparr>br_outcome = NoPhase, br_error_class = NoErrorClass, br_error_message = [],
      br_job_id = [], br_attempt_id = [], br_exit_code = 0, br_exit_known = False,
      br_snapshot_id = [], br_repository_id = [], br_summary = zero_summary,
      br_vss = zero_evidence, br_consistency = NoConsistency, br_required_roots_ok = False,
      br_missing_roots = [], br_readback_ok = False, br_cleanup_ok = False,
      br_published_not_green = False, br_duration = 0, br_started_at = 0, br_ended_at = 0,
      br_expected_manifest_path = [], br_expected_manifest_sha256 = [],
      br_attempt_class = NoAttemptClass, br_qualification_run_id = []\<rparr>"

definition run_id_char :: "char \<Rightarrow> bool" where
  "run_id_char c \<longleftrightarrow> is_alnum c \<or> c = CHR ''.'' \<or> c = CHR ''_'' \<or> c = CHR ''-''"

definition validate_qualification_run_id :: "string \<Rightarrow> go_error option" where
  "validate_qualification_run_id i =
     (if length i < 8 \<or> length i > 64
      then Some (fmt_backup_err ''qualification_run_id must be 8-64 characters'')
      else if \<not> list_all run_id_char i
      then Some (fmt_backup_err ''qualification_run_id has invalid characters'') else None)"

definition looks_like_flag :: "string \<Rightarrow> bool" where
  "looks_like_flag s = (case s of [] \<Rightarrow> False | c # _ \<Rightarrow> c = CHR ''-'')"

definition attempt_class_check :: "backup_request \<Rightarrow> go_error option" where
  "attempt_class_check r =
     (case bq_attempt_class r of
        AttemptQualification \<Rightarrow>
          (case validate_qualification_run_id (bq_qualification_run_id r) of
             Some e \<Rightarrow> Some e
           | None \<Rightarrow>
               if bq_slot_key r \<noteq> qualification_slot_key (bq_qualification_run_id r)
               then Some (fmt_backup_err ''qualification slot_key must be derived from qualification_run_id'')
               else None)
      | OtherAttemptClass _ \<Rightarrow> Some (fmt_backup_err ''unknown attempt class'')
      | _ \<Rightarrow> if is_qualification_slot_key (bq_slot_key r)
             then Some (fmt_backup_err ''scheduled backup cannot use a qualification slot key'') else None)"

definition backup_validate :: "backup_request \<Rightarrow> go_error option" where
  "backup_validate r =
     (case repository_validate (bq_repository r) of
        Some e \<Rightarrow> Some e
      | None \<Rightarrow>
        if bq_source_roots r = [] then Some (fmt_backup_err ''at least one source root is required'')
        else if list_ex looks_like_flag (bq_source_roots r) then Some (Sentinel ErrArbitraryFlags)
        else if list_ex looks_like_flag (bq_excludes r) then Some (Sentinel ErrArbitraryFlags)
        else if bq_vss_mode r = NoVSSMode then Some (fmt_backup_err ''vss_mode required'')
        else if bq_vss_mode r \<noteq> VSSRequired \<and> bq_vss_mode r \<noteq> VSSDisabled
        then Some (fmt_backup_err ''vss_mode must be required or disabled'')
        else attempt_class_check r)"

section \<open>Restores (restore.go)\<close>

datatype conflict_mode = NoConflictMode | ConflictFailIfExists | ConflictRenameRestored
  | OtherConflictMode string

primrec conflict_mode_text :: "conflict_mode \<Rightarrow> string" where
  "conflict_mode_text NoConflictMode = ''''"
| "conflict_mode_text ConflictFailIfExists = ''FAIL_IF_EXISTS''"
| "conflict_mode_text ConflictRenameRestored = ''RENAME_RESTORED''"
| "conflict_mode_text (OtherConflictMode s) = s"

record restore_request =
  rq_job_id :: string
  rq_attempt_id :: string
  rq_correlation_id :: string
  rq_snapshot_id :: string
  rq_selections :: "string list"
  rq_staging_root :: string
  rq_destination_dir :: string
  rq_conflict_mode :: conflict_mode
  rq_password_ref :: secret_ref
  rq_repository :: repository_descriptor
  rq_verify_content :: bool
  rq_deadline :: time
  rq_bandwidth_kibps :: int
  rq_download_kibps :: int

record restore_result =
  rr_state :: restore_state
  rr_error_class :: error_class
  rr_error_message :: string
  rr_exit_code :: int
  rr_verified_by_engine :: bool
  rr_independent_ok :: bool
  rr_manifest_path :: string
  rr_destination :: string
  rr_duration :: duration

definition zero_restore_result :: restore_result where
  "zero_restore_result =
     \<lparr>rr_state = NoRestoreState, rr_error_class = NoErrorClass, rr_error_message = [],
      rr_exit_code = 0, rr_verified_by_engine = False, rr_independent_ok = False,
      rr_manifest_path = [], rr_destination = [], rr_duration = 0\<rparr>"

definition restore_validate :: "restore_request \<Rightarrow> go_error option" where
  "restore_validate r =
     (case repository_validate (rq_repository r) of
        Some e \<Rightarrow> Some e
      | None \<Rightarrow>
        if rq_snapshot_id r = [] then Some (fmt_backup_err ''full snapshot id required'')
        else if length (rq_snapshot_id r) \<noteq> 64
        then Some (fmt_backup_err ''snapshot id must be the full 64-character hash'')
        else if rq_staging_root r = [] \<or> rq_destination_dir r = []
        then Some (fmt_backup_err ''staging root and destination required'')
        else if list_ex looks_like_flag (rq_selections r) then Some (Sentinel ErrArbitraryFlags)
        else None)"

text \<open>A JSON string literal as \<open>encoding/json\<close> writes it (with its HTML escapes).\<close>

definition json_escape :: "char \<Rightarrow> string" where
  "json_escape c =
     (let n = (of_char c :: nat) in
      if n = 34 \<or> n = 92 then [char_of (92::nat), c]
      else if n = 8 then [char_of (92::nat), CHR ''b'']
      else if n = 12 then [char_of (92::nat), CHR ''f'']
      else if n = 10 then [char_of (92::nat), CHR ''n'']
      else if n = 13 then [char_of (92::nat), CHR ''r'']
      else if n = 9 then [char_of (92::nat), CHR ''t'']
      else if n < 32 \<or> n = 60 \<or> n = 62 \<or> n = 38
      then char_of (92::nat) # ''u00'' @ hex_encode [n] else [c])"

definition json_quote :: "string \<Rightarrow> string" where
  "json_quote s = char_of (34::nat) # concat (map json_escape s) @ [char_of (34::nat)]"

definition json_field :: "string \<Rightarrow> string \<Rightarrow> string" where
  "json_field k v = json_quote k @ '':'' @ v"

definition restore_identity_json :: "restore_request \<Rightarrow> string" where
  "restore_identity_json r =
     ''{'' @ join_with '',''
       [json_field ''backend_kind'' (json_quote (backend_kind_text (rd_backend_kind (rq_repository r)))),
        json_field ''location'' (json_quote (rd_location (rq_repository r))),
        json_field ''generation_id'' (json_quote (rd_generation_id (rq_repository r))),
        json_field ''device_id'' (json_quote (rd_device_id (rq_repository r))),
        json_field ''snapshot_id'' (json_quote (rq_snapshot_id r)),
        json_field ''selections'' (''['' @ join_with '','' (map json_quote (sort (rq_selections r))) @ '']''),
        json_field ''staging_root'' (json_quote (rq_staging_root r)),
        json_field ''conflict_mode'' (json_quote (conflict_mode_text (rq_conflict_mode r))),
        json_field ''verify'' ''true''] @ ''}''"

text \<open>The digest \<open>sha\<close> is the hexadecimal SHA-256 of a byte string.\<close>

definition restore_identity_hash :: "(string \<Rightarrow> string) \<Rightarrow> restore_request \<Rightarrow> string \<times> string" where
  "restore_identity_hash sha r = (let b = restore_identity_json r in (sha b, b))"

section \<open>Summaries stored as JSON\<close>

datatype summary_json = NoSummaryJSON | BackupJSON backup_result | RestoreJSON restore_result

text \<open>\<open>time.Time.MarshalJSON\<close> accepts the years 0 to 9999.\<close>

definition json_time_ok :: "time \<Rightarrow> bool" where
  "json_time_ok t \<longleftrightarrow> - 31622400 * second_ns \<le> t \<and> t < 315537897600 * second_ns"

definition marshal_backup :: "backup_result \<Rightarrow> summary_json" where
  "marshal_backup r =
     (if json_time_ok (br_started_at r) \<and> json_time_ok (br_ended_at r)
      then BackupJSON r else NoSummaryJSON)"

definition marshal_restore :: "restore_result \<Rightarrow> summary_json" where
  "marshal_restore r = RestoreJSON r"

text \<open>
  \<open>json.Unmarshal\<close> into a result already filled: the fields the stored object has by
  that name are replaced. The two result types share four names.
\<close>

definition unmarshal_backup :: "summary_json \<Rightarrow> backup_result option" where
  "unmarshal_backup s =
     (case s of NoSummaryJSON \<Rightarrow> None
      | BackupJSON r \<Rightarrow> Some r
      | RestoreJSON r \<Rightarrow> Some (zero_result\<lparr>br_error_class := rr_error_class r,
          br_error_message := rr_error_message r, br_exit_code := rr_exit_code r,
          br_duration := rr_duration r\<rparr>))"

definition unmarshal_restore :: "summary_json \<Rightarrow> restore_result \<Rightarrow> restore_result option" where
  "unmarshal_restore s dflt =
     (case s of NoSummaryJSON \<Rightarrow> None
      | RestoreJSON r \<Rightarrow> Some r
      | BackupJSON r \<Rightarrow> Some (dflt\<lparr>rr_error_class := br_error_class r,
          rr_error_message := br_error_message r, rr_exit_code := br_exit_code r,
          rr_duration := br_duration r\<rparr>))"

section \<open>Redaction of arguments (redact.go)\<close>

definition strip_kv :: "string \<Rightarrow> string" where
  "strip_kv a = (case index_char CHR ''='' a of
      Some i \<Rightarrow> take (Suc i) a @ ''[REDACTED]'' | None \<Rightarrow> ''[REDACTED]'')"

fun redact_args_loop :: "bool \<Rightarrow> string list \<Rightarrow> string list" where
  "redact_args_loop hide [] = []"
| "redact_args_loop hide (a # args) =
     (if hide then ''[REDACTED]'' # redact_args_loop False args
      else let al = to_lower a in
        if al = ''--password'' \<or> al = ''-p'' \<or> has_prefix al ''--password-''
        then (if str_contains a ''='' then strip_kv a # redact_args_loop False args
              else a # redact_args_loop True args)
        else if str_contains al ''password='' \<or> str_contains al ''secret=''
        then strip_kv a # redact_args_loop False args
        else a # redact_args_loop False args)"

definition redact_args :: "string list \<Rightarrow> string list" where
  "redact_args args = redact_args_loop False args"

definition contains_secret :: "string \<Rightarrow> string list \<Rightarrow> bool" where
  "contains_secret s extra =
     (str_contains s canary_secret \<or> list_ex (\<lambda>e. e \<noteq> [] \<and> str_contains s e) extra)"

definition is_lower_hex :: "char \<Rightarrow> bool" where
  "is_lower_hex c = (let n = (of_char c :: nat) in 48 \<le> n \<and> n \<le> 57 \<or> 97 \<le> n \<and> n \<le> 102)"

text \<open>The expression \<open>\b[0-9a-f]{64}\b\<close> on a string of 64 bytes.\<close>

definition snapshot_id_looks_plausible :: "string \<Rightarrow> bool" where
  "snapshot_id_looks_plausible i \<longleftrightarrow> length i = 64 \<and> list_all is_lower_hex i"

section \<open>Facts\<close>

lemma backup_validate_None:
  assumes "backup_validate r = None"
  shows "repository_validate (bq_repository r) = None" "bq_source_roots r \<noteq> []"
    "\<forall>p\<in>set (bq_source_roots r). \<not> looks_like_flag p" "\<forall>p\<in>set (bq_excludes r). \<not> looks_like_flag p"
    "bq_vss_mode r = VSSRequired \<or> bq_vss_mode r = VSSDisabled" "attempt_class_check r = None"
  using assms by (auto simp: backup_validate_def list_ex_iff split: option.splits if_splits)

text \<open>A valid request has the slot key of its class: scheduled and qualification work never share one.\<close>

lemma backup_validate_slot:
  assumes "backup_validate r = None"
  shows "is_qualification_slot_key (bq_slot_key r) \<longleftrightarrow> bq_attempt_class r = AttemptQualification"
  using backup_validate_None(6) [OF assms] slot_key_kinds(3)
  by (auto simp: attempt_class_check_def split: attempt_class.splits option.splits if_splits)

lemma length_redact_args_loop: "length (redact_args_loop h args) = length args"
  by (induction h args rule: redact_args_loop.induct) (auto simp: Let_def)

end
