(* ===== verification/GoJson.thy ===== *)
theory GoJson
  imports GoStrings Complex_Main
begin

text \<open>
  The values of \<open>encoding/json\<close> decoded into \<open>any\<close>: an object is its members in order, a
  number the rational it denotes (Go keeps the nearest double), and the type assertions
  \<open>v.(T)\<close> the code makes on them.
\<close>

datatype json = JNull | JBool bool | JNum rat | JStr string | JArr "json list"
  | JObj "(string \<times> json) list"

type_synonym json_object = "(string \<times> json) list"

definition json_str :: "json \<Rightarrow> string option" where
  "json_str v = (case v of JStr s \<Rightarrow> Some s | _ \<Rightarrow> None)"

definition json_num :: "json \<Rightarrow> rat option" where
  "json_num v = (case v of JNum q \<Rightarrow> Some q | _ \<Rightarrow> None)"

definition json_bool :: "json \<Rightarrow> bool option" where
  "json_bool v = (case v of JBool b \<Rightarrow> Some b | _ \<Rightarrow> None)"

definition json_arr :: "json \<Rightarrow> json list option" where
  "json_arr v = (case v of JArr vs \<Rightarrow> Some vs | _ \<Rightarrow> None)"

definition json_obj :: "json \<Rightarrow> json_object option" where
  "json_obj v = (case v of JObj kvs \<Rightarrow> Some kvs | _ \<Rightarrow> None)"

text \<open>\<open>m[k].(string)\<close>: the zero value where the member is missing or of another type.\<close>

definition member_str :: "json_object \<Rightarrow> string \<Rightarrow> string" where
  "member_str m k = (case Option.bind (map_of m k) json_str of Some s \<Rightarrow> s | None \<Rightarrow> [])"

definition member_num :: "json_object \<Rightarrow> string \<Rightarrow> rat option" where
  "member_num m k = Option.bind (map_of m k) json_num"

definition member_bool :: "json_object \<Rightarrow> string \<Rightarrow> bool option" where
  "member_bool m k = Option.bind (map_of m k) json_bool"

text \<open>Go's conversion of a float to an integer: truncation towards zero.\<close>

definition trunc_rat :: "rat \<Rightarrow> int" where
  "trunc_rat q = (if q < 0 then - \<lfloor>- q\<rfloor> else \<lfloor>q\<rfloor>)"

end
