(* ===== verification/Journal_Tables.thy ===== *)
theory Journal_Tables
  imports Domain_Backup GoJson
begin

text \<open>
  The SQLite journal (\<open>internal/adapters/journal/sqlite.go\<close>) and the records of
  \<open>internal/ports/journal.go\<close>. A table is the list of its rows. A column that may be
  NULL holds the zero value of its field: \<open>nullStr\<close> and \<open>nullTime\<close> write NULL for exactly
  that value and the scans read it back. A time column holds the instant; its text is
  \<open>format_rfc3339nano\<close>, which the scans parse back (\<open>parse_format_rfc3339nano\<close>) and
  which the \<open>ORDER BY\<close> clauses compare. Statements may fail at any point, as the
  environment of the call says; a transaction is applied as a whole or not at all.
\<close>

section \<open>Records\<close>

record job_record =
  jr_id :: string
  jr_kind :: job_kind
  jr_slot_key :: string
  jr_policy_revision_id :: string
  jr_state :: job_state
  jr_request_hash :: string
  jr_request_json :: string
  jr_created_at :: time
  jr_updated_at :: time

record attempt_record =
  ar_id :: string
  ar_job_id :: string
  ar_attempt_no :: int
  ar_kind :: job_kind
  ar_slot_key :: string
  ar_policy_revision_id :: string
  ar_phase :: attempt_phase
  ar_outcome :: attempt_phase
  ar_snapshot_id :: string
  ar_error_class :: error_class
  ar_summary_json :: summary_json
  ar_evidence_json :: string
  ar_intent_at :: time
  ar_started_at :: time
  ar_ended_at :: time

datatype outbox_payload = BackupPayload summary_json | CatalogPayload string | RawPayload string

record outbox_event =
  oe_event_id :: string
  oe_attempt_id :: string
  oe_seq :: int
  oe_type :: string
  oe_payload :: outbox_payload
  oe_created_at :: time
  oe_acked_at :: time

text \<open>
  The payload of an event is the encoding of a backup result or, for a catalog request, of
  the snapshot id; any other text decodes to neither. The stored result of a command is the
  object the handler returned, or text that does not decode.
\<close>

datatype extra_cell = ExtraEmpty | ExtraJSON json_object | ExtraCorrupt string

record command_row =
  cr_command_id :: string
  cr_job_id :: string
  cr_consumed_at :: time
  cr_terminal :: bool
  cr_result :: string
  cr_extra :: extra_cell

record policy_row =
  pr_id :: string
  pr_policy :: local_policy
  pr_accepted_at :: time

record journal_db =
  jd_open :: bool
  jd_jobs :: "job_record list"
  jd_attempts :: "attempt_record list"
  jd_outbox :: "outbox_event list"
  jd_commands :: "command_row list"
  jd_policies :: "policy_row list"

text \<open>
  What the environment does to one call: the failure of each of its statements in turn,
  the clock readings, the message of a violated constraint.
\<close>

record journal_env =
  je_fault :: "nat \<Rightarrow> string option"
  je_now :: "nat \<Rightarrow> time"
  je_violation :: string

definition order_desc :: "('r \<Rightarrow> string) \<Rightarrow> 'r list \<Rightarrow> 'r list" where
  "order_desc key rows = rev (sort_key key (rev rows))"

section \<open>Jobs and attempts\<close>

definition not_persisted :: "string \<Rightarrow> go_error" where
  "not_persisted txt = Wrapped [] (Sentinel ErrIntentNotPersisted) ('': '' @ txt)"

text \<open>The constraints of the two tables: primary keys, UNIQUE, the foreign key.\<close>

definition job_insertable :: "journal_db \<Rightarrow> job_record \<Rightarrow> bool" where
  "job_insertable db job =
     (jr_id job \<notin> jr_id ` set (jd_jobs db) \<and>
      (jr_slot_key job = [] \<or> jr_slot_key job \<notin> jr_slot_key ` set (jd_jobs db)))"

definition attempt_insertable :: "job_record list \<Rightarrow> attempt_record list \<Rightarrow> attempt_record \<Rightarrow> bool" where
  "attempt_insertable jobs attempts a =
     (ar_id a \<notin> ar_id ` set attempts \<and>
      (ar_job_id a, ar_attempt_no a) \<notin> (\<lambda>b. (ar_job_id b, ar_attempt_no b)) ` set attempts \<and>
      ar_job_id a \<in> jr_id ` set jobs)"

definition sql_begin_job ::
    "journal_env \<Rightarrow> job_record \<Rightarrow> attempt_record \<Rightarrow> journal_db \<Rightarrow> go_error option \<times> journal_db" where
  "sql_begin_job env job attempt db =
     (if \<not> jd_open db then (Some (Sentinel ErrIntentNotPersisted), db)
      else case je_fault env 0 of Some t \<Rightarrow> (Some (not_persisted t), db)
      | None \<Rightarrow>
        (let created = (if is_zero (jr_created_at job) then je_now env 0 else jr_created_at job);
             job' = job\<lparr>jr_created_at := created, jr_updated_at := je_now env 1\<rparr>;
             attempt' = attempt\<lparr>ar_job_id := jr_id job, ar_intent_at := je_now env 2\<rparr> in
         case je_fault env 1 of Some t \<Rightarrow> (Some (not_persisted t), db)
         | None \<Rightarrow>
           if \<not> job_insertable db job' then (Some (not_persisted (je_violation env)), db)
           else case je_fault env 2 of Some t \<Rightarrow> (Some (not_persisted t), db)
           | None \<Rightarrow>
             if \<not> attempt_insertable (jd_jobs db @ [job']) (jd_attempts db) attempt'
             then (Some (not_persisted (je_violation env)), db)
             else case je_fault env 3 of Some t \<Rightarrow> (Some (not_persisted t), db)
             | None \<Rightarrow> (None, db\<lparr>jd_jobs := jd_jobs db @ [job'],
                                jd_attempts := jd_attempts db @ [attempt']\<rparr>)))"

definition sql_update_attempt ::
    "journal_env \<Rightarrow> attempt_record \<Rightarrow> journal_db \<Rightarrow> go_error option \<times> journal_db" where
  "sql_update_attempt env r db =
     (case je_fault env 0 of Some t \<Rightarrow> (Some (PlainError t), db)
      | None \<Rightarrow> (None, db\<lparr>jd_attempts := row_update ar_id (ar_id r)
          (\<lambda>a. a\<lparr>ar_phase := ar_phase r, ar_outcome := ar_outcome r,
                 ar_snapshot_id := ar_snapshot_id r, ar_error_class := ar_error_class r,
                 ar_summary_json := ar_summary_json r, ar_evidence_json := ar_evidence_json r,
                 ar_started_at := ar_started_at r, ar_ended_at := ar_ended_at r\<rparr>)
          (jd_attempts db)\<rparr>))"

definition sql_set_job_rows :: "string \<Rightarrow> job_state \<Rightarrow> time \<Rightarrow> job_record list \<Rightarrow> job_record list" where
  "sql_set_job_rows i st now = row_update jr_id i (\<lambda>j. j\<lparr>jr_state := st, jr_updated_at := now\<rparr>)"

definition sql_complete_attempt ::
    "journal_env \<Rightarrow> attempt_record \<Rightarrow> job_state \<Rightarrow> journal_db \<Rightarrow> go_error option \<times> journal_db" where
  "sql_complete_attempt env r job_st db =
     (case je_fault env 0 of Some t \<Rightarrow> (Some (PlainError t), db)
      | None \<Rightarrow>
        (let ended = (if is_zero (ar_ended_at r) then je_now env 0 else ar_ended_at r) in
         case je_fault env 1 of Some t \<Rightarrow> (Some (PlainError t), db)
         | None \<Rightarrow>
           (case je_fault env 2 of Some t \<Rightarrow> (Some (PlainError t), db)
            | None \<Rightarrow>
              (case je_fault env 3 of Some t \<Rightarrow> (Some (PlainError t), db)
               | None \<Rightarrow> (None, db\<lparr>
                   jd_attempts := row_update ar_id (ar_id r)
                     (\<lambda>a. a\<lparr>ar_phase := ar_phase r, ar_outcome := ar_outcome r,
                            ar_snapshot_id := ar_snapshot_id r, ar_error_class := ar_error_class r,
                            ar_summary_json := ar_summary_json r,
                            ar_evidence_json := ar_evidence_json r, ar_ended_at := ended\<rparr>)
                     (jd_attempts db),
                   jd_jobs := sql_set_job_rows (ar_job_id r) job_st (je_now env 1) (jd_jobs db)\<rparr>)))))"

definition sql_begin_attempt ::
    "journal_env \<Rightarrow> attempt_record \<Rightarrow> journal_db \<Rightarrow> go_error option \<times> journal_db" where
  "sql_begin_attempt env attempt db =
     (if \<not> jd_open db then (Some (Sentinel ErrIntentNotPersisted), db)
      else let attempt' = (if is_zero (ar_intent_at attempt)
                           then attempt\<lparr>ar_intent_at := je_now env 0\<rparr> else attempt) in
        case je_fault env 0 of Some t \<Rightarrow> (Some (PlainError t), db)
        | None \<Rightarrow>
          (case je_fault env 1 of Some t \<Rightarrow> (Some (not_persisted t), db)
           | None \<Rightarrow>
             if \<not> attempt_insertable (jd_jobs db) (jd_attempts db) attempt'
             then (Some (not_persisted (je_violation env)), db)
             else case je_fault env 2 of Some t \<Rightarrow> (Some (PlainError t), db)
             | None \<Rightarrow>
               (case je_fault env 3 of Some t \<Rightarrow> (Some (PlainError t), db)
                | None \<Rightarrow> (None, db\<lparr>
                    jd_attempts := jd_attempts db @ [attempt'],
                    jd_jobs := sql_set_job_rows (ar_job_id attempt') JobActive (je_now env 1)
                                 (jd_jobs db)\<rparr>))))"

definition sql_set_job_state ::
    "journal_env \<Rightarrow> string \<Rightarrow> job_state \<Rightarrow> journal_db \<Rightarrow> go_error option \<times> journal_db" where
  "sql_set_job_state env i st db =
     (case je_fault env 0 of Some t \<Rightarrow> (Some (PlainError t), db)
      | None \<Rightarrow> (None, db\<lparr>jd_jobs := sql_set_job_rows i st (je_now env 0) (jd_jobs db)\<rparr>))"

text \<open>
  The queries: a failing driver, or the rows. \<open>GetAttempt\<close> alone returns
  \<open>sql.ErrNoRows\<close> where there is no row.
\<close>

definition sql_query :: "journal_env \<Rightarrow> 'a \<Rightarrow> go_error + 'a" where
  "sql_query env v = (case je_fault env 0 of Some t \<Rightarrow> Inl (PlainError t) | None \<Rightarrow> Inr v)"

definition sql_get_attempt :: "journal_env \<Rightarrow> string \<Rightarrow> journal_db \<Rightarrow> go_error + attempt_record" where
  "sql_get_attempt env i db =
     (case sql_query env (row_find ar_id i (jd_attempts db)) of
        Inl e \<Rightarrow> Inl e
      | Inr None \<Rightarrow> Inl (PlainError ''sql: no rows in result set'')
      | Inr (Some a) \<Rightarrow> Inr a)"

definition sql_get_job :: "journal_env \<Rightarrow> string \<Rightarrow> journal_db \<Rightarrow> go_error + job_record option" where
  "sql_get_job env i db = sql_query env (row_find jr_id i (jd_jobs db))"

definition slot_row :: "string \<Rightarrow> job_record list \<Rightarrow> job_record option" where
  "slot_row slot jobs = find (\<lambda>j. jr_slot_key j \<noteq> [] \<and> jr_slot_key j = slot) jobs"

definition sql_job_by_slot :: "journal_env \<Rightarrow> string \<Rightarrow> journal_db \<Rightarrow> go_error + job_record option" where
  "sql_job_by_slot env slot db = sql_query env (slot_row slot (jd_jobs db))"

definition incomplete_rows :: "attempt_record list \<Rightarrow> attempt_record list" where
  "incomplete_rows attempts = filter (\<lambda>a. \<not> phase_terminal (ar_phase a)) attempts"

definition sql_incomplete_attempts :: "journal_env \<Rightarrow> journal_db \<Rightarrow> go_error + attempt_record list" where
  "sql_incomplete_attempts env db = sql_query env (incomplete_rows (jd_attempts db))"

text \<open>\<open>ORDER BY attempt_no DESC LIMIT 1\<close>: the first row with the greatest number.\<close>

fun max_attempt :: "attempt_record list \<Rightarrow> attempt_record option" where
  "max_attempt [] = None"
| "max_attempt (a # as) =
     (case max_attempt as of None \<Rightarrow> Some a
      | Some b \<Rightarrow> if ar_attempt_no b > ar_attempt_no a then Some b else Some a)"

definition latest_row :: "string \<Rightarrow> attempt_record list \<Rightarrow> attempt_record option" where
  "latest_row job_id attempts = max_attempt (filter (\<lambda>a. ar_job_id a = job_id) attempts)"

definition sql_latest_attempt :: "journal_env \<Rightarrow> string \<Rightarrow> journal_db \<Rightarrow> go_error + attempt_record option" where
  "sql_latest_attempt env job_id db = sql_query env (latest_row job_id (jd_attempts db))"

definition attempt_sort_time :: "attempt_record \<Rightarrow> time" where
  "attempt_sort_time a =
     (if \<not> is_zero (ar_ended_at a) then ar_ended_at a
      else if \<not> is_zero (ar_started_at a) then ar_started_at a else ar_intent_at a)"

definition sql_recent_attempts :: "journal_env \<Rightarrow> int \<Rightarrow> journal_db \<Rightarrow> go_error + attempt_record list" where
  "sql_recent_attempts env limit db =
     (let n = (if limit \<le> 0 then 20 else limit)
      in sql_query env (take (nat n)
           (order_desc (\<lambda>a. format_rfc3339nano (attempt_sort_time a)) (jd_attempts db))))"

definition succeeded_slot_rows :: "job_record list \<Rightarrow> job_record list" where
  "succeeded_slot_rows jobs =
     filter (\<lambda>j. jr_kind j = JobBackup \<and> jr_state j = JobSucceeded \<and> jr_slot_key j \<noteq> [] \<and>
                 \<not> has_prefix (to_lower (jr_slot_key j)) qualification_slot_prefix) jobs"

text \<open>\<open>LIKE\<close> is insensitive to ASCII case, hence the \<open>to_lower\<close> above.\<close>

definition sql_latest_succeeded_backup_slot :: "journal_env \<Rightarrow> journal_db \<Rightarrow> go_error + string" where
  "sql_latest_succeeded_backup_slot env db =
     sql_query env
       (case order_desc (\<lambda>j. format_rfc3339nano (jr_updated_at j)) (succeeded_slot_rows (jd_jobs db)) of
          [] \<Rightarrow> [] | j # _ \<Rightarrow> jr_slot_key j)"

section \<open>Outbox, commands, policies\<close>

definition sql_append_outbox ::
    "journal_env \<Rightarrow> outbox_event \<Rightarrow> journal_db \<Rightarrow> go_error option \<times> journal_db" where
  "sql_append_outbox env ev db =
     (let created = (if is_zero (oe_created_at ev) then je_now env 0 else oe_created_at ev) in
      case je_fault env 0 of Some t \<Rightarrow> (Some (PlainError t), db)
      | None \<Rightarrow>
        if oe_event_id ev \<in> oe_event_id ` set (jd_outbox db)
        then (Some (PlainError (je_violation env)), db)
        else (None, db\<lparr>jd_outbox := jd_outbox db @
                [ev\<lparr>oe_created_at := created, oe_acked_at := 0\<rparr>]\<rparr>))"

definition unacked_rows :: "outbox_event list \<Rightarrow> outbox_event list" where
  "unacked_rows evs = sort_key (\<lambda>e. format_rfc3339nano (oe_created_at e))
                        (filter (\<lambda>e. is_zero (oe_acked_at e)) evs)"

text \<open>A negative \<open>LIMIT\<close> is no limit.\<close>

definition sql_unacked_outbox :: "journal_env \<Rightarrow> int \<Rightarrow> journal_db \<Rightarrow> go_error + outbox_event list" where
  "sql_unacked_outbox env limit db =
     sql_query env (let evs = unacked_rows (jd_outbox db)
                    in if limit < 0 then evs else take (nat limit) evs)"

definition sql_ack_outbox :: "journal_env \<Rightarrow> string \<Rightarrow> journal_db \<Rightarrow> go_error option \<times> journal_db" where
  "sql_ack_outbox env event_id db =
     (case je_fault env 0 of Some t \<Rightarrow> (Some (PlainError t), db)
      | None \<Rightarrow> (None, db\<lparr>jd_outbox := row_update oe_event_id event_id
          (\<lambda>e. e\<lparr>oe_acked_at := je_now env 0\<rparr>) (jd_outbox db)\<rparr>))"

definition sql_consume_command ::
    "journal_env \<Rightarrow> string \<Rightarrow> string \<Rightarrow> bool \<Rightarrow> journal_db \<Rightarrow> (bool \<times> go_error option) \<times> journal_db" where
  "sql_consume_command env command_id job_id terminal db =
     (case je_fault env 0 of Some t \<Rightarrow> ((False, Some (PlainError t)), db)
      | None \<Rightarrow>
        (case row_find cr_command_id command_id (jd_commands db) of
           Some _ \<Rightarrow> ((True, None), db)
         | None \<Rightarrow>
           (case je_fault env 1 of Some t \<Rightarrow> ((False, Some (PlainError t)), db)
            | None \<Rightarrow> ((False, None), db\<lparr>jd_commands := jd_commands db @
                [\<lparr>cr_command_id = command_id, cr_job_id = job_id, cr_consumed_at = je_now env 0,
                  cr_terminal = terminal, cr_result = [], cr_extra = ExtraEmpty\<rparr>]\<rparr>))))"

definition sql_command_consumed :: "journal_env \<Rightarrow> string \<Rightarrow> journal_db \<Rightarrow> bool \<times> go_error option" where
  "sql_command_consumed env command_id db =
     (case je_fault env 0 of Some t \<Rightarrow> (False, Some (PlainError t))
      | None \<Rightarrow> (command_id \<in> cr_command_id ` set (jd_commands db), None))"

text \<open>The state, result and extra object of a command; a nil map is \<open>None\<close>.\<close>

definition sql_command_result :: "journal_env \<Rightarrow> string \<Rightarrow> journal_db \<Rightarrow>
    go_error + bool \<times> string \<times> json_object option" where
  "sql_command_result env command_id db =
     (case je_fault env 0 of Some t \<Rightarrow> Inl (PlainError t)
      | None \<Rightarrow>
        (case row_find cr_command_id command_id (jd_commands db) of
           None \<Rightarrow> Inr (False, [], None)
         | Some r \<Rightarrow>
           (case cr_extra r of
              ExtraEmpty \<Rightarrow> Inr (cr_terminal r, cr_result r, None)
            | ExtraJSON m \<Rightarrow> Inr (cr_terminal r, cr_result r, Some m)
            | ExtraCorrupt t \<Rightarrow> Inl (Wrapped ''decode command result: '' (PlainError t) []))))"

definition sql_finish_command :: "journal_env \<Rightarrow> string \<Rightarrow> string \<Rightarrow> json_object option \<Rightarrow> journal_db \<Rightarrow>
    go_error option \<times> journal_db" where
  "sql_finish_command env command_id state extra db =
     (let cell = (case extra of None \<Rightarrow> ExtraEmpty | Some m \<Rightarrow> ExtraJSON m) in
      case je_fault env 0 of Some t \<Rightarrow> (Some (PlainError t), db)
      | None \<Rightarrow>
        if command_id \<in> cr_command_id ` set (jd_commands db) then
          (None, db\<lparr>jd_commands := row_update cr_command_id command_id
             (\<lambda>r. r\<lparr>cr_terminal := True, cr_result := state, cr_extra := cell\<rparr>) (jd_commands db)\<rparr>)
        else
          (case je_fault env 1 of Some t \<Rightarrow> (Some (PlainError t), db)
           | None \<Rightarrow> (None, db\<lparr>jd_commands := jd_commands db @
               [\<lparr>cr_command_id = command_id, cr_job_id = [], cr_consumed_at = je_now env 0,
                 cr_terminal = True, cr_result = state, cr_extra = cell\<rparr>]\<rparr>)))"

definition sql_save_policy :: "journal_env \<Rightarrow> local_policy \<Rightarrow> journal_db \<Rightarrow> go_error option \<times> journal_db" where
  "sql_save_policy env p db =
     (if \<not> (json_time_ok (lp_accepted_at p) \<and> json_time_ok (lp_issued_at p) \<and>
             json_time_ok (lp_effective_at p))
      then (Some (PlainError ''json: error calling MarshalJSON for type time.Time''), db)
      else case je_fault env 0 of Some t \<Rightarrow> (Some (PlainError t), db)
      | None \<Rightarrow> (None, db\<lparr>jd_policies :=
          filter (\<lambda>r. pr_id r \<noteq> lp_revision_id p) (jd_policies db) @
          [\<lparr>pr_id = lp_revision_id p, pr_policy = p, pr_accepted_at = je_now env 0\<rparr>]\<rparr>))"

definition sql_latest_policy :: "journal_env \<Rightarrow> journal_db \<Rightarrow> go_error + local_policy option" where
  "sql_latest_policy env db =
     sql_query env
       (case order_desc (\<lambda>r. format_rfc3339nano (pr_accepted_at r)) (jd_policies db) of
          [] \<Rightarrow> None | r # _ \<Rightarrow> Some (pr_policy r))"

section \<open>Facts about the rows\<close>

lemma max_attempt_in: "max_attempt as = Some a \<Longrightarrow> a \<in> set as"
  by (induction "as" arbitrary: a) (auto split: option.splits if_splits)

lemma max_attempt_None [simp]: "max_attempt as = None \<longleftrightarrow> as = []"
  by (cases "as") (auto split: option.splits)

lemma max_attempt_ge: "max_attempt as = Some a \<Longrightarrow> b \<in> set as \<Longrightarrow> ar_attempt_no b \<le> ar_attempt_no a"
proof (induction "as" arbitrary: a)
  case (Cons x xs)
  show ?case
  proof (cases "max_attempt xs")
    case None
    with Cons.prems show ?thesis by simp
  next
    case (Some c)
    with Cons.IH [OF Some] Cons.prems show ?thesis by (fastforce split: if_splits)
  qed
qed simp

lemma latest_row_in: "latest_row i as = Some a \<Longrightarrow> a \<in> set as \<and> ar_job_id a = i"
  using max_attempt_in by (fastforce simp: latest_row_def)

lemma slot_row_Some: "slot_row k jobs = Some j \<Longrightarrow> j \<in> set jobs \<and> jr_slot_key j = k \<and> k \<noteq> []"
  by (induction jobs) (auto simp: slot_row_def split: if_splits)

lemma slot_row_None: "slot_row k jobs = None \<longleftrightarrow> k = [] \<or> k \<notin> jr_slot_key ` set jobs"
  by (induction jobs) (auto simp: slot_row_def)

lemma sql_query_cases: "sql_query env v = Inr x \<Longrightarrow> x = v"
  by (simp add: sql_query_def split: option.splits)

lemma order_desc_set: "set (order_desc key rows) = set rows"
  by (simp add: order_desc_def)

end
