(* ===== verification/Ledger.thy ===== *)
theory Ledger
  imports Journal_Tables
begin

text \<open>
  The invariant of the job and attempt tables and the four updates the agent makes to
  them, as functions of the two row lists. The clients of the journal only see these
  updates; the SQLite operations are instances of them.
\<close>

definition insert_attempt_rows where
  "insert_attempt_rows a attempts = attempts @ [a :: attempt_record]"

text \<open>The columns \<open>UpdateAttempt\<close> and \<open>CompleteAttempt\<close> write.\<close>

definition update_row :: "attempt_record \<Rightarrow> attempt_record \<Rightarrow> attempt_record" where
  "update_row r a = a\<lparr>ar_phase := ar_phase r, ar_outcome := ar_outcome r,
     ar_snapshot_id := ar_snapshot_id r, ar_error_class := ar_error_class r,
     ar_summary_json := ar_summary_json r, ar_evidence_json := ar_evidence_json r,
     ar_started_at := ar_started_at r, ar_ended_at := ar_ended_at r\<rparr>"

definition complete_row :: "attempt_record \<Rightarrow> time \<Rightarrow> attempt_record \<Rightarrow> attempt_record" where
  "complete_row r ended a = a\<lparr>ar_phase := ar_phase r, ar_outcome := ar_outcome r,
     ar_snapshot_id := ar_snapshot_id r, ar_error_class := ar_error_class r,
     ar_summary_json := ar_summary_json r, ar_evidence_json := ar_evidence_json r,
     ar_ended_at := ended\<rparr>"

definition incomplete :: "attempt_record \<Rightarrow> bool" where
  "incomplete a \<longleftrightarrow> \<not> phase_terminal (ar_phase a)"

text \<open>
  The invariant: the constraints of the schema; an incomplete attempt belongs to an active
  job and is the only one of that job; a succeeded job has a succeeded attempt, with a
  snapshot when it is a backup.
\<close>

definition keys_ok :: "job_record list \<Rightarrow> attempt_record list \<Rightarrow> bool" where
  "keys_ok jobs attempts \<longleftrightarrow>
     distinct (map jr_id jobs) \<and> distinct (map ar_id attempts) \<and>
     distinct (filter (\<lambda>s. s \<noteq> []) (map jr_slot_key jobs)) \<and>
     distinct (map (\<lambda>a. (ar_job_id a, ar_attempt_no a)) attempts) \<and>
     (\<forall>a\<in>set attempts. ar_job_id a \<in> jr_id ` set jobs)"

definition activity_ok :: "job_record list \<Rightarrow> attempt_record list \<Rightarrow> bool" where
  "activity_ok jobs attempts \<longleftrightarrow>
     (\<forall>a\<in>set attempts. incomplete a \<longrightarrow> (\<forall>j\<in>set jobs. jr_id j = ar_job_id a \<longrightarrow> jr_state j = JobActive)) \<and>
     (\<forall>a\<in>set attempts. \<forall>b\<in>set attempts.
        incomplete a \<and> incomplete b \<and> ar_job_id a = ar_job_id b \<longrightarrow> ar_id a = ar_id b)"

definition success_ok :: "job_record list \<Rightarrow> attempt_record list \<Rightarrow> bool" where
  "success_ok jobs attempts \<longleftrightarrow>
     (\<forall>j\<in>set jobs. jr_state j = JobSucceeded \<longrightarrow>
        (\<exists>a\<in>set attempts. ar_job_id a = jr_id j \<and> ar_phase a = PhaseSucceeded \<and>
           (is_backup_work (jr_kind j) \<longrightarrow> ar_snapshot_id a \<noteq> [])))"

definition ledger_ok :: "job_record list \<Rightarrow> attempt_record list \<Rightarrow> bool" where
  "ledger_ok jobs attempts \<longleftrightarrow>
     keys_ok jobs attempts \<and> activity_ok jobs attempts \<and> success_ok jobs attempts"

lemma ledger_ok_empty: "ledger_ok [] []"
  by (simp add: ledger_ok_def keys_ok_def activity_ok_def success_ok_def)

lemma update_row_simps [simp]:
  "ar_id (update_row r a) = ar_id a" "ar_job_id (update_row r a) = ar_job_id a"
  "ar_attempt_no (update_row r a) = ar_attempt_no a" "ar_phase (update_row r a) = ar_phase r"
  "ar_snapshot_id (update_row r a) = ar_snapshot_id r"
  by (simp_all add: update_row_def)

lemma complete_row_simps [simp]:
  "ar_id (complete_row r t a) = ar_id a" "ar_job_id (complete_row r t a) = ar_job_id a"
  "ar_attempt_no (complete_row r t a) = ar_attempt_no a" "ar_phase (complete_row r t a) = ar_phase r"
  "ar_snapshot_id (complete_row r t a) = ar_snapshot_id r" "ar_kind (complete_row r t a) = ar_kind a"
  "ar_outcome (complete_row r t a) = ar_outcome r" "ar_error_class (complete_row r t a) = ar_error_class r"
  "ar_summary_json (complete_row r t a) = ar_summary_json r"
  by (simp_all add: complete_row_def)

lemma set_job_rows_simps [simp]:
  "map jr_id (sql_set_job_rows i st t jobs) = map jr_id jobs"
  "map jr_slot_key (sql_set_job_rows i st t jobs) = map jr_slot_key jobs"
  by (simp_all add: sql_set_job_rows_def map_row_update)

lemma set_job_rows_id_set: "jr_id ` set (sql_set_job_rows i st t jobs) = jr_id ` set jobs"
  by (metis set_job_rows_simps(1) set_map)

lemma mem_set_job_rows:
  "j \<in> set (sql_set_job_rows i st t jobs) \<longleftrightarrow>
     (\<exists>j0\<in>set jobs. j = (if jr_id j0 = i then j0\<lparr>jr_state := st, jr_updated_at := t\<rparr> else j0))"
  by (simp only: sql_set_job_rows_def set_row_update image_iff)

section \<open>The updates keep the invariant\<close>

lemma keys_ok_row_update:
  assumes "keys_ok jobs attempts" "\<And>a. ar_id (f a) = ar_id a" "\<And>a. ar_job_id (f a) = ar_job_id a"
    "\<And>a. ar_attempt_no (f a) = ar_attempt_no a"
  shows "keys_ok jobs (row_update ar_id i f attempts)"
  using assms by (auto simp: keys_ok_def map_row_update set_row_update)

lemma keys_ok_set_job: "keys_ok jobs attempts \<Longrightarrow> keys_ok (sql_set_job_rows i st t jobs) attempts"
  by (simp add: keys_ok_def set_job_rows_id_set)

lemma ledger_ok_begin_job:
  assumes ok: "ledger_ok jobs attempts" and j: "jr_id job \<notin> jr_id ` set jobs"
    "jr_slot_key job = [] \<or> jr_slot_key job \<notin> jr_slot_key ` set jobs"
    "jr_state job = JobActive" "ar_job_id a = jr_id job" "ar_id a \<notin> ar_id ` set attempts"
  shows "ledger_ok (jobs @ [job]) (attempts @ [a])"
proof -
  have fk: "ar_job_id b \<noteq> jr_id job" if "b \<in> set attempts" for b
  proof -
    have "ar_job_id b \<in> jr_id ` set jobs" using ok that unfolding ledger_ok_def keys_ok_def by blast
    with j(1) show ?thesis by metis
  qed
  have "keys_ok (jobs @ [job]) (attempts @ [a])"
    using ok j fk by (auto simp: ledger_ok_def keys_ok_def)
  moreover have "activity_ok (jobs @ [job]) (attempts @ [a])"
    unfolding activity_ok_def
  proof (intro conjI ballI impI)
    fix x i assume x: "x \<in> set (attempts @ [a])" "incomplete x"
      and i: "i \<in> set (jobs @ [job])" "jr_id i = ar_job_id x"
    show "jr_state i = JobActive"
    proof (cases "x \<in> set attempts")
      case True
      with fk [OF True] i have "i \<in> set jobs" by auto
      with True x i ok show ?thesis unfolding ledger_ok_def activity_ok_def by metis
    next
      case False
      with x j(4) i have "jr_id i = jr_id job" by simp
      moreover have "jr_id i \<noteq> jr_id job" if "i \<in> set jobs" using j(1) that by (metis imageI)
      ultimately show ?thesis using i(1) j(3) by auto
    qed
  next
    fix x y assume xy: "x \<in> set (attempts @ [a])" "y \<in> set (attempts @ [a])"
      "incomplete x \<and> incomplete y \<and> ar_job_id x = ar_job_id y"
    have "x \<in> set attempts \<longleftrightarrow> y \<in> set attempts" using xy fk j(4) by auto
    with xy ok show "ar_id x = ar_id y" unfolding ledger_ok_def activity_ok_def by auto
  qed
  moreover have "success_ok (jobs @ [job]) (attempts @ [a])"
    using ok j by (auto simp: ledger_ok_def success_ok_def)
  ultimately show ?thesis by (simp add: ledger_ok_def)
qed

text \<open>An attempt that is incomplete in the table, by its id and job.\<close>

definition open_attempt :: "attempt_record list \<Rightarrow> string \<Rightarrow> string \<Rightarrow> bool" where
  "open_attempt attempts i job_id \<longleftrightarrow>
     (\<exists>a\<in>set attempts. ar_id a = i \<and> ar_job_id a = job_id \<and> incomplete a)"

lemma key_unique: "distinct (map f xs) \<Longrightarrow> x \<in> set xs \<Longrightarrow> y \<in> set xs \<Longrightarrow> f x = f y \<Longrightarrow> x = y"
  by (auto simp: distinct_map dest: inj_onD)

lemma open_attempt_unique:
  assumes "keys_ok jobs attempts" "open_attempt attempts i job_id" "b \<in> set attempts" "ar_id b = i"
  shows "ar_job_id b = job_id" "incomplete b"
proof -
  obtain a where a: "a \<in> set attempts" "ar_id a = i" "ar_job_id a = job_id" "incomplete a"
    using assms(2) by (auto simp: open_attempt_def)
  have "a = b"
    using key_unique [of ar_id attempts a b] assms a by (simp add: keys_ok_def)
  with a show "ar_job_id b = job_id" "incomplete b" by simp_all
qed

lemma row_update_mem:
  "x \<in> set (row_update key k f rows) \<longleftrightarrow> (\<exists>y\<in>set rows. x = (if key y = k then f y else y))"
  by (simp only: set_row_update image_iff)

lemma activity_ok_mono:
  assumes "activity_ok jobs old"
    "\<And>x. x \<in> set new \<Longrightarrow> incomplete x \<Longrightarrow>
       \<exists>y\<in>set old. incomplete y \<and> ar_id y = ar_id x \<and> ar_job_id y = ar_job_id x"
  shows "activity_ok jobs new"
  unfolding activity_ok_def
proof (intro conjI ballI impI)
  fix a j assume "a \<in> set new" "incomplete a" "j \<in> set jobs" "jr_id j = ar_job_id a"
  with assms show "jr_state j = JobActive" unfolding activity_ok_def by metis
next
  fix a b assume "a \<in> set new" "b \<in> set new" "incomplete a \<and> incomplete b \<and> ar_job_id a = ar_job_id b"
  with assms show "ar_id a = ar_id b" unfolding activity_ok_def by metis
qed

lemma success_ok_mono:
  assumes "success_ok jobs old"
    "\<And>x. x \<in> set old \<Longrightarrow> ar_phase x = PhaseSucceeded \<Longrightarrow> x \<in> set new"
  shows "success_ok jobs new"
  using assms unfolding success_ok_def by metis

text \<open>Rewriting the row of an open attempt leaves every other row, and every succeeded one.\<close>

lemma other_rows_kept:
  assumes "keys_ok jobs attempts" "open_attempt attempts i job_id" "x \<in> set attempts"
    "ar_phase x = PhaseSucceeded"
  shows "x \<in> set (row_update ar_id i f attempts)"
proof -
  have "ar_id x \<noteq> i"
    using open_attempt_unique(2) [OF assms(1,2,3)] assms(4) by (auto simp: incomplete_def phase_terminal_def)
  with assms(3) show ?thesis by (auto simp: row_update_mem)
qed

lemma ledger_ok_update:
  assumes ok: "ledger_ok jobs attempts" and opn: "open_attempt attempts (ar_id r) job_id"
  shows "ledger_ok jobs (row_update ar_id (ar_id r) (update_row r) attempts)"
proof -
  have k: "keys_ok jobs attempts" using ok by (simp add: ledger_ok_def)
  note u = open_attempt_unique(2) [OF k opn]
  have "keys_ok jobs (row_update ar_id (ar_id r) (update_row r) attempts)"
    using k by (rule keys_ok_row_update) simp_all
  moreover have "activity_ok jobs (row_update ar_id (ar_id r) (update_row r) attempts)"
  proof (rule activity_ok_mono)
    show "activity_ok jobs attempts" using ok by (simp add: ledger_ok_def)
    fix x assume "x \<in> set (row_update ar_id (ar_id r) (update_row r) attempts)" "incomplete x"
    then obtain y where "y \<in> set attempts" "x = (if ar_id y = ar_id r then update_row r y else y)"
      by (auto simp: row_update_mem)
    with u \<open>incomplete x\<close> show "\<exists>y\<in>set attempts. incomplete y \<and> ar_id y = ar_id x \<and> ar_job_id y = ar_job_id x"
      by (metis update_row_simps(1,2))
  qed
  moreover have "success_ok jobs (row_update ar_id (ar_id r) (update_row r) attempts)"
    by (rule success_ok_mono [of jobs attempts])
      (use ok other_rows_kept [OF k opn] in \<open>auto simp: ledger_ok_def\<close>)
  ultimately show ?thesis by (simp add: ledger_ok_def)
qed

lemma open_attempt_update:
  assumes "open_attempt attempts i job_id"
    "\<not> phase_terminal (ar_phase r)" "ar_id r = i"
  shows "open_attempt (row_update ar_id i (update_row r) attempts) i job_id"
proof -
  obtain a where "a \<in> set attempts" "ar_id a = i" "ar_job_id a = job_id"
    using assms(1) by (auto simp: open_attempt_def)
  then have "update_row r a \<in> set (row_update ar_id i (update_row r) attempts)"
    by (auto simp: row_update_mem)
  with \<open>ar_id a = i\<close> \<open>ar_job_id a = job_id\<close> assms(2) show ?thesis
    unfolding open_attempt_def incomplete_def by (metis update_row_simps(1,2,4))
qed

text \<open>Completing an open attempt, its job taking a state that agrees with it.\<close>

lemma ledger_ok_complete:
  assumes ok: "ledger_ok jobs attempts" and opn: "open_attempt attempts (ar_id r) (ar_job_id r)"
    and fin: "phase_terminal (ar_phase r)"
    and succ: "st = JobSucceeded \<Longrightarrow> ar_phase r = PhaseSucceeded"
      "st = JobSucceeded \<Longrightarrow> j0 \<in> set jobs \<Longrightarrow> jr_id j0 = ar_job_id r \<Longrightarrow> is_backup_work (jr_kind j0)
         \<Longrightarrow> ar_snapshot_id r \<noteq> []"
    and j0: "j0 \<in> set jobs" "jr_id j0 = ar_job_id r"
  shows "ledger_ok (sql_set_job_rows (ar_job_id r) st now jobs)
           (row_update ar_id (ar_id r) (complete_row r ended) attempts)"
    (is "ledger_ok ?jobs ?attempts")
proof -
  have k: "keys_ok jobs attempts" and act: "activity_ok jobs attempts" and suc: "success_ok jobs attempts"
    using ok by (simp_all add: ledger_ok_def)
  note u = open_attempt_unique [OF k opn]
  obtain a0 where a0: "a0 \<in> set attempts" "ar_id a0 = ar_id r" "ar_job_id a0 = ar_job_id r" "incomplete a0"
    using opn by (auto simp: open_attempt_def)
  have old: "x \<in> set attempts \<and> ar_id x \<noteq> ar_id r" if hx: "x \<in> set ?attempts" "incomplete x" for x
  proof -
    obtain y where y: "y \<in> set attempts" "x = (if ar_id y = ar_id r then complete_row r ended y else y)"
      using hx(1) unfolding row_update_mem by blast
    with hx(2) fin have "ar_id y \<noteq> ar_id r" by (auto simp: incomplete_def)
    with y show ?thesis by simp
  qed
  have job: "ar_job_id x \<noteq> ar_job_id r" if "x \<in> set ?attempts" "incomplete x" for x
    using old [OF that] act a0 that(2) unfolding activity_ok_def by metis
  have "activity_ok ?jobs ?attempts"
    unfolding activity_ok_def
  proof (intro conjI ballI impI)
    fix x j assume x: "x \<in> set ?attempts" "incomplete x" and j: "j \<in> set ?jobs" "jr_id j = ar_job_id x"
    from j(1) obtain j1 where j1: "j1 \<in> set jobs"
      "j = (if jr_id j1 = ar_job_id r then j1\<lparr>jr_state := st, jr_updated_at := now\<rparr> else j1)"
      by (auto simp: mem_set_job_rows)
    with job [OF x] j(2) have "j = j1" by (auto split: if_splits)
    with j1 j(2) old [OF x] x(2) act show "jr_state j = JobActive" unfolding activity_ok_def by metis
  next
    fix x y assume "x \<in> set ?attempts" "y \<in> set ?attempts"
      "incomplete x \<and> incomplete y \<and> ar_job_id x = ar_job_id y"
    with old act show "ar_id x = ar_id y" unfolding activity_ok_def by metis
  qed
  moreover have "success_ok ?jobs ?attempts"
    unfolding success_ok_def
  proof (intro ballI impI)
    fix j assume j: "j \<in> set ?jobs" "jr_state j = JobSucceeded"
    from j(1) obtain j1 where j1: "j1 \<in> set jobs"
      "j = (if jr_id j1 = ar_job_id r then j1\<lparr>jr_state := st, jr_updated_at := now\<rparr> else j1)"
      by (auto simp: mem_set_job_rows)
    show "\<exists>a\<in>set ?attempts. ar_job_id a = jr_id j \<and> ar_phase a = PhaseSucceeded \<and>
        (is_backup_work (jr_kind j) \<longrightarrow> ar_snapshot_id a \<noteq> [])"
    proof (cases "jr_id j1 = ar_job_id r")
      case True
      have "j1 = j0" using key_unique [of jr_id jobs j1 j0] k j0 j1(1) True by (simp add: keys_ok_def)
      have "complete_row r ended a0 \<in> set ?attempts" using a0 by (auto simp: row_update_mem)
      moreover have "st = JobSucceeded" "jr_kind j = jr_kind j0" "jr_id j = ar_job_id r"
        using j1 j(2) True \<open>j1 = j0\<close> by simp_all
      ultimately show ?thesis
        using succ j0 a0(3) by (intro bexI [of _ "complete_row r ended a0"]) simp_all
    next
      case False
      with j j1 suc obtain a where "a \<in> set attempts" "ar_job_id a = jr_id j" "ar_phase a = PhaseSucceeded"
        "is_backup_work (jr_kind j) \<longrightarrow> ar_snapshot_id a \<noteq> []"
        unfolding success_ok_def by metis
      with other_rows_kept [OF k opn] show ?thesis by metis
    qed
  qed
  moreover have "keys_ok ?jobs ?attempts"
    using k by (intro keys_ok_set_job keys_ok_row_update) simp_all
  ultimately show ?thesis by (simp add: ledger_ok_def)
qed

text \<open>A further attempt of a job whose attempts are all over.\<close>

lemma ledger_ok_begin_attempt:
  assumes ok: "ledger_ok jobs attempts" and ins: "attempt_insertable jobs attempts a"
    and over: "\<And>b. b \<in> set attempts \<Longrightarrow> ar_job_id b = ar_job_id a \<Longrightarrow> \<not> incomplete b"
  shows "ledger_ok (sql_set_job_rows (ar_job_id a) JobActive now jobs) (attempts @ [a])"
    (is "ledger_ok ?jobs ?attempts")
proof -
  have k: "keys_ok jobs attempts" and act: "activity_ok jobs attempts" and suc: "success_ok jobs attempts"
    using ok by (simp_all add: ledger_ok_def)
  have "keys_ok jobs ?attempts"
    using k ins unfolding keys_ok_def attempt_insertable_def by auto
  then have "keys_ok ?jobs ?attempts" by (rule keys_ok_set_job)
  moreover have "activity_ok ?jobs ?attempts"
    unfolding activity_ok_def
  proof (intro conjI ballI impI)
    fix x j assume x: "x \<in> set ?attempts" "incomplete x" and j: "j \<in> set ?jobs" "jr_id j = ar_job_id x"
    from j(1) obtain j1 where j1: "j1 \<in> set jobs"
      "j = (if jr_id j1 = ar_job_id a then j1\<lparr>jr_state := JobActive, jr_updated_at := now\<rparr> else j1)"
      by (auto simp: mem_set_job_rows)
    show "jr_state j = JobActive"
    proof (cases "jr_id j1 = ar_job_id a")
      case False
      with j1(2) have jj: "j = j1" by simp
      with j(2) False have "x \<noteq> a" by auto
      with x(1) have "x \<in> set attempts" by simp
      with x(2) jj j(2) j1(1) act show ?thesis unfolding activity_ok_def by metis
    qed (simp add: j1)
  next
    fix x y assume xy: "x \<in> set ?attempts" "y \<in> set ?attempts"
      "incomplete x \<and> incomplete y \<and> ar_job_id x = ar_job_id y"
    show "ar_id x = ar_id y"
    proof (cases "x \<in> set attempts \<and> y \<in> set attempts")
      case True
      with xy(3) act show ?thesis unfolding activity_ok_def by metis
    next
      case False
      with xy over have "x = a" "y = a" by auto
      then show ?thesis by simp
    qed
  qed
  moreover have "success_ok ?jobs ?attempts"
    unfolding success_ok_def
  proof (intro ballI impI)
    fix j assume j: "j \<in> set ?jobs" "jr_state j = JobSucceeded"
    then have "j \<in> set jobs" by (auto simp: mem_set_job_rows split: if_splits)
    with j(2) suc show "\<exists>b\<in>set ?attempts. ar_job_id b = jr_id j \<and> ar_phase b = PhaseSucceeded \<and>
        (is_backup_work (jr_kind j) \<longrightarrow> ar_snapshot_id b \<noteq> [])"
      unfolding success_ok_def by auto
  qed
  ultimately show ?thesis by (simp add: ledger_ok_def)
qed

end
