(* ===== verification/Ports.thy ===== *)
theory Ports
  imports Ledger
begin

text \<open>
  The interfaces of \<open>internal/ports\<close> the application calls, as records of functions over
  the type \<open>'w\<close> of everything they act on: the journal, the backup engine, and what the
  service asks of the machine (clock, context, ids, file system). An operation returns its
  results and the world after it. The locales state what the callers rely on.
\<close>

section \<open>The journal (ports/journal.go)\<close>

record 'w journal_port =
  jp_begin_job :: "job_record \<Rightarrow> attempt_record \<Rightarrow> 'w \<Rightarrow> go_error option \<times> 'w"
  jp_begin_attempt :: "attempt_record \<Rightarrow> 'w \<Rightarrow> go_error option \<times> 'w"
  jp_update_attempt :: "attempt_record \<Rightarrow> 'w \<Rightarrow> go_error option \<times> 'w"
  jp_complete_attempt :: "attempt_record \<Rightarrow> job_state \<Rightarrow> 'w \<Rightarrow> go_error option \<times> 'w"
  jp_get_attempt :: "string \<Rightarrow> 'w \<Rightarrow> (go_error + attempt_record) \<times> 'w"
  jp_get_job :: "string \<Rightarrow> 'w \<Rightarrow> (go_error + job_record option) \<times> 'w"
  jp_job_by_slot :: "string \<Rightarrow> 'w \<Rightarrow> (go_error + job_record option) \<times> 'w"
  jp_latest_attempt :: "string \<Rightarrow> 'w \<Rightarrow> (go_error + attempt_record option) \<times> 'w"
  jp_incomplete_attempts :: "'w \<Rightarrow> (go_error + attempt_record list) \<times> 'w"
  jp_recent_attempts :: "int \<Rightarrow> 'w \<Rightarrow> (go_error + attempt_record list) \<times> 'w"
  jp_latest_succeeded_slot :: "'w \<Rightarrow> (go_error + string) \<times> 'w"
  jp_set_job_state :: "string \<Rightarrow> job_state \<Rightarrow> 'w \<Rightarrow> go_error option \<times> 'w"
  jp_append_outbox :: "outbox_event \<Rightarrow> 'w \<Rightarrow> go_error option \<times> 'w"
  jp_unacked_outbox :: "int \<Rightarrow> 'w \<Rightarrow> (go_error + outbox_event list) \<times> 'w"
  jp_ack_outbox :: "string \<Rightarrow> 'w \<Rightarrow> go_error option \<times> 'w"
  jp_consume_command :: "string \<Rightarrow> string \<Rightarrow> bool \<Rightarrow> 'w \<Rightarrow> (bool \<times> go_error option) \<times> 'w"
  jp_command_consumed :: "string \<Rightarrow> 'w \<Rightarrow> (bool \<times> go_error option) \<times> 'w"
  jp_command_result :: "string \<Rightarrow> 'w \<Rightarrow> (go_error + bool \<times> string \<times> json_object option) \<times> 'w"
  jp_finish_command :: "string \<Rightarrow> string \<Rightarrow> json_object option \<Rightarrow> 'w \<Rightarrow> go_error option \<times> 'w"
  jp_save_policy :: "local_policy \<Rightarrow> 'w \<Rightarrow> go_error option \<times> 'w"
  jp_latest_policy :: "'w \<Rightarrow> (go_error + local_policy option) \<times> 'w"

text \<open>
  What the clients rely on: each writing operation makes its update of the job and attempt
  tables or reports an error and changes nothing; the queries answer from the tables and
  change nothing.
\<close>

locale journal_contract =
  fixes J :: "'w journal_port"
    and jobs :: "'w \<Rightarrow> job_record list"
    and attempts :: "'w \<Rightarrow> attempt_record list"
  assumes begin_job_ok: "jp_begin_job J job a w = (None, w') \<Longrightarrow>
      \<exists>c u i. jobs w' = jobs w @ [job\<lparr>jr_created_at := c, jr_updated_at := u\<rparr>] \<and>
        attempts w' = attempts w @ [a\<lparr>ar_job_id := jr_id job, ar_intent_at := i\<rparr>] \<and>
        jr_id job \<notin> jr_id ` set (jobs w) \<and> ar_id a \<notin> ar_id ` set (attempts w) \<and>
        (jr_slot_key job = [] \<or> jr_slot_key job \<notin> jr_slot_key ` set (jobs w))"
    and begin_job_err: "jp_begin_job J job a w = (Some e, w') \<Longrightarrow>
      errors_is e ErrIntentNotPersisted \<and> jobs w' = jobs w \<and> attempts w' = attempts w"
    and begin_attempt_ok: "jp_begin_attempt J a w = (None, w') \<Longrightarrow>
      \<exists>i t. attempts w' = attempts w @ [a\<lparr>ar_intent_at := i\<rparr>] \<and>
        jobs w' = sql_set_job_rows (ar_job_id a) JobActive t (jobs w) \<and>
        attempt_insertable (jobs w) (attempts w) a"
    and begin_attempt_err: "jp_begin_attempt J a w = (Some e, w') \<Longrightarrow>
      jobs w' = jobs w \<and> attempts w' = attempts w"
    and update_attempt_ok: "jp_update_attempt J a w = (None, w') \<Longrightarrow>
      jobs w' = jobs w \<and> attempts w' = row_update ar_id (ar_id a) (update_row a) (attempts w)"
    and update_attempt_err: "jp_update_attempt J a w = (Some e, w') \<Longrightarrow>
      jobs w' = jobs w \<and> attempts w' = attempts w"
    and complete_attempt_ok: "jp_complete_attempt J a st w = (None, w') \<Longrightarrow>
      \<exists>ended t. jobs w' = sql_set_job_rows (ar_job_id a) st t (jobs w) \<and>
        attempts w' = row_update ar_id (ar_id a) (complete_row a ended) (attempts w)"
    and complete_attempt_err: "jp_complete_attempt J a st w = (Some e, w') \<Longrightarrow>
      jobs w' = jobs w \<and> attempts w' = attempts w"
    and job_by_slot: "jp_job_by_slot J k w = (r, w') \<Longrightarrow>
      jobs w' = jobs w \<and> attempts w' = attempts w \<and> (\<forall>v. r = Inr v \<longrightarrow> v = slot_row k (jobs w))"
    and get_job: "jp_get_job J i w = (rj, w') \<Longrightarrow>
      jobs w' = jobs w \<and> attempts w' = attempts w \<and> (\<forall>v. rj = Inr v \<longrightarrow> v = row_find jr_id i (jobs w))"
    and latest_attempt: "jp_latest_attempt J i w = (ra, w') \<Longrightarrow>
      jobs w' = jobs w \<and> attempts w' = attempts w \<and> (\<forall>v. ra = Inr v \<longrightarrow> v = latest_row i (attempts w))"
    and incomplete_attempts: "jp_incomplete_attempts J w = (rs, w') \<Longrightarrow>
      jobs w' = jobs w \<and> attempts w' = attempts w \<and> (\<forall>v. rs = Inr v \<longrightarrow> v = incomplete_rows (attempts w))"
    and append_outbox: "jp_append_outbox J ev w = (ro, w') \<Longrightarrow>
      jobs w' = jobs w \<and> attempts w' = attempts w"

section \<open>The engine (ports/engine.go)\<close>

record snapshot =
  sn_id :: string
  sn_time :: string
  sn_hostname :: string
  sn_paths :: "string list"
  sn_tags :: "string list"
  sn_parent :: string

text \<open>\<open>ReadSnapshot\<close> may return neither an error nor a snapshot.\<close>

record 'w engine_port =
  ep_backup :: "backup_request \<Rightarrow> 'w \<Rightarrow> (backup_result \<times> go_error option) \<times> 'w"
  ep_restore :: "restore_request \<Rightarrow> 'w \<Rightarrow> (restore_result \<times> go_error option) \<times> 'w"
  ep_snapshots :: "repository_descriptor \<Rightarrow> secret_ref \<Rightarrow> 'w \<Rightarrow> (go_error + snapshot list) \<times> 'w"
  ep_read_snapshot :: "repository_descriptor \<Rightarrow> secret_ref \<Rightarrow> string \<Rightarrow> 'w \<Rightarrow>
      (go_error + snapshot option) \<times> 'w"

section \<open>The machine\<close>

record corpus_file =
  cf_rel_path :: string
  cf_size :: int
  cf_sha256 :: string

record expected_meta =
  em_snapshot_id :: string
  em_job_id :: string
  em_attempt_id :: string
  em_roots :: "string list"
  em_files :: "corpus_file list"

text \<open>A staging directory of \<open>internal/windows/restore\<close>.\<close>

record staging_dir =
  sd_root :: string
  sd_path :: string
  sd_job_id :: string

record 'w host_port =
  hp_now :: "'w \<Rightarrow> time \<times> 'w"
  hp_ctx_err :: "'w \<Rightarrow> go_error option \<times> 'w"
  hp_new_id :: "'w \<Rightarrow> string \<times> 'w"
  hp_active :: "'w \<Rightarrow> bool"
  hp_set_active :: "bool \<Rightarrow> 'w \<Rightarrow> 'w"
  hp_stat :: "string \<Rightarrow> 'w \<Rightarrow> go_error option \<times> 'w"
  hp_volume_free :: "string \<Rightarrow> 'w \<Rightarrow> (go_error + int) \<times> 'w"
  hp_hash_roots :: "string list \<Rightarrow> 'w \<Rightarrow> (go_error + corpus_file list) \<times> 'w"
  hp_write_expected :: "string \<Rightarrow> expected_meta \<Rightarrow> 'w \<Rightarrow> (go_error + string \<times> string) \<times> 'w"
  hp_prepare_staging :: "string \<Rightarrow> string \<Rightarrow> 'w \<Rightarrow> (go_error + staging_dir) \<times> 'w"
  hp_revalidate :: "staging_dir \<Rightarrow> 'w \<Rightarrow> go_error option \<times> 'w"
  hp_write_manifest :: "staging_dir \<Rightarrow> string \<Rightarrow> bool \<Rightarrow> 'w \<Rightarrow> (go_error + string) \<times> 'w"
  hp_verify_restore :: "string \<Rightarrow> string \<Rightarrow> string \<Rightarrow> 'w \<Rightarrow> go_error option \<times> 'w"

text \<open>An operation that leaves a view of the world alone.\<close>

definition keeps :: "('w \<Rightarrow> 'v) \<Rightarrow> ('w \<Rightarrow> 'a \<times> 'w) \<Rightarrow> bool" where
  "keeps view f \<longleftrightarrow> (\<forall>w x w'. f w = (x, w') \<longrightarrow> view w' = view w)"

lemma keepsD: "keeps view f \<Longrightarrow> f w = (x, w') \<Longrightarrow> view w' = view w"
  by (simp add: keeps_def)

end
