(* ===== verification/Service.thy ===== *)
theory Service
  imports Ports
begin

text \<open>
  The application service (\<open>internal/application/service.go\<close>): backup, restore and
  reconciliation with durable intent and a single active operation. Every handler is a
  function of the ports and the world; the text of the Go handler is split at its early
  returns, in its order.
\<close>

record 'w service =
  sv_engine :: "'w engine_port"
  sv_journal :: "'w journal_port"
  sv_host :: "'w host_port"
  sv_manifest_dir :: string

section \<open>Results\<close>

definition classify :: "backup_request \<Rightarrow> backup_result \<Rightarrow> backup_result" where
  "classify req res = res\<lparr>br_attempt_class := effective_class (bq_attempt_class req),
     br_qualification_run_id := bq_qualification_run_id req\<rparr>"

definition failed_result :: "error_class \<Rightarrow> string \<Rightarrow> backup_result" where
  "failed_result c msg = zero_result\<lparr>br_outcome := PhaseFailed, br_error_class := c, br_error_message := msg\<rparr>"

definition replay_message :: string where "replay_message = ''qualification run already completed''"

definition qualification_replay :: "job_record \<Rightarrow> attempt_record option \<Rightarrow> backup_result" where
  "qualification_replay existing prev =
     (let res0 = zero_result\<lparr>br_attempt_class := AttemptQualification, br_job_id := jr_id existing,
            br_error_message := replay_message, br_required_roots_ok := True, br_cleanup_ok := True\<rparr>;
          by_state = (\<lambda>res. case jr_state existing of
              JobSucceeded \<Rightarrow> res\<lparr>br_outcome := PhaseSucceeded\<rparr>
            | JobCancelled \<Rightarrow> res\<lparr>br_outcome := PhaseCancelled, br_error_class := ErrorCancelled\<rparr>
            | JobPartial \<Rightarrow> res\<lparr>br_outcome := PhasePartial\<rparr>
            | _ \<Rightarrow> res\<lparr>br_outcome := PhaseFailed\<rparr>) in
      case prev of None \<Rightarrow> by_state res0
      | Some p \<Rightarrow>
        (let res = res0\<lparr>br_attempt_id := ar_id p, br_snapshot_id := ar_snapshot_id p,
                        br_error_class := ar_error_class p\<rparr>;
             stored = (case unmarshal_backup (ar_summary_json p) of
                         Some st \<Rightarrow> if br_outcome st \<noteq> NoPhase then Some st else None
                       | None \<Rightarrow> None) in
         case stored of
           Some st \<Rightarrow>
             (let st1 = st\<lparr>br_attempt_class := AttemptQualification\<rparr>
              in if br_error_message st1 = [] then st1\<lparr>br_error_message := replay_message\<rparr> else st1)
         | None \<Rightarrow> if ar_outcome p \<noteq> NoPhase then res\<lparr>br_outcome := ar_outcome p\<rparr> else by_state res))"

definition job_state_from_attempt :: "attempt_phase \<Rightarrow> job_state" where
  "job_state_from_attempt p =
     (case p of PhaseSucceeded \<Rightarrow> JobSucceeded | PhasePartial \<Rightarrow> JobPartial
      | PhaseCancelled \<Rightarrow> JobCancelled | _ \<Rightarrow> JobFailed)"

text \<open>A process that exits with success is necessary but not sufficient.\<close>

definition evaluate_backup :: "backup_request \<Rightarrow> backup_result \<Rightarrow> backup_result" where
  "evaluate_backup req res =
     (if br_outcome res = PhaseCancelled then res
      else if \<not> br_exit_known res then
        res\<lparr>br_outcome := PhaseFailed, br_error_class := ErrorInternal,
            br_error_message := sentinel_text ErrUnknownExitCode,
            br_published_not_green := br_snapshot_id res \<noteq> []\<rparr>
      else if br_outcome res = PhaseSucceeded then
        if br_snapshot_id res = [] \<or> \<not> br_readback_ok res then
          res\<lparr>br_outcome := PhaseFailed, br_error_class := ErrorIntegrity, br_published_not_green := True\<rparr>
        else if bq_vss_mode req = VSSRequired \<and> br_consistency res \<noteq> ConsistencyVerified then
          res\<lparr>br_outcome := PhasePartial, br_error_class := ErrorConsistencyNotMet,
              br_published_not_green := True\<rparr>
        else if \<not> bs_message_seen (br_summary res) then
          res\<lparr>br_outcome := PhaseFailed, br_error_class := ErrorIntegrity,
              br_error_message := ''missing restic terminal summary''\<rparr>
        else res
      else res)"

fun missing_roots :: "'w host_port \<Rightarrow> string list \<Rightarrow> 'w \<Rightarrow> string list \<times> 'w" where
  "missing_roots H [] w = ([], w)"
| "missing_roots H (r # rs) w =
     (case hp_stat H r w of (e, w1) \<Rightarrow>
      case missing_roots H rs w1 of (missing, w2) \<Rightarrow>
        ((case e of Some _ \<Rightarrow> r # missing | None \<Rightarrow> missing), w2))"

definition find_tagged :: "snapshot list \<Rightarrow> attempt_record \<Rightarrow> snapshot option" where
  "find_tagged snaps rec = find (\<lambda>s. (''attempt:'' @ ar_id rec) \<in> set (sn_tags s)) snaps"

section \<open>The terminal commit\<close>

definition new_event :: "'w host_port \<Rightarrow> string \<Rightarrow> string \<Rightarrow> outbox_payload \<Rightarrow> 'w \<Rightarrow> outbox_event \<times> 'w" where
  "new_event H attempt_id typ payload w =
     (case hp_new_id H w of (i, w1) \<Rightarrow> case hp_now H w1 of (t, w2) \<Rightarrow>
        (\<lparr>oe_event_id = i, oe_attempt_id = attempt_id, oe_seq = 0, oe_type = typ,
          oe_payload = payload, oe_created_at = t, oe_acked_at = 0\<rparr>, w2))"

definition finish_events ::
    "'w service \<Rightarrow> string \<Rightarrow> summary_json \<Rightarrow> backup_result \<Rightarrow> 'w \<Rightarrow> (backup_result \<times> go_error option) \<times> 'w" where
  "finish_events s attempt_id b res w =
     (let H = sv_host s; J = sv_journal s in
      case new_event H attempt_id ''backup.terminal'' (BackupPayload b) w of (ev, w1) \<Rightarrow>
      case jp_append_outbox J ev w1 of
        (Some e, w2) \<Rightarrow> ((res, Some e), w2)
      | (None, w2) \<Rightarrow>
          if br_outcome res = PhaseSucceeded \<and> br_snapshot_id res \<noteq> [] then
            (case new_event H attempt_id ''catalog.build'' (CatalogPayload (br_snapshot_id res)) w2 of (ev2, w3) \<Rightarrow>
             case jp_append_outbox J ev2 w3 of (_, w4) \<Rightarrow> ((res, None), w4))
          else ((res, None), w2))"

definition finish_attempt :: "attempt_record \<Rightarrow> backup_result \<Rightarrow> summary_json \<Rightarrow> time \<Rightarrow> attempt_record" where
  "finish_attempt attempt res b now = attempt\<lparr>ar_phase := br_outcome res, ar_outcome := br_outcome res,
     ar_snapshot_id := br_snapshot_id res, ar_error_class := br_error_class res,
     ar_summary_json := b, ar_ended_at := now\<rparr>"

definition finish_result :: "attempt_record \<Rightarrow> backup_result \<Rightarrow> backup_result" where
  "finish_result attempt res =
     (let res1 = res\<lparr>br_job_id := ar_job_id attempt, br_attempt_id := ar_id attempt\<rparr> in
      if ar_kind attempt = JobQualificationBackup then res1\<lparr>br_attempt_class := AttemptQualification\<rparr>
      else if br_attempt_class res1 = NoAttemptClass then res1\<lparr>br_attempt_class := AttemptScheduled\<rparr>
      else res1)"

definition finish :: "'w service \<Rightarrow> attempt_record \<Rightarrow> backup_result \<Rightarrow> job_state \<Rightarrow> 'w \<Rightarrow>
    (backup_result \<times> go_error option) \<times> 'w" where
  "finish s attempt res0 job_st w =
     (let b = marshal_backup res0; res = finish_result attempt res0; J = sv_journal s in
      case hp_now (sv_host s) w of (now, w1) \<Rightarrow>
      let att = finish_attempt attempt res b now in
      case jp_complete_attempt J att job_st w1 of
        (Some e, w2) \<Rightarrow>
          (let res1 = res\<lparr>br_cleanup_ok := False\<rparr> in
           if br_outcome res1 = PhaseSucceeded then
             (let res2 = res1\<lparr>br_outcome := PhasePartial, br_published_not_green := True,
                    br_error_class := ErrorInternal,
                    br_error_message := ''durable journal commit failed after engine result''\<rparr>;
                  att2 = att\<lparr>ar_phase := PhasePartial, ar_outcome := PhasePartial, ar_error_class := ErrorInternal\<rparr> in
              case jp_complete_attempt J att2 JobPartial w2 of (_, w3) \<Rightarrow> ((res2, Some e), w3))
           else ((res1, Some e), w2))
      | (None, w2) \<Rightarrow> finish_events s (ar_id attempt) b res w2)"

definition record_expected_manifest ::
    "'w service \<Rightarrow> backup_request \<Rightarrow> backup_result \<Rightarrow> go_error + corpus_file list \<Rightarrow> 'w \<Rightarrow> backup_result \<times> 'w" where
  "record_expected_manifest s req res hashed w =
     (case hashed of Inl _ \<Rightarrow> (res, w)
      | Inr files \<Rightarrow>
        if sv_manifest_dir s = [] \<or> br_snapshot_id res = [] \<or> files = [] then (res, w)
        else case hp_write_expected (sv_host s) (sv_manifest_dir s)
               \<lparr>em_snapshot_id = br_snapshot_id res, em_job_id = bq_job_id req,
                em_attempt_id = bq_attempt_id req, em_roots = bq_source_roots req, em_files = files\<rparr> w of
             (Inl _, w1) \<Rightarrow> (res, w1)
           | (Inr (path, hash), w1) \<Rightarrow>
               (res\<lparr>br_expected_manifest_path := path, br_expected_manifest_sha256 := hash\<rparr>, w1))"

section \<open>Backup\<close>

text \<open>The ids a request lacks: a qualification run derives them, the rest are random.\<close>

definition fill_ids :: "'w host_port \<Rightarrow> backup_request \<Rightarrow> 'w \<Rightarrow> backup_request \<times> 'w" where
  "fill_ids H req w =
     (let run = bq_qualification_run_id req;
          q = (if bq_attempt_class req = AttemptQualification then
                 req\<lparr>bq_job_id := (if bq_job_id req = [] then qualification_job_id run else bq_job_id req),
                     bq_attempt_id := (if bq_attempt_id req = [] then qualification_attempt_id run
                                       else bq_attempt_id req),
                     bq_slot_key := (if bq_slot_key req = [] then qualification_slot_key run
                                     else bq_slot_key req)\<rparr>
               else req) in
      case (if bq_job_id q = [] then (case hp_new_id H w of (i, w1) \<Rightarrow> (q\<lparr>bq_job_id := i\<rparr>, w1)) else (q, w))
      of (q1, w1) \<Rightarrow>
      if bq_attempt_id q1 = [] then (case hp_new_id H w1 of (i, w2) \<Rightarrow> (q1\<lparr>bq_attempt_id := i\<rparr>, w2))
      else (q1, w1))"

definition latest_or_none :: "'w journal_port \<Rightarrow> string \<Rightarrow> 'w \<Rightarrow> attempt_record option \<times> 'w" where
  "latest_or_none J job_id w =
     (case jp_latest_attempt J job_id w of (Inr p, w1) \<Rightarrow> (p, w1) | (Inl _, w1) \<Rightarrow> (None, w1))"

text \<open>
  The slot's earlier job: either the answer of the backup, or the request (on that job),
  whether the job is reused, and the number of the new attempt.
\<close>

definition backup_slot :: "'w service \<Rightarrow> backup_request \<Rightarrow> 'w \<Rightarrow>
    (((backup_result \<times> go_error option) + (backup_request \<times> bool \<times> int)) \<times> 'w)" where
  "backup_slot s req w =
     (let J = sv_journal s;
          busy = Inl (classify req (failed_result ErrorInternal (sentinel_text ErrOperationInProgress)),
                      Some (Sentinel ErrOperationInProgress)) in
      if bq_slot_key req = [] then (Inr (req, False, 1), w)
      else case jp_job_by_slot J (bq_slot_key req) w of
        (Inl e, w1) \<Rightarrow> (Inl (classify req (failed_result ErrorInternal (error_text e)), Some e), w1)
      | (Inr None, w1) \<Rightarrow> (Inr (req, False, 1), w1)
      | (Inr (Some existing), w1) \<Rightarrow>
        if bq_attempt_class req = AttemptQualification then
          (case latest_or_none J (jr_id existing) w1 of (prev, w2) \<Rightarrow>
            if job_terminal (jr_state existing)
            then (Inl (classify req (qualification_replay existing prev), None), w2)
            else (busy, w2))
        else if jr_state existing = JobSucceeded then
          (case latest_or_none J (jr_id existing) w1 of (prev, w2) \<Rightarrow>
            let res = zero_result\<lparr>br_outcome := PhaseSucceeded, br_required_roots_ok := True,
                                  br_cleanup_ok := True\<rparr>;
                res1 = (case prev of None \<Rightarrow> res
                        | Some p \<Rightarrow> res\<lparr>br_snapshot_id := ar_snapshot_id p, br_error_class := ar_error_class p\<rparr>)
            in (Inl (classify req (res1\<lparr>br_error_message := ''logical slot already completed''\<rparr>), None), w2))
        else if jr_state existing = JobActive \<or> jr_state existing = JobReconciling then (busy, w1)
        else
          (case latest_or_none J (jr_id existing) w1 of (prev, w2) \<Rightarrow>
            (Inr (req\<lparr>bq_job_id := jr_id existing\<rparr>, True,
                  (case prev of None \<Rightarrow> 1 | Some p \<Rightarrow> wrap64 (ar_attempt_no p + 1))), w2)))"

text \<open>The durable intent: the attempt, or the refusal to launch.\<close>

definition not_persisted_answer :: "backup_result \<times> go_error option" where
  "not_persisted_answer =
     (failed_result ErrorInternal (sentinel_text ErrIntentNotPersisted),
      Some (Wrapped [] (Sentinel ErrIntentNotPersisted) []))"

definition backup_intent :: "'w service \<Rightarrow> backup_request \<Rightarrow> bool \<Rightarrow> int \<Rightarrow> 'w \<Rightarrow>
    (((backup_result \<times> go_error option) + attempt_record) \<times> 'w)" where
  "backup_intent s req reuse attempt_no w =
     (let H = sv_host s; J = sv_journal s; kind = class_job_kind (bq_attempt_class req) in
      case hp_now H w of (t1, w1) \<Rightarrow> case hp_now H w1 of (t2, w2) \<Rightarrow>
      case hp_now H w2 of (t3, w3) \<Rightarrow> case hp_now H w3 of (t4, w4) \<Rightarrow>
      let job = \<lparr>jr_id = bq_job_id req, jr_kind = kind, jr_slot_key = bq_slot_key req,
                 jr_policy_revision_id = bq_policy_revision_id req, jr_state = JobActive,
                 jr_request_hash = [], jr_request_json = [], jr_created_at = t1, jr_updated_at = t2\<rparr>;
          attempt = \<lparr>ar_id = bq_attempt_id req, ar_job_id = bq_job_id req, ar_attempt_no = attempt_no,
                 ar_kind = kind, ar_slot_key = bq_slot_key req,
                 ar_policy_revision_id = bq_policy_revision_id req, ar_phase = PhasePreparing,
                 ar_outcome = NoPhase, ar_snapshot_id = [], ar_error_class = NoErrorClass,
                 ar_summary_json = NoSummaryJSON, ar_evidence_json = [], ar_intent_at = t3,
                 ar_started_at = t4, ar_ended_at = 0\<rparr> in
      case (if reuse then jp_begin_attempt J attempt w4 else jp_begin_job J job attempt w4) of
        (Some _, w5) \<Rightarrow> (Inl not_persisted_answer, w5)
      | (None, w5) \<Rightarrow> (Inr attempt, w5))"

text \<open>The checks before the engine: free space, then the required roots.\<close>

definition backup_preflight :: "'w service \<Rightarrow> backup_request \<Rightarrow> 'w \<Rightarrow> backup_result option \<times> 'w" where
  "backup_preflight s req w =
     (let H = sv_host s in
      case (if bq_free_space_floor req > 0 then
              (case hp_volume_free H (rd_location (bq_repository req)) w of
                 (Inr free, w1) \<Rightarrow> (wrap64 free < bq_free_space_floor req, w1)
               | (Inl _, w1) \<Rightarrow> (False, w1))
            else (False, w)) of (low, w1) \<Rightarrow>
      if low then (Some (failed_result ErrorResourceExhausted ''insufficient free space for backup''), w1)
      else case missing_roots H (bq_source_roots req) w1 of (missing, w2) \<Rightarrow>
        if missing \<noteq> [] then
          (Some ((failed_result ErrorSourceMissing ''required source roots missing'')\<lparr>br_missing_roots := missing\<rparr>), w2)
        else (None, w2))"

text \<open>What the engine's answer becomes: evaluation, then the cancellation that came meanwhile.\<close>

definition engine_answer :: "backup_result \<times> go_error option \<Rightarrow> backup_result" where
  "engine_answer a =
     (case a of (res, Some e) \<Rightarrow>
        if br_outcome res = NoPhase
        then res\<lparr>br_outcome := PhaseFailed, br_error_class := ErrorInternal, br_error_message := error_text e\<rparr>
        else res
      | (res, None) \<Rightarrow> res)"

definition cancelled_result :: "go_error option \<Rightarrow> backup_result \<Rightarrow> backup_result" where
  "cancelled_result ctx_err res =
     (case ctx_err of None \<Rightarrow> res
      | Some _ \<Rightarrow>
        (let res1 = res\<lparr>br_outcome := PhaseCancelled, br_error_class := ErrorCancelled\<rparr>
         in if br_snapshot_id res1 \<noteq> [] then res1\<lparr>br_outcome := PhasePartial, br_published_not_green := True\<rparr>
            else res1))"

definition backup_run :: "'w service \<Rightarrow> backup_request \<Rightarrow> attempt_record \<Rightarrow> 'w \<Rightarrow>
    (backup_result \<times> go_error option) \<times> 'w" where
  "backup_run s req attempt w =
     (let H = sv_host s in
      case backup_preflight s req w of
        (Some res, w1) \<Rightarrow> finish s attempt res JobFailed w1
      | (None, w1) \<Rightarrow>
        (case (if sv_manifest_dir s = [] then (Inr [], w1) else hp_hash_roots H (bq_source_roots req) w1)
         of (hashed, w2) \<Rightarrow>
         let att = attempt\<lparr>ar_phase := PhaseBackingUp\<rparr> in
         case jp_update_attempt (sv_journal s) att w2 of
           (Some e, w3) \<Rightarrow>
             ((zero_result\<lparr>br_outcome := PhaseFailed, br_error_class := ErrorInternal\<rparr>, Some e), w3)
         | (None, w3) \<Rightarrow>
           (case ep_backup (sv_engine s) req w3 of (answer, w4) \<Rightarrow>
            let res = evaluate_backup req (engine_answer answer) in
            case (if br_outcome res = PhaseSucceeded then record_expected_manifest s req res hashed w4
                  else (res, w4)) of (res1, w5) \<Rightarrow>
            case hp_ctx_err H w5 of (ctx, w6) \<Rightarrow>
            let res2 = cancelled_result ctx res1 in
            finish s att res2 (job_state_from_attempt (br_outcome res2)) w6)))"

definition backup_locked :: "'w service \<Rightarrow> backup_request \<Rightarrow> 'w \<Rightarrow>
    (backup_result \<times> go_error option) \<times> 'w" where
  "backup_locked s req0 w =
     (case fill_ids (sv_host s) req0 w of (req, w1) \<Rightarrow>
      case backup_slot s req w1 of
        (Inl answer, w2) \<Rightarrow> (answer, w2)
      | (Inr (req1, reuse, attempt_no), w2) \<Rightarrow>
        (case backup_intent s req1 reuse attempt_no w2 of
           (Inl answer, w3) \<Rightarrow> (answer, w3)
         | (Inr attempt, w3) \<Rightarrow> backup_run s req1 attempt w3))"

definition service_backup :: "'w service \<Rightarrow> backup_request \<Rightarrow> 'w \<Rightarrow>
    (backup_result \<times> go_error option) \<times> 'w" where
  "service_backup s req w =
     (case backup_validate req of
        Some e \<Rightarrow> ((classify req (failed_result ErrorConfig (error_text e)), Some e), w)
      | None \<Rightarrow>
        if hp_active (sv_host s) w then
          ((classify req (failed_result ErrorInternal (sentinel_text ErrOperationInProgress)),
            Some (Sentinel ErrOperationInProgress)), w)
        else case backup_locked s req (hp_set_active (sv_host s) True w) of
               (answer, w1) \<Rightarrow> (answer, hp_set_active (sv_host s) False w1))"

section \<open>Facts about the evaluation\<close>

lemma evaluate_backup_success:
  assumes "br_outcome (evaluate_backup req res) = PhaseSucceeded"
  shows "evaluate_backup req res = res" "br_outcome res = PhaseSucceeded" "br_exit_known res"
    "br_snapshot_id res \<noteq> []" "br_readback_ok res"
    "bq_vss_mode req = VSSRequired \<Longrightarrow> br_consistency res = ConsistencyVerified"
    "bs_message_seen (br_summary res)"
  using assms by (auto simp: evaluate_backup_def split: if_splits)

lemma evaluate_backup_terminal:
  "phase_terminal (br_outcome res) \<Longrightarrow> phase_terminal (br_outcome (evaluate_backup req res))"
  by (simp add: evaluate_backup_def phase_terminal_def)

lemma engine_answer_terminal:
  "phase_terminal (br_outcome res) \<or> br_outcome res = NoPhase \<and> err \<noteq> None \<Longrightarrow>
     phase_terminal (br_outcome (engine_answer (res, err)))"
  by (auto simp: engine_answer_def phase_terminal_def split: option.splits)

lemma engine_answer_success:
  "br_outcome (engine_answer (res, err)) = PhaseSucceeded \<Longrightarrow> engine_answer (res, err) = res"
  by (auto simp: engine_answer_def split: option.splits if_splits)

lemma cancelled_result_terminal:
  "phase_terminal (br_outcome res) \<Longrightarrow> phase_terminal (br_outcome (cancelled_result ctx res))"
  by (simp add: cancelled_result_def phase_terminal_def Let_def split: option.splits)

lemma cancelled_result_success:
  "br_outcome (cancelled_result ctx res) = PhaseSucceeded \<Longrightarrow> ctx = None \<and> cancelled_result ctx res = res"
  by (auto simp: cancelled_result_def Let_def split: option.splits if_splits)

lemma job_state_succeeded: "job_state_from_attempt p = JobSucceeded \<longleftrightarrow> p = PhaseSucceeded"
  by (simp add: job_state_from_attempt_def split: attempt_phase.splits)

lemma finish_result_simps [simp]:
  "br_outcome (finish_result a res) = br_outcome res" "br_snapshot_id (finish_result a res) = br_snapshot_id res"
  "br_error_class (finish_result a res) = br_error_class res"
  by (simp_all add: finish_result_def Let_def)

lemma finish_attempt_simps [simp]:
  "ar_id (finish_attempt a res b t) = ar_id a" "ar_job_id (finish_attempt a res b t) = ar_job_id a"
  "ar_phase (finish_attempt a res b t) = br_outcome res"
  "ar_snapshot_id (finish_attempt a res b t) = br_snapshot_id res"
  "ar_summary_json (finish_attempt a res b t) = b"
  by (simp_all add: finish_attempt_def)

text \<open>What a successful engine result carries: more than a process that exited well.\<close>

definition backup_evidence :: "backup_request \<Rightarrow> backup_result \<Rightarrow> bool" where
  "backup_evidence req res \<longleftrightarrow>
     br_outcome res = PhaseSucceeded \<and> br_exit_known res \<and> br_snapshot_id res \<noteq> [] \<and> br_readback_ok res \<and>
     (bq_vss_mode req = VSSRequired \<longrightarrow> br_consistency res = ConsistencyVerified) \<and>
     bs_message_seen (br_summary res)"

lemma engine_evidence:
  assumes "br_outcome (evaluate_backup req (engine_answer (res, err))) = PhaseSucceeded"
  shows "evaluate_backup req (engine_answer (res, err)) = res" "backup_evidence req res"
proof -
  note e = evaluate_backup_success [OF assms]
  have "engine_answer (res, err) = res" using engine_answer_success [OF e(2)] .
  with e show "evaluate_backup req (engine_answer (res, err)) = res" "backup_evidence req res"
    by (simp_all add: backup_evidence_def)
qed

lemma preflight_failed: "backup_preflight s req w = (Some res, w') \<Longrightarrow> br_outcome res = PhaseFailed"
  by (auto simp: backup_preflight_def Let_def failed_result_def split: prod.splits sum.splits if_splits)

end
