(* ===== verification/Service_Laws.thy ===== *)
theory Service_Laws
  imports Service
begin

text \<open>
  The laws of the service against its contracts: whatever the journal, the engine and the
  machine do within them, the ledger invariant is kept, the engine is launched at most once
  per backup and only with a durable intent, and success is only reported with the evidence.
\<close>

section \<open>The contract of the service's ports\<close>

text \<open>
  A launch of the engine, with the rows of its attempt and of its job in the journal at
  that moment.
\<close>

datatype launch = BackupLaunch backup_request "attempt_record option" "job_record option"
  | RestoreLaunch restore_request "attempt_record option" "job_record option"

text \<open>At most one launch, on an attempt that is durably under way on an active job.\<close>

definition durable_launch :: "backup_request \<Rightarrow> launch list \<Rightarrow> bool" where
  "durable_launch req new \<longleftrightarrow>
     (\<exists>a j. new = [BackupLaunch req (Some a) (Some j)] \<and> ar_id a = bq_attempt_id req \<and>
        jr_id j = bq_job_id req \<and> ar_job_id a = jr_id j \<and> ar_phase a = PhaseBackingUp \<and>
        jr_state j = JobActive)"

text \<open>What an attempt of a request may change in it: its identity.\<close>

definition same_work :: "backup_request \<Rightarrow> backup_request \<Rightarrow> bool" where
  "same_work req0 req \<longleftrightarrow>
     req\<lparr>bq_job_id := [], bq_attempt_id := [], bq_slot_key := []\<rparr> =
     req0\<lparr>bq_job_id := [], bq_attempt_id := [], bq_slot_key := []\<rparr>"

text \<open>The terminal record of an attempt and of its job.\<close>

definition recorded_in :: "job_record list \<Rightarrow> attempt_record list \<Rightarrow> attempt_record \<Rightarrow> attempt_phase \<Rightarrow>
    string \<Rightarrow> job_state \<Rightarrow> bool" where
  "recorded_in js as att phase snap st \<longleftrightarrow>
     (\<exists>b\<in>set as. ar_id b = ar_id att \<and> ar_job_id b = ar_job_id att \<and> ar_phase b = phase \<and>
        ar_snapshot_id b = snap) \<and>
     (\<exists>j\<in>set js. jr_id j = ar_job_id att \<and> jr_state j = st)"

locale service_contract = journal_contract J jobs attempts
  for J :: "'w journal_port" and jobs attempts +
  fixes E :: "'w engine_port" and H :: "'w host_port" and launches :: "'w \<Rightarrow> launch list"
  assumes engine_backup: "ep_backup E req w = ((res, err), w') \<Longrightarrow>
      jobs w' = jobs w \<and> attempts w' = attempts w \<and>
      launches w' = launches w @ [BackupLaunch req (row_find ar_id (bq_attempt_id req) (attempts w))
                                    (row_find jr_id (bq_job_id req) (jobs w))]"
    and engine_outcome: "ep_backup E req w = ((res, err), w') \<Longrightarrow>
      phase_terminal (br_outcome res) \<or> br_outcome res = NoPhase \<and> err \<noteq> None"
    and engine_restore: "ep_restore E rreq w = ((rres, err), w') \<Longrightarrow>
      jobs w' = jobs w \<and> attempts w' = attempts w \<and>
      launches w' = launches w @ [RestoreLaunch rreq (row_find ar_id (rq_attempt_id rreq) (attempts w))
                                    (row_find jr_id (rq_job_id rreq) (jobs w))]"
    and engine_reads: "keeps (\<lambda>w. (jobs w, attempts w, launches w)) (ep_snapshots E repo pw)"
      "keeps (\<lambda>w. (jobs w, attempts w, launches w)) (ep_read_snapshot E repo pw i)"
    and journal_launches: "keeps launches (jp_begin_job J job a)" "keeps launches (jp_begin_attempt J a)"
      "keeps launches (jp_update_attempt J a)" "keeps launches (jp_complete_attempt J a st)"
      "keeps launches (jp_job_by_slot J k)" "keeps launches (jp_get_job J k)"
      "keeps launches (jp_latest_attempt J k)" "keeps launches (jp_incomplete_attempts J)"
      "keeps launches (jp_append_outbox J ev)"
    and host_keeps: "keeps (\<lambda>w. (jobs w, attempts w, launches w)) (hp_now H)"
      "keeps (\<lambda>w. (jobs w, attempts w, launches w)) (hp_ctx_err H)"
      "keeps (\<lambda>w. (jobs w, attempts w, launches w)) (hp_new_id H)"
      "keeps (\<lambda>w. (jobs w, attempts w, launches w)) (hp_stat H p)"
      "keeps (\<lambda>w. (jobs w, attempts w, launches w)) (hp_volume_free H p)"
      "keeps (\<lambda>w. (jobs w, attempts w, launches w)) (hp_hash_roots H ps)"
      "keeps (\<lambda>w. (jobs w, attempts w, launches w)) (hp_write_expected H d m)"
      "keeps (\<lambda>w. (jobs w, attempts w, launches w)) (hp_prepare_staging H d m')"
      "keeps (\<lambda>w. (jobs w, attempts w, launches w)) (hp_revalidate H sd)"
      "keeps (\<lambda>w. (jobs w, attempts w, launches w)) (hp_write_manifest H sd sn b)"
      "keeps (\<lambda>w. (jobs w, attempts w, launches w)) (hp_verify_restore H x y z)"
    and set_active: "jobs (hp_set_active H b w) = jobs w" "attempts (hp_set_active H b w) = attempts w"
      "launches (hp_set_active H b w) = launches w" "hp_active H (hp_set_active H b w) = b"
begin

definition tables :: "'w \<Rightarrow> job_record list \<times> attempt_record list \<times> launch list" where
  "tables w = (jobs w, attempts w, launches w)"

lemma tablesD:
  "tables w' = tables w \<Longrightarrow> jobs w' = jobs w"
  "tables w' = tables w \<Longrightarrow> attempts w' = attempts w"
  "tables w' = tables w \<Longrightarrow> launches w' = launches w"
  by (simp_all add: tables_def)

lemma tables_set_active [simp]: "tables (hp_set_active H b w) = tables w"
  by (simp add: tables_def set_active)

definition svc :: "string \<Rightarrow> 'w service" where
  "svc dir = \<lparr>sv_engine = E, sv_journal = J, sv_host = H, sv_manifest_dir = dir\<rparr>"

lemma svc_simps [simp]: "sv_engine (svc dir) = E" "sv_journal (svc dir) = J" "sv_host (svc dir) = H"
  "sv_manifest_dir (svc dir) = dir"
  by (simp_all add: svc_def)

lemmas host = host_keeps [THEN keepsD, folded tables_def]

subsection \<open>Steps that leave the tables alone\<close>

lemma tables_missing_roots: "missing_roots H rs w = (m, w') \<Longrightarrow> tables w' = tables w"
proof (induction rs arbitrary: w m w')
  case (Cons r rs)
  from Cons.prems obtain e w1 m2 w2 where "hp_stat H r w = (e, w1)" "missing_roots H rs w1 = (m2, w2)" "w' = w2"
    by (auto split: prod.splits)
  with Cons.IH host(4) show ?case by fastforce
qed simp

lemma tables_new_event: "new_event H a t p w = (ev, w') \<Longrightarrow> tables w' = tables w"
  unfolding new_event_def using host(1,3) by (fastforce split: prod.splits)

lemma tables_append: "jp_append_outbox J ev w = (r, w') \<Longrightarrow> tables w' = tables w"
  using append_outbox [of ev w r w'] keepsD [OF journal_launches(9), of ev w r w'] by (simp add: tables_def)

lemma tables_finish_events: "finish_events (svc dir) a b res w = (r, w') \<Longrightarrow> tables w' = tables w \<and> fst r = res"
  unfolding finish_events_def Let_def svc_simps
  by (auto split: prod.splits option.splits if_splits dest!: tables_new_event tables_append)

lemma tables_latest: "latest_or_none J i w = (p, w') \<Longrightarrow>
    tables w' = tables w \<and> (p = None \<or> latest_row i (attempts w) = p)"
proof -
  assume l: "latest_or_none J i w = (p, w')"
  obtain r where "jp_latest_attempt J i w = (r, w')" "p = (case r of Inr p \<Rightarrow> p | Inl _ \<Rightarrow> None)"
    using l by (auto simp: latest_or_none_def split: prod.splits sum.splits)
  with latest_attempt [OF this(1)] keepsD [OF journal_launches(7) this(1)] show ?thesis
    by (auto simp: tables_def split: sum.splits)
qed

lemma tables_job_by_slot: "jp_job_by_slot J k w = (r, w') \<Longrightarrow>
    tables w' = tables w \<and> (\<forall>v. r = Inr v \<longrightarrow> slot_row k (jobs w) = v)"
  using job_by_slot [of k w r w'] keepsD [OF journal_launches(5), of k w r w'] by (auto simp: tables_def)

lemma tables_fill_ids: "fill_ids H req w = (req', w') \<Longrightarrow> tables w' = tables w"
  unfolding fill_ids_def Let_def using host(3) by (auto split: prod.splits if_splits; metis prod.inject)

lemma tables_preflight: "backup_preflight (svc dir) req w = (r, w') \<Longrightarrow> tables w' = tables w"
  unfolding backup_preflight_def Let_def svc_simps
  using host(5) by (auto split: prod.splits sum.splits if_splits dest!: tables_missing_roots; metis prod.inject)

lemma tables_record_manifest:
  "record_expected_manifest (svc dir) req res h w = (res', w') \<Longrightarrow>
     tables w' = tables w \<and> br_outcome res' = br_outcome res \<and> br_snapshot_id res' = br_snapshot_id res"
  unfolding record_expected_manifest_def svc_simps
  using host(7) by (auto split: prod.splits sum.splits if_splits; metis prod.inject)

subsection \<open>The durable intent\<close>

text \<open>An attempt that runs: open in the ledger, on a job that is active.\<close>

definition running :: "'w \<Rightarrow> string \<Rightarrow> string \<Rightarrow> bool" where
  "running w i job_id \<longleftrightarrow> ledger_ok (jobs w) (attempts w) \<and> open_attempt (attempts w) i job_id \<and>
     (\<exists>j\<in>set (jobs w). jr_id j = job_id \<and> jr_state j = JobActive)"

lemma running_cong: "tables w' = tables w \<Longrightarrow> running w' i j = running w i j"
  by (simp add: running_def tables_def)

lemma begin_job_running:
  assumes "jp_begin_job J job a w = (None, w')" "ledger_ok (jobs w) (attempts w)"
    "jr_state job = JobActive" "\<not> phase_terminal (ar_phase a)"
  shows "running w' (ar_id a) (jr_id job)"
proof -
  obtain c u i where t: "jobs w' = jobs w @ [job\<lparr>jr_created_at := c, jr_updated_at := u\<rparr>]"
    "attempts w' = attempts w @ [a\<lparr>ar_job_id := jr_id job, ar_intent_at := i\<rparr>]"
    and f: "jr_id job \<notin> jr_id ` set (jobs w)" "ar_id a \<notin> ar_id ` set (attempts w)"
    "jr_slot_key job = [] \<or> jr_slot_key job \<notin> jr_slot_key ` set (jobs w)"
    using begin_job_ok [OF assms(1)] by blast
  have "ledger_ok (jobs w') (attempts w')"
    unfolding t by (rule ledger_ok_begin_job) (use assms f in simp_all)
  with t assms(3,4) show ?thesis
    by (simp add: running_def open_attempt_def incomplete_def)
qed

lemma begin_attempt_running:
  assumes "jp_begin_attempt J a w = (None, w')" and ok: "ledger_ok (jobs w) (attempts w)"
    and j: "j \<in> set (jobs w)" "jr_id j = ar_job_id a" "jr_state j \<noteq> JobActive"
    and "\<not> phase_terminal (ar_phase a)"
  shows "running w' (ar_id a) (ar_job_id a)"
proof -
  obtain i t where t: "attempts w' = attempts w @ [a\<lparr>ar_intent_at := i\<rparr>]"
    "jobs w' = sql_set_job_rows (ar_job_id a) JobActive t (jobs w)"
    and ins: "attempt_insertable (jobs w) (attempts w) a"
    using begin_attempt_ok [OF assms(1)] by blast
  let ?a = "a\<lparr>ar_intent_at := i\<rparr>"
  have ins': "attempt_insertable (jobs w) (attempts w) ?a"
    using ins by (simp add: attempt_insertable_def)
  have "ledger_ok (sql_set_job_rows (ar_job_id ?a) JobActive t (jobs w)) (attempts w @ [?a])"
  proof (rule ledger_ok_begin_attempt [OF ok ins'])
    fix b assume "b \<in> set (attempts w)" "ar_job_id b = ar_job_id ?a"
    with ok j show "\<not> incomplete b" unfolding ledger_ok_def activity_ok_def by force
  qed
  moreover have "j\<lparr>jr_state := JobActive, jr_updated_at := t\<rparr> \<in> set (jobs w')"
    unfolding t mem_set_job_rows using j by (intro bexI [of _ j]) simp_all
  then have "\<exists>j\<in>set (jobs w'). jr_id j = ar_job_id a \<and> jr_state j = JobActive"
    using j(2) by (intro bexI [of _ "j\<lparr>jr_state := JobActive, jr_updated_at := t\<rparr>"]) simp_all
  ultimately show ?thesis
    using t assms(6) by (simp add: running_def open_attempt_def incomplete_def)
qed

lemma update_running:
  assumes "jp_update_attempt J a w = (None, w')" "running w (ar_id a) job_id" "\<not> phase_terminal (ar_phase a)"
  shows "running w' (ar_id a) job_id"
    "\<exists>b\<in>set (attempts w'). ar_id b = ar_id a \<and> ar_phase b = ar_phase a \<and> ar_job_id b = job_id"
proof -
  have t: "jobs w' = jobs w" "attempts w' = row_update ar_id (ar_id a) (update_row a) (attempts w)"
    using update_attempt_ok [OF assms(1)] by simp_all
  have opn: "open_attempt (attempts w) (ar_id a) job_id" and ok: "ledger_ok (jobs w) (attempts w)"
    using assms(2) by (simp_all add: running_def)
  show "running w' (ar_id a) job_id"
    using ledger_ok_update [OF ok opn] open_attempt_update [OF opn assms(3) refl] assms(2)
    by (simp add: running_def t)
  obtain b where b: "b \<in> set (attempts w)" "ar_id b = ar_id a" "ar_job_id b = job_id"
    using opn by (auto simp: open_attempt_def)
  then have "update_row a b \<in> set (attempts w')" unfolding t row_update_mem by (intro bexI [of _ b]) simp_all
  with b show "\<exists>b\<in>set (attempts w'). ar_id b = ar_id a \<and> ar_phase b = ar_phase a \<and> ar_job_id b = job_id"
    by (metis update_row_simps(1,2,4))
qed

lemma complete_running:
  assumes "jp_complete_attempt J a st w = (None, w')" and run: "running w (ar_id a) (ar_job_id a)"
    and fin: "phase_terminal (ar_phase a)"
    and succ: "st = JobSucceeded \<longrightarrow> ar_phase a = PhaseSucceeded \<and> ar_snapshot_id a \<noteq> []
      \<or> ar_phase a = PhaseSucceeded \<and> (\<forall>j\<in>set (jobs w). jr_id j = ar_job_id a \<longrightarrow> \<not> is_backup_work (jr_kind j))"
  shows "ledger_ok (jobs w') (attempts w')"
    "\<exists>b\<in>set (attempts w'). ar_id b = ar_id a \<and> ar_job_id b = ar_job_id a \<and> ar_phase b = ar_phase a
       \<and> ar_snapshot_id b = ar_snapshot_id a \<and> ar_summary_json b = ar_summary_json a"
    "\<exists>j\<in>set (jobs w'). jr_id j = ar_job_id a \<and> jr_state j = st"
proof -
  obtain ended t where t: "jobs w' = sql_set_job_rows (ar_job_id a) st t (jobs w)"
    "attempts w' = row_update ar_id (ar_id a) (complete_row a ended) (attempts w)"
    using complete_attempt_ok [OF assms(1)] by blast
  have opn: "open_attempt (attempts w) (ar_id a) (ar_job_id a)" and ok: "ledger_ok (jobs w) (attempts w)"
    using run by (simp_all add: running_def)
  obtain j0 where j0: "j0 \<in> set (jobs w)" "jr_id j0 = ar_job_id a" using run by (auto simp: running_def)
  show "ledger_ok (jobs w') (attempts w')"
    unfolding t by (rule ledger_ok_complete [OF ok opn fin _ _ j0]) (use succ j0 in auto)
  obtain b where b: "b \<in> set (attempts w)" "ar_id b = ar_id a" "ar_job_id b = ar_job_id a"
    using opn by (auto simp: open_attempt_def)
  then have "complete_row a ended b \<in> set (attempts w')"
    unfolding t row_update_mem by (intro bexI [of _ b]) simp_all
  with b show "\<exists>b\<in>set (attempts w'). ar_id b = ar_id a \<and> ar_job_id b = ar_job_id a \<and> ar_phase b = ar_phase a
       \<and> ar_snapshot_id b = ar_snapshot_id a \<and> ar_summary_json b = ar_summary_json a"
    by (intro bexI [of _ "complete_row a ended b"]) simp_all
  have "j0\<lparr>jr_state := st, jr_updated_at := t\<rparr> \<in> set (jobs w')"
    unfolding t mem_set_job_rows using j0 by (intro bexI [of _ j0]) simp_all
  with j0 show "\<exists>j\<in>set (jobs w'). jr_id j = ar_job_id a \<and> jr_state j = st"
    by (intro bexI [of _ "j0\<lparr>jr_state := st, jr_updated_at := t\<rparr>"]) simp_all
qed

subsection \<open>The parts of a backup\<close>

lemma backup_slot_tables: "backup_slot (svc dir) req w = (r, w') \<Longrightarrow> tables w' = tables w"
  unfolding backup_slot_def Let_def svc_simps
  by (auto split: prod.splits sum.splits option.splits if_splits dest!: tables_job_by_slot tables_latest)

lemma backup_slot_reuse:
  assumes "backup_slot (svc dir) req w = (Inr (req1, reuse, n), w')"
  shows "bq_attempt_id req1 = bq_attempt_id req" "bq_attempt_class req1 = bq_attempt_class req"
    "bq_slot_key req1 = bq_slot_key req" "bq_vss_mode req1 = bq_vss_mode req"
    "reuse \<Longrightarrow> \<exists>j\<in>set (jobs w). jr_id j = bq_job_id req1 \<and> jr_slot_key j = bq_slot_key req \<and>
       jr_state j \<notin> {JobSucceeded, JobActive, JobReconciling}"
  using assms unfolding backup_slot_def Let_def svc_simps
  by (auto split: prod.splits sum.splits option.splits if_splits dest!: tables_job_by_slot slot_row_Some)

text \<open>A slot that already succeeded, or is busy, is answered without starting anything.\<close>

lemma backup_slot_succeeded:
  assumes "backup_slot (svc dir) req w = (Inl (res, err), w')" "br_outcome res = PhaseSucceeded"
  shows "err = None \<and> (\<exists>j\<in>set (jobs w). jr_slot_key j = bq_slot_key req \<and> job_terminal (jr_state j) \<and>
    (bq_attempt_class req = AttemptQualification \<or> jr_state j = JobSucceeded))"
  using assms unfolding backup_slot_def Let_def svc_simps
  by (auto split: prod.splits sum.splits option.splits if_splits
      dest!: tables_job_by_slot tables_latest slot_row_Some
      simp: classify_def failed_result_def job_terminal_def)

lemma backup_intent_running:
  assumes "backup_intent (svc dir) req reuse n w = (Inr att, w')" and ok: "ledger_ok (jobs w) (attempts w)"
    and reuse: "reuse \<Longrightarrow> \<exists>j\<in>set (jobs w). jr_id j = bq_job_id req \<and> jr_state j \<noteq> JobActive"
  shows "running w' (ar_id att) (ar_job_id att)" "launches w' = launches w"
    "ar_id att = bq_attempt_id req" "ar_job_id att = bq_job_id req" "ar_phase att = PhasePreparing"
    "ar_kind att = class_job_kind (bq_attempt_class req)"
proof -
  obtain t1 w1 t2 w2 t3 w3 t4 w4 job where n: "hp_now H w = (t1, w1)" "hp_now H w1 = (t2, w2)"
      "hp_now H w2 = (t3, w3)" "hp_now H w3 = (t4, w4)"
    and b: "(if reuse then jp_begin_attempt J att w4 else jp_begin_job J job att w4) = (None, w')"
    and a: "ar_id att = bq_attempt_id req" "ar_job_id att = bq_job_id req" "ar_phase att = PhasePreparing"
      "ar_kind att = class_job_kind (bq_attempt_class req)"
    and jj: "jr_id job = bq_job_id req" "jr_state job = JobActive"
    using assms(1) unfolding backup_intent_def Let_def svc_simps
    by (fastforce split: prod.splits option.splits)
  have t: "tables w4 = tables w" using n host(1) by simp
  have p: "\<not> phase_terminal (ar_phase att)" by (simp add: a phase_terminal_def)
  show "running w' (ar_id att) (ar_job_id att)"
  proof (cases reuse)
    case True
    with reuse obtain j where "j \<in> set (jobs w)" "jr_id j = bq_job_id req" "jr_state j \<noteq> JobActive" by blast
    with begin_attempt_running [of att w4 w' j] b True t ok p a show ?thesis by (simp add: tables_def)
  next
    case False
    with begin_job_running [of job att w4 w'] b t ok p a jj show ?thesis by (simp add: tables_def)
  qed
  show "launches w' = launches w"
    using b t keepsD [OF journal_launches(1)] keepsD [OF journal_launches(2)]
    by (cases reuse) (auto simp: tables_def)
qed (use assms(1) in \<open>auto simp: backup_intent_def Let_def split: prod.splits option.splits\<close>)

lemma backup_intent_refused:
  assumes "backup_intent (svc dir) req reuse n w = (Inl answer, w')"
  shows "tables w' = tables w" "answer = not_persisted_answer"
proof -
  obtain t1 w1 t2 w2 t3 w3 t4 w4 job att e where n: "hp_now H w = (t1, w1)" "hp_now H w1 = (t2, w2)"
      "hp_now H w2 = (t3, w3)" "hp_now H w3 = (t4, w4)"
    and b: "(if reuse then jp_begin_attempt J att w4 else jp_begin_job J job att w4) = (Some e, w')"
    and a: "answer = not_persisted_answer"
    using assms(1) unfolding backup_intent_def Let_def svc_simps
    by (fastforce split: prod.splits option.splits)
  have t: "tables w4 = tables w" using n host(1) by simp
  show "tables w' = tables w"
  proof (cases reuse)
    case True
    then have "jp_begin_attempt J att w4 = (Some e, w')" using b by simp
    from begin_attempt_err [OF this] keepsD [OF journal_launches(2) this] t show ?thesis
      by (simp add: tables_def)
  next
    case False
    then have "jp_begin_job J job att w4 = (Some e, w')" using b by simp
    from begin_job_err [OF this] keepsD [OF journal_launches(1) this] t show ?thesis
      by (simp add: tables_def)
  qed
  show "answer = not_persisted_answer" by (rule a)
qed

subsection \<open>The terminal commit\<close>

text \<open>
  The result of a finished attempt as the journal has it: the row of the attempt, and the
  state of its job.
\<close>

abbreviation recorded :: "'w \<Rightarrow> attempt_record \<Rightarrow> attempt_phase \<Rightarrow> string \<Rightarrow> job_state \<Rightarrow> bool" where
  "recorded w att phase snap st \<equiv> recorded_in (jobs w) (attempts w) att phase snap st"

lemmas recorded_def = recorded_in_def

lemma finish_laws:
  assumes fin: "finish (svc dir) att res st w = ((res', err), w')"
    and run: "running w (ar_id att) (ar_job_id att)" and t: "phase_terminal (br_outcome res)"
    and st: "st = JobSucceeded \<Longrightarrow> br_outcome res = PhaseSucceeded"
    and snap: "br_outcome res = PhaseSucceeded \<Longrightarrow> br_snapshot_id res \<noteq> []"
  shows "ledger_ok (jobs w') (attempts w')" "launches w' = launches w"
    "br_outcome res' = PhaseSucceeded \<or> err = None \<Longrightarrow> br_outcome res' = br_outcome res \<and>
       br_snapshot_id res' = br_snapshot_id res \<and>
       recorded w' att (br_outcome res) (br_snapshot_id res) st"
proof -
  obtain now w1 r w2 where n: "hp_now H w = (now, w1)"
    and c: "jp_complete_attempt J (finish_attempt att (finish_result att res) (marshal_backup res) now) st w1 = (r, w2)"
    by (metis surj_pair)
  let ?att = "finish_attempt att (finish_result att res) (marshal_backup res) now"
  have t1: "tables w1 = tables w" using n host(1) by blast
  have run1: "running w1 (ar_id ?att) (ar_job_id ?att)" using run running_cong [OF t1] by simp
  have l2: "launches w2 = launches w"
    using keepsD [OF journal_launches(4) c] tablesD(3) [OF t1] by simp
  have "ledger_ok (jobs w') (attempts w') \<and> launches w' = launches w \<and>
    (br_outcome res' = PhaseSucceeded \<or> err = None \<longrightarrow> br_outcome res' = br_outcome res \<and>
       br_snapshot_id res' = br_snapshot_id res \<and> recorded w' att (br_outcome res) (br_snapshot_id res) st)"
  proof (cases r)
    case None
    have ok: "jp_complete_attempt J ?att st w1 = (None, w2)" using c None by simp
    note fw = complete_running [OF ok run1]
    have succ: "st = JobSucceeded \<longrightarrow> ar_phase ?att = PhaseSucceeded \<and> ar_snapshot_id ?att \<noteq> [] \<or>
        ar_phase ?att = PhaseSucceeded \<and> (\<forall>j\<in>set (jobs w1). jr_id j = ar_job_id ?att \<longrightarrow> \<not> is_backup_work (jr_kind j))"
      using st snap by simp
    have t': "phase_terminal (ar_phase ?att)" using t by simp
    have ev: "finish_events (svc dir) (ar_id att) (marshal_backup res) (finish_result att res) w2 = ((res', err), w')"
      using fin n ok by (simp add: finish_def Let_def)
    have tw: "tables w' = tables w2" and res': "res' = finish_result att res"
      using tables_finish_events [OF ev] by simp_all
    have "recorded w2 att (br_outcome res) (br_snapshot_id res) st"
    proof -
      from fw(2) [OF t' succ] obtain b where b: "b \<in> set (attempts w2)" "ar_id b = ar_id ?att"
        "ar_job_id b = ar_job_id ?att" "ar_phase b = ar_phase ?att" "ar_snapshot_id b = ar_snapshot_id ?att"
        by blast
      have "\<exists>j\<in>set (jobs w2). jr_id j = ar_job_id att \<and> jr_state j = st"
        using fw(3) [OF t' succ] by simp
      moreover have "ar_id b = ar_id att" "ar_job_id b = ar_job_id att" "ar_phase b = br_outcome res"
        "ar_snapshot_id b = br_snapshot_id res" using b(2-5) by simp_all
      ultimately show ?thesis
        unfolding recorded_def using b(1) by blast
    qed
    then show ?thesis
      using fw(1) [OF t' succ] l2 res' by (simp add: recorded_def tablesD [OF tw])
  next
    case (Some e)
    have tw2: "tables w2 = tables w"
      using c Some complete_attempt_err [of ?att st w1 e w2] t1 l2 by (simp add: tables_def)
    have ok2: "ledger_ok (jobs w2) (attempts w2)" using run by (simp add: running_def tablesD [OF tw2])
    show ?thesis
    proof (cases "br_outcome res = PhaseSucceeded")
      case True
      let ?att2 = "?att\<lparr>ar_phase := PhasePartial, ar_outcome := PhasePartial, ar_error_class := ErrorInternal\<rparr>"
      obtain r3 w3 where c3: "jp_complete_attempt J ?att2 JobPartial w2 = (r3, w3)" by (metis surj_pair)
      have w': "w' = w3" "br_outcome res' = PhasePartial" "err = Some e"
        using fin n c Some True c3 by (auto simp: finish_def Let_def)
      have run2: "running w2 (ar_id ?att2) (ar_job_id ?att2)" using run running_cong [OF tw2] by simp
      have "ledger_ok (jobs w3) (attempts w3)"
      proof (cases r3)
        case None
        then have "jp_complete_attempt J ?att2 JobPartial w2 = (None, w3)" using c3 by simp
        from complete_running(1) [OF this run2] show ?thesis by (simp add: phase_terminal_def)
      next
        case (Some e3)
        then have "jp_complete_attempt J ?att2 JobPartial w2 = (Some e3, w3)" using c3 by simp
        from complete_attempt_err [OF this] ok2 show ?thesis by simp
      qed
      moreover have "launches w3 = launches w" using keepsD [OF journal_launches(4) c3] l2 by simp
      ultimately show ?thesis using w' by simp
    next
      case False
      then have "w' = w2" "br_outcome res' = br_outcome res" "err = Some e"
        using fin n c Some by (auto simp: finish_def Let_def)
      with ok2 l2 False show ?thesis by simp
    qed
  qed
  then show "ledger_ok (jobs w') (attempts w')" "launches w' = launches w"
    "br_outcome res' = PhaseSucceeded \<or> err = None \<Longrightarrow> br_outcome res' = br_outcome res \<and>
       br_snapshot_id res' = br_snapshot_id res \<and> recorded w' att (br_outcome res) (br_snapshot_id res) st"
    by blast+
qed

subsection \<open>A backup\<close>

lemma engine_launch:
  assumes "ep_backup E req w = ((res, err), w')" and run: "running w (bq_attempt_id req) (bq_job_id req)"
    and b: "\<exists>b\<in>set (attempts w). ar_id b = bq_attempt_id req \<and> ar_phase b = PhaseBackingUp \<and>
              ar_job_id b = bq_job_id req"
  shows "\<exists>new. launches w' = launches w @ new \<and> durable_launch req new"
proof -
  have k: "distinct (map ar_id (attempts w))" "distinct (map jr_id (jobs w))"
    using run by (simp_all add: running_def ledger_ok_def keys_ok_def)
  obtain a where a: "a \<in> set (attempts w)" "ar_id a = bq_attempt_id req" "ar_phase a = PhaseBackingUp"
    "ar_job_id a = bq_job_id req" using b by blast
  obtain j where j: "j \<in> set (jobs w)" "jr_id j = bq_job_id req" "jr_state j = JobActive"
    using run by (auto simp: running_def)
  have "row_find ar_id (bq_attempt_id req) (attempts w) = Some a"
    using row_find_unique [OF k(1) a(1)] a(2) by simp
  moreover have "row_find jr_id (bq_job_id req) (jobs w) = Some j"
    using row_find_unique [OF k(2) j(1)] j(2) by simp
  ultimately have "launches w' = launches w @ [BackupLaunch req (Some a) (Some j)]"
    using engine_backup [OF assms(1)] by simp
  moreover have "durable_launch req [BackupLaunch req (Some a) (Some j)]"
    unfolding durable_launch_def using a j by (intro exI [of _ a] exI [of _ j]) simp
  ultimately show ?thesis by blast
qed

lemma backup_run_laws:
  assumes bk: "backup_run (svc dir) req att w = ((res, err), w')"
    and run: "running w (ar_id att) (ar_job_id att)" and att: "ar_phase att = PhasePreparing"
      "ar_id att = bq_attempt_id req" "ar_job_id att = bq_job_id req"
  shows "ledger_ok (jobs w') (attempts w')"
    and "\<exists>new. launches w' = launches w @ new \<and> (new = [] \<or> durable_launch req new)"
    and "br_outcome res = PhaseSucceeded \<Longrightarrow>
      (\<exists>w0 eres eerr w1. ep_backup E req w0 = ((eres, eerr), w1) \<and> backup_evidence req eres \<and>
         br_snapshot_id res = br_snapshot_id eres) \<and>
      recorded w' att PhaseSucceeded (br_snapshot_id res) JobSucceeded"
proof -
  let ?goal = "ledger_ok (jobs w') (attempts w') \<and>
    (\<exists>new. launches w' = launches w @ new \<and> (new = [] \<or> durable_launch req new)) \<and>
    (br_outcome res = PhaseSucceeded \<longrightarrow>
      (\<exists>w0 eres eerr w1. ep_backup E req w0 = ((eres, eerr), w1) \<and> backup_evidence req eres \<and>
         br_snapshot_id res = br_snapshot_id eres) \<and>
      recorded w' att PhaseSucceeded (br_snapshot_id res) JobSucceeded)"
  obtain p w1 where p: "backup_preflight (svc dir) req w = (p, w1)" by (metis surj_pair)
  have t1: "tables w1 = tables w" using tables_preflight [OF p] .
  have run1: "running w1 (ar_id att) (ar_job_id att)" using run running_cong [OF t1] by simp
  have ?goal
  proof (cases p)
    case (Some pres)
    have out: "br_outcome pres = PhaseFailed" using preflight_failed [of "svc dir" req w pres w1] p Some by simp
    have f: "finish (svc dir) att pres JobFailed w1 = ((res, err), w')"
      using bk p Some by (simp add: backup_run_def Let_def)
    note fl = finish_laws [OF f run1]
    have "br_outcome res \<noteq> PhaseSucceeded" using fl(3) out by (auto simp: phase_terminal_def)
    with fl(1,2) out t1 show ?thesis by (simp add: phase_terminal_def tablesD [OF t1])
  next
    case None
    obtain hashed w2 where h: "(if dir = [] then (Inr [], w1) else hp_hash_roots H (bq_source_roots req) w1)
        = (hashed, w2)" by (metis surj_pair)
    have t2: "tables w2 = tables w1" using h host(6) by (auto split: if_splits)
    let ?att = "att\<lparr>ar_phase := PhaseBackingUp\<rparr>"
    obtain r w3 where u: "jp_update_attempt J ?att w2 = (r, w3)" by (metis surj_pair)
    have run2: "running w2 (ar_id ?att) (ar_job_id att)" using run1 running_cong [OF t2] by simp
    have l3: "launches w3 = launches w"
      using keepsD [OF journal_launches(3) u] tablesD(3) [OF t2] tablesD(3) [OF t1] by simp
    show ?thesis
    proof (cases r)
      case (Some e)
      have "w' = w3" "br_outcome res = PhaseFailed"
        using bk p None h u Some by (auto simp: backup_run_def Let_def)
      moreover have "jobs w3 = jobs w2" "attempts w3 = attempts w2"
        using update_attempt_err u Some by blast+
      ultimately show ?thesis using run2 l3 by (simp add: running_def)
    next
      case (None)
      have up: "jp_update_attempt J ?att w2 = (None, w3)" using u None by simp
      have nt: "\<not> phase_terminal (ar_phase ?att)" by (simp add: phase_terminal_def)
      note ur = update_running [OF up run2 nt]
      obtain eres eerr w4 where e: "ep_backup E req w3 = ((eres, eerr), w4)" by (metis surj_pair)
      define eval where "eval = evaluate_backup req (engine_answer (eres, eerr))"
      obtain res1 w5 where m: "(if br_outcome eval = PhaseSucceeded
          then record_expected_manifest (svc dir) req eval hashed w4 else (eval, w4)) = (res1, w5)"
        by (metis surj_pair)
      obtain ctx w6 where c: "hp_ctx_err H w5 = (ctx, w6)" by (metis surj_pair)
      define fres where "fres = cancelled_result ctx res1"
      have f: "finish (svc dir) ?att fres (job_state_from_attempt (br_outcome fres)) w6 = ((res, err), w')"
        using bk p \<open>p = None\<close> h up e m [unfolded eval_def] c
        by (simp add: backup_run_def Let_def fres_def)
      have m1: "tables w5 = tables w4" "br_outcome res1 = br_outcome eval" "br_snapshot_id res1 = br_snapshot_id eval"
        using m tables_record_manifest by (auto split: if_splits)
      have t6: "tables w6 = tables w4" using m1(1) host(2) [OF c] by simp
      have t3: "jobs w4 = jobs w3" "attempts w4 = attempts w3" using engine_backup [OF e] by simp_all
      have run6: "running w6 (ar_id ?att) (ar_job_id ?att)"
        using ur(1) t3 by (simp add: running_def tablesD [OF t6])
      have term_eval: "phase_terminal (br_outcome eval)"
        unfolding eval_def by (rule evaluate_backup_terminal, rule engine_answer_terminal, rule engine_outcome [OF e])
      have fin: "phase_terminal (br_outcome fres)"
        unfolding fres_def using term_eval m1(2) by (intro cancelled_result_terminal) simp
      have succ: "ctx = None \<and> fres = res1 \<and> br_outcome eval = PhaseSucceeded" if "br_outcome fres = PhaseSucceeded"
      proof -
        have "ctx = None \<and> fres = res1"
          using cancelled_result_success [of ctx res1] that unfolding fres_def by blast
        with that m1(2) show ?thesis by simp
      qed
      have ev: "eval = eres" "backup_evidence req eres" if "br_outcome eval = PhaseSucceeded"
        using engine_evidence that unfolding eval_def by blast+
      have snap: "br_snapshot_id fres = br_snapshot_id eres \<and> br_snapshot_id eres \<noteq> [] \<and> backup_evidence req eres"
        if "br_outcome fres = PhaseSucceeded"
        using succ [OF that] ev m1(3) by (auto simp: backup_evidence_def)
      note fl = finish_laws [OF f run6 fin]
      have s1: "job_state_from_attempt (br_outcome fres) = JobSucceeded \<Longrightarrow> br_outcome fres = PhaseSucceeded"
        by (simp add: job_state_succeeded)
      have s2: "br_outcome fres = PhaseSucceeded \<Longrightarrow> br_snapshot_id fres \<noteq> []" using snap by simp
      obtain new where new: "launches w4 = launches w3 @ new" "durable_launch req new"
        using engine_launch [OF e] ur att(2,3) by auto
      have "launches w' = launches w @ new"
        using fl(2) [OF s1 s2] new(1) l3 tablesD(3) [OF t6] by simp
      moreover have "(\<exists>w0 eres eerr w1. ep_backup E req w0 = ((eres, eerr), w1) \<and> backup_evidence req eres \<and>
           br_snapshot_id res = br_snapshot_id eres) \<and>
         recorded w' att PhaseSucceeded (br_snapshot_id res) JobSucceeded" if "br_outcome res = PhaseSucceeded"
      proof -
        have r: "br_outcome fres = PhaseSucceeded" "br_snapshot_id res = br_snapshot_id fres"
          "recorded w' ?att (br_outcome fres) (br_snapshot_id fres) (job_state_from_attempt (br_outcome fres))"
          using fl(3) [OF s1 s2] that by auto
        have "recorded w' att PhaseSucceeded (br_snapshot_id res) JobSucceeded"
          using r by (simp add: recorded_def job_state_from_attempt_def)
        with e snap [OF r(1)] r(2) show ?thesis by metis
      qed
      ultimately show ?thesis using fl(1) [OF s1 s2] new(2) by blast
    qed
  qed
  then show "ledger_ok (jobs w') (attempts w')"
    and "\<exists>new. launches w' = launches w @ new \<and> (new = [] \<or> durable_launch req new)"
    and "br_outcome res = PhaseSucceeded \<Longrightarrow>
      (\<exists>w0 eres eerr w1. ep_backup E req w0 = ((eres, eerr), w1) \<and> backup_evidence req eres \<and>
         br_snapshot_id res = br_snapshot_id eres) \<and>
      recorded w' att PhaseSucceeded (br_snapshot_id res) JobSucceeded"
    by blast+
qed

lemma fill_ids_request:
  assumes "fill_ids H req w = (req', w')"
  shows "bq_attempt_class req' = bq_attempt_class req" "bq_vss_mode req' = bq_vss_mode req"
    "bq_slot_key req \<noteq> [] \<or> bq_attempt_class req \<noteq> AttemptQualification \<Longrightarrow> bq_slot_key req' = bq_slot_key req"
  using assms unfolding fill_ids_def Let_def by (auto split: prod.splits if_splits)

lemma fill_ids_same_work: "fill_ids H req w = (req', w') \<Longrightarrow> same_work req req'"
  unfolding fill_ids_def Let_def same_work_def by (auto split: prod.splits if_splits)

lemma backup_slot_same_work: "backup_slot (svc dir) req w = (Inr (req1, reuse, n), w') \<Longrightarrow> same_work req req1"
  unfolding backup_slot_def Let_def svc_simps same_work_def
  by (auto split: prod.splits sum.splits option.splits if_splits)

lemma valid_slot: "backup_validate req = None \<Longrightarrow> bq_slot_key req \<noteq> [] \<or> bq_attempt_class req \<noteq> AttemptQualification"
  using backup_validate_slot [of req] by (auto simp: is_qualification_slot_key_def)

lemma backup_locked_laws:
  assumes bk: "backup_locked (svc dir) req0 w = ((res, err), w')" and ok: "ledger_ok (jobs w) (attempts w)"
    and slot: "bq_slot_key req0 \<noteq> [] \<or> bq_attempt_class req0 \<noteq> AttemptQualification"
  shows "ledger_ok (jobs w') (attempts w')"
    and "\<exists>new. launches w' = launches w @ new \<and> (new = [] \<or> (\<exists>req. durable_launch req new \<and> same_work req0 req))"
    and "br_outcome res = PhaseSucceeded \<Longrightarrow>
      (\<exists>j\<in>set (jobs w). jr_slot_key j = bq_slot_key req0 \<and> job_terminal (jr_state j) \<and>
         (bq_attempt_class req0 = AttemptQualification \<or> jr_state j = JobSucceeded)) \<or>
      (\<exists>req att w0 eres eerr w1. ep_backup E req w0 = ((eres, eerr), w1) \<and> backup_evidence req eres \<and>
         same_work req0 req \<and> br_snapshot_id res = br_snapshot_id eres \<and>
         recorded w' att PhaseSucceeded (br_snapshot_id res) JobSucceeded)"
proof -
  obtain req w1 where f: "fill_ids H req0 w = (req, w1)" by (metis surj_pair)
  obtain r w2 where s: "backup_slot (svc dir) req w1 = (r, w2)" by (metis surj_pair)
  have t1: "tables w1 = tables w" using tables_fill_ids [OF f] .
  have t2: "tables w2 = tables w" using backup_slot_tables [OF s] t1 by simp
  have ok2: "ledger_ok (jobs w2) (attempts w2)" using ok by (simp add: tablesD [OF t2])
  note fr = fill_ids_request [OF f]
  have "ledger_ok (jobs w') (attempts w') \<and>
    (\<exists>new. launches w' = launches w @ new \<and> (new = [] \<or> (\<exists>req. durable_launch req new \<and> same_work req0 req))) \<and>
    (br_outcome res = PhaseSucceeded \<longrightarrow>
      (\<exists>j\<in>set (jobs w). jr_slot_key j = bq_slot_key req0 \<and> job_terminal (jr_state j) \<and>
         (bq_attempt_class req0 = AttemptQualification \<or> jr_state j = JobSucceeded)) \<or>
      (\<exists>req att w0 eres eerr w1. ep_backup E req w0 = ((eres, eerr), w1) \<and> backup_evidence req eres \<and>
         same_work req0 req \<and> br_snapshot_id res = br_snapshot_id eres \<and>
         recorded w' att PhaseSucceeded (br_snapshot_id res) JobSucceeded))"
  proof (cases r)
    case (Inl answer)
    then have a: "answer = (res, err)" "w' = w2" using bk f s by (auto simp: backup_locked_def)
    have "\<exists>j\<in>set (jobs w). jr_slot_key j = bq_slot_key req0 \<and> job_terminal (jr_state j) \<and>
         (bq_attempt_class req0 = AttemptQualification \<or> jr_state j = JobSucceeded)"
      if "br_outcome res = PhaseSucceeded"
      using backup_slot_succeeded [of dir req w1 res err w2] s Inl a that fr slot tablesD(1) [OF t1] by simp
    with a ok2 tablesD(3) [OF t2] show ?thesis by simp
  next
    case (Inr v)
    obtain req1 reuse n where v: "v = (req1, reuse, n)" by (cases v) auto
    have s': "backup_slot (svc dir) req w1 = (Inr (req1, reuse, n), w2)" using s Inr v by simp
    note sr = backup_slot_reuse [OF s']
    have reuse: "reuse \<Longrightarrow> \<exists>j\<in>set (jobs w2). jr_id j = bq_job_id req1 \<and> jr_state j \<noteq> JobActive"
      using sr(5) tablesD(1) [OF t2] tablesD(1) [OF t1] by auto
    obtain i w3 where i: "backup_intent (svc dir) req1 reuse n w2 = (i, w3)" by (metis surj_pair)
    show ?thesis
    proof (cases i)
      case (Inl answer)
      then have a: "(res, err) = not_persisted_answer" "w' = w3" and t3: "tables w3 = tables w2"
        using bk f s' i backup_intent_refused [of dir req1 reuse n w2 answer w3]
        by (auto simp: backup_locked_def)
      then have "br_outcome res \<noteq> PhaseSucceeded" by (auto simp: not_persisted_answer_def failed_result_def)
      with a(2) ok2 tablesD(3) [OF t2] show ?thesis by (simp add: tablesD [OF t3])
    next
      case (Inr att)
      have i': "backup_intent (svc dir) req1 reuse n w2 = (Inr att, w3)" using i Inr by simp
      note ir = backup_intent_running [OF i' ok2 reuse]
      have b: "backup_run (svc dir) req1 att w3 = ((res, err), w')"
        using bk f s' i' by (simp add: backup_locked_def)
      note br = backup_run_laws [OF b ir(1) ir(5) ir(3) ir(4)]
      have l: "launches w3 = launches w" using ir(2) tablesD(3) [OF t2] by simp
      have work: "same_work req0 req1"
        using fill_ids_same_work [OF f] backup_slot_same_work [OF s'] by (simp add: same_work_def)
      have l': "\<exists>new. launches w' = launches w @ new \<and> (new = [] \<or> (\<exists>req. durable_launch req new \<and> same_work req0 req))"
        using br(2) l work by auto
      show ?thesis using br(1,3) l' work by blast
    qed
  qed
  then show "ledger_ok (jobs w') (attempts w')"
    and "\<exists>new. launches w' = launches w @ new \<and> (new = [] \<or> (\<exists>req. durable_launch req new \<and> same_work req0 req))"
    and "br_outcome res = PhaseSucceeded \<Longrightarrow>
      (\<exists>j\<in>set (jobs w). jr_slot_key j = bq_slot_key req0 \<and> job_terminal (jr_state j) \<and>
         (bq_attempt_class req0 = AttemptQualification \<or> jr_state j = JobSucceeded)) \<or>
      (\<exists>req att w0 eres eerr w1. ep_backup E req w0 = ((eres, eerr), w1) \<and> backup_evidence req eres \<and>
         same_work req0 req \<and> br_snapshot_id res = br_snapshot_id eres \<and>
         recorded w' att PhaseSucceeded (br_snapshot_id res) JobSucceeded)"
    by blast+
qed

text \<open>The service's backup is the locked one between the guards.\<close>

lemma service_backup_cases:
  assumes "service_backup (svc dir) req w = ((res, err), w')"
  obtains (invalid) e where "backup_validate req = Some e" "w' = w" "br_outcome res = PhaseFailed"
      "err = Some e" "br_error_class res = ErrorConfig"
    | (busy) "backup_validate req = None" "hp_active H w" "w' = w" "br_outcome res = PhaseFailed"
      "err = Some (Sentinel ErrOperationInProgress)"
    | (locked) w1 where "backup_validate req = None" "\<not> hp_active H w"
      "backup_locked (svc dir) req (hp_set_active H True w) = ((res, err), w1)" "w' = hp_set_active H False w1"
  using assms unfolding service_backup_def
  by (auto simp: classify_def failed_result_def split: option.splits if_splits prod.splits)

lemma service_backup_laws:
  assumes bk: "service_backup (svc dir) req0 w = ((res, err), w')" and ok: "ledger_ok (jobs w) (attempts w)"
  shows "ledger_ok (jobs w') (attempts w')"
    and "\<exists>new. launches w' = launches w @ new \<and> (new = [] \<or> (\<exists>req. durable_launch req new \<and> same_work req0 req))"
    and "br_outcome res = PhaseSucceeded \<Longrightarrow>
      (\<exists>j\<in>set (jobs w). jr_slot_key j = bq_slot_key req0 \<and> job_terminal (jr_state j) \<and>
         (bq_attempt_class req0 = AttemptQualification \<or> jr_state j = JobSucceeded)) \<or>
      (\<exists>req att w0 eres eerr w1. ep_backup E req w0 = ((eres, eerr), w1) \<and> backup_evidence req eres \<and>
         same_work req0 req \<and> br_snapshot_id res = br_snapshot_id eres \<and>
         recorded w' att PhaseSucceeded (br_snapshot_id res) JobSucceeded)"
proof -
  show "ledger_ok (jobs w') (attempts w')"
    using bk ok by (cases rule: service_backup_cases)
      (simp_all add: set_active backup_locked_laws(1) [OF _ _ valid_slot])
  show "\<exists>new. launches w' = launches w @ new \<and> (new = [] \<or> (\<exists>req. durable_launch req new \<and> same_work req0 req))"
    using bk
  proof (cases rule: service_backup_cases)
    case (locked w1)
    from backup_locked_laws(2) [OF locked(3) _ valid_slot [OF locked(1)]] ok locked(4) show ?thesis
      by (simp add: set_active)
  qed simp_all
  show "br_outcome res = PhaseSucceeded \<Longrightarrow>
      (\<exists>j\<in>set (jobs w). jr_slot_key j = bq_slot_key req0 \<and> job_terminal (jr_state j) \<and>
         (bq_attempt_class req0 = AttemptQualification \<or> jr_state j = JobSucceeded)) \<or>
      (\<exists>req att w0 eres eerr w1. ep_backup E req w0 = ((eres, eerr), w1) \<and> backup_evidence req eres \<and>
         same_work req0 req \<and> br_snapshot_id res = br_snapshot_id eres \<and>
         recorded w' att PhaseSucceeded (br_snapshot_id res) JobSucceeded)"
    using bk
  proof (cases rule: service_backup_cases)
    case (locked w1)
    assume "br_outcome res = PhaseSucceeded"
    from backup_locked_laws(3) [OF locked(3) _ valid_slot [OF locked(1)] this] ok locked(4) show ?thesis
      by (simp add: set_active recorded_def)
  qed simp_all
qed

text \<open>A slot that succeeded, or has an attempt under way, starts nothing.\<close>

lemma service_backup_slot_done:
  assumes bk: "service_backup (svc dir) req w = ((res, err), w')"
    and slot: "slot_row (bq_slot_key req) (jobs w) = Some j"
    and st: "jr_state j \<in> {JobSucceeded, JobActive, JobReconciling}"
    and cls: "bq_attempt_class req \<noteq> AttemptQualification"
  shows "tables w' = tables w"
  using bk
proof (cases rule: service_backup_cases)
  case (locked w1)
  obtain req1 wa where f: "fill_ids H req (hp_set_active H True w) = (req1, wa)" by (metis surj_pair)
  obtain r wb where s: "backup_slot (svc dir) req1 wa = (r, wb)" by (metis surj_pair)
  have ta: "tables wa = tables w" using tables_fill_ids [OF f] by simp
  have k: "bq_slot_key req1 = bq_slot_key req" using fill_ids_request(3) [OF f] cls by simp
  have "bq_slot_key req \<noteq> []" using slot_row_Some [OF slot] by simp
  have "\<exists>answer. r = Inl answer"
  proof (cases r)
    case (Inr v)
    then obtain req2 reuse n where "backup_slot (svc dir) req1 wa = (Inr (req2, reuse, n), wb)"
      using s by (cases v) auto
    then show ?thesis
      using k slot st \<open>bq_slot_key req \<noteq> []\<close> fill_ids_request(1) [OF f] cls
      unfolding backup_slot_def Let_def svc_simps
      by (auto simp: tablesD [OF ta] split: prod.splits sum.splits option.splits if_splits dest!: tables_job_by_slot)
  qed simp
  then have "w1 = wb" using locked(3) f s by (auto simp: backup_locked_def)
  with locked(4) backup_slot_tables [OF s] ta show ?thesis by simp
qed simp_all

end

end
