(* ===== verification/Service_Restore.thy ===== *)
theory Service_Restore
  imports Service_Laws
begin

text \<open>
  The rest of the application service (\<open>internal/application/service.go\<close>): reconciliation
  of the attempts a crash or a failed commit left open, and restores, with their laws.
\<close>

section \<open>Reconciliation\<close>

text \<open>One open attempt: its terminal record, or the error that stops the pass.\<close>

definition complete_as :: "'w service \<Rightarrow> attempt_record \<Rightarrow> job_state \<Rightarrow> 'w \<Rightarrow>
    (go_error + attempt_record) \<times> 'w" where
  "complete_as s resolved st w =
     (case jp_complete_attempt (sv_journal s) resolved st w of
        (Some e, w1) \<Rightarrow> (Inl e, w1) | (None, w1) \<Rightarrow> (Inr resolved, w1))"

definition reconcile_snapshots :: "'w service \<Rightarrow> repository_descriptor \<Rightarrow> secret_ref \<Rightarrow> attempt_record \<Rightarrow>
    attempt_record \<Rightarrow> 'w \<Rightarrow> (go_error + attempt_record) \<times> 'w" where
  "reconcile_snapshots s repo password rec resolved w =
     (case ep_snapshots (sv_engine s) repo password w of
        (Inl e, w1) \<Rightarrow> (Inl e, w1)
      | (Inr snaps, w1) \<Rightarrow>
        (case find_tagged snaps rec of
           Some found \<Rightarrow>
             (case hp_now (sv_host s) w1 of (t, w2) \<Rightarrow>
              complete_as s (resolved\<lparr>ar_snapshot_id := sn_id found, ar_phase := PhasePartial,
                ar_outcome := PhasePartial, ar_ended_at := t\<rparr>) JobPartial w2)
         | None \<Rightarrow>
             (case hp_now (sv_host s) w1 of (t, w2) \<Rightarrow>
              complete_as s (resolved\<lparr>ar_phase := PhaseFailed, ar_outcome := PhaseFailed,
                ar_error_class := ErrorEngineCrash, ar_ended_at := t\<rparr>) JobFailed w2)))"

definition reconcile_one :: "'w service \<Rightarrow> repository_descriptor \<Rightarrow> secret_ref \<Rightarrow> attempt_record \<Rightarrow> 'w \<Rightarrow>
    (go_error + attempt_record) \<times> 'w" where
  "reconcile_one s repo password rec w =
     (if \<not> is_backup_work (ar_kind rec) then
        (case hp_now (sv_host s) w of (t, w1) \<Rightarrow>
         complete_as s (rec\<lparr>ar_phase := PhaseFailed, ar_outcome := PhaseFailed,
           ar_error_class := ErrorInternal, ar_ended_at := t\<rparr>) JobFailed w1)
      else
        (let resolved = rec\<lparr>ar_phase := PhaseReconciling\<rparr> in
         case jp_update_attempt (sv_journal s) resolved w of
           (Some e, w1) \<Rightarrow> (Inl e, w1)
         | (None, w1) \<Rightarrow>
           if ar_snapshot_id rec = [] then reconcile_snapshots s repo password rec resolved w1
           else case ep_read_snapshot (sv_engine s) repo password (ar_snapshot_id rec) w1 of
             (Inr (Some _), w2) \<Rightarrow>
               (case hp_now (sv_host s) w2 of (t, w3) \<Rightarrow>
                complete_as s (resolved\<lparr>ar_phase := PhasePartial, ar_outcome := PhasePartial,
                  ar_error_class := ErrorInternal, ar_ended_at := t\<rparr>) JobPartial w3)
           | (_, w2) \<Rightarrow> reconcile_snapshots s repo password rec resolved w2))"

fun reconcile_loop :: "'w service \<Rightarrow> repository_descriptor \<Rightarrow> secret_ref \<Rightarrow> attempt_record list \<Rightarrow>
    attempt_record list \<Rightarrow> 'w \<Rightarrow> (attempt_record list \<times> go_error option) \<times> 'w" where
  "reconcile_loop s repo password [] finished w = ((finished, None), w)"
| "reconcile_loop s repo password (rec # recs) finished w =
     (case reconcile_one s repo password rec w of
        (Inl e, w1) \<Rightarrow> ((finished, Some e), w1)
      | (Inr resolved, w1) \<Rightarrow> reconcile_loop s repo password recs (finished @ [resolved]) w1)"

definition service_reconcile :: "'w service \<Rightarrow> repository_descriptor \<Rightarrow> secret_ref \<Rightarrow> 'w \<Rightarrow>
    (attempt_record list \<times> go_error option) \<times> 'w" where
  "service_reconcile s repo password w =
     (case jp_incomplete_attempts (sv_journal s) w of
        (Inl e, w1) \<Rightarrow> (([], Some e), w1)
      | (Inr incomplete_list, w1) \<Rightarrow> reconcile_loop s repo password incomplete_list [] w1)"

section \<open>Restores\<close>

definition failed_restore :: "error_class \<Rightarrow> string \<Rightarrow> restore_result" where
  "failed_restore c msg = zero_restore_result\<lparr>rr_state := RestoreFailed, rr_error_class := c,
     rr_error_message := msg\<rparr>"

definition restore_idempotent :: "'w service \<Rightarrow> job_record \<Rightarrow> string \<Rightarrow> 'w \<Rightarrow>
    (restore_result \<times> go_error option) \<times> 'w" where
  "restore_idempotent s existing hash w =
     (if jr_request_hash existing \<noteq> [] \<and> jr_request_hash existing \<noteq> hash then
        ((failed_restore ErrorConfig (sentinel_text ErrRestoreConflict), Some (Sentinel ErrRestoreConflict)), w)
      else case jp_latest_attempt (sv_journal s) (jr_id existing) w of
        (Inl e, w1) \<Rightarrow> ((failed_restore ErrorInternal (error_text e), Some e), w1)
      | (Inr att, w1) \<Rightarrow>
        let summary = (case att of None \<Rightarrow> NoSummaryJSON | Some a \<Rightarrow> ar_summary_json a) in
        if jr_state existing = JobActive \<or> jr_state existing = JobReconciling then
          (let res = zero_restore_result\<lparr>rr_state := RestoreRestoring,
                       rr_error_message := ''restore already in progress''\<rparr> in
           case unmarshal_restore summary res of
             Some r \<Rightarrow> ((r\<lparr>rr_state := RestoreRestoring\<rparr>, None), w1)
           | None \<Rightarrow> ((res, None), w1))
        else
          (let stored = (case unmarshal_restore summary zero_restore_result of
                           Some r \<Rightarrow> if rr_state r \<noteq> NoRestoreState then Some r else None
                         | None \<Rightarrow> None) in
           case stored of
             Some r \<Rightarrow> ((r, None), w1)
           | None \<Rightarrow>
             (case jr_state existing of
                JobSucceeded \<Rightarrow> ((zero_restore_result\<lparr>rr_state := RestoreReady\<rparr>, None), w1)
              | JobCancelled \<Rightarrow> ((zero_restore_result\<lparr>rr_state := RestoreCancelled,
                                   rr_error_class := ErrorCancelled\<rparr>, None), w1)
              | _ \<Rightarrow> ((failed_restore ErrorIntegrity ''prior restore did not reach READY'', None), w1))))"

definition restore_outcome :: "restore_state \<Rightarrow> attempt_phase" where
  "restore_outcome st = (if st = RestoreCancelled then PhaseCancelled
     else if st = RestoreReady then PhaseSucceeded else PhaseFailed)"

definition finish_restore :: "'w service \<Rightarrow> attempt_record \<Rightarrow> restore_result \<Rightarrow> job_state \<Rightarrow> 'w \<Rightarrow>
    (restore_result \<times> go_error option) \<times> 'w" where
  "finish_restore s attempt res job_st w =
     (let outcome = restore_outcome (rr_state res);
          att = attempt\<lparr>ar_phase := outcome, ar_outcome := outcome, ar_summary_json := marshal_restore res,
                        ar_error_class := rr_error_class res\<rparr> in
      case jp_complete_attempt (sv_journal s) att job_st w of
        (Some e, w1) \<Rightarrow> ((res\<lparr>rr_state := RestoreFailed, rr_error_class := ErrorInternal,
                            rr_error_message := ''terminal journal commit failed''\<rparr>, Some e), w1)
      | (None, w1) \<Rightarrow> ((res, None), w1))"

text \<open>What the engine's answer and the context make of the restore, before the staging checks.\<close>

definition restore_answer :: "restore_result \<times> go_error option \<Rightarrow> go_error option \<Rightarrow> restore_result" where
  "restore_answer a ctx_err =
     (case a of (res0, err) \<Rightarrow>
      let res = (case err of
            Some e \<Rightarrow> if rr_state res0 = NoRestoreState
                       then res0\<lparr>rr_state := RestoreFailed, rr_error_message := error_text e\<rparr> else res0
          | None \<Rightarrow> res0) in
      if ctx_err \<noteq> None then res\<lparr>rr_state := RestoreCancelled, rr_error_class := ErrorCancelled\<rparr>
      else if err \<noteq> None \<or> \<not> rr_verified_by_engine res \<or> rr_state res \<noteq> RestoreVerifying then
        (if rr_state res \<noteq> RestoreCancelled
         then res\<lparr>rr_state := RestoreFailed, rr_error_class := ErrorIntegrity\<rparr> else res)
      else res)"

definition restore_staged :: "'w service \<Rightarrow> restore_request \<Rightarrow> staging_dir \<Rightarrow> restore_result \<Rightarrow> 'w \<Rightarrow>
    restore_result \<times> 'w" where
  "restore_staged s req stage res w =
     (let H = sv_host s in
      if rr_state res = RestoreVerifying \<and> rr_verified_by_engine res then
        (case hp_revalidate H stage w of
           (Some e, w1) \<Rightarrow> (res\<lparr>rr_state := RestoreFailed, rr_error_class := ErrorPathSafety,
                               rr_error_message := error_text e\<rparr>, w1)
         | (None, w1) \<Rightarrow>
           (case hp_write_manifest H stage (rq_snapshot_id req) (rr_verified_by_engine res) w1 of
              (Inl e, w2) \<Rightarrow> (res\<lparr>rr_state := RestoreFailed, rr_error_class := ErrorIntegrity,
                                 rr_error_message := error_text e\<rparr>, w2)
            | (Inr path, w2) \<Rightarrow>
              (case hp_verify_restore H (sv_manifest_dir s) (rq_snapshot_id req) (sd_path stage) w2 of (v, w3) \<Rightarrow>
                (res\<lparr>rr_manifest_path := path, rr_destination := sd_path stage, rr_state := RestoreReady,
                     rr_independent_ok := (v = None)\<rparr>, w3))))
      else (res, w))"

definition restore_job_state :: "restore_state \<Rightarrow> job_state" where
  "restore_job_state st = (if st = RestoreCancelled then JobCancelled
     else if st = RestoreReady then JobSucceeded else JobFailed)"

definition restore_run :: "'w service \<Rightarrow> restore_request \<Rightarrow> staging_dir \<Rightarrow> attempt_record \<Rightarrow> 'w \<Rightarrow>
    (restore_result \<times> go_error option) \<times> 'w" where
  "restore_run s req stage attempt w =
     (let H = sv_host s in
      case hp_revalidate H stage w of
        (Some e, w1) \<Rightarrow> finish_restore s attempt (failed_restore ErrorPathSafety (error_text e)) JobFailed w1
      | (None, w1) \<Rightarrow>
        (case ep_restore (sv_engine s) (req\<lparr>rq_verify_content := True\<rparr>) w1 of (answer, w2) \<Rightarrow>
         case hp_ctx_err H w2 of (ctx, w3) \<Rightarrow>
         case restore_staged s req stage (restore_answer answer ctx) w3 of (res, w4) \<Rightarrow>
         finish_restore s attempt res (restore_job_state (rr_state res)) w4))"

definition restore_locked :: "'w service \<Rightarrow> restore_request \<Rightarrow> string \<Rightarrow> string \<Rightarrow> 'w \<Rightarrow>
    (restore_result \<times> go_error option) \<times> 'w" where
  "restore_locked s req0 hash payload w =
     (let H = sv_host s; J = sv_journal s in
      case jp_get_job J (rq_job_id req0) w of
        (Inl e, w1) \<Rightarrow> ((failed_restore ErrorInternal (error_text e), Some e), w1)
      | (Inr (Some existing), w1) \<Rightarrow> restore_idempotent s existing hash w1
      | (Inr None, w1) \<Rightarrow>
        (case (if rq_attempt_id req0 = []
               then (case hp_new_id H w1 of (i, w2) \<Rightarrow> (req0\<lparr>rq_attempt_id := i\<rparr>, w2)) else (req0, w1))
         of (req1, w2) \<Rightarrow>
         case hp_prepare_staging H (rq_staging_root req1) (rq_job_id req1) w2 of
           (Inl e, w3) \<Rightarrow> ((failed_restore ErrorPathSafety (error_text e), Some e), w3)
         | (Inr stage, w3) \<Rightarrow>
           (let req = req1\<lparr>rq_destination_dir := sd_path stage\<rparr> in
            case restore_validate req of
              Some e \<Rightarrow> ((failed_restore ErrorConfig (error_text e), Some e), w3)
            | None \<Rightarrow>
              (case hp_now H w3 of (t1, w4) \<Rightarrow> case hp_now H w4 of (t2, w5) \<Rightarrow>
               let job = \<lparr>jr_id = rq_job_id req, jr_kind = JobRestore, jr_slot_key = [],
                     jr_policy_revision_id = [], jr_state = JobActive, jr_request_hash = hash,
                     jr_request_json = payload, jr_created_at = 0, jr_updated_at = 0\<rparr>;
                   attempt = \<lparr>ar_id = rq_attempt_id req, ar_job_id = rq_job_id req, ar_attempt_no = 1,
                     ar_kind = JobRestore, ar_slot_key = [], ar_policy_revision_id = [],
                     ar_phase = PhasePreparing, ar_outcome = NoPhase, ar_snapshot_id = [],
                     ar_error_class = NoErrorClass, ar_summary_json = NoSummaryJSON,
                     ar_evidence_json = [], ar_intent_at = t1, ar_started_at = t2, ar_ended_at = 0\<rparr> in
               case jp_begin_job J job attempt w5 of
                 (Some _, w6) \<Rightarrow> ((failed_restore ErrorInternal (sentinel_text ErrIntentNotPersisted),
                                   Some (Sentinel ErrIntentNotPersisted)), w6)
               | (None, w6) \<Rightarrow> restore_run s req stage attempt w6))))"

definition service_restore :: "(string \<Rightarrow> string) \<Rightarrow> 'w service \<Rightarrow> restore_request \<Rightarrow> 'w \<Rightarrow>
    (restore_result \<times> go_error option) \<times> 'w" where
  "service_restore sha s req0 w =
     (let H = sv_host s; J = sv_journal s in
      if rq_staging_root req0 = [] \<or> rq_snapshot_id req0 = [] then
        ((failed_restore ErrorConfig ''staging root and snapshot required'',
          Some (Sentinel ErrRestorePathRejected)), w)
      else case (if rq_job_id req0 = []
                 then (case hp_new_id H w of (i, w1) \<Rightarrow> (req0\<lparr>rq_job_id := i\<rparr>, w1)) else (req0, w))
      of (req, w1) \<Rightarrow>
      case restore_identity_hash sha req of (hash, payload) \<Rightarrow>
      case jp_get_job J (rq_job_id req) w1 of
        (Inl e, w2) \<Rightarrow> ((failed_restore ErrorInternal (error_text e), Some e), w2)
      | (Inr (Some existing), w2) \<Rightarrow> restore_idempotent s existing hash w2
      | (Inr None, w2) \<Rightarrow>
        if hp_active H w2 then
          (case jp_get_job J (rq_job_id req) w2 of
             (Inr (Some existing), w3) \<Rightarrow> restore_idempotent s existing hash w3
           | (_, w3) \<Rightarrow> ((failed_restore ErrorInternal (sentinel_text ErrOperationInProgress),
                          Some (Sentinel ErrOperationInProgress)), w3))
        else case restore_locked s req hash payload (hp_set_active H True w2) of
               (answer, w3) \<Rightarrow> (answer, hp_set_active H False w3))"

end
