(* ===== verification/Reconcile_Laws.thy ===== *)
theory Reconcile_Laws
  imports Service_Restore
begin

text \<open>
  The laws of reconciliation and of restores: reconciliation closes every attempt that was
  left open and never as a success; a restore launches the engine at most once, on an
  attempt durably recorded, and reports READY only for content the engine verified in the
  staging directory.
\<close>

lemma sum_option_cases [case_names Inl Some None]:
  "(\<And>e. g = Inl e \<Longrightarrow> P) \<Longrightarrow> (\<And>j. g = Inr (Some j) \<Longrightarrow> P) \<Longrightarrow> (g = Inr None \<Longrightarrow> P) \<Longrightarrow> P"
  by (cases g; cases "projr g") auto

text \<open>At most one launch of a restore, with its attempt and job on record.\<close>

definition durable_restore :: "restore_request \<Rightarrow> launch list \<Rightarrow> bool" where
  "durable_restore req new \<longleftrightarrow>
     (\<exists>a j. new = [RestoreLaunch req (Some a) (Some j)] \<and> ar_id a = rq_attempt_id req \<and>
        jr_id j = rq_job_id req \<and> ar_job_id a = jr_id j \<and> incomplete a \<and> jr_state j = JobActive)"

context service_contract
begin

subsection \<open>Reconciliation\<close>

lemma open_running:
  assumes "ledger_ok (jobs w) (attempts w)" "rec \<in> set (attempts w)" "incomplete rec"
  shows "running w (ar_id rec) (ar_job_id rec)"
proof -
  from assms obtain j where j: "j \<in> set (jobs w)" "jr_id j = ar_job_id rec"
    unfolding ledger_ok_def keys_ok_def by force
  with assms have "jr_state j = JobActive" unfolding ledger_ok_def activity_ok_def by metis
  with assms j show ?thesis unfolding running_def open_attempt_def by blast
qed

text \<open>What one attempt's reconciliation does to the tables.\<close>

definition closes :: "'w \<Rightarrow> string \<Rightarrow> 'w \<Rightarrow> bool" where
  "closes w i w' \<longleftrightarrow>
     (\<forall>x\<in>set (attempts w'). incomplete x \<longrightarrow> x \<in> set (attempts w) \<and> ar_id x \<noteq> i) \<and>
     (\<forall>x\<in>set (attempts w). ar_id x \<noteq> i \<longrightarrow> x \<in> set (attempts w'))"

definition no_new_success :: "'w \<Rightarrow> 'w \<Rightarrow> bool" where
  "no_new_success w w' \<longleftrightarrow> (\<forall>j\<in>set (jobs w'). jr_state j = JobSucceeded \<longrightarrow> j \<in> set (jobs w))"

lemma no_new_success_trans: "no_new_success w w1 \<Longrightarrow> no_new_success w1 w2 \<Longrightarrow> no_new_success w w2"
  by (simp add: no_new_success_def)

lemma complete_as_laws:
  assumes c: "complete_as (svc dir) a st w = (r, w')" and run: "running w (ar_id a) (ar_job_id a)"
    and fin: "phase_terminal (ar_phase a)" and st: "st \<noteq> JobSucceeded"
  shows "ledger_ok (jobs w') (attempts w')" "launches w' = launches w" "no_new_success w w'"
    "r = Inr b \<Longrightarrow> b = a \<and> closes w (ar_id a) w'"
proof -
  obtain e w1 where j: "jp_complete_attempt J a st w = (e, w1)" by (metis surj_pair)
  have w1: "w1 = w'" "r = (case e of None \<Rightarrow> Inr a | Some x \<Rightarrow> Inl x)"
    using c j by (auto simp: complete_as_def split: option.splits)
  show "launches w' = launches w" using keepsD [OF journal_launches(4) j] w1 by simp
  have ok: "ledger_ok (jobs w) (attempts w)" using run by (simp add: running_def)
  have "ledger_ok (jobs w') (attempts w') \<and> no_new_success w w' \<and> (e = None \<longrightarrow> closes w (ar_id a) w')"
  proof (cases e)
    case None
    then have j': "jp_complete_attempt J a st w = (None, w')" using j w1 by simp
    obtain ended t where t: "jobs w' = sql_set_job_rows (ar_job_id a) st t (jobs w)"
      "attempts w' = row_update ar_id (ar_id a) (complete_row a ended) (attempts w)"
      using complete_attempt_ok [OF j'] by blast
    have "no_new_success w w'"
      unfolding no_new_success_def t by (auto simp: mem_set_job_rows st split: if_splits)
    moreover have "closes w (ar_id a) w'"
      unfolding closes_def t
    proof (intro conjI ballI impI)
      fix x assume x: "x \<in> set (row_update ar_id (ar_id a) (complete_row a ended) (attempts w))" "incomplete x"
      then obtain y where y: "y \<in> set (attempts w)" "x = (if ar_id y = ar_id a then complete_row a ended y else y)"
        by (auto simp: row_update_mem)
      with x(2) fin have "ar_id y \<noteq> ar_id a" by (auto simp: incomplete_def)
      with y show "x \<in> set (attempts w)" "ar_id x \<noteq> ar_id a" by simp_all
    next
      fix x assume "x \<in> set (attempts w)" "ar_id x \<noteq> ar_id a"
      then show "x \<in> set (row_update ar_id (ar_id a) (complete_row a ended) (attempts w))"
        unfolding row_update_mem by (intro bexI [of _ x]) simp_all
    qed
    ultimately show ?thesis using complete_running(1) [OF j' run fin] st by simp
  next
    case (Some x)
    then have j': "jp_complete_attempt J a st w = (Some x, w')" using j w1 by simp
    from complete_attempt_err [OF j'] ok Some show ?thesis by (simp add: no_new_success_def)
  qed
  then show "ledger_ok (jobs w') (attempts w')" "no_new_success w w'"
    "r = Inr b \<Longrightarrow> b = a \<and> closes w (ar_id a) w'"
    using w1(2) by (auto split: option.splits)
qed

text \<open>Steps between the update to RECONCILING and the terminal record.\<close>

definition resolves :: "attempt_record \<Rightarrow> 'w \<Rightarrow> go_error + attempt_record \<Rightarrow> 'w \<Rightarrow> bool" where
  "resolves rec w r w' \<longleftrightarrow>
     ledger_ok (jobs w') (attempts w') \<and> launches w' = launches w \<and> no_new_success w w' \<and>
     (\<forall>b. r = Inr b \<longrightarrow> ar_id b = ar_id rec \<and> ar_phase b \<in> {PhasePartial, PhaseFailed} \<and>
        closes w (ar_id rec) w')"

lemma resolves_cong: "tables w2 = tables w1 \<Longrightarrow> resolves rec w2 r w' = resolves rec w1 r w'"
proof -
  assume t: "tables w2 = tables w1"
  show ?thesis unfolding resolves_def no_new_success_def closes_def tablesD [OF t] ..
qed

lemma resolves_complete:
  assumes "complete_as (svc dir) a st w1 = (r, w')" "tables w1 = tables w"
    "running w (ar_id rec) (ar_job_id rec)"
    "ar_id a = ar_id rec" "ar_job_id a = ar_job_id rec" "ar_phase a \<in> {PhasePartial, PhaseFailed}"
    "st \<noteq> JobSucceeded"
  shows "resolves rec w r w'"
proof -
  have run: "running w1 (ar_id a) (ar_job_id a)" using assms running_cong [OF assms(2)] by simp
  have fin: "phase_terminal (ar_phase a)" using assms(6) by (auto simp: phase_terminal_def)
  note c = complete_as_laws [OF assms(1) run fin assms(7)]
  show ?thesis
    unfolding resolves_def
    using c assms(4,6) by (auto simp: no_new_success_def closes_def tablesD [OF assms(2)])
qed

lemma reconcile_snapshots_resolves:
  assumes "reconcile_snapshots (svc dir) repo pw rec res w = (r, w')"
    and run: "running w (ar_id rec) (ar_job_id rec)" and res: "ar_id res = ar_id rec" "ar_job_id res = ar_job_id rec"
  shows "resolves rec w r w'"
proof -
  obtain x w1 where e: "ep_snapshots E repo pw w = (x, w1)" by (metis surj_pair)
  have t1: "tables w1 = tables w" using keepsD [OF engine_reads(1) e] by (simp add: tables_def)
  show ?thesis
  proof (cases x)
    case (Inl err)
    then have "r = Inl err" "w' = w1" using assms(1) e by (auto simp: reconcile_snapshots_def)
    with t1 run show ?thesis
      by (simp add: resolves_def running_def no_new_success_def tablesD [OF t1])
  next
    case (Inr snaps)
    obtain t w2 where n: "hp_now H w1 = (t, w2)" by (metis surj_pair)
    have t2: "tables w2 = tables w" using host(1) [OF n] t1 by simp
    show ?thesis
      using assms(1) e Inr n res
      by (auto simp: reconcile_snapshots_def split: option.splits
          intro!: resolves_complete [OF _ t2 run])
  qed
qed

lemma reconcile_one_resolves:
  assumes o: "reconcile_one (svc dir) repo pw rec w = (r, w')" and ok: "ledger_ok (jobs w) (attempts w)"
    and rec: "rec \<in> set (attempts w)" "incomplete rec"
  shows "resolves rec w r w'"
proof (cases "is_backup_work (ar_kind rec)")
  case False
  obtain t w1 where n: "hp_now H w = (t, w1)" by (metis surj_pair)
  show ?thesis
    using o False n
    by (auto simp: reconcile_one_def intro!: resolves_complete [OF _ host(1) [OF n] open_running [OF ok rec]])
next
  case True
  let ?res = "rec\<lparr>ar_phase := PhaseReconciling\<rparr>"
  have run0: "running w (ar_id ?res) (ar_job_id rec)" using open_running [OF ok rec] by simp
  obtain u w1 where u: "jp_update_attempt J ?res w = (u, w1)" by (metis surj_pair)
  have l1: "launches w1 = launches w" using keepsD [OF journal_launches(3) u] .
  show ?thesis
  proof (cases u)
    case (Some e)
    then have "jp_update_attempt J ?res w = (Some e, w1)" using u by simp
    from update_attempt_err [OF this] have "jobs w1 = jobs w" "attempts w1 = attempts w" by simp_all
    moreover have "r = Inl e" "w' = w1" using o True u Some by (auto simp: reconcile_one_def Let_def)
    ultimately show ?thesis using ok l1 by (simp add: resolves_def no_new_success_def)
  next
    case None
    then have up: "jp_update_attempt J ?res w = (None, w1)" using u by simp
    have run1: "running w1 (ar_id rec) (ar_job_id rec)"
      using update_running(1) [OF up run0] by (simp add: phase_terminal_def)
    have t: "jobs w1 = jobs w" "attempts w1 = row_update ar_id (ar_id rec) (update_row ?res) (attempts w)"
      using update_attempt_ok [OF up] by simp_all
    have others: "x \<in> set (attempts w1) \<longleftrightarrow> x \<in> set (attempts w)" if "ar_id x \<noteq> ar_id rec" for x
    proof -
      have "x \<in> set (attempts w)" if x1: "x \<in> set (attempts w1)"
      proof -
        obtain y where "y \<in> set (attempts w)" "x = (if ar_id y = ar_id rec then update_row ?res y else y)"
          using x1 unfolding t row_update_mem by blast
        with \<open>ar_id x \<noteq> ar_id rec\<close> show ?thesis by (cases "ar_id y = ar_id rec") simp_all
      qed
      moreover have "x \<in> set (attempts w1)" if "x \<in> set (attempts w)"
        unfolding t row_update_mem using that \<open>ar_id x \<noteq> ar_id rec\<close> by (intro bexI [of _ x]) simp_all
      ultimately show ?thesis by blast
    qed
    have lift: "resolves rec w r w'" if h: "resolves rec w1 r w'"
    proof -
      have cl: "closes w (ar_id rec) w'" if c: "closes w1 (ar_id rec) w'"
        unfolding closes_def
      proof (intro conjI ballI impI)
        fix x assume "x \<in> set (attempts w')" "incomplete x"
        with c have "x \<in> set (attempts w1)" "ar_id x \<noteq> ar_id rec" unfolding closes_def by blast+
        with others show "x \<in> set (attempts w)" "ar_id x \<noteq> ar_id rec" by blast+
      next
        fix x assume "x \<in> set (attempts w)" "ar_id x \<noteq> ar_id rec"
        with others c show "x \<in> set (attempts w')" unfolding closes_def by blast
      qed
      have a: "ledger_ok (jobs w') (attempts w')" "launches w' = launches w1" "no_new_success w1 w'"
        "\<forall>b. r = Inr b \<longrightarrow> ar_id b = ar_id rec \<and> ar_phase b \<in> {PhasePartial, PhaseFailed} \<and>
           closes w1 (ar_id rec) w'"
        using h unfolding resolves_def by blast+
      have "no_new_success w w'" using a(3) unfolding no_new_success_def t(1) .
      then show ?thesis unfolding resolves_def using a l1 cl by metis
    qed
    show ?thesis
    proof (cases "ar_snapshot_id rec = []")
      case True
      then have "reconcile_snapshots (svc dir) repo pw rec ?res w1 = (r, w')"
        using o \<open>is_backup_work (ar_kind rec)\<close> up by (simp add: reconcile_one_def Let_def)
      from reconcile_snapshots_resolves [OF this run1] show ?thesis by (intro lift) simp
    next
      case False
      obtain x w2 where e: "ep_read_snapshot E repo pw (ar_snapshot_id rec) w1 = (x, w2)" by (metis surj_pair)
      have t2: "tables w2 = tables w1" using keepsD [OF engine_reads(2) e] by (simp add: tables_def)
      have run2: "running w2 (ar_id rec) (ar_job_id rec)" using run1 running_cong [OF t2] by simp
      have "resolves rec w2 r w'"
      proof (cases "\<exists>s. x = Inr (Some s)")
        case True
        then obtain s where s: "x = Inr (Some s)" by blast
        obtain t w3 where n: "hp_now H w2 = (t, w3)" by (metis surj_pair)
        show ?thesis
          using o \<open>is_backup_work (ar_kind rec)\<close> up False e s n
          by (auto simp: reconcile_one_def Let_def intro!: resolves_complete [OF _ host(1) [OF n] run2])
      next
        case False
        then have "reconcile_snapshots (svc dir) repo pw rec ?res w2 = (r, w')"
          using o \<open>is_backup_work (ar_kind rec)\<close> up \<open>ar_snapshot_id rec \<noteq> []\<close> e
          by (auto simp: reconcile_one_def Let_def split: sum.splits option.splits)
        from reconcile_snapshots_resolves [OF this run2] show ?thesis by simp
      qed
      then show ?thesis unfolding resolves_cong [OF t2] by (rule lift)
    qed
  qed
qed

lemma reconcile_loop_laws:
  assumes "reconcile_loop (svc dir) repo pw recs fin w = ((out, err), w')"
    and "ledger_ok (jobs w) (attempts w)"
    and "\<forall>r\<in>set recs. r \<in> set (attempts w) \<and> incomplete r" "distinct (map ar_id recs)"
    and "\<forall>x\<in>set (attempts w). incomplete x \<longrightarrow> x \<in> set recs"
  shows "ledger_ok (jobs w') (attempts w') \<and> launches w' = launches w \<and> no_new_success w w' \<and>
    (err = None \<longrightarrow> (\<forall>x\<in>set (attempts w'). \<not> incomplete x) \<and>
       map ar_id out = map ar_id fin @ map ar_id recs)"
  using assms
proof (induction recs arbitrary: fin w)
  case Nil
  then show ?case by (auto simp: no_new_success_def)
next
  case (Cons rec recs)
  obtain r w1 where o: "reconcile_one (svc dir) repo pw rec w = (r, w1)" by (metis surj_pair)
  have res: "resolves rec w r w1"
    using reconcile_one_resolves [OF o Cons.prems(2)] Cons.prems(3) by simp
  show ?case
  proof (cases r)
    case (Inl e)
    then show ?thesis using Cons.prems(1) o res by (auto simp: resolves_def)
  next
    case (Inr b)
    have loop: "reconcile_loop (svc dir) repo pw recs (fin @ [b]) w1 = ((out, err), w')"
      using Cons.prems(1) o Inr by simp
    have cl: "closes w (ar_id rec) w1" and b: "ar_id b = ar_id rec" using res Inr by (auto simp: resolves_def)
    have recs1: "\<forall>r\<in>set recs. r \<in> set (attempts w1) \<and> incomplete r"
    proof (intro ballI conjI)
      fix x assume x: "x \<in> set recs"
      with Cons.prems(4) have "ar_id x \<noteq> ar_id rec" by (auto simp: image_iff)
      with Cons.prems(3) x cl show "x \<in> set (attempts w1)" unfolding closes_def by simp
      show "incomplete x" using Cons.prems(3) x by simp
    qed
    have all1: "\<forall>x\<in>set (attempts w1). incomplete x \<longrightarrow> x \<in> set recs"
    proof (intro ballI impI)
      fix x assume "x \<in> set (attempts w1)" "incomplete x"
      with cl have "x \<in> set (attempts w)" "ar_id x \<noteq> ar_id rec" unfolding closes_def by blast+
      with Cons.prems(5) \<open>incomplete x\<close> show "x \<in> set recs" by auto
    qed
    have ok1: "ledger_ok (jobs w1) (attempts w1)" and l1: "launches w1 = launches w"
      and s1: "no_new_success w w1" using res by (simp_all add: resolves_def)
    have d1: "distinct (map ar_id recs)" using Cons.prems(4) by simp
    note ih = Cons.IH [OF loop ok1 recs1 d1 all1]
    have "no_new_success w w'" using no_new_success_trans [OF s1] ih by blast
    with ih l1 b show ?thesis by simp
  qed
qed

lemma service_reconcile_laws:
  assumes rc: "service_reconcile (svc dir) repo pw w = ((out, err), w')" and ok: "ledger_ok (jobs w) (attempts w)"
  shows "ledger_ok (jobs w') (attempts w')" "launches w' = launches w" "no_new_success w w'"
    "err = None \<Longrightarrow> incomplete_rows (attempts w') = [] \<and> map ar_id out = map ar_id (incomplete_rows (attempts w))"
proof -
  obtain r w1 where i: "jp_incomplete_attempts J w = (r, w1)" by (metis surj_pair)
  have t1: "jobs w1 = jobs w" "attempts w1 = attempts w" "\<forall>v. r = Inr v \<longrightarrow> v = incomplete_rows (attempts w)"
    using incomplete_attempts [OF i] by simp_all
  have l1: "launches w1 = launches w" using keepsD [OF journal_launches(8) i] .
  have "ledger_ok (jobs w') (attempts w') \<and> launches w' = launches w \<and> no_new_success w w' \<and>
    (err = None \<longrightarrow> incomplete_rows (attempts w') = [] \<and> map ar_id out = map ar_id (incomplete_rows (attempts w)))"
  proof (cases r)
    case (Inl e)
    then have "err = Some e" "w' = w1" using rc i by (auto simp: service_reconcile_def)
    with t1 l1 ok show ?thesis by (simp add: no_new_success_def)
  next
    case (Inr v)
    have loop: "reconcile_loop (svc dir) repo pw v [] w1 = ((out, err), w')"
      using rc i Inr by (simp add: service_reconcile_def)
    have v: "v = incomplete_rows (attempts w)" using t1(3) Inr by simp
    have d: "distinct (map ar_id v)"
      using ok unfolding v incomplete_rows_def ledger_ok_def keys_ok_def by (simp add: distinct_map_filter)
    have fin: "ledger_ok (jobs w') (attempts w') \<and> launches w' = launches w1 \<and> no_new_success w1 w' \<and>
      (err = None \<longrightarrow> (\<forall>x\<in>set (attempts w'). \<not> incomplete x) \<and> map ar_id out = map ar_id v)"
    proof -
      have ok1: "ledger_ok (jobs w1) (attempts w1)" using ok t1(1,2) by simp
      have "\<forall>r\<in>set v. r \<in> set (attempts w1) \<and> incomplete r"
        "\<forall>x\<in>set (attempts w1). incomplete x \<longrightarrow> x \<in> set v"
        unfolding v t1(2) incomplete_rows_def incomplete_def by simp_all
      from reconcile_loop_laws [OF loop ok1 this(1) d this(2)] show ?thesis by simp
    qed
    have "incomplete_rows (attempts w') = []" if "\<forall>x\<in>set (attempts w'). \<not> incomplete x"
      using that by (simp add: incomplete_rows_def incomplete_def filter_empty_conv)
    with fin show ?thesis
      using t1(1) l1 v by (simp add: no_new_success_def)
  qed
  then show "ledger_ok (jobs w') (attempts w')" "launches w' = launches w" "no_new_success w w'"
    "err = None \<Longrightarrow> incomplete_rows (attempts w') = [] \<and> map ar_id out = map ar_id (incomplete_rows (attempts w))"
    by blast+
qed

subsection \<open>Restores\<close>

definition restore_kind :: "'w \<Rightarrow> string \<Rightarrow> bool" where
  "restore_kind w i \<longleftrightarrow> (\<forall>j\<in>set (jobs w). jr_id j = i \<longrightarrow> \<not> is_backup_work (jr_kind j))"

lemma begin_restore_kind:
  assumes "jp_begin_job J job a w = (None, w')" "\<not> is_backup_work (jr_kind job)"
  shows "restore_kind w' (jr_id job)"
proof -
  obtain c u where t: "jobs w' = jobs w @ [job\<lparr>jr_created_at := c, jr_updated_at := u\<rparr>]"
    and f: "jr_id job \<notin> jr_id ` set (jobs w)" using begin_job_ok [OF assms(1)] by blast
  show ?thesis unfolding restore_kind_def t
  proof (intro ballI impI)
    fix j assume j: "j \<in> set (jobs w @ [job\<lparr>jr_created_at := c, jr_updated_at := u\<rparr>])" "jr_id j = jr_id job"
    have "j \<notin> set (jobs w)" using f j(2) by (metis imageI)
    with j(1) assms(2) show "\<not> is_backup_work (jr_kind j)" by auto
  qed
qed

lemma finish_restore_laws:
  assumes fin: "finish_restore (svc dir) att res st w = ((res', err), w')"
    and run: "running w (ar_id att) (ar_job_id att)" and kind: "restore_kind w (ar_job_id att)"
    and st: "st = JobSucceeded \<Longrightarrow> rr_state res = RestoreReady"
  shows "ledger_ok (jobs w') (attempts w') \<and> launches w' = launches w \<and>
    (rr_state res' = RestoreReady \<longrightarrow> res' = res \<and> err = None \<and>
       recorded w' att PhaseSucceeded (ar_snapshot_id att) st)"
proof -
  let ?att = "att\<lparr>ar_phase := restore_outcome (rr_state res), ar_outcome := restore_outcome (rr_state res),
     ar_summary_json := marshal_restore res, ar_error_class := rr_error_class res\<rparr>"
  obtain e w1 where c: "jp_complete_attempt J ?att st w = (e, w1)" by (metis surj_pair)
  have w1: "w' = w1" "res' = (if e = None then res else res\<lparr>rr_state := RestoreFailed,
       rr_error_class := ErrorInternal, rr_error_message := ''terminal journal commit failed''\<rparr>)" "err = e"
    using fin c by (auto simp: finish_restore_def Let_def split: option.splits)
  have l: "launches w1 = launches w" using keepsD [OF journal_launches(4) c] .
  have run': "running w (ar_id ?att) (ar_job_id ?att)" using run by simp
  show ?thesis
  proof (cases e)
    case None
    then have c': "jp_complete_attempt J ?att st w = (None, w1)" using c by simp
    have t: "phase_terminal (ar_phase ?att)" by (simp add: restore_outcome_def phase_terminal_def)
    have succ: "st = JobSucceeded \<longrightarrow> ar_phase ?att = PhaseSucceeded \<and> ar_snapshot_id ?att \<noteq> [] \<or>
        ar_phase ?att = PhaseSucceeded \<and> (\<forall>j\<in>set (jobs w). jr_id j = ar_job_id ?att \<longrightarrow> \<not> is_backup_work (jr_kind j))"
      using st kind by (simp add: restore_outcome_def restore_kind_def)
    note cr = complete_running [OF c' run' t succ]
    have "recorded w1 att PhaseSucceeded (ar_snapshot_id att) st" if rdy: "rr_state res = RestoreReady"
    proof -
      obtain b where "b \<in> set (attempts w1)" "ar_id b = ar_id att" "ar_job_id b = ar_job_id att"
        "ar_phase b = PhaseSucceeded" "ar_snapshot_id b = ar_snapshot_id att"
        using cr(2) rdy by (auto simp: restore_outcome_def)
      moreover have "\<exists>j\<in>set (jobs w1). jr_id j = ar_job_id att \<and> jr_state j = st" using cr(3) by simp
      ultimately show ?thesis unfolding recorded_def by blast
    qed
    with cr(1) w1 l None show ?thesis by simp
  next
    case (Some x)
    then have "jp_complete_attempt J ?att st w = (Some x, w1)" using c by simp
    from complete_attempt_err [OF this] run w1 l Some show ?thesis by (simp add: running_def)
  qed
qed

lemma restore_launch:
  assumes "ep_restore E req w = ((res, err), w')" and run: "running w (rq_attempt_id req) (rq_job_id req)"
  shows "\<exists>new. launches w' = launches w @ new \<and> durable_restore req new"
proof -
  have k: "distinct (map ar_id (attempts w))" "distinct (map jr_id (jobs w))"
    using run by (simp_all add: running_def ledger_ok_def keys_ok_def)
  obtain a where a: "a \<in> set (attempts w)" "ar_id a = rq_attempt_id req" "incomplete a"
    "ar_job_id a = rq_job_id req" using run by (auto simp: running_def open_attempt_def)
  obtain j where j: "j \<in> set (jobs w)" "jr_id j = rq_job_id req" "jr_state j = JobActive"
    using run by (auto simp: running_def)
  have "row_find ar_id (rq_attempt_id req) (attempts w) = Some a"
    using row_find_unique [OF k(1) a(1)] a(2) by simp
  moreover have "row_find jr_id (rq_job_id req) (jobs w) = Some j"
    using row_find_unique [OF k(2) j(1)] j(2) by simp
  ultimately have "launches w' = launches w @ [RestoreLaunch req (Some a) (Some j)]"
    using engine_restore [OF assms(1)] by simp
  moreover have "durable_restore req [RestoreLaunch req (Some a) (Some j)]"
    unfolding durable_restore_def using a j by (intro exI [of _ a] exI [of _ j]) simp
  ultimately show ?thesis by blast
qed

lemma tables_restore_staged:
  "restore_staged (svc dir) req stage res w = (res', w') \<Longrightarrow> tables w' = tables w \<and>
     (rr_state res' = RestoreReady \<longrightarrow> rr_state res = RestoreReady \<or>
        rr_state res = RestoreVerifying \<and> rr_verified_by_engine res \<and> rr_destination res' = sd_path stage)"
  unfolding restore_staged_def Let_def svc_simps
  by (auto split: prod.splits sum.splits option.splits if_splits dest!: host(9,10,11))

lemma restore_answer_states:
  "rr_state (restore_answer (res, err) ctx) \<noteq> RestoreReady"
  "rr_state (restore_answer (res, err) ctx) = RestoreVerifying \<Longrightarrow>
     err = None \<and> ctx = None \<and> rr_state res = RestoreVerifying \<and>
     rr_verified_by_engine (restore_answer (res, err) ctx) = rr_verified_by_engine res"
  by (auto simp: restore_answer_def Let_def split: option.splits if_splits)

lemma restore_run_laws:
  assumes rr: "restore_run (svc dir) req stage att w = ((res, err), w')"
    and run: "running w (ar_id att) (ar_job_id att)" and kind: "restore_kind w (ar_job_id att)"
    and att: "ar_id att = rq_attempt_id req" "ar_job_id att = rq_job_id req"
  shows "ledger_ok (jobs w') (attempts w') \<and>
    (\<exists>new. launches w' = launches w @ new \<and>
       (new = [] \<or> durable_restore (req\<lparr>rq_verify_content := True\<rparr>) new)) \<and>
    (rr_state res = RestoreReady \<longrightarrow>
       (\<exists>w0 eres w1. ep_restore E (req\<lparr>rq_verify_content := True\<rparr>) w0 = ((eres, None), w1) \<and>
          rr_state eres = RestoreVerifying \<and> rr_verified_by_engine eres) \<and>
       rr_destination res = sd_path stage \<and> recorded w' att PhaseSucceeded (ar_snapshot_id att) JobSucceeded)"
proof -
  obtain v w1 where v: "hp_revalidate H stage w = (v, w1)" by (metis surj_pair)
  have t1: "tables w1 = tables w" using host(9) [OF v] .
  have run1: "running w1 (ar_id att) (ar_job_id att)" using run running_cong [OF t1] by simp
  have kind1: "restore_kind w1 (ar_job_id att)" using kind by (simp add: restore_kind_def tablesD [OF t1])
  show ?thesis
  proof (cases v)
    case (Some e)
    have f: "finish_restore (svc dir) att (failed_restore ErrorPathSafety (error_text e)) JobFailed w1
       = ((res, err), w')" using rr v Some by (simp add: restore_run_def Let_def)
    have st: "JobFailed = JobSucceeded \<Longrightarrow> rr_state (failed_restore ErrorPathSafety (error_text e)) = RestoreReady"
      by simp
    have "ledger_ok (jobs w') (attempts w')" "launches w' = launches w1" "rr_state res \<noteq> RestoreReady"
      using finish_restore_laws [OF f run1 kind1 st] by (auto simp: failed_restore_def)
    then show ?thesis using tablesD(3) [OF t1] by simp
  next
    case None
    let ?req = "req\<lparr>rq_verify_content := True\<rparr>"
    obtain eres eerr w2 where e: "ep_restore E ?req w1 = ((eres, eerr), w2)" by (metis surj_pair)
    obtain ctx w3 where c: "hp_ctx_err H w2 = (ctx, w3)" by (metis surj_pair)
    obtain sres w4 where s: "restore_staged (svc dir) req stage (restore_answer (eres, eerr) ctx) w3 = (sres, w4)"
      by (metis surj_pair)
    have f: "finish_restore (svc dir) att sres (restore_job_state (rr_state sres)) w4 = ((res, err), w')"
      using rr v None e c s by (simp add: restore_run_def Let_def)
    have t4: "tables w4 = tables w2" using tables_restore_staged [OF s] host(2) [OF c] by simp
    have t2: "jobs w2 = jobs w1" "attempts w2 = attempts w1" using engine_restore [OF e] by simp_all
    have run4: "running w4 (ar_id att) (ar_job_id att)"
      using run1 by (simp add: running_def t2 tablesD [OF t4])
    have kind4: "restore_kind w4 (ar_job_id att)"
      using kind1 by (simp add: restore_kind_def t2 tablesD [OF t4])
    have st: "restore_job_state (rr_state sres) = JobSucceeded \<Longrightarrow> rr_state sres = RestoreReady"
      by (simp add: restore_job_state_def split: if_splits)
    note fl = finish_restore_laws [OF f run4 kind4 st]
    obtain new where new: "launches w2 = launches w1 @ new" "durable_restore ?req new"
      using restore_launch [OF e] run1 att by auto
    have ready: "eerr = None \<and> rr_state eres = RestoreVerifying \<and> rr_verified_by_engine eres \<and>
        rr_destination sres = sd_path stage" if "rr_state sres = RestoreReady"
      using tables_restore_staged [OF s] that restore_answer_states(1) restore_answer_states(2) [of eres eerr ctx]
      by auto
    have "launches w' = launches w @ new"
      using fl new(1) tablesD(3) [OF t1] tablesD(3) [OF t4] by simp
    moreover have "(\<exists>w0 eres w1. ep_restore E ?req w0 = ((eres, None), w1) \<and>
          rr_state eres = RestoreVerifying \<and> rr_verified_by_engine eres) \<and>
       rr_destination res = sd_path stage \<and> recorded w' att PhaseSucceeded (ar_snapshot_id att) JobSucceeded"
      if "rr_state res = RestoreReady"
    proof -
      have r: "res = sres" "recorded w' att PhaseSucceeded (ar_snapshot_id att) (restore_job_state (rr_state sres))"
        using fl that by blast+
      have rdy: "rr_state sres = RestoreReady" using r(1) that by simp
      have "recorded w' att PhaseSucceeded (ar_snapshot_id att) JobSucceeded"
        using r(2) rdy by (simp add: restore_job_state_def)
      moreover have "ep_restore E ?req w1 = ((eres, None), w2)" using e ready [OF rdy] by simp
      ultimately show ?thesis using ready [OF rdy] r(1) by blast
    qed
    ultimately show ?thesis using fl new(2) by blast
  qed
qed

lemma tables_get_job: "jp_get_job J i w = (r, w') \<Longrightarrow>
    tables w' = tables w \<and> (\<forall>v. r = Inr v \<longrightarrow> row_find jr_id i (jobs w) = v)"
  using get_job [of i w r w'] keepsD [OF journal_launches(6), of i w r w'] by (auto simp: tables_def)

lemma tables_restore_idempotent: "restore_idempotent (svc dir) j hash w = (r, w') \<Longrightarrow> tables w' = tables w"
proof -
  assume h: "restore_idempotent (svc dir) j hash w = (r, w')"
  obtain x w1 where l: "jp_latest_attempt J (jr_id j) w = (x, w1)" by (metis surj_pair)
  have "tables w1 = tables w"
    using latest_attempt [OF l] keepsD [OF journal_launches(7) l] by (simp add: tables_def)
  then show ?thesis
    using h l by (auto simp: restore_idempotent_def Let_def
        split: prod.splits sum.splits option.splits if_splits job_state.splits)
qed

text \<open>
  What a restore may do: answer from an existing job of that id, refuse, or run once with
  its intent on record.
\<close>

definition restore_post :: "restore_request \<Rightarrow> 'w \<Rightarrow> restore_result \<Rightarrow> 'w \<Rightarrow> bool" where
  "restore_post req w res w' \<longleftrightarrow>
     ledger_ok (jobs w') (attempts w') \<and>
     (\<exists>new. launches w' = launches w @ new \<and> (new = [] \<or> (\<exists>r. durable_restore r new \<and> rq_job_id r = rq_job_id req))) \<and>
     (rr_state res = RestoreReady \<longrightarrow> rq_job_id req \<in> jr_id ` set (jobs w) \<or>
       (\<exists>r eres w0 w1 att. ep_restore E r w0 = ((eres, None), w1) \<and> rq_snapshot_id r = rq_snapshot_id req \<and>
          rq_verify_content r \<and> rr_state eres = RestoreVerifying \<and> rr_verified_by_engine eres \<and>
          rr_destination res = rq_destination_dir r \<and> ar_job_id att = rq_job_id req \<and>
          recorded w' att PhaseSucceeded (ar_snapshot_id att) JobSucceeded))"

lemma restore_post_quiet:
  assumes "tables w' = tables w" "ledger_ok (jobs w) (attempts w)"
    "rr_state res \<noteq> RestoreReady \<or> rq_job_id req \<in> jr_id ` set (jobs w)"
  shows "restore_post req w res w'"
  using assms(2,3) unfolding restore_post_def tablesD [OF assms(1)] by auto

lemma existing_job: "row_find jr_id i (jobs w) = Some j \<Longrightarrow> i \<in> jr_id ` set (jobs w)"
  using row_find_Some_in [of jr_id i "jobs w" j] by force

lemma restore_locked_post:
  assumes rl: "restore_locked (svc dir) req0 hash payload w = ((res, err), w')"
    and ok: "ledger_ok (jobs w) (attempts w)"
  shows "restore_post req0 w res w'"
proof -
  obtain g w1 where g: "jp_get_job J (rq_job_id req0) w = (g, w1)" by (metis surj_pair)
  have t1: "tables w1 = tables w" using tables_get_job [OF g] by simp
  consider (err) e where "g = Inl e" | (old) j where "g = Inr (Some j)" | (new) "g = Inr None"
    by (cases g rule: sum_option_cases) auto
  then show ?thesis
  proof cases
    case err
    with rl g t1 ok show ?thesis
      by (auto simp: restore_locked_def Let_def failed_restore_def intro!: restore_post_quiet)
  next
    case old
    then have "restore_idempotent (svc dir) j hash w1 = ((res, err), w')"
      using rl g by (simp add: restore_locked_def Let_def)
    from tables_restore_idempotent [OF this] t1 have "tables w' = tables w" by simp
    moreover have "rq_job_id req0 \<in> jr_id ` set (jobs w)"
      using tables_get_job [OF g] old existing_job by blast
    ultimately show ?thesis using ok by (intro restore_post_quiet) simp_all
  next
    case new
    obtain req1 w2 where i: "(if rq_attempt_id req0 = []
        then (case hp_new_id H w1 of (i, w2) \<Rightarrow> (req0\<lparr>rq_attempt_id := i\<rparr>, w2)) else (req0, w1)) = (req1, w2)"
      by (metis surj_pair)
    have t2: "tables w2 = tables w" using i t1 host(3) by (auto split: if_splits prod.splits)
    have r1: "rq_job_id req1 = rq_job_id req0" "rq_snapshot_id req1 = rq_snapshot_id req0"
      using i by (auto split: if_splits prod.splits)
    obtain p w3 where p: "hp_prepare_staging H (rq_staging_root req1) (rq_job_id req1) w2 = (p, w3)"
      by (metis surj_pair)
    have t3: "tables w3 = tables w" using host(8) [OF p] t2 by simp
    show ?thesis
    proof (cases p)
      case (Inl e)
      with rl g new i p have "w' = w3" "rr_state res = RestoreFailed"
        by (auto simp: restore_locked_def Let_def failed_restore_def)
      with t3 ok show ?thesis by (intro restore_post_quiet) simp_all
    next
      case (Inr stage)
      define req where "req = req1\<lparr>rq_destination_dir := sd_path stage\<rparr>"
      show ?thesis
      proof (cases "restore_validate req")
        case (Some e)
        with rl g new i p Inr have "w' = w3" "rr_state res = RestoreFailed"
          by (auto simp: restore_locked_def Let_def failed_restore_def req_def)
        with t3 ok show ?thesis by (intro restore_post_quiet) simp_all
      next
        case None
        obtain ta w4 tb w5 where n: "hp_now H w3 = (ta, w4)" "hp_now H w4 = (tb, w5)" by (metis surj_pair)
        have t5: "tables w5 = tables w" using host(1) [OF n(1)] host(1) [OF n(2)] t3 by simp
        define job where "job = \<lparr>jr_id = rq_job_id req, jr_kind = JobRestore, jr_slot_key = [],
                     jr_policy_revision_id = [], jr_state = JobActive, jr_request_hash = hash,
                     jr_request_json = payload, jr_created_at = 0, jr_updated_at = 0\<rparr>"
        define att where "att = \<lparr>ar_id = rq_attempt_id req, ar_job_id = rq_job_id req, ar_attempt_no = 1,
                     ar_kind = JobRestore, ar_slot_key = [], ar_policy_revision_id = [],
                     ar_phase = PhasePreparing, ar_outcome = NoPhase, ar_snapshot_id = [],
                     ar_error_class = NoErrorClass, ar_summary_json = NoSummaryJSON,
                     ar_evidence_json = [], ar_intent_at = ta, ar_started_at = tb, ar_ended_at = 0\<rparr>"
        obtain b w6 where b: "jp_begin_job J job att w5 = (b, w6)" by (metis surj_pair)
        have whole: "(case (b, w6) of (Some _, w6) \<Rightarrow> ((failed_restore ErrorInternal
              (sentinel_text ErrIntentNotPersisted), Some (Sentinel ErrIntentNotPersisted)), w6)
            | (None, w6) \<Rightarrow> restore_run (svc dir) req stage att w6) = ((res, err), w')"
          using rl g new i p Inr None n b
          by (cases b) (simp_all add: restore_locked_def Let_def req_def [symmetric] job_def att_def)
        show ?thesis
        proof (cases b)
          case (Some e)
          then have b': "jp_begin_job J job att w5 = (Some e, w6)" using b by simp
          have "tables w6 = tables w"
            using begin_job_err [OF b'] keepsD [OF journal_launches(1) b'] t5 by (simp add: tables_def)
          moreover have "w' = w6" "rr_state res = RestoreFailed"
            using whole Some by (auto simp: failed_restore_def)
          ultimately show ?thesis using ok by (intro restore_post_quiet) simp_all
        next
          case None
          then have b': "jp_begin_job J job att w5 = (None, w6)" using b by simp
          have rr: "restore_run (svc dir) req stage att w6 = ((res, err), w')" using whole None by simp
          have ok5: "ledger_ok (jobs w5) (attempts w5)" using ok by (simp add: tablesD [OF t5])
          have run: "running w6 (ar_id att) (ar_job_id att)"
            using begin_job_running [OF b' ok5] by (simp add: job_def att_def phase_terminal_def)
          have kind: "restore_kind w6 (ar_job_id att)"
            using begin_restore_kind [OF b'] by (simp add: job_def att_def is_backup_work_def)
          have l6: "launches w6 = launches w" using keepsD [OF journal_launches(1) b'] tablesD(3) [OF t5] by simp
          have ids: "ar_id att = rq_attempt_id req" "ar_job_id att = rq_job_id req"
            "rq_job_id req = rq_job_id req0" "rq_snapshot_id req = rq_snapshot_id req0"
            "rq_destination_dir req = sd_path stage"
            using r1 by (simp_all add: att_def req_def)
          note laws = restore_run_laws [OF rr run kind ids(1,2)]
          let ?r = "req\<lparr>rq_verify_content := True\<rparr>"
          have "\<exists>new. launches w' = launches w @ new \<and>
              (new = [] \<or> (\<exists>r. durable_restore r new \<and> rq_job_id r = rq_job_id req0))"
          proof -
            obtain new where "launches w' = launches w6 @ new" "new = [] \<or> durable_restore ?r new"
              using laws by blast
            moreover have "rq_job_id ?r = rq_job_id req0" using ids(3) by simp
            ultimately show ?thesis using l6 by metis
          qed
          moreover have "\<exists>r eres w0 w1 att. ep_restore E r w0 = ((eres, None), w1) \<and>
              rq_snapshot_id r = rq_snapshot_id req0 \<and> rq_verify_content r \<and> rr_state eres = RestoreVerifying \<and>
              rr_verified_by_engine eres \<and> rr_destination res = rq_destination_dir r \<and>
              ar_job_id att = rq_job_id req0 \<and> recorded w' att PhaseSucceeded (ar_snapshot_id att) JobSucceeded"
            if rdy: "rr_state res = RestoreReady"
          proof -
            obtain w0 eres w1 where e: "ep_restore E ?r w0 = ((eres, None), w1)"
              "rr_state eres = RestoreVerifying" "rr_verified_by_engine eres"
              "rr_destination res = sd_path stage" "recorded w' att PhaseSucceeded (ar_snapshot_id att) JobSucceeded"
              using laws rdy by blast
            show ?thesis
              by (rule exI [of _ ?r], rule exI [of _ eres], rule exI [of _ w0], rule exI [of _ w1],
                  rule exI [of _ att]) (use e ids in simp)
          qed
          ultimately show ?thesis unfolding restore_post_def using laws by blast
        qed
      qed
    qed
  qed
qed

lemma service_restore_post:
  assumes sr: "service_restore sha (svc dir) req0 w = ((res, err), w')"
    and ok: "ledger_ok (jobs w) (attempts w)"
  shows "\<exists>req. (rq_job_id req0 \<noteq> [] \<longrightarrow> req = req0) \<and> rq_snapshot_id req = rq_snapshot_id req0 \<and>
    restore_post req w res w'"
proof (cases "rq_staging_root req0 = [] \<or> rq_snapshot_id req0 = []")
  case True
  then have "w' = w" "rr_state res = RestoreFailed"
    using sr by (auto simp: service_restore_def failed_restore_def)
  with ok have "restore_post req0 w res w'" by (intro restore_post_quiet) simp_all
  then show ?thesis by blast
next
  case False
  obtain req w1 where i: "(if rq_job_id req0 = []
      then (case hp_new_id H w of (i, w1) \<Rightarrow> (req0\<lparr>rq_job_id := i\<rparr>, w1)) else (req0, w)) = (req, w1)"
    by (metis surj_pair)
  have t1: "tables w1 = tables w" using i host(3) by (auto split: if_splits prod.splits)
  have req: "rq_job_id req0 \<noteq> [] \<longrightarrow> req = req0" "rq_snapshot_id req = rq_snapshot_id req0"
    using i by (auto split: if_splits prod.splits)
  obtain hash payload where h: "restore_identity_hash sha req = (hash, payload)" by (metis surj_pair)
  obtain g w2 where g: "jp_get_job J (rq_job_id req) w1 = (g, w2)" by (metis surj_pair)
  have t2: "tables w2 = tables w" using tables_get_job [OF g] t1 by simp
  have idem: "restore_post req w res w'"
    if "restore_idempotent (svc dir) j hash wx = ((res, err), w')" "tables wx = tables w"
      "row_find jr_id (rq_job_id req) (jobs w) = Some j" for j wx
    using tables_restore_idempotent [OF that(1)] that(2) ok existing_job [OF that(3)]
    by (intro restore_post_quiet) simp_all
  consider (err) e where "g = Inl e" | (old) j where "g = Inr (Some j)"
    | (busy) "g = Inr None" "hp_active H w2" | (new) "g = Inr None" "\<not> hp_active H w2"
    by (cases g rule: sum_option_cases) auto
  then have "restore_post req w res w'"
  proof cases
    case err
    with sr False i h g have "w' = w2" "rr_state res = RestoreFailed"
      by (auto simp: service_restore_def Let_def failed_restore_def)
    with t2 ok show ?thesis by (intro restore_post_quiet) simp_all
  next
    case old
    then have "restore_idempotent (svc dir) j hash w2 = ((res, err), w')"
      using sr False i h g by (simp add: service_restore_def Let_def)
    then show ?thesis
      using idem t2 tables_get_job [OF g] old tablesD(1) [OF t1] by simp
  next
    case busy
    obtain g3 w3 where g3: "jp_get_job J (rq_job_id req) w2 = (g3, w3)" by (metis surj_pair)
    have t3: "tables w3 = tables w" using tables_get_job [OF g3] t2 by simp
    show ?thesis
    proof (cases "\<exists>j. g3 = Inr (Some j)")
      case True
      then obtain j where j: "g3 = Inr (Some j)" by blast
      then have "restore_idempotent (svc dir) j hash w3 = ((res, err), w')"
        using sr False i h g g3 busy by (simp add: service_restore_def Let_def)
      then show ?thesis using idem t3 tables_get_job [OF g3] j tablesD(1) [OF t2] by simp
    next
      case no: False
      have "w' = w3" "rr_state res = RestoreFailed"
        using sr False i h g g3 busy no
        by (auto simp: service_restore_def Let_def failed_restore_def split: sum.splits option.splits)
      with t3 ok show ?thesis by (intro restore_post_quiet) simp_all
    qed
  next
    case new
    obtain answer w3 where l: "restore_locked (svc dir) req hash payload (hp_set_active H True w2) = (answer, w3)"
      by (metis surj_pair)
    have a: "answer = (res, err)" "w' = hp_set_active H False w3"
      using sr False i h g new l by (simp_all add: service_restore_def Let_def)
    have "restore_post req (hp_set_active H True w2) res w3"
      using restore_locked_post l a(1) ok by (simp add: set_active tablesD [OF t2])
    then show ?thesis
      unfolding restore_post_def recorded_def a(2)
      by (simp add: set_active tablesD [OF t2])
  qed
  with req show ?thesis by blast
qed

end

end
