(* ===== verification/Restic_Args.thy ===== *)
theory Restic_Args
  imports Domain_Backup
begin

text \<open>
  The argument vectors of the engine (\<open>internal/adapters/restic/args.go\<close>): which commands
  exist, what a backup and a restore add, and the checks every vector passes before it is
  run.
\<close>

datatype command_kind = CmdVersion | CmdInit | CmdBackup | CmdSnapshots | CmdLS | CmdRestore
  | CmdCheck | CmdCatConfig | CmdCatSnap | OtherCmd string

record bound_repository =
  bd_location :: string
  bd_options :: "(string \<times> string) list"
  bd_env :: "(string \<times> string \<times> bool) list"
  bd_capabilities :: capabilities
  bd_binary_pins :: "binary_pin list"

definition allowed_commands :: "string list" where
  "allowed_commands = [''version'', ''init'', ''backup'', ''snapshots'', ''ls'', ''restore'', ''check'', ''cat'']"

definition forbidden_commands :: "string list" where
  "forbidden_commands =
     [''forget'', ''prune'', ''repair'', ''unlock'', ''key'', ''rewrite'', ''self-update'', ''copy'',
      ''migrate'', ''mount'', ''dump'', ''recover'', ''options'', ''tag'', ''cache'', ''init-debug'']"

definition newline_chars :: string where "newline_chars = [char_of (10::nat), char_of (13::nat)]"

definition reject_extra :: "string list \<Rightarrow> go_error option" where
  "reject_extra extra =
     (if list_ex (\<lambda>e. contains_any e newline_chars) extra then Some (Sentinel ErrArbitraryFlags) else None)"

definition use_json :: "command_kind \<Rightarrow> string list \<Rightarrow> bool" where
  "use_json kind extra =
     (if kind = CmdVersion then False
      else if kind = CmdBackup \<and> ''--use-fs-snapshot'' \<in> set extra then False else True)"

section \<open>Options\<close>

definition unsafe_program_chars :: string where
  "unsafe_program_chars = map char_of [34, 39, 96, 92, 44, 59, 124, 38, 60, 62, 42, 63, 0, 13, 10, 9, 32 :: nat]"

definition is_ascii_letter :: "char \<Rightarrow> bool" where
  "is_ascii_letter c = (let n = (of_char c :: nat) in 65 \<le> n \<and> n \<le> 90 \<or> 97 \<le> n \<and> n \<le> 122)"

definition base_name :: "string \<Rightarrow> string" where
  "base_name v = (case last_index_char CHR ''/'' v of None \<Rightarrow> v | Some i \<Rightarrow> drop (Suc i) v)"

definition validate_rclone_program :: "string \<Rightarrow> go_error option" where
  "validate_rclone_program v =
     (if contains_any v unsafe_program_chars
      then Some (wrap_msg ErrArbitraryFlags ''rclone.program has an unsafe character'')
      else if length v < 4 \<or> \<not> is_ascii_letter (v ! 0) \<or> v ! 1 \<noteq> CHR '':'' \<or> v ! 2 \<noteq> CHR ''/''
      then Some (wrap_msg ErrArbitraryFlags ''rclone.program must be an absolute forward-slash path'')
      else if count_char CHR '':'' v \<noteq> 1
      then Some (wrap_msg ErrArbitraryFlags ''rclone.program has an unexpected colon'')
      else if list_ex (\<lambda>seg. seg = [] \<or> seg = ''.'' \<or> seg = ''..'') (split_on CHR ''/'' (drop 3 v))
      then Some (wrap_msg ErrArbitraryFlags ''rclone.program path is not normalized'')
      else if \<not> equal_fold (base_name v) ''rclone.exe'' \<and> \<not> equal_fold (base_name v) ''rclone''
      then Some (wrap_msg ErrArbitraryFlags ''rclone.program must name the rclone executable'')
      else None)"

definition validate_option :: "string \<times> string \<Rightarrow> go_error option" where
  "validate_option kv =
     (case kv of (key, val) \<Rightarrow>
      if key = [] \<or> looks_like_flag key then Some (Sentinel ErrArbitraryFlags)
      else if contains_any key (CHR ''='' # newline_chars) \<or> contains_any val newline_chars
      then Some (Sentinel ErrArbitraryFlags)
      else if contains_secret val [] \<or> contains_secret key [] then Some (Sentinel ErrSecretInArguments)
      else if key \<notin> {''rclone.program'', ''rclone.args'', ''rclone.timeout'', ''vss.timeout''}
      then Some (wrap_msg ErrArbitraryFlags (''restic option '' @ key))
      else case (if key = ''rclone.program'' then validate_rclone_program val else None) of
        Some e \<Rightarrow> Some e
      | None \<Rightarrow>
        if key = ''rclone.args'' \<and> (str_contains (to_lower val) ''--rc'' \<or> str_contains (to_lower val) ''password'')
        then Some (Sentinel ErrArbitraryFlags) else None)"

section \<open>The vector\<close>

fun restic_command_in :: "string list \<Rightarrow> string option" where
  "restic_command_in [] = None"
| "restic_command_in (a # as) =
     (if has_prefix a ''-'' then restic_command_in as
      else if a \<in> set allowed_commands then Some a else restic_command_in as)"

definition restic_command :: "string list \<Rightarrow> string" where
  "restic_command args =
     (case restic_command_in args of Some a \<Rightarrow> a
      | None \<Rightarrow> (case args of [] \<Rightarrow> [] | a # _ \<Rightarrow> a))"

definition validate_arg :: "string \<Rightarrow> go_error option" where
  "validate_arg a =
     (let al = to_lower a in
      case find (\<lambda>f. al = f) forbidden_commands of
        Some f \<Rightarrow> Some (wrap_msg ErrForbiddenCommand f)
      | None \<Rightarrow>
        if has_prefix al ''--password'' \<or> al = ''-p'' then Some (Sentinel ErrSecretInArguments)
        else if al = ''--retries'' \<or> has_prefix al ''--retries=''
        then Some (wrap_msg ErrArbitraryFlags ''restic 0.19.1 has no --retries flag'')
        else if str_contains al ''password-command'' then Some (Sentinel ErrArbitraryFlags)
        else if str_contains a ''://'' \<and> str_contains a ''@'' then Some (Sentinel ErrSecretInArguments)
        else None)"

fun first_error :: "('a \<Rightarrow> go_error option) \<Rightarrow> 'a list \<Rightarrow> go_error option" where
  "first_error f [] = None"
| "first_error f (x # xs) = (case f x of Some e \<Rightarrow> Some e | None \<Rightarrow> first_error f xs)"

definition validate_argv :: "string list \<Rightarrow> go_error option" where
  "validate_argv args =
     (if args = [] then Some (Sentinel ErrForbiddenCommand)
      else if restic_command args \<notin> set allowed_commands
      then Some (wrap_msg ErrForbiddenCommand (restic_command args))
      else first_error validate_arg args)"

definition command_words :: "command_kind \<Rightarrow> string list \<Rightarrow> string list \<Rightarrow> string list option" where
  "command_words kind pre extra =
     (case kind of
        CmdVersion \<Rightarrow> Some [''version'']
      | CmdInit \<Rightarrow> Some (pre @ [''init''])
      | CmdBackup \<Rightarrow> Some (pre @ [''backup''] @ extra)
      | CmdSnapshots \<Rightarrow> Some (pre @ [''snapshots''] @ extra)
      | CmdLS \<Rightarrow> Some (pre @ [''ls''] @ extra)
      | CmdRestore \<Rightarrow> Some (pre @ [''restore''] @ extra)
      | CmdCheck \<Rightarrow> Some (pre @ [''check''] @ extra)
      | CmdCatConfig \<Rightarrow> Some (pre @ [''--no-lock'', ''cat'', ''config''])
      | CmdCatSnap \<Rightarrow> Some (pre @ [''cat'', ''snapshot''] @ extra)
      | OtherCmd _ \<Rightarrow> None)"

definition build_args :: "command_kind \<Rightarrow> bound_repository \<Rightarrow> string list \<Rightarrow> go_error + string list" where
  "build_args kind bound extra =
     (case reject_extra extra of Some e \<Rightarrow> Inl e
      | None \<Rightarrow>
        (let pre0 = (if use_json kind extra then [''--json''] else []);
             pre1 = pre0 @ (if bd_location bound \<noteq> [] \<and> kind \<noteq> CmdVersion
                            then [''--repo'', bd_location bound] else []) in
         case first_error validate_option (bd_options bound) of Some e \<Rightarrow> Inl e
         | None \<Rightarrow>
           (let pre = pre1 @ concat (map (\<lambda>(k, v). [''-o'', k @ ''='' @ v]) (bd_options bound)) in
            case command_words kind pre extra of None \<Rightarrow> Inl (Sentinel ErrForbiddenCommand)
            | Some args \<Rightarrow>
              (case validate_argv args of Some e \<Rightarrow> Inl e | None \<Rightarrow> Inr args))))"

section \<open>What a backup and a restore add\<close>

definition limit_args :: "string \<Rightarrow> backend_kind \<Rightarrow> int \<Rightarrow> go_error + string list" where
  "limit_args flag kind kibps =
     (if requires_wan_rate_limit kind then
        (case validate_restic_kibps kibps of Some e \<Rightarrow> Inl e | None \<Rightarrow> Inr [flag, show_int kibps])
      else if kibps < 0 \<or> kibps > max_restic_kibps then Inl (wrap_msg ErrPolicyInvalid ''bandwidth'')
      else Inr (if kibps > 0 then [flag, show_int kibps] else []))"

definition apply_upload_limit :: "backend_kind \<Rightarrow> int \<Rightarrow> go_error + string list" where
  "apply_upload_limit = limit_args ''--limit-upload''"

definition apply_download_limit :: "backend_kind \<Rightarrow> int \<Rightarrow> go_error + string list" where
  "apply_download_limit = limit_args ''--limit-download''"

definition exclude_args :: "string list \<Rightarrow> go_error + string list" where
  "exclude_args exs =
     (if list_ex (\<lambda>e. looks_like_flag e \<or> contains_any e newline_chars) exs
      then Inl (Sentinel ErrArbitraryFlags)
      else Inr (concat (map (\<lambda>e. [''--exclude'', e]) exs)))"

definition root_args :: "string list \<Rightarrow> go_error + string list" where
  "root_args roots =
     (if list_ex (\<lambda>r. looks_like_flag r \<or> r = [] \<or> contains_any r newline_chars) roots
      then Inl (Sentinel ErrArbitraryFlags) else Inr roots)"

definition tag_args :: "backup_request \<Rightarrow> string list" where
  "tag_args req =
     [''--tag'', ''stowline''] @
     (if bq_job_id req \<noteq> [] then [''--tag'', ''job:'' @ bq_job_id req] else []) @
     (if bq_attempt_id req \<noteq> [] then [''--tag'', ''attempt:'' @ bq_attempt_id req] else []) @
     (if bq_attempt_class req = AttemptQualification then
        [''--tag'', ''class:QUALIFICATION_BACKUP''] @
        (if bq_qualification_run_id req \<noteq> [] then [''--tag'', ''qual:'' @ bq_qualification_run_id req] else [])
      else [])"

definition backup_extras :: "backup_request \<Rightarrow> go_error + string list" where
  "backup_extras req =
     (let vss = (if bq_vss_mode req = VSSRequired then [''--use-fs-snapshot''] else []);
          host = (if bq_host req = [] then bq_device_id req else bq_host req) in
      if host \<noteq> [] \<and> looks_like_flag host then Inl (Sentinel ErrArbitraryFlags)
      else case apply_upload_limit (rd_backend_kind (bq_repository req)) (bq_bandwidth_kibps req) of
        Inl e \<Rightarrow> Inl e
      | Inr limit \<Rightarrow>
        (case exclude_args (bq_excludes req) of Inl e \<Rightarrow> Inl e
         | Inr excludes \<Rightarrow>
           (case root_args (bq_source_roots req) of Inl e \<Rightarrow> Inl e
            | Inr roots \<Rightarrow>
              Inr (vss @ (if host \<noteq> [] then [''--host'', host] else []) @ tag_args req @ limit @
                   excludes @ [''--''] @ roots))))"

definition include_args :: "string list \<Rightarrow> go_error + string list" where
  "include_args sels =
     (if list_ex (\<lambda>s. looks_like_flag s \<or> contains_any s newline_chars) sels
      then Inl (Sentinel ErrArbitraryFlags)
      else Inr (concat (map (\<lambda>s. if s = [] then [] else [''--include'', s]) sels)))"

definition restore_extras :: "restore_request \<Rightarrow> go_error + string list" where
  "restore_extras req =
     (if length (rq_snapshot_id req) \<noteq> 64 then Inl (wrap_msg ErrArbitraryFlags ''snapshot id'')
      else
        (let limit = (if rq_download_kibps req = 0 then rq_bandwidth_kibps req else rq_download_kibps req) in
         case apply_download_limit (rd_backend_kind (rq_repository req)) limit of Inl e \<Rightarrow> Inl e
         | Inr limit_words \<Rightarrow>
           (case include_args (rq_selections req) of Inl e \<Rightarrow> Inl e
            | Inr includes \<Rightarrow>
              Inr ([rq_snapshot_id req, ''--target'', rq_destination_dir req] @
                   (if rq_verify_content req then [''--verify''] else []) @ limit_words @ includes))))"

section \<open>Facts\<close>

lemma first_error_None: "first_error f xs = None \<longleftrightarrow> (\<forall>x\<in>set xs. f x = None)"
  by (induction xs) (auto split: option.splits)

lemma build_args_Inr:
  assumes "build_args kind bound extra = Inr args"
  shows "validate_argv args = None" "\<forall>kv\<in>set (bd_options bound). validate_option kv = None"
    "\<forall>e\<in>set extra. \<not> contains_any e newline_chars"
  using assms by (auto simp: build_args_def Let_def reject_extra_def list_ex_iff first_error_None
      split: option.splits if_splits)

lemma validate_argv_None:
  assumes "validate_argv args = None"
  shows "restic_command args \<in> set allowed_commands"
    "\<And>a. a \<in> set args \<Longrightarrow> to_lower a \<notin> set forbidden_commands"
    "\<And>a. a \<in> set args \<Longrightarrow> \<not> has_prefix (to_lower a) ''--password'' \<and> to_lower a \<noteq> ''-p''"
    "\<And>a. a \<in> set args \<Longrightarrow> \<not> (str_contains a ''://'' \<and> str_contains a ''@'')"
    "\<And>a. a \<in> set args \<Longrightarrow> \<not> str_contains (to_lower a) ''password-command''"
proof -
  have f: "validate_arg a = None" if "a \<in> set args" for a
    using assms that by (auto simp: validate_argv_def first_error_None split: if_splits)
  show "restic_command args \<in> set allowed_commands"
    using assms by (auto simp: validate_argv_def split: if_splits)
  fix a assume "a \<in> set args"
  note fa = f [OF this, unfolded validate_arg_def Let_def]
  have n: "find (\<lambda>f. to_lower a = f) forbidden_commands = None" using fa by (auto split: option.splits)
  then show "to_lower a \<notin> set forbidden_commands" by (auto simp: find_None_iff)
  show "\<not> has_prefix (to_lower a) ''--password'' \<and> to_lower a \<noteq> ''-p''"
    "\<not> (str_contains a ''://'' \<and> str_contains a ''@'')"
    "\<not> str_contains (to_lower a) ''password-command''"
    using fa n by (auto split: if_splits)
qed

end
