(* ===== verification/Restic_Adapter.thy ===== *)
theory Restic_Adapter
  imports Restic_Args Ports
begin

text \<open>
  The Restic adapter (\<open>internal/adapters/restic/adapter.go\<close>, \<open>exit.go\<close>): how one engine
  process becomes a backup or restore result. The process runner, the connector, the secret
  providers and the clock are ports; the readers of the engine's text output
  (\<open>parse.go\<close>, \<open>vssparse.go\<close>) are parameters of the adapter.
\<close>

section \<open>Exit codes (exit.go)\<close>

record classified_exit =
  ce_code :: int
  ce_known :: bool
  ce_partial :: bool
  ce_ok :: bool
  ce_class :: error_class
  ce_fatal :: bool

definition classify_exit :: "int \<Rightarrow> classified_exit" where
  "classify_exit code =
     (let fatal = (\<lambda>c known. \<lparr>ce_code = code, ce_known = known, ce_partial = False, ce_ok = False,
                              ce_class = c, ce_fatal = True\<rparr>) in
      if code = 0 then \<lparr>ce_code = code, ce_known = True, ce_partial = False, ce_ok = True,
                        ce_class = NoErrorClass, ce_fatal = False\<rparr>
      else if code = 3 then \<lparr>ce_code = code, ce_known = True, ce_partial = True, ce_ok = False,
                             ce_class = ErrorSourceUnreadable, ce_fatal = False\<rparr>
      else if code = 1 then fatal ErrorInternal True
      else if code = 2 then fatal ErrorEngineCrash True
      else if code = 10 then fatal ErrorConfig True
      else if code = 11 then fatal ErrorRepositoryLocked True
      else if code = 12 then fatal ErrorAuth True
      else if code = 130 then fatal ErrorCancelled True
      else fatal ErrorInternal False)"

section \<open>Ports\<close>

record process_result =
  ps_exit_code :: int
  ps_timed_out :: bool
  ps_cancelled :: bool
  ps_stdout :: string
  ps_stderr :: string
  ps_stdout_truncated :: bool
  ps_stderr_truncated :: bool

text \<open>A runner returns an error alone, or a result with or without an error.\<close>

datatype run_outcome = RunError go_error | RunDone process_result "go_error option"

record output_readers =
  or_summary :: "string \<Rightarrow> backup_summary"
  or_evidence :: "string \<Rightarrow> string \<Rightarrow> bool \<Rightarrow> vss_mode \<Rightarrow> string list \<Rightarrow> string \<Rightarrow> vss_evidence"
  or_snapshots :: "string \<Rightarrow> go_error + snapshot list"
  or_repo_config :: "string \<Rightarrow> go_error + string"
  or_diag :: "process_result \<Rightarrow> string"

text \<open>The boolean of \<open>ap_run\<close> says whether the stall watch stopped the run.\<close>

record 'w adapter =
  ap_now :: "'w \<Rightarrow> time \<times> 'w"
  ap_ctx_err :: "'w \<Rightarrow> go_error option \<times> 'w"
  ap_connector_bind :: "repository_descriptor \<Rightarrow> 'w \<Rightarrow> (go_error + bound_repository) \<times> 'w"
  ap_open_password :: "secret_ref \<Rightarrow> 'w \<Rightarrow> (go_error + string) \<times> 'w"
  ap_open_ref :: "secret_ref \<Rightarrow> 'w \<Rightarrow> (go_error + string) \<times> 'w"
  ap_child_env :: "(string \<times> string \<times> bool) list \<Rightarrow> go_error + (string \<times> string \<times> bool) list"
  ap_run :: "command_kind \<Rightarrow> string list \<Rightarrow> (string \<times> string \<times> bool) list \<Rightarrow> duration \<Rightarrow> 'w \<Rightarrow>
      (run_outcome \<times> bool) \<times> 'w"
  ap_stall_timeout :: duration
  ap_readers :: output_readers

section \<open>Running the engine\<close>

definition secret_env :: "'w adapter \<Rightarrow> string \<Rightarrow> bool \<Rightarrow> secret_ref option \<Rightarrow> 'w \<Rightarrow>
    (go_error + (string \<times> string \<times> bool) list) \<times> 'w" where
  "secret_env A name secret ref w =
     (case ref of None \<Rightarrow> (Inr [], w)
      | Some r \<Rightarrow> (case ap_open_ref A r w of (Inl e, w1) \<Rightarrow> (Inl e, w1)
                   | (Inr v, w1) \<Rightarrow> (Inr [(name, v, secret)], w1)))"

definition adapter_bind :: "'w adapter \<Rightarrow> repository_descriptor \<Rightarrow> secret_ref \<Rightarrow> 'w \<Rightarrow>
    (go_error + bound_repository \<times> (string \<times> string \<times> bool) list) \<times> 'w" where
  "adapter_bind A repo password w =
     (case repository_validate repo of Some e \<Rightarrow> (Inl e, w)
      | None \<Rightarrow>
        (case ap_connector_bind A repo w of (Inl e, w1) \<Rightarrow> (Inl e, w1)
         | (Inr bound, w1) \<Rightarrow>
           (case ap_open_password A password w1 of (Inl e, w2) \<Rightarrow> (Inl e, w2)
            | (Inr pw, w2) \<Rightarrow>
              (let rest = rd_backend_kind repo = BackendRESTGateway;
                   rclone = rd_backend_kind repo = BackendPilotRcloneDrive
                            \<or> rd_backend_kind repo = BackendPilotRcloneLocal;
                   refs = map_of (rd_credential_refs repo) in
               case secret_env A ''RESTIC_REST_USERNAME'' False
                      (if rest then refs ''restic-rest-username'' else None) w2 of
                 (Inl e, w3) \<Rightarrow> (Inl e, w3)
               | (Inr e1, w3) \<Rightarrow>
                 (case secret_env A ''RESTIC_REST_PASSWORD'' True
                         (if rest then refs ''restic-rest-password'' else None) w3 of
                    (Inl e, w4) \<Rightarrow> (Inl e, w4)
                  | (Inr e2, w4) \<Rightarrow>
                    (case secret_env A ''RCLONE_CONFIG_PASS'' True
                            (if rclone then refs ''rclone-config-password'' else None) w4 of
                       (Inl e, w5) \<Rightarrow> (Inl e, w5)
                     | (Inr e3, w5) \<Rightarrow>
                       (Inr (bound, [(''RESTIC_PASSWORD'', pw, True)] @ bd_env bound @ e1 @ e2 @ e3), w5)))))))"

definition run_observed :: "'w adapter \<Rightarrow> command_kind \<Rightarrow> bound_repository \<Rightarrow>
    (string \<times> string \<times> bool) list \<Rightarrow> string list \<Rightarrow> duration \<Rightarrow> 'w \<Rightarrow> (run_outcome \<times> bool) \<times> 'w" where
  "run_observed A kind bound env extra timeout w =
     (case build_args kind bound extra of Inl e \<Rightarrow> ((RunError e, False), w)
      | Inr args \<Rightarrow>
        (case ap_child_env A env of Inl e \<Rightarrow> ((RunError e, False), w)
         | Inr restricted \<Rightarrow> ap_run A kind args restricted timeout w))"

definition engine_output :: "process_result \<Rightarrow> string" where
  "engine_output r = (if ps_stderr r = [] then ps_stdout r
     else if ps_stdout r = [] then ps_stderr r
     else ps_stderr r @ [char_of (10::nat)] @ ps_stdout r)"

definition no_bound :: bound_repository where
  "no_bound = \<lparr>bd_location = [], bd_options = [], bd_env = [], bd_capabilities = no_capabilities,
     bd_binary_pins = []\<rparr>"

text \<open>A command that only reads: its output, or the error of the run.\<close>

definition run_simple :: "'w adapter \<Rightarrow> command_kind \<Rightarrow> bound_repository \<Rightarrow>
    (string \<times> string \<times> bool) list \<Rightarrow> string list \<Rightarrow> duration \<Rightarrow> 'w \<Rightarrow> (go_error + process_result) \<times> 'w" where
  "run_simple A kind bound env extra timeout w =
     (case run_observed A kind bound env extra timeout w of
        ((RunError e, _), w1) \<Rightarrow> (Inl e, w1)
      | ((RunDone r (Some e), _), w1) \<Rightarrow> (Inl e, w1)
      | ((RunDone r None, _), w1) \<Rightarrow> (Inr r, w1))"

definition adapter_version :: "'w adapter \<Rightarrow> 'w \<Rightarrow> (go_error + string) \<times> 'w" where
  "adapter_version A w =
     (case run_simple A CmdVersion no_bound [] [] (30 * second_ns) w of
        (Inl e, w1) \<Rightarrow> (Inl e, w1)
      | (Inr r, w1) \<Rightarrow>
          (Inr (trim_space (hd (split_on (char_of (10::nat)) (trim_space (ps_stdout r @ ps_stderr r))))), w1))"

definition adapter_fail :: "'w adapter \<Rightarrow> process_result \<Rightarrow> classified_exit \<Rightarrow> string \<Rightarrow> go_error" where
  "adapter_fail A r cl op =
     (let msg = or_diag (ap_readers A) r; code = show_int (ps_exit_code r) in
      if ce_class cl = ErrorAuth then wrap_msg ErrAuth (op @ '' (exit '' @ code @ ''): '' @ msg)
      else if \<not> ce_known cl then wrap_msg ErrUnknownExitCode (op @ '': '' @ msg)
      else PlainError (op @ '' failed (exit '' @ code @ ''): '' @ msg))"

definition adapter_snapshots :: "'w adapter \<Rightarrow> repository_descriptor \<Rightarrow> secret_ref \<Rightarrow> 'w \<Rightarrow>
    (go_error + snapshot list) \<times> 'w" where
  "adapter_snapshots A repo password w =
     (case adapter_bind A repo password w of (Inl e, w1) \<Rightarrow> (Inl e, w1)
      | (Inr (bound, env), w1) \<Rightarrow>
        (case run_simple A CmdSnapshots bound env [] (10 * minute_ns) w1 of (Inl e, w2) \<Rightarrow> (Inl e, w2)
         | (Inr r, w2) \<Rightarrow>
           (let cl = classify_exit (ps_exit_code r) in
            if \<not> ce_ok cl then (Inl (adapter_fail A r cl ''snapshots''), w2)
            else (or_snapshots (ap_readers A) (ps_stdout r), w2))))"

definition is_hex_id :: "string \<Rightarrow> bool" where
  "is_hex_id s \<longleftrightarrow> s \<noteq> [] \<and> list_all is_lower_hex s"

text \<open>The one snapshot whose id starts with the given one; none where two match.\<close>

definition match_snapshot :: "snapshot list \<Rightarrow> string \<Rightarrow> snapshot option" where
  "match_snapshot snaps i =
     (let want = to_lower (trim_space i) in
      if length want < 8 \<or> length want > 64 \<or> \<not> is_hex_id want then None
      else case filter (\<lambda>s. has_prefix (to_lower (sn_id s)) want) snaps of
             [hit] \<Rightarrow> if snapshot_id_looks_plausible (sn_id hit) then Some hit else None
           | _ \<Rightarrow> None)"

definition adapter_read_snapshot :: "'w adapter \<Rightarrow> repository_descriptor \<Rightarrow> secret_ref \<Rightarrow> string \<Rightarrow> 'w \<Rightarrow>
    (go_error + snapshot option) \<times> 'w" where
  "adapter_read_snapshot A repo password i w =
     (case adapter_snapshots A repo password w of (Inl e, w1) \<Rightarrow> (Inl e, w1)
      | (Inr snaps, w1) \<Rightarrow>
        (case match_snapshot snaps i of Some s \<Rightarrow> (Inr (Some s), w1)
         | None \<Rightarrow> (Inl (Sentinel ErrSnapshotReadback), w1)))"

text \<open>\<open>CatConfig\<close> returns an id also with the error of a wrong binding.\<close>

definition adapter_cat_config :: "'w adapter \<Rightarrow> repository_descriptor \<Rightarrow> secret_ref \<Rightarrow> 'w \<Rightarrow>
    (string \<times> go_error option) \<times> 'w" where
  "adapter_cat_config A repo password w =
     (case adapter_bind A repo password w of (Inl e, w1) \<Rightarrow> (([], Some e), w1)
      | (Inr (bound, env), w1) \<Rightarrow>
        (case run_simple A CmdCatConfig bound env [] (10 * minute_ns) w1 of (Inl e, w2) \<Rightarrow> (([], Some e), w2)
         | (Inr r, w2) \<Rightarrow>
           (let cl = classify_exit (ps_exit_code r); want = rd_expected_repo_id repo in
            if \<not> ce_ok cl then (([], Some (adapter_fail A r cl ''cat config'')), w2)
            else case or_repo_config (ap_readers A) (ps_stdout r) of
              Inl e \<Rightarrow> (([], Some (Wrapped ''parse repo config: '' e [])), w2)
            | Inr i \<Rightarrow>
              if want \<noteq> [] \<and> \<not> equal_fold i want
              then ((i, Some (wrap_msg ErrRepositoryBinding (''got '' @ i @ '' want '' @ want))), w2)
              else ((i, None), w2))))"

definition adapter_init :: "'w adapter \<Rightarrow> repository_descriptor \<Rightarrow> secret_ref \<Rightarrow> 'w \<Rightarrow>
    (string \<times> go_error option) \<times> 'w" where
  "adapter_init A repo password w =
     (case adapter_bind A repo password w of (Inl e, w1) \<Rightarrow> (([], Some e), w1)
      | (Inr (bound, env), w1) \<Rightarrow>
        (case run_simple A CmdInit bound env [] (10 * minute_ns) w1 of (Inl e, w2) \<Rightarrow> (([], Some e), w2)
         | (Inr r, w2) \<Rightarrow>
           (let cl = classify_exit (ps_exit_code r) in
            if \<not> ce_ok cl then (([], Some (adapter_fail A r cl ''init'')), w2)
            else adapter_cat_config A repo password w2)))"

section \<open>Backup\<close>

definition config_failure :: "backup_result \<Rightarrow> go_error \<Rightarrow> backup_result \<times> go_error option" where
  "config_failure out e = (out\<lparr>br_error_class := ErrorConfig, br_error_message := error_text e\<rparr>, Some e)"

text \<open>A run that was cancelled or ran out of time: what it published is kept, never as a success.\<close>

definition backup_interrupted :: "'w adapter \<Rightarrow> backup_request \<Rightarrow> backup_result \<Rightarrow> process_result \<Rightarrow> 'w \<Rightarrow>
    (backup_result \<times> go_error option) \<times> 'w" where
  "backup_interrupted A req out r w =
     (let sum = or_summary (ap_readers A) (engine_output r);
          out1 = out\<lparr>br_summary := sum, br_exit_code := ps_exit_code r, br_exit_known := True,
                     br_error_class := ErrorCancelled\<rparr> in
      if bs_snapshot_id sum \<noteq> [] then
        (case adapter_read_snapshot A (bq_repository req) (bq_password_ref req) (bs_snapshot_id sum) w of
           (snap, w1) \<Rightarrow>
           let found = (case snap of Inr (Some s) \<Rightarrow> Some s | _ \<Rightarrow> None);
               out2 = out1\<lparr>br_snapshot_id := bs_snapshot_id sum, br_readback_ok := found \<noteq> None\<rparr>;
               out3 = (case found of Some s \<Rightarrow> out2\<lparr>br_snapshot_id := sn_id s,
                          br_summary := sum\<lparr>bs_snapshot_id := sn_id s\<rparr>\<rparr> | None \<Rightarrow> out2)
           in ((out3\<lparr>br_outcome := PhasePartial, br_published_not_green := True,
                     br_error_message := ''process interrupted after snapshot publish''\<rparr>, None), w1))
      else ((out1\<lparr>br_outcome := PhaseCancelled,
               br_error_message := (if ps_timed_out r then ''process deadline exceeded'' else ''process cancelled'')\<rparr>,
             None), w))"

definition vss_privilege_error :: "string \<Rightarrow> bool" where
  "vss_privilege_error combined =
     (let low = to_lower combined
      in str_contains low ''insufficient backup privileges'' \<or> str_contains low ''e_accessdenied'')"

text \<open>A published snapshot: read back, bound to the expected repository, consistent, complete.\<close>

definition backup_published :: "'w adapter \<Rightarrow> backup_request \<Rightarrow> classified_exit \<Rightarrow> backup_result \<Rightarrow> 'w \<Rightarrow>
    (backup_result \<times> go_error option) \<times> 'w" where
  "backup_published A req cl out w =
     (let repo = bq_repository req; pw = bq_password_ref req in
      case adapter_read_snapshot A repo pw (br_snapshot_id out) w of
        (Inr (Some snap), w1) \<Rightarrow>
          (let out1 = out\<lparr>br_readback_ok := True, br_snapshot_id := sn_id snap,
                 br_summary := (br_summary out)\<lparr>bs_snapshot_id := sn_id snap\<rparr>\<rparr>;
               judge = (\<lambda>o1. if bq_vss_mode req = VSSRequired \<and> br_consistency o1 \<noteq> ConsistencyVerified then
                   o1\<lparr>br_outcome := PhasePartial, br_error_class := ErrorConsistencyNotMet,
                      br_error_message := sentinel_text ErrConsistencyNotMet, br_published_not_green := True\<rparr>
                 else if ce_partial cl then
                   o1\<lparr>br_outcome := PhasePartial, br_error_class := ErrorSourceUnreadable,
                      br_error_message := sentinel_text ErrPartialNotSuccess, br_published_not_green := True\<rparr>
                 else o1\<lparr>br_outcome := PhaseSucceeded, br_required_roots_ok := True, br_cleanup_ok := True\<rparr>) in
           if rd_expected_repo_id repo = [] then ((judge out1, None), w1)
           else case adapter_cat_config A repo pw w1 of ((i, err), w2) \<Rightarrow>
             if err \<noteq> None \<or> \<not> equal_fold i (rd_expected_repo_id repo) then
               ((out1\<lparr>br_outcome := PhaseFailed, br_error_class := ErrorIntegrity,
                   br_error_message := sentinel_text ErrRepositoryBinding, br_repository_id := i\<rparr>, None), w2)
             else ((judge (out1\<lparr>br_repository_id := i\<rparr>), None), w2))
      | (_, w1) \<Rightarrow>
          ((out\<lparr>br_readback_ok := False, br_outcome := PhaseFailed, br_error_class := ErrorIntegrity,
               br_error_message := sentinel_text ErrSnapshotReadback, br_published_not_green := True\<rparr>, None), w1))"

definition backup_exited :: "'w adapter \<Rightarrow> backup_request \<Rightarrow> backup_result \<Rightarrow> process_result \<Rightarrow> 'w \<Rightarrow>
    (backup_result \<times> go_error option) \<times> 'w" where
  "backup_exited A req out0 r w =
     (let R = ap_readers A; combined = engine_output r; cl0 = classify_exit (ps_exit_code r);
          vss = vss_privilege_error combined;
          cl = (if vss then cl0\<lparr>ce_class := ErrorVSS\<rparr> else cl0);
          sum = or_summary R combined;
          out1 = out0\<lparr>br_exit_code := ps_exit_code r, br_exit_known := ce_known cl,
                  br_error_class := (if vss then ErrorVSS else br_error_class out0), br_summary := sum,
                  br_snapshot_id := (if bs_snapshot_id sum \<noteq> [] then bs_snapshot_id sum else br_snapshot_id out0)\<rparr> in
      case adapter_version A w of (ver, w1) \<Rightarrow>
      let evidence = or_evidence R (ps_stdout r) (ps_stderr r) (ps_stdout_truncated r \<or> ps_stderr_truncated r)
                       (bq_vss_mode req) (bq_source_roots req) (case ver of Inr v \<Rightarrow> v | Inl _ \<Rightarrow> []);
          out = out1\<lparr>br_vss := evidence, br_consistency := vss_class evidence\<rparr> in
      if \<not> ce_known cl then
        ((out\<lparr>br_outcome := PhaseFailed, br_error_class := ErrorInternal,
             br_error_message := sentinel_text ErrUnknownExitCode\<rparr>, Some (Sentinel ErrUnknownExitCode)), w1)
      else if ce_fatal cl \<and> \<not> ce_partial cl then
        ((out\<lparr>br_outcome := PhaseFailed, br_error_class := ce_class cl, br_error_message := or_diag R r,
             br_published_not_green := (br_published_not_green out \<or> br_snapshot_id out \<noteq> [])\<rparr>, None), w1)
      else if br_snapshot_id out = [] then
        ((out\<lparr>br_outcome := PhaseFailed, br_error_class := ErrorIntegrity,
             br_error_message := sentinel_text ErrMissingSnapshotID\<rparr>, None), w1)
      else backup_published A req cl out w1)"

text \<open>What the outcome of the run becomes.\<close>

definition stall_timeout :: "'w adapter \<Rightarrow> duration" where
  "stall_timeout A = (if ap_stall_timeout A > 0 then ap_stall_timeout A else 20 * minute_ns)"

definition stall_message :: "duration \<Rightarrow> string" where
  "stall_message d = ''no backup progress for '' @ duration_text d @
     '' (internet connection likely lost); stopped so the next attempt starts fresh''"

definition backup_ran :: "'w adapter \<Rightarrow> backup_request \<Rightarrow> backup_result \<Rightarrow> run_outcome \<Rightarrow> bool \<Rightarrow> 'w \<Rightarrow>
    (backup_result \<times> go_error option) \<times> 'w" where
  "backup_ran A req out run stalled w =
     (let res = (case run of RunError _ \<Rightarrow> None | RunDone r _ \<Rightarrow> Some r);
          published = (case res of None \<Rightarrow> bs_snapshot_id (or_summary (ap_readers A) [])
                       | Some r \<Rightarrow> bs_snapshot_id (or_summary (ap_readers A) (engine_output r)));
          stopped = (case res of None \<Rightarrow> True | Some r \<Rightarrow> ps_cancelled r) in
      if stalled \<and> stopped \<and> published = [] then
        (let out1 = out\<lparr>br_error_class := ErrorNetwork, br_error_message := stall_message (stall_timeout A)\<rparr>
         in ((case res of None \<Rightarrow> out1
              | Some r \<Rightarrow> out1\<lparr>br_exit_code := ps_exit_code r, br_exit_known := True\<rparr>, None), w))
      else case run of
        RunError e \<Rightarrow>
          ((out\<lparr>br_error_class := ErrorInternal, br_error_message := error_text e\<rparr>, Some e), w)
      | RunDone r _ \<Rightarrow>
          if ps_cancelled r \<or> ps_timed_out r then backup_interrupted A req out r w
          else backup_exited A req out r w)"

definition adapter_backup :: "'w adapter \<Rightarrow> backup_request \<Rightarrow> 'w \<Rightarrow>
    (backup_result \<times> go_error option) \<times> 'w" where
  "adapter_backup A req w =
     (case ap_now A w of (started, w1) \<Rightarrow>
      let out = zero_result\<lparr>br_outcome := PhaseFailed, br_started_at := started\<rparr> in
      case backup_validate req of Some e \<Rightarrow> (config_failure out e, w1)
      | None \<Rightarrow>
        (case adapter_bind A (bq_repository req) (bq_password_ref req) w1 of
           (Inl e, w2) \<Rightarrow> (config_failure out e, w2)
         | (Inr (bound, env), w2) \<Rightarrow>
           (case backup_extras req of Inl e \<Rightarrow> (config_failure out e, w2)
            | Inr extra \<Rightarrow>
              (case ap_now A w2 of (now, w3) \<Rightarrow>
               let left = time_sub (bq_deadline req) now;
                   timeout = (if left \<le> 0 then 8 * hour_ns else left) in
               case run_observed A CmdBackup bound (env @ [(''RESTIC_PROGRESS_FPS'', ''0.5'', False)])
                      extra timeout w3 of ((run, stalled), w4) \<Rightarrow>
               case ap_now A w4 of (ended, w5) \<Rightarrow>
               backup_ran A req (out\<lparr>br_ended_at := ended, br_duration := time_sub ended started\<rparr>)
                 run stalled w5))))"

section \<open>Restore\<close>

definition adapter_restore :: "'w adapter \<Rightarrow> restore_request \<Rightarrow> 'w \<Rightarrow>
    (restore_result \<times> go_error option) \<times> 'w" where
  "adapter_restore A req w =
     (case ap_now A w of (started, w1) \<Rightarrow>
      let out = zero_restore_result\<lparr>rr_state := RestoreFailed\<rparr>;
          config = (\<lambda>e. (out\<lparr>rr_error_class := ErrorConfig, rr_error_message := error_text e\<rparr>, Some e)) in
      case restore_validate req of Some e \<Rightarrow> (config e, w1)
      | None \<Rightarrow>
        (case adapter_bind A (rq_repository req) (rq_password_ref req) w1 of
           (Inl e, w2) \<Rightarrow> (config e, w2)
         | (Inr (bound, env), w2) \<Rightarrow>
           (case restore_extras req of Inl e \<Rightarrow> (config e, w2)
            | Inr extra \<Rightarrow>
              (case ap_now A w2 of (now, w3) \<Rightarrow>
               let left = time_sub (rq_deadline req) now;
                   timeout = (if left \<le> 0 then 8 * hour_ns else left) in
               case run_observed A CmdRestore bound env extra timeout w3 of ((run, _), w4) \<Rightarrow>
               case ap_now A w4 of (ended, w5) \<Rightarrow>
               let out1 = out\<lparr>rr_duration := time_sub ended started\<rparr> in
               case run of
                 RunError e \<Rightarrow>
                   ((out1\<lparr>rr_error_message := error_text e, rr_error_class := ErrorInternal\<rparr>, Some e), w5)
               | RunDone r _ \<Rightarrow>
                 (case (if ps_cancelled r \<or> ps_timed_out r then (True, w5)
                        else case ap_ctx_err A w5 of (c, w6) \<Rightarrow> (c \<noteq> None, w6)) of (stopped, w6) \<Rightarrow>
                  if stopped then
                    ((out1\<lparr>rr_state := RestoreCancelled, rr_error_class := ErrorCancelled\<rparr>, None), w6)
                  else
                    (let cl = classify_exit (ps_exit_code r);
                         out2 = out1\<lparr>rr_exit_code := ps_exit_code r\<rparr> in
                     if ce_ok cl then
                       ((out2\<lparr>rr_verified_by_engine := rq_verify_content req, rr_state := RestoreVerifying,
                             rr_destination := rq_destination_dir req\<rparr>, None), w6)
                     else if \<not> ce_known cl then
                       ((out2\<lparr>rr_error_class := ErrorInternal,
                             rr_error_message := sentinel_text ErrUnknownExitCode\<rparr>,
                         Some (Sentinel ErrUnknownExitCode)), w6)
                     else ((out2\<lparr>rr_error_class := ce_class cl,
                              rr_error_message := or_diag (ap_readers A) r\<rparr>, None), w6)))))))"

section \<open>Facts\<close>

lemma classify_exit_ok: "ce_ok (classify_exit c) \<longleftrightarrow> c = 0"
  by (simp add: classify_exit_def Let_def)

lemma classify_exit_success:
  "ce_known (classify_exit c) \<Longrightarrow> \<not> (ce_fatal (classify_exit c) \<and> \<not> ce_partial (classify_exit c)) \<Longrightarrow>
     \<not> ce_partial (classify_exit c) \<Longrightarrow> c = 0"
  by (simp add: classify_exit_def Let_def split: if_splits)

lemma match_snapshot_Some:
  assumes "match_snapshot snaps i = Some s"
  shows "s \<in> set snaps" "snapshot_id_looks_plausible (sn_id s)" "has_prefix (to_lower (sn_id s)) (to_lower (trim_space i))"
    "\<And>t. t \<in> set snaps \<Longrightarrow> has_prefix (to_lower (sn_id t)) (to_lower (trim_space i)) \<Longrightarrow> t = s"
proof -
  have f: "filter (\<lambda>s. has_prefix (to_lower (sn_id s)) (to_lower (trim_space i))) snaps = [s]"
    and p: "snapshot_id_looks_plausible (sn_id s)"
    using assms by (auto simp: match_snapshot_def Let_def split: if_splits list.splits)
  have "s \<in> set (filter (\<lambda>s. has_prefix (to_lower (sn_id s)) (to_lower (trim_space i))) snaps)"
    unfolding f by simp
  then show "s \<in> set snaps" "has_prefix (to_lower (sn_id s)) (to_lower (trim_space i))" by simp_all
  show "snapshot_id_looks_plausible (sn_id s)" by (rule p)
  fix t assume "t \<in> set snaps" "has_prefix (to_lower (sn_id t)) (to_lower (trim_space i))"
  then have "t \<in> set (filter (\<lambda>s. has_prefix (to_lower (sn_id s)) (to_lower (trim_space i))) snaps)" by simp
  then show "t = s" unfolding f by simp
qed

lemma interrupted_outcome:
  "backup_interrupted A req out r w = ((res, err), w') \<Longrightarrow> br_outcome res \<in> {PhasePartial, PhaseCancelled}"
  by (auto simp: backup_interrupted_def Let_def split: prod.splits if_splits)

lemma published_outcome:
  assumes "backup_published A req cl out w = ((res, err), w')"
  shows "br_outcome res \<in> {PhaseFailed, PhasePartial, PhaseSucceeded}"
    "br_outcome res = PhaseSucceeded \<Longrightarrow>
       err = None \<and> \<not> ce_partial cl \<and> br_readback_ok res \<and> snapshot_id_looks_plausible (br_snapshot_id res) \<and>
       (bq_vss_mode req = VSSRequired \<longrightarrow> br_consistency res = ConsistencyVerified) \<and>
       (rd_expected_repo_id (bq_repository req) \<noteq> [] \<longrightarrow>
          equal_fold (br_repository_id res) (rd_expected_repo_id (bq_repository req))) \<and>
       br_exit_code res = br_exit_code out \<and> br_exit_known res = br_exit_known out \<and>
       br_consistency res = br_consistency out \<and> br_vss res = br_vss out \<and>
       bs_message_seen (br_summary res) = bs_message_seen (br_summary out)"
proof -
  obtain x w1 where r: "adapter_read_snapshot A (bq_repository req) (bq_password_ref req) (br_snapshot_id out) w
      = (x, w1)" by (metis surj_pair)
  have p: "snapshot_id_looks_plausible (sn_id s)" if "x = Inr (Some s)" for s
    using r that match_snapshot_Some(2)
    by (auto simp: adapter_read_snapshot_def split: prod.splits sum.splits option.splits)
  obtain i e w2 where c: "adapter_cat_config A (bq_repository req) (bq_password_ref req) w1 = ((i, e), w2)"
    by (metis surj_pair)
  show "br_outcome res \<in> {PhaseFailed, PhasePartial, PhaseSucceeded}"
    using assms r c by (auto simp: backup_published_def Let_def split: sum.splits option.splits if_splits)
  show "br_outcome res = PhaseSucceeded \<Longrightarrow>
       err = None \<and> \<not> ce_partial cl \<and> br_readback_ok res \<and> snapshot_id_looks_plausible (br_snapshot_id res) \<and>
       (bq_vss_mode req = VSSRequired \<longrightarrow> br_consistency res = ConsistencyVerified) \<and>
       (rd_expected_repo_id (bq_repository req) \<noteq> [] \<longrightarrow>
          equal_fold (br_repository_id res) (rd_expected_repo_id (bq_repository req))) \<and>
       br_exit_code res = br_exit_code out \<and> br_exit_known res = br_exit_known out \<and>
       br_consistency res = br_consistency out \<and> br_vss res = br_vss out \<and>
       bs_message_seen (br_summary res) = bs_message_seen (br_summary out)"
    using assms r c p
    by (auto simp: backup_published_def Let_def split: sum.splits option.splits if_splits)
qed

text \<open>What the engine did when its run counts as a success.\<close>

definition engine_success :: "backup_request \<Rightarrow> backup_result \<Rightarrow> bool" where
  "engine_success req res \<longleftrightarrow>
     br_exit_code res = 0 \<and> br_exit_known res \<and> br_readback_ok res \<and>
     snapshot_id_looks_plausible (br_snapshot_id res) \<and>
     (bq_vss_mode req = VSSRequired \<longrightarrow> br_consistency res = ConsistencyVerified \<and>
        br_consistency res = vss_class (br_vss res)) \<and>
     (rd_expected_repo_id (bq_repository req) \<noteq> [] \<longrightarrow>
        equal_fold (br_repository_id res) (rd_expected_repo_id (bq_repository req)))"

lemma exited_outcome:
  assumes "backup_exited A req out r w = ((res, err), w')"
  shows "br_outcome res \<in> {PhaseFailed, PhasePartial, PhaseSucceeded}"
    "br_outcome res = PhaseSucceeded \<Longrightarrow> err = None \<and> engine_success req res \<and> ps_exit_code r = 0"
proof -
  obtain v w1 where v: "adapter_version A w = (v, w1)" by (metis surj_pair)
  define cl where "cl = (if vss_privilege_error (engine_output r)
      then classify_exit (ps_exit_code r)\<lparr>ce_class := ErrorVSS\<rparr> else classify_exit (ps_exit_code r))"
  have cl: "ce_known cl = ce_known (classify_exit (ps_exit_code r))"
    "ce_fatal cl = ce_fatal (classify_exit (ps_exit_code r))"
    "ce_partial cl = ce_partial (classify_exit (ps_exit_code r))"
    by (simp_all add: cl_def)
  consider (bad) "br_outcome res = PhaseFailed"
    | (pub) out2 where "backup_published A req cl out2 w1 = ((res, err), w')" "ce_known cl"
        "\<not> (ce_fatal cl \<and> \<not> ce_partial cl)" "br_exit_code out2 = ps_exit_code r" "br_exit_known out2 = ce_known cl"
        "br_consistency out2 = vss_class (br_vss out2)"
    using assms v unfolding backup_exited_def Let_def cl_def [symmetric]
    by (auto split: if_splits)
  then have "br_outcome res \<in> {PhaseFailed, PhasePartial, PhaseSucceeded} \<and>
    (br_outcome res = PhaseSucceeded \<longrightarrow> err = None \<and> engine_success req res \<and> ps_exit_code r = 0)"
  proof cases
    case (pub out2)
    note po = published_outcome [OF pub(1)]
    have "err = None \<and> engine_success req res \<and> ps_exit_code r = 0" if "br_outcome res = PhaseSucceeded"
    proof -
      note s = po(2) [OF that]
      have "ps_exit_code r = 0" using classify_exit_success [of "ps_exit_code r"] pub(2,3) s cl by simp
      with s pub(2,4,5,6) show ?thesis by (auto simp: engine_success_def)
    qed
    with po(1) show ?thesis by blast
  qed simp
  then show "br_outcome res \<in> {PhaseFailed, PhasePartial, PhaseSucceeded}"
    "br_outcome res = PhaseSucceeded \<Longrightarrow> err = None \<and> engine_success req res \<and> ps_exit_code r = 0"
    by blast+
qed

lemma ran_outcome:
  assumes "backup_ran A req out run stalled w = ((res, err), w')" "br_outcome out = PhaseFailed"
  shows "phase_terminal (br_outcome res)"
    "br_outcome res = PhaseSucceeded \<Longrightarrow> err = None \<and> engine_success req res \<and>
       (\<exists>r e. run = RunDone r e \<and> ps_exit_code r = 0 \<and> \<not> ps_cancelled r \<and> \<not> ps_timed_out r)"
proof -
  have "phase_terminal (br_outcome res) \<and> (br_outcome res = PhaseSucceeded \<longrightarrow> err = None \<and> engine_success req res \<and>
       (\<exists>r e. run = RunDone r e \<and> ps_exit_code r = 0 \<and> \<not> ps_cancelled r \<and> \<not> ps_timed_out r))"
  proof (cases run)
    case (RunError e)
    then show ?thesis using assms
      by (auto simp: backup_ran_def Let_def phase_terminal_def split: if_splits)
  next
    case (RunDone r e)
    consider (stall) "br_outcome res = PhaseFailed" | (int) "backup_interrupted A req out r w = ((res, err), w')"
      | (ex) "backup_exited A req out r w = ((res, err), w')" "\<not> ps_cancelled r" "\<not> ps_timed_out r"
      using assms RunDone by (auto simp: backup_ran_def Let_def split: if_splits)
    then show ?thesis
    proof cases
      case int
      from interrupted_outcome [OF this] show ?thesis by (auto simp: phase_terminal_def)
    next
      case ex
      from exited_outcome [OF ex(1)] ex(2,3) RunDone show ?thesis by (auto simp: phase_terminal_def)
    qed (simp add: phase_terminal_def)
  qed
  then show "phase_terminal (br_outcome res)"
    "br_outcome res = PhaseSucceeded \<Longrightarrow> err = None \<and> engine_success req res \<and>
       (\<exists>r e. run = RunDone r e \<and> ps_exit_code r = 0 \<and> \<not> ps_cancelled r \<and> \<not> ps_timed_out r)"
    by blast+
qed

lemma adapter_backup_outcome:
  assumes "adapter_backup A req w = ((res, err), w')"
  shows "phase_terminal (br_outcome res)"
    "br_outcome res = PhaseSucceeded \<Longrightarrow> backup_validate req = None \<and> err = None \<and> engine_success req res"
proof -
  have "phase_terminal (br_outcome res) \<and>
    (br_outcome res = PhaseSucceeded \<longrightarrow> backup_validate req = None \<and> err = None \<and> engine_success req res)"
  proof (cases "br_outcome res = PhaseFailed")
    case False
    then obtain out run stalled w1 where "backup_ran A req out run stalled w1 = ((res, err), w')"
      "br_outcome out = PhaseFailed" "backup_validate req = None"
      using assms unfolding adapter_backup_def Let_def config_failure_def
      by (auto split: prod.splits option.splits sum.splits)
    with ran_outcome [OF this(1,2)] show ?thesis by blast
  qed (simp add: phase_terminal_def)
  then show "phase_terminal (br_outcome res)"
    "br_outcome res = PhaseSucceeded \<Longrightarrow> backup_validate req = None \<and> err = None \<and> engine_success req res"
    by blast+
qed

end
