(* ===== verification/World.thy ===== *)
theory World
  imports Reconcile_Laws Restic_Adapter
begin

text \<open>
  The concrete world of the agent: the SQLite journal, the operation lock, the launches of
  the engine so far (a ghost log), and a position in the environment's script. The
  environment is arbitrary: at each interaction it chooses the failures of the database, the
  clock, the context, the file system, and what the engine process does. The ports of the
  service and of the adapter on this world fulfil their contracts.
\<close>

section \<open>The adapter leaves alone what its ports leave alone\<close>

locale adapter_frame =
  fixes A :: "'w adapter" and view :: "'w \<Rightarrow> 'v"
  assumes frame: "keeps view (ap_now A)" "keeps view (ap_ctx_err A)"
    "keeps view (ap_connector_bind A repo)" "keeps view (ap_open_password A ref)"
    "keeps view (ap_open_ref A ref')" "keeps view (ap_run A kind args env t)"
begin

lemmas fr = frame [THEN keepsD]

lemma secret_env_view: "secret_env A n s r w = (x, w') \<Longrightarrow> view w' = view w"
  unfolding secret_env_def by (auto split: option.splits prod.splits sum.splits dest: fr)

lemma bind_view: "adapter_bind A repo pw w = (x, w') \<Longrightarrow> view w' = view w"
  unfolding adapter_bind_def Let_def
  by (auto split: option.splits prod.splits sum.splits dest!: secret_env_view fr(3,4))

lemma run_observed_view: "run_observed A k b e x t w = (r, w') \<Longrightarrow> view w' = view w"
  unfolding run_observed_def by (auto split: sum.splits dest: fr)

lemma run_simple_view: "run_simple A k b e x t w = (r, w') \<Longrightarrow> view w' = view w"
  unfolding run_simple_def
  by (auto split: prod.splits run_outcome.splits option.splits dest!: run_observed_view)

lemma version_view: "adapter_version A w = (r, w') \<Longrightarrow> view w' = view w"
  unfolding adapter_version_def by (auto split: prod.splits sum.splits dest!: run_simple_view)

lemma snapshots_view: "adapter_snapshots A repo pw w = (r, w') \<Longrightarrow> view w' = view w"
  unfolding adapter_snapshots_def Let_def
  by (auto split: prod.splits sum.splits if_splits dest!: bind_view run_simple_view)

lemma read_snapshot_view: "adapter_read_snapshot A repo pw i w = (r, w') \<Longrightarrow> view w' = view w"
  unfolding adapter_read_snapshot_def
  by (auto split: prod.splits sum.splits option.splits dest!: snapshots_view)

lemma cat_config_view: "adapter_cat_config A repo pw w = (r, w') \<Longrightarrow> view w' = view w"
  unfolding adapter_cat_config_def Let_def
  by (auto split: prod.splits sum.splits if_splits dest!: bind_view run_simple_view)

lemma interrupted_view: "backup_interrupted A req out r w = (x, w') \<Longrightarrow> view w' = view w"
  unfolding backup_interrupted_def Let_def
  by (auto split: prod.splits if_splits dest!: read_snapshot_view)

lemma published_view: "backup_published A req cl out w = (x, w') \<Longrightarrow> view w' = view w"
  unfolding backup_published_def Let_def
  by (auto split: prod.splits sum.splits option.splits if_splits dest!: read_snapshot_view cat_config_view)

lemma exited_view: "backup_exited A req out r w = (x, w') \<Longrightarrow> view w' = view w"
  unfolding backup_exited_def Let_def
  by (auto split: prod.splits if_splits dest!: version_view published_view)

lemma ran_view: "backup_ran A req out run st w = (x, w') \<Longrightarrow> view w' = view w"
  unfolding backup_ran_def Let_def
  by (auto split: run_outcome.splits if_splits dest!: interrupted_view exited_view)

lemma backup_view: "adapter_backup A req w = (x, w') \<Longrightarrow> view w' = view w"
  unfolding adapter_backup_def Let_def
  by (auto split: prod.splits sum.splits option.splits
      dest!: fr(1) bind_view run_observed_view ran_view)

lemma restore_view: "adapter_restore A req w = (x, w') \<Longrightarrow> view w' = view w"
  unfolding adapter_restore_def Let_def
  by (auto split: prod.splits sum.splits option.splits run_outcome.splits if_splits
      dest!: fr(1,2) bind_view run_observed_view)

end

section \<open>The world\<close>

record world =
  wd_db :: journal_db
  wd_pos :: nat
  wd_active :: bool
  wd_launches :: "launch list"

record environment =
  en_journal :: "nat \<Rightarrow> journal_env"
  en_now :: "nat \<Rightarrow> time"
  en_ctx :: "nat \<Rightarrow> go_error option"
  en_id :: "nat \<Rightarrow> string"
  en_stat :: "nat \<Rightarrow> string \<Rightarrow> go_error option"
  en_free :: "nat \<Rightarrow> string \<Rightarrow> go_error + int"
  en_hash :: "nat \<Rightarrow> string list \<Rightarrow> go_error + corpus_file list"
  en_expected :: "nat \<Rightarrow> go_error + string \<times> string"
  en_staging :: "nat \<Rightarrow> string \<Rightarrow> string \<Rightarrow> go_error + staging_dir"
  en_revalidate :: "nat \<Rightarrow> go_error option"
  en_manifest :: "nat \<Rightarrow> go_error + string"
  en_verify :: "nat \<Rightarrow> go_error option"
  en_bind :: "nat \<Rightarrow> repository_descriptor \<Rightarrow> go_error + bound_repository"
  en_secret :: "nat \<Rightarrow> secret_ref \<Rightarrow> go_error + string"
  en_child_env :: "(string \<times> string \<times> bool) list \<Rightarrow> go_error + (string \<times> string \<times> bool) list"
  en_run :: "nat \<Rightarrow> command_kind \<Rightarrow> string list \<Rightarrow> run_outcome \<times> bool"
  en_stall_timeout :: duration
  en_readers :: output_readers

definition advance :: "'z world_scheme \<Rightarrow> 'z world_scheme" where "advance w = w\<lparr>wd_pos := Suc (wd_pos w)\<rparr>"

definition ask :: "(nat \<Rightarrow> 'a) \<Rightarrow> 'z world_scheme \<Rightarrow> 'a \<times> 'z world_scheme" where
  "ask f w = (f (wd_pos w), advance w)"

definition db_read :: "environment \<Rightarrow> (journal_env \<Rightarrow> journal_db \<Rightarrow> 'a) \<Rightarrow> 'z world_scheme \<Rightarrow> 'a \<times> 'z world_scheme" where
  "db_read env q w = (q (en_journal env (wd_pos w)) (wd_db w), advance w)"

definition db_write :: "environment \<Rightarrow> (journal_env \<Rightarrow> journal_db \<Rightarrow> 'a \<times> journal_db) \<Rightarrow> 'z world_scheme \<Rightarrow> 'a \<times> 'z world_scheme" where
  "db_write env q w =
     (case q (en_journal env (wd_pos w)) (wd_db w) of (r, db) \<Rightarrow> (r, advance (w\<lparr>wd_db := db\<rparr>)))"

definition world_journal :: "environment \<Rightarrow> 'z world_scheme journal_port" where
  "world_journal env =
     \<lparr>jp_begin_job = \<lambda>job a. db_write env (\<lambda>je. sql_begin_job je job a),
      jp_begin_attempt = \<lambda>a. db_write env (\<lambda>je. sql_begin_attempt je a),
      jp_update_attempt = \<lambda>a. db_write env (\<lambda>je. sql_update_attempt je a),
      jp_complete_attempt = \<lambda>a st. db_write env (\<lambda>je. sql_complete_attempt je a st),
      jp_get_attempt = \<lambda>i. db_read env (\<lambda>je. sql_get_attempt je i),
      jp_get_job = \<lambda>i. db_read env (\<lambda>je. sql_get_job je i),
      jp_job_by_slot = \<lambda>k. db_read env (\<lambda>je. sql_job_by_slot je k),
      jp_latest_attempt = \<lambda>i. db_read env (\<lambda>je. sql_latest_attempt je i),
      jp_incomplete_attempts = db_read env sql_incomplete_attempts,
      jp_recent_attempts = \<lambda>n. db_read env (\<lambda>je. sql_recent_attempts je n),
      jp_latest_succeeded_slot = db_read env sql_latest_succeeded_backup_slot,
      jp_set_job_state = \<lambda>i st. db_write env (\<lambda>je. sql_set_job_state je i st),
      jp_append_outbox = \<lambda>ev. db_write env (\<lambda>je. sql_append_outbox je ev),
      jp_unacked_outbox = \<lambda>n. db_read env (\<lambda>je. sql_unacked_outbox je n),
      jp_ack_outbox = \<lambda>i. db_write env (\<lambda>je. sql_ack_outbox je i),
      jp_consume_command = \<lambda>c j t. db_write env (\<lambda>je. sql_consume_command je c j t),
      jp_command_consumed = \<lambda>c. db_read env (\<lambda>je. sql_command_consumed je c),
      jp_command_result = \<lambda>c. db_read env (\<lambda>je. sql_command_result je c),
      jp_finish_command = \<lambda>c st x. db_write env (\<lambda>je. sql_finish_command je c st x),
      jp_save_policy = \<lambda>p. db_write env (\<lambda>je. sql_save_policy je p),
      jp_latest_policy = db_read env sql_latest_policy\<rparr>"

definition world_host :: "environment \<Rightarrow> 'z world_scheme host_port" where
  "world_host env =
     \<lparr>hp_now = ask (en_now env), hp_ctx_err = ask (en_ctx env), hp_new_id = ask (en_id env),
      hp_active = wd_active, hp_set_active = \<lambda>b w. w\<lparr>wd_active := b\<rparr>,
      hp_stat = \<lambda>p. ask (\<lambda>n. en_stat env n p), hp_volume_free = \<lambda>p. ask (\<lambda>n. en_free env n p),
      hp_hash_roots = \<lambda>ps. ask (\<lambda>n. en_hash env n ps), hp_write_expected = \<lambda>d m. ask (en_expected env),
      hp_prepare_staging = \<lambda>r j. ask (\<lambda>n. en_staging env n r j),
      hp_revalidate = \<lambda>sd. ask (en_revalidate env),
      hp_write_manifest = \<lambda>sd sn v. ask (en_manifest env),
      hp_verify_restore = \<lambda>d sn p. ask (en_verify env)\<rparr>"

definition world_adapter :: "environment \<Rightarrow> 'z world_scheme adapter" where
  "world_adapter env =
     \<lparr>ap_now = ask (en_now env), ap_ctx_err = ask (en_ctx env),
      ap_connector_bind = \<lambda>repo. ask (\<lambda>n. en_bind env n repo),
      ap_open_password = \<lambda>r. ask (\<lambda>n. en_secret env n r), ap_open_ref = \<lambda>r. ask (\<lambda>n. en_secret env n r),
      ap_child_env = en_child_env env,
      ap_run = \<lambda>k args e t. ask (\<lambda>n. en_run env n k args),
      ap_stall_timeout = en_stall_timeout env, ap_readers = en_readers env\<rparr>"

text \<open>The engine port is the adapter; the ghost log notes each call and the rows it finds.\<close>

definition log_launch :: "launch \<Rightarrow> 'z world_scheme \<Rightarrow> 'z world_scheme" where
  "log_launch l w = w\<lparr>wd_launches := wd_launches w @ [l]\<rparr>"

definition world_engine :: "environment \<Rightarrow> 'z world_scheme engine_port" where
  "world_engine env =
     \<lparr>ep_backup = \<lambda>req w. adapter_backup (world_adapter env) req
         (log_launch (BackupLaunch req (row_find ar_id (bq_attempt_id req) (jd_attempts (wd_db w)))
                        (row_find jr_id (bq_job_id req) (jd_jobs (wd_db w)))) w),
      ep_restore = \<lambda>req w. adapter_restore (world_adapter env) req
         (log_launch (RestoreLaunch req (row_find ar_id (rq_attempt_id req) (jd_attempts (wd_db w)))
                        (row_find jr_id (rq_job_id req) (jd_jobs (wd_db w)))) w),
      ep_snapshots = adapter_snapshots (world_adapter env),
      ep_read_snapshot = adapter_read_snapshot (world_adapter env)\<rparr>"

definition world_service :: "environment \<Rightarrow> string \<Rightarrow> 'z world_scheme service" where
  "world_service env dir = \<lparr>sv_engine = world_engine env, sv_journal = world_journal env,
     sv_host = world_host env, sv_manifest_dir = dir\<rparr>"

abbreviation world_jobs :: "'z world_scheme \<Rightarrow> job_record list" where "world_jobs w \<equiv> jd_jobs (wd_db w)"
abbreviation world_attempts :: "'z world_scheme \<Rightarrow> attempt_record list" where "world_attempts w \<equiv> jd_attempts (wd_db w)"

section \<open>The contracts hold\<close>

lemma advance_simps [simp]: "wd_db (advance w) = wd_db w" "wd_launches (advance w) = wd_launches w"
  "wd_active (advance w) = wd_active w"
  by (simp_all add: advance_def)

lemma keeps_ask [simp]: "keeps (\<lambda>w. (wd_db w, wd_launches w, wd_active w)) (ask f)"
  by (simp add: keeps_def ask_def)

lemma keeps_ask_tables [simp]: "keeps (\<lambda>w. (world_jobs w, world_attempts w, wd_launches w)) (ask f)"
  by (simp add: keeps_def ask_def)

lemma keeps_read [simp]: "keeps wd_launches (db_read env q)"
  by (simp add: keeps_def db_read_def)

lemma keeps_write [simp]: "keeps wd_launches (db_write env q)"
  by (auto simp: keeps_def db_write_def split: prod.splits)

interpretation wa: adapter_frame "world_adapter env" "\<lambda>w. (wd_db w, wd_launches w, wd_active w)" for env
  by unfold_locales (simp_all add: world_adapter_def)

lemma sql_begin_job_ok:
  assumes "sql_begin_job je job a db = (None, db')"
  shows "\<exists>c u i. jd_jobs db' = jd_jobs db @ [job\<lparr>jr_created_at := c, jr_updated_at := u\<rparr>] \<and>
       jd_attempts db' = jd_attempts db @ [a\<lparr>ar_job_id := jr_id job, ar_intent_at := i\<rparr>] \<and>
       jr_id job \<notin> jr_id ` set (jd_jobs db) \<and> ar_id a \<notin> ar_id ` set (jd_attempts db) \<and>
       (jr_slot_key job = [] \<or> jr_slot_key job \<notin> jr_slot_key ` set (jd_jobs db))"
proof -
  define c where "c = (if is_zero (jr_created_at job) then je_now je 0 else jr_created_at job)"
  define job' where "job' = job\<lparr>jr_created_at := c, jr_updated_at := je_now je 1\<rparr>"
  define a' where "a' = a\<lparr>ar_job_id := jr_id job, ar_intent_at := je_now je 2\<rparr>"
  have ids: "jr_id job' = jr_id job" "jr_slot_key job' = jr_slot_key job" "ar_id a' = ar_id a"
    by (simp_all add: job'_def a'_def)
  have "jd_jobs db' = jd_jobs db @ [job'] \<and> jd_attempts db' = jd_attempts db @ [a'] \<and>
     job_insertable db job' \<and> attempt_insertable (jd_jobs db @ [job']) (jd_attempts db) a'"
    using assms
    unfolding sql_begin_job_def Let_def c_def [symmetric] job'_def [symmetric] a'_def [symmetric]
    by (auto split: if_splits option.splits)
  then have "jd_jobs db' = jd_jobs db @ [job'] \<and> jd_attempts db' = jd_attempts db @ [a'] \<and>
     jr_id job \<notin> jr_id ` set (jd_jobs db) \<and> ar_id a \<notin> ar_id ` set (jd_attempts db) \<and>
     (jr_slot_key job = [] \<or> jr_slot_key job \<notin> jr_slot_key ` set (jd_jobs db))"
    unfolding job_insertable_def attempt_insertable_def ids by blast
  then show ?thesis unfolding job'_def a'_def by blast
qed

lemma sql_begin_job_err:
  assumes "sql_begin_job je job a db = (Some e, db')"
  shows "errors_is e ErrIntentNotPersisted \<and> db' = db"
proof -
  have "(e = Sentinel ErrIntentNotPersisted \<or> (\<exists>t. e = not_persisted t)) \<and> db' = db"
    using assms unfolding sql_begin_job_def Let_def
    by (simp split: if_splits option.splits) blast+
  then show ?thesis by (auto simp: not_persisted_def)
qed

lemmas sql_begin_job_cases = sql_begin_job_ok sql_begin_job_err

lemma sql_begin_attempt_cases:
  "sql_begin_attempt je a db = (None, db') \<Longrightarrow>
     \<exists>i t. jd_attempts db' = jd_attempts db @ [a\<lparr>ar_intent_at := i\<rparr>] \<and>
       jd_jobs db' = sql_set_job_rows (ar_job_id a) JobActive t (jd_jobs db) \<and>
       attempt_insertable (jd_jobs db) (jd_attempts db) a"
  "sql_begin_attempt je a db = (Some e, db') \<Longrightarrow> db' = db"
proof -
  assume h: "sql_begin_attempt je a db = (None, db')"
  define a' where "a' = (if is_zero (ar_intent_at a) then a\<lparr>ar_intent_at := je_now je 0\<rparr> else a)"
  have "a' = a\<lparr>ar_intent_at := ar_intent_at a'\<rparr>" "ar_job_id a' = ar_job_id a"
    "attempt_insertable (jd_jobs db) (jd_attempts db) a' = attempt_insertable (jd_jobs db) (jd_attempts db) a"
    by (simp_all add: a'_def attempt_insertable_def)
  moreover have "jd_attempts db' = jd_attempts db @ [a'] \<and>
     jd_jobs db' = sql_set_job_rows (ar_job_id a') JobActive (je_now je 1) (jd_jobs db) \<and>
     attempt_insertable (jd_jobs db) (jd_attempts db) a'"
    using h unfolding sql_begin_attempt_def Let_def a'_def [symmetric]
    by (auto split: if_splits option.splits)
  ultimately show "\<exists>i t. jd_attempts db' = jd_attempts db @ [a\<lparr>ar_intent_at := i\<rparr>] \<and>
       jd_jobs db' = sql_set_job_rows (ar_job_id a) JobActive t (jd_jobs db) \<and>
       attempt_insertable (jd_jobs db) (jd_attempts db) a" by metis
qed (auto simp: sql_begin_attempt_def Let_def split: if_splits option.splits)

lemma sql_update_attempt_cases:
  "sql_update_attempt je a db = (None, db') \<Longrightarrow>
     jd_jobs db' = jd_jobs db \<and> jd_attempts db' = row_update ar_id (ar_id a) (update_row a) (jd_attempts db)"
  "sql_update_attempt je a db = (Some e, db') \<Longrightarrow> db' = db"
  by (auto simp: sql_update_attempt_def update_row_def [abs_def] split: option.splits)

lemma sql_complete_attempt_cases:
  "sql_complete_attempt je a st db = (None, db') \<Longrightarrow>
     \<exists>ended t. jd_jobs db' = sql_set_job_rows (ar_job_id a) st t (jd_jobs db) \<and>
       jd_attempts db' = row_update ar_id (ar_id a) (complete_row a ended) (jd_attempts db)"
  "sql_complete_attempt je a st db = (Some e, db') \<Longrightarrow> db' = db"
  by (auto simp: sql_complete_attempt_def Let_def complete_row_def [abs_def] split: option.splits)

lemma sql_append_outbox_tables:
  "sql_append_outbox je ev db = (r, db') \<Longrightarrow> jd_jobs db' = jd_jobs db \<and> jd_attempts db' = jd_attempts db"
  by (auto simp: sql_append_outbox_def Let_def split: option.splits if_splits)

lemma db_write_eq: "db_write env q w = (r, w') \<longleftrightarrow>
    (\<exists>db'. q (en_journal env (wd_pos w)) (wd_db w) = (r, db') \<and> w' = advance (w\<lparr>wd_db := db'\<rparr>))"
  by (auto simp: db_write_def split: prod.splits)

lemma db_read_eq: "db_read env q w = (r, w') \<longleftrightarrow>
    r = q (en_journal env (wd_pos w)) (wd_db w) \<and> w' = advance w"
  by (auto simp: db_read_def)

text \<open>The SQLite journal, with the failures of the environment, is a journal.\<close>

interpretation wj: journal_contract "world_journal env" world_jobs world_attempts for env
proof unfold_locales
  fix job a w w'
  assume "jp_begin_job (world_journal env) job a w = (None, w')"
  then show "\<exists>c u i. world_jobs w' = world_jobs w @ [job\<lparr>jr_created_at := c, jr_updated_at := u\<rparr>] \<and>
        world_attempts w' = world_attempts w @ [a\<lparr>ar_job_id := jr_id job, ar_intent_at := i\<rparr>] \<and>
        jr_id job \<notin> jr_id ` set (world_jobs w) \<and> ar_id a \<notin> ar_id ` set (world_attempts w) \<and>
        (jr_slot_key job = [] \<or> jr_slot_key job \<notin> jr_slot_key ` set (world_jobs w))"
    using sql_begin_job_cases(1) by (fastforce simp: world_journal_def db_write_eq)
next
  fix a w w'
  assume "jp_begin_attempt (world_journal env) a w = (None, w')"
  then show "\<exists>i t. world_attempts w' = world_attempts w @ [a\<lparr>ar_intent_at := i\<rparr>] \<and>
        world_jobs w' = sql_set_job_rows (ar_job_id a) JobActive t (world_jobs w) \<and>
        attempt_insertable (world_jobs w) (world_attempts w) a"
    using sql_begin_attempt_cases(1) by (fastforce simp: world_journal_def db_write_eq)
next
  fix a st w w'
  assume "jp_complete_attempt (world_journal env) a st w = (None, w')"
  then show "\<exists>ended t. world_jobs w' = sql_set_job_rows (ar_job_id a) st t (world_jobs w) \<and>
        world_attempts w' = row_update ar_id (ar_id a) (complete_row a ended) (world_attempts w)"
    using sql_complete_attempt_cases(1) by (fastforce simp: world_journal_def db_write_eq)
qed (auto simp: world_journal_def db_write_eq db_read_eq sql_job_by_slot_def sql_get_job_def
      sql_latest_attempt_def sql_incomplete_attempts_def
      dest: sql_begin_job_cases sql_begin_attempt_cases sql_update_attempt_cases
        sql_complete_attempt_cases sql_append_outbox_tables sql_query_cases)

interpretation ws: service_contract "world_journal env" world_jobs world_attempts "world_engine env"
    "world_host env" wd_launches for env
proof unfold_locales
  fix req w res err w'
  assume b: "ep_backup (world_engine env) req w = ((res, err), w')"
  show "world_jobs w' = world_jobs w \<and> world_attempts w' = world_attempts w \<and>
      wd_launches w' = wd_launches w @ [BackupLaunch req (row_find ar_id (bq_attempt_id req) (world_attempts w))
                                    (row_find jr_id (bq_job_id req) (world_jobs w))]"
    using wa.backup_view [OF b [unfolded world_engine_def, simplified]] by (simp add: log_launch_def)
  show "phase_terminal (br_outcome res) \<or> br_outcome res = NoPhase \<and> err \<noteq> None"
    using adapter_backup_outcome(1) [OF b [unfolded world_engine_def, simplified]] by simp
next
  fix req w res err w'
  assume b: "ep_restore (world_engine env) req w = ((res, err), w')"
  show "world_jobs w' = world_jobs w \<and> world_attempts w' = world_attempts w \<and>
      wd_launches w' = wd_launches w @ [RestoreLaunch req (row_find ar_id (rq_attempt_id req) (world_attempts w))
                                    (row_find jr_id (rq_job_id req) (world_jobs w))]"
    using wa.restore_view [OF b [unfolded world_engine_def, simplified]] by (simp add: log_launch_def)
next
  fix repo pw
  show "keeps (\<lambda>w. (world_jobs w, world_attempts w, wd_launches w)) (ep_snapshots (world_engine env) repo pw)"
    by (auto simp: keeps_def world_engine_def dest: wa.snapshots_view)
next
  fix repo pw i
  show "keeps (\<lambda>w. (world_jobs w, world_attempts w, wd_launches w)) (ep_read_snapshot (world_engine env) repo pw i)"
    by (auto simp: keeps_def world_engine_def dest: wa.read_snapshot_view)
qed (simp_all add: world_journal_def world_host_def)

lemma ws_svc [simp]: "ws.svc env dir = world_service env dir"
  by (simp add: ws.svc_def world_service_def)

end
