(* ===== verification/Scheduler.thy ===== *)
theory Scheduler
  imports Domain_Policy "HOL-Library.Word"
begin

unbundle bit_operations_syntax

text \<open>
  The pure part of \<open>internal/scheduler\<close>: \<open>NextSlot\<close> and the deterministic jitter
  (slots.go), \<open>Decide\<close> and its clocks (decide.go). One logical slot per civil day of the
  policy's zone; the key of a slot is its window start in UTC, the due instant adds a
  jitter that depends on the device and the slot only.
\<close>

section \<open>Slots (slots.go)\<close>

definition schedule_epoch :: "string \<Rightarrow> string \<Rightarrow> string" where
  "schedule_epoch epoch revision_id = (if revision_id = [] then epoch else epoch @ ''/'' @ revision_id)"

text \<open>FNV-1a on 64 bits (\<open>hash/fnv\<close>).\<close>

definition fnv64a :: "string \<Rightarrow> 64 word" where
  "fnv64a s = foldl (\<lambda>h c. (h XOR word_of_nat (of_char c)) * 1099511628211) 14695981039346656037 s"

definition deterministic_jitter :: "string \<Rightarrow> duration \<Rightarrow> duration" where
  "deterministic_jitter seed mx = (if mx \<le> 0 then 0 else uint (fnv64a seed) mod mx)"

definition next_slot :: "tz_database \<Rightarrow> string \<Rightarrow> string \<Rightarrow> string \<Rightarrow> schedule_policy \<Rightarrow> time \<Rightarrow>
    go_error + time \<times> string" where
  "next_slot tz device_id installation_id epoch pol now =
     (case schedule_validate tz pol of Some e \<Rightarrow> Inl e | None \<Rightarrow>
      (case load_location tz (sp_timezone pol) of Inl e \<Rightarrow> Inl (PlainError e) | Inr loc \<Rightarrow>
       (case parse_hhmm (sp_window_start pol) of Inl e \<Rightarrow> Inl e | Inr (sh, sm) \<Rightarrow>
        (case parse_hhmm (sp_window_end pol) of Inl e \<Rightarrow> Inl e | Inr (eh, em) \<Rightarrow>
         (let day = civil_day_of loc now;
              window_start = time_date loc day sh sm;
              window_end = time_date loc day eh em;
              span = time_sub window_end window_start;
              jitter_max0 = wrap64 (sp_jitter_max_minutes pol * minute_ns);
              jitter_max = (if jitter_max0 \<ge> span \<and> span > second_ns then span - second_ns
                            else jitter_max0);
              seed = device_id @ installation_id @ epoch @ format_rfc3339 window_start;
              due0 = window_start + deterministic_jitter seed jitter_max;
              due = (if \<not> due0 < window_end then window_end - second_ns else due0)
          in Inr (due, slot_key_of device_id installation_id epoch window_start))))))"

definition catch_up_slot :: "tz_database \<Rightarrow> string \<Rightarrow> string \<Rightarrow> string \<Rightarrow> string \<Rightarrow> schedule_policy \<Rightarrow>
    time \<Rightarrow> go_error + string \<times> bool" where
  "catch_up_slot tz last_completed_key device_id installation_id epoch pol now =
     (case next_slot tz device_id installation_id epoch pol now of
        Inl e \<Rightarrow> Inl e
      | Inr (_, today) \<Rightarrow> if last_completed_key = today then Inr ([], False) else Inr (today, True))"

section \<open>Decisions (decide.go)\<close>

record decide_input =
  di_now :: time
  di_due :: time
  di_today_key :: string
  di_last_succeeded_key :: string
  di_today_state :: job_state
  di_today_ended :: time
  di_backoff :: duration
  di_catch_up :: bool
  di_location :: "location option"
  di_eligibility_start :: time
  di_start_deadline :: time
  di_hard_stop :: time
  di_started_at :: time
  di_boot_delay :: duration
  di_attempt_no :: int
  di_max_attempts :: int

datatype reason = NoReason | RunScheduled | RunCatchUp | SkipComplete | SkipUntilDue | SkipBackoff
  | SkipActive | SkipUntilEligible | SkipStartDeadline | SkipHardStop | SkipRetryBudget
  | SkipBootDelay | ReconcileFailed | PolicyInvalid | SlotError | JournalError

record decision =
  de_run :: bool
  de_reason :: reason
  de_slot :: string

definition skip :: "string \<Rightarrow> reason \<Rightarrow> decision" where
  "skip slot r = \<lparr>de_run = False, de_reason = r, de_slot = slot\<rparr>"

definition run_slot :: "string \<Rightarrow> reason \<Rightarrow> decision" where
  "run_slot slot r = \<lparr>de_run = True, de_reason = r, de_slot = slot\<rparr>"

definition civil_day :: "time \<Rightarrow> location \<Rightarrow> time" where
  "civil_day t loc = time_date loc (civil_day_of loc t) 0 0"

definition failed_state :: "job_state \<Rightarrow> bool" where
  "failed_state s \<longleftrightarrow> s = JobFailed \<or> s = JobCancelled \<or> s = JobPartial"

text \<open>Whether the last success lies before yesterday, read from the two slot keys.\<close>

definition missed_previous :: "location option \<Rightarrow> string \<Rightarrow> string \<Rightarrow> bool" where
  "missed_previous location today_key last_key =
     (case (split_on CHR ''|'' today_key, split_on CHR ''|'' last_key) of
        ([t0, t1, t2, t3], [l0, l1, l2, l3]) \<Rightarrow>
          join_with ''|'' [t0, t1, t2] = join_with ''|'' [l0, l1, l2] \<and>
          (case (parse_rfc3339 t3, parse_rfc3339 l3) of
             (Some today, Some prev) \<Rightarrow>
               (let loc = (case location of None \<Rightarrow> utc | Some l \<Rightarrow> l)
                in civil_day prev loc < add_days loc (civil_day today loc) (-1))
           | _ \<Rightarrow> False)
      | _ \<Rightarrow> False)"

definition decide :: "decide_input \<Rightarrow> decision" where
  "decide i =
     (let slot = di_today_key i; st = di_today_state i; now = di_now i;
          max_attempts = (if di_max_attempts i \<le> 0 then 3 else di_max_attempts i) in
      if st = JobSucceeded then skip slot SkipComplete
      else if st = JobActive \<or> st = JobReconciling then skip slot SkipActive
      else if di_attempt_no i \<ge> max_attempts \<and> failed_state st then skip slot SkipRetryBudget
      else if failed_state st \<and> di_backoff i > 0 \<and> \<not> is_zero (di_today_ended i)
              \<and> time_sub now (di_today_ended i) < di_backoff i then skip slot SkipBackoff
      else if \<not> is_zero (di_hard_stop i) \<and> \<not> now < di_hard_stop i then skip slot SkipHardStop
      else if \<not> is_zero (di_start_deadline i) \<and> \<not> now < di_start_deadline i
      then skip slot SkipStartDeadline
      else if \<not> is_zero (di_eligibility_start i) \<and> now < di_eligibility_start i
      then skip slot SkipUntilEligible
      else if \<not> is_zero (di_started_at i) \<and> di_boot_delay i > 0 \<and> now < di_started_at i + di_boot_delay i
      then skip slot SkipBootDelay
      else if missed_previous (di_location i) slot (di_last_succeeded_key i) \<and> di_catch_up i
      then run_slot slot RunCatchUp
      else if now < di_due i \<and> (di_last_succeeded_key i = [] \<and> st = NoJobState)
      then skip slot SkipUntilDue
      else if \<not> now < di_due i \<or> failed_state st then run_slot slot RunScheduled
      else skip slot SkipUntilDue)"

definition clock_hhmm :: "time \<Rightarrow> location option \<Rightarrow> string \<Rightarrow> time" where
  "clock_hhmm now loc hhmm =
     (case loc of None \<Rightarrow> 0 | Some l \<Rightarrow>
      if hhmm = [] then 0
      else case parse_hhmm hhmm of Inl _ \<Rightarrow> 0
           | Inr (h, m) \<Rightarrow> time_date l (civil_day_of l now) h m)"

definition boot_delay :: "string \<Rightarrow> string \<Rightarrow> string \<Rightarrow> duration \<Rightarrow> duration \<Rightarrow> duration" where
  "boot_delay device_id installation_id day min_d0 max_d0 =
     (let min_d = (if min_d0 \<le> 0 then 5 * minute_ns else min_d0);
          max_d = (if max_d0 \<le> min_d then 20 * minute_ns else max_d0)
      in min_d + deterministic_jitter (device_id @ ''|'' @ installation_id @ ''|'' @ day @ ''|boot'')
                   (max_d - min_d))"

section \<open>Facts\<close>

lemma deterministic_jitter_nonneg: "0 \<le> deterministic_jitter seed mx"
  by (simp add: deterministic_jitter_def)

lemma deterministic_jitter_less: "0 < mx \<Longrightarrow> deterministic_jitter seed mx < mx"
  by (simp add: deterministic_jitter_def)

lemma deterministic_jitter_le: "deterministic_jitter seed mx \<le> max 0 mx"
proof (cases "0 < mx")
  case True
  with deterministic_jitter_less [OF this, of seed] show ?thesis by simp
qed (simp add: deterministic_jitter_def)

text \<open>The window of a slot: what \<open>next_slot\<close> computes from an accepted schedule.\<close>

lemma next_slot_cases:
  assumes "next_slot tz dev inst epoch pol now = Inr (due, key)"
  obtains loc sh sm eh em ws we jm where
    "schedule_validate tz pol = None" "load_location tz (sp_timezone pol) = Inr loc"
    "parse_hhmm (sp_window_start pol) = Inr (sh, sm)" "parse_hhmm (sp_window_end pol) = Inr (eh, em)"
    "ws = time_date loc (civil_day_of loc now) sh sm" "we = time_date loc (civil_day_of loc now) eh em"
    "jm = (if wrap64 (sp_jitter_max_minutes pol * minute_ns) \<ge> time_sub we ws
              \<and> time_sub we ws > second_ns
           then time_sub we ws - second_ns else wrap64 (sp_jitter_max_minutes pol * minute_ns))"
    "due = (if ws + deterministic_jitter (dev @ inst @ epoch @ format_rfc3339 ws) jm < we
            then ws + deterministic_jitter (dev @ inst @ epoch @ format_rfc3339 ws) jm
            else we - second_ns)"
    "key = slot_key_of dev inst epoch ws"
  using assms unfolding next_slot_def Let_def
  by (auto split: option.splits sum.splits prod.splits if_splits)

lemma next_slot_total:
  assumes "schedule_validate tz pol = None"
  shows "\<exists>due key. next_slot tz dev inst epoch pol now = Inr (due, key)"
  by (rule schedule_validate_None [OF assms]) (simp add: next_slot_def Let_def assms)

lemma decide_slot: "de_slot (decide i) = di_today_key i"
  by (simp add: decide_def Let_def skip_def run_slot_def)

lemma decide_reason_run:
  "de_run (decide i) \<longleftrightarrow> de_reason (decide i) = RunScheduled \<or> de_reason (decide i) = RunCatchUp"
  by (simp add: decide_def Let_def skip_def run_slot_def)

lemma de_run_simps:
  "de_run (skip slot r) = False" "de_run (run_slot slot r) = True"
  "de_run (if b then x else y) \<longleftrightarrow> (b \<longrightarrow> de_run x) \<and> (\<not> b \<longrightarrow> de_run y)"
  by (simp_all add: skip_def run_slot_def)

lemma decide_run_iff:
  "de_run (decide i) \<longleftrightarrow>
     (let st = di_today_state i; now = di_now i;
          max_attempts = (if di_max_attempts i \<le> 0 then 3 else di_max_attempts i) in
      st \<noteq> JobSucceeded \<and> st \<noteq> JobActive \<and> st \<noteq> JobReconciling \<and>
      (failed_state st \<longrightarrow> di_attempt_no i < max_attempts) \<and>
      (failed_state st \<longrightarrow> di_backoff i \<le> 0 \<or> is_zero (di_today_ended i)
         \<or> di_backoff i \<le> time_sub now (di_today_ended i)) \<and>
      (is_zero (di_hard_stop i) \<or> now < di_hard_stop i) \<and>
      (is_zero (di_start_deadline i) \<or> now < di_start_deadline i) \<and>
      (is_zero (di_eligibility_start i) \<or> di_eligibility_start i \<le> now) \<and>
      (is_zero (di_started_at i) \<or> di_boot_delay i \<le> 0 \<or> di_started_at i + di_boot_delay i \<le> now) \<and>
      (missed_previous (di_location i) (di_today_key i) (di_last_succeeded_key i) \<and> di_catch_up i
       \<or> di_due i \<le> now \<or> failed_state st))"
proof -
  have "\<not> (failed_state (di_today_state i) \<and> di_today_state i = NoJobState)"
    by (auto simp: failed_state_def)
  then show ?thesis
    unfolding decide_def Let_def de_run_simps not_less [symmetric] by satx
qed

lemma split_slot_key:
  assumes "CHR ''|'' \<notin> set d" "CHR ''|'' \<notin> set i" "CHR ''|'' \<notin> set e"
  shows "split_on CHR ''|'' (slot_key_of d i e t) = [d, i, e, format_rfc3339 t]"
proof -
  have digits: "CHR ''|'' \<notin> set (fixed_digits w n)" for w n
    using fixed_digits_is_digit [of w n] by (auto simp: list_all_iff is_digit_def)
  have "CHR ''|'' \<notin> set (format_rfc3339 t)"
    by (simp add: format_rfc3339_def format_date_time_def Let_def digits split: prod.splits)
  then show ?thesis
    using assms by (simp add: slot_key_of_def split_on_append split_on_no_sep)
qed

end
