(* ===== verification/Controller.thy ===== *)
theory Controller
  imports Scheduler Service
begin

text \<open>
  The scheduler's controller (\<open>internal/scheduler/controller.go\<close>): one tick reconciles,
  computes today's slot, reads the journal, decides, and calls the backup hook. The fields
  that change (the policy, the last reason, the start of the process) are part of the world and reached through
  accessors, since hooks of the tick may change them too.
\<close>

record 'w controller =
  ct_device_id :: string
  ct_installation_id :: string
  ct_backoff :: duration
  ct_started_at :: "'w \<Rightarrow> time"
  ct_journal :: "'w journal_port"
  ct_now :: "'w \<Rightarrow> time \<times> 'w"
  ct_policy :: "'w \<Rightarrow> schedule_policy \<times> string"
  ct_set_policy :: "schedule_policy \<times> string \<Rightarrow> 'w \<Rightarrow> 'w"
  ct_last_op :: "'w \<Rightarrow> reason"
  ct_set_last_op :: "reason \<Rightarrow> 'w \<Rightarrow> 'w"
  ct_reconcile :: "('w \<Rightarrow> go_error option \<times> 'w) option"
  ct_backup :: "(string \<Rightarrow> 'w \<Rightarrow> go_error option \<times> 'w) option"

abbreviation default_backoff :: duration where "default_backoff \<equiv> hour_ns"

definition controller_set_policy :: "'w controller \<Rightarrow> schedule_policy \<Rightarrow> string \<Rightarrow> 'w \<Rightarrow> 'w" where
  "controller_set_policy C pol revision_id w = ct_set_policy C (pol, revision_id) w"

definition last_reason :: "'w controller \<Rightarrow> 'w \<Rightarrow> reason" where
  "last_reason C w = ct_last_op C w"

definition failed_decision :: "string \<Rightarrow> reason \<Rightarrow> decision" where
  "failed_decision slot r = \<lparr>de_run = False, de_reason = r, de_slot = slot\<rparr>"

text \<open>
  The input of the decision, from the policy, the clock, the last succeeded slot, the job of
  today's slot with its latest attempt. The zone has been loaded by the validation already;
  were it missing, the clocks read as unset.
\<close>

definition tick_input :: "tz_database \<Rightarrow> 'w controller \<Rightarrow> time \<Rightarrow> schedule_policy \<Rightarrow> time \<Rightarrow> time \<Rightarrow> string \<Rightarrow>
    string \<Rightarrow> job_record option \<Rightarrow> attempt_record option \<Rightarrow> decide_input" where
  "tick_input tz C started pol now due today latest job att =
     (let loc = (case load_location tz (sp_timezone pol) of Inl _ \<Rightarrow> None | Inr l \<Rightarrow> Some l);
          civil = (case loc of None \<Rightarrow> [] | Some l \<Rightarrow> format_civil_date l now);
          backoff = (case (job, att) of (Some _, Some a) \<Rightarrow> retry_after pol (ar_attempt_no a) | _ \<Rightarrow> 0)
      in \<lparr>di_now = now, di_due = due, di_today_key = today, di_last_succeeded_key = latest,
          di_today_state = (case job of None \<Rightarrow> NoJobState | Some j \<Rightarrow> jr_state j),
          di_today_ended = (case (job, att) of (Some _, Some a) \<Rightarrow> ar_ended_at a | _ \<Rightarrow> 0),
          di_backoff = (if backoff = 0 then ct_backoff C else backoff),
          di_catch_up = sp_catch_up pol, di_location = loc,
          di_eligibility_start = clock_hhmm now loc (sp_eligibility_start pol),
          di_start_deadline = clock_hhmm now loc (sp_window_end pol),
          di_hard_stop = clock_hhmm now loc (sp_hard_stop pol),
          di_started_at = started,
          di_boot_delay = (if is_zero started then 0
             else boot_delay (ct_device_id C) (ct_installation_id C) civil
                    (sp_boot_delay_min pol) (sp_boot_delay_max pol)),
          di_attempt_no = (case (job, att) of (Some _, Some a) \<Rightarrow> ar_attempt_no a | _ \<Rightarrow> 0),
          di_max_attempts = max_attempts_or_default pol\<rparr>)"

text \<open>The part of the tick up to the decision; the reason is kept only when there is one.\<close>

definition tick_decide :: "tz_database \<Rightarrow> 'w controller \<Rightarrow> 'w \<Rightarrow> (decision \<times> go_error option) \<times> 'w" where
  "tick_decide tz C w =
     (case ct_policy C w of (pol, revision) \<Rightarrow>
      case schedule_validate tz pol of
        Some e \<Rightarrow> ((failed_decision [] PolicyInvalid, Some e), w)
      | None \<Rightarrow>
        (case ct_now C w of (now, w1) \<Rightarrow>
         case next_slot tz (ct_device_id C) (ct_installation_id C)
                (schedule_epoch (sp_epoch pol) revision) pol now of
           Inl e \<Rightarrow> ((failed_decision [] SlotError, Some e), w1)
         | Inr (due, today) \<Rightarrow>
           (case jp_latest_succeeded_slot (ct_journal C) w1 of
              (Inl e, w2) \<Rightarrow> ((failed_decision today JournalError, Some e), w2)
            | (Inr latest, w2) \<Rightarrow>
              (case jp_job_by_slot (ct_journal C) today w2 of
                 (Inl e, w3) \<Rightarrow> ((failed_decision today JournalError, Some e), w3)
               | (Inr job, w3) \<Rightarrow>
                 (case (case job of None \<Rightarrow> (None, w3)
                        | Some j \<Rightarrow> latest_or_none (ct_journal C) (jr_id j) w3) of (att, w4) \<Rightarrow>
                  let d = decide (tick_input tz C (ct_started_at C w) pol now due today latest job att)
                  in ((d, None), ct_set_last_op C (de_reason d) w4))))))"

definition controller_tick :: "tz_database \<Rightarrow> 'w controller \<Rightarrow> 'w \<Rightarrow> (decision \<times> go_error option) \<times> 'w" where
  "controller_tick tz C w =
     (case (case ct_reconcile C of None \<Rightarrow> (None, w) | Some rec \<Rightarrow> rec w) of
        (Some e, w1) \<Rightarrow> ((failed_decision [] ReconcileFailed, Some e), w1)
      | (None, w1) \<Rightarrow>
        (case tick_decide tz C w1 of
           ((d, Some e), w2) \<Rightarrow> ((d, Some e), w2)
         | ((d, None), w2) \<Rightarrow>
           if \<not> de_run d then ((d, None), w2)
           else (case ct_backup C of None \<Rightarrow> ((d, None), w2)
                 | Some hook \<Rightarrow> (case hook (de_slot d) w2 of (e, w3) \<Rightarrow> ((d, e), w3)))))"

section \<open>What a tick may decide\<close>

text \<open>An unset bound (the zero time) bounds nothing.\<close>

definition before_bound :: "time \<Rightarrow> time \<Rightarrow> bool" where
  "before_bound now bound \<longleftrightarrow> is_zero bound \<or> now < bound"

text \<open>The decision reads the tables and leaves them alone.\<close>

locale controller_contract = journal_contract J jobs attempts
  for J :: "'w journal_port" and jobs attempts +
  fixes C :: "'w controller"
  assumes journal: "ct_journal C = J"
    and quiet: "keeps (\<lambda>w. (jobs w, attempts w)) (ct_now C)"
      "keeps (\<lambda>w. (jobs w, attempts w)) (jp_latest_succeeded_slot J)"
    and set_last_op: "jobs (ct_set_last_op C r w) = jobs w" "attempts (ct_set_last_op C r w) = attempts w"
begin

lemma latest_or_none_keeps:
  "latest_or_none J i w = (a, w') \<Longrightarrow> jobs w' = jobs w \<and> attempts w' = attempts w \<and>
     (a = None \<or> a = latest_row i (attempts w))"
  unfolding latest_or_none_def by (auto split: prod.splits sum.splits dest: latest_attempt)

lemma tick_decide_cases:
  assumes "tick_decide tz C w = ((d, err), w')" "ct_policy C w = (pol, revision)"
  shows "jobs w' = jobs w \<and> attempts w' = attempts w \<and> (de_run d \<longrightarrow> err = None \<and>
      (\<exists>due latest att. schedule_validate tz pol = None \<and>
        next_slot tz (ct_device_id C) (ct_installation_id C) (schedule_epoch (sp_epoch pol) revision) pol
          (fst (ct_now C w)) = Inr (due, de_slot d) \<and>
        (\<forall>a. att = Some a \<longrightarrow>
           (\<exists>j. slot_row (de_slot d) (jobs w) = Some j \<and> latest_row (jr_id j) (attempts w) = Some a)) \<and>
        d = decide (tick_input tz C (ct_started_at C w) pol (fst (ct_now C w)) due (de_slot d) latest
              (slot_row (de_slot d) (jobs w)) att)))"
proof (cases "schedule_validate tz pol")
  case (Some e)
  then show ?thesis using assms by (auto simp: tick_decide_def failed_decision_def)
next
  case None
  obtain now w1 where t: "ct_now C w = (now, w1)" by force
  obtain r2 w2 where l: "jp_latest_succeeded_slot J w1 = (r2, w2)" by force
  have k: "jobs w1 = jobs w" "attempts w1 = attempts w" "jobs w2 = jobs w" "attempts w2 = attempts w"
    using keepsD [OF quiet(1) t] keepsD [OF quiet(2) l] by simp_all
  show ?thesis
  proof (cases "next_slot tz (ct_device_id C) (ct_installation_id C)
      (schedule_epoch (sp_epoch pol) revision) pol now")
    case (Inl e)
    then show ?thesis using assms None t k by (auto simp: tick_decide_def failed_decision_def)
  next
    case (Inr slot)
    obtain due today where s: "slot = (due, today)" by force
    obtain r3 w3 where b: "jp_job_by_slot J today w2 = (r3, w3)" by force
    have k3: "jobs w3 = jobs w" "attempts w3 = attempts w" using job_by_slot [OF b] k by simp_all
    show ?thesis
    proof (cases "r2")
      case (Inl e)
      then show ?thesis using assms None t k \<open>_ = Inr slot\<close> s l journal
        by (auto simp: tick_decide_def failed_decision_def)
    next
      case r2: (Inr latest)
      show ?thesis
      proof (cases r3)
        case (Inl e)
        then show ?thesis using assms None t k3 \<open>_ = Inr slot\<close> s l r2 b journal
          by (auto simp: tick_decide_def failed_decision_def)
      next
        case r3: (Inr job)
        have job: "job = slot_row today (jobs w)" using job_by_slot [OF b] r3 k by simp
        obtain att w4 where a: "(case job of None \<Rightarrow> (None, w3) | Some j \<Rightarrow> latest_or_none J (jr_id j) w3) = (att, w4)"
          by force
        have k4: "jobs w4 = jobs w \<and> attempts w4 = attempts w \<and> (\<forall>x. att = Some x \<longrightarrow>
            (\<exists>j. job = Some j \<and> latest_row (jr_id j) (attempts w) = Some x))"
          using a k3 latest_or_none_keeps by (fastforce split: option.splits)
        have r: "tick_decide tz C w = ((decide (tick_input tz C (ct_started_at C w) pol now due today latest job att), None),
            ct_set_last_op C (de_reason (decide (tick_input tz C (ct_started_at C w) pol now due today latest job att))) w4)"
          using assms None t \<open>_ = Inr slot\<close> s l r2 b r3 a [folded journal] journal
          by (simp add: tick_decide_def Let_def)
        have d: "d = decide (tick_input tz C (ct_started_at C w) pol now due today latest job att)" "err = None"
          "w' = ct_set_last_op C (de_reason d) w4" using r assms(1) by simp_all
        have slot: "de_slot d = today" by (simp add: d(1) decide_slot tick_input_def Let_def)
        show ?thesis
          using None k4 d set_last_op slot job \<open>_ = Inr slot\<close> s t by auto
      qed
    qed
  qed
qed

text \<open>
  A tick that runs: today's slot of an accepted schedule, not completed and not active, the
  clock before the start deadline and before the hard stop of the day.
\<close>

lemma tick_decide_run:
  assumes "tick_decide tz C w = ((d, err), w')" "ct_policy C w = (pol, revision)" "de_run d"
    "ct_now C w = (now, w1)"
  shows "\<exists>due loc. next_slot tz (ct_device_id C) (ct_installation_id C)
           (schedule_epoch (sp_epoch pol) revision) pol now = Inr (due, de_slot d) \<and>
     load_location tz (sp_timezone pol) = Inr loc \<and>
     (\<forall>j. slot_row (de_slot d) (jobs w) = Some j \<longrightarrow>
        jr_state j \<noteq> JobSucceeded \<and> jr_state j \<noteq> JobActive \<and> jr_state j \<noteq> JobReconciling) \<and>
     before_bound now (clock_hhmm now (Some loc) (sp_window_end pol)) \<and>
     before_bound now (clock_hhmm now (Some loc) (sp_hard_stop pol)) \<and>
     (is_zero (clock_hhmm now (Some loc) (sp_eligibility_start pol)) \<or>
      clock_hhmm now (Some loc) (sp_eligibility_start pol) \<le> now)"
proof -
  obtain due latest att where v: "schedule_validate tz pol = None" and
    n: "next_slot tz (ct_device_id C) (ct_installation_id C) (schedule_epoch (sp_epoch pol) revision)
          pol now = Inr (due, de_slot d)" and
    d: "d = decide (tick_input tz C (ct_started_at C w) pol now due (de_slot d) latest (slot_row (de_slot d) (jobs w)) att)"
    using tick_decide_cases [OF assms(1,2)] assms(3,4) by auto
  obtain loc where loc: "load_location tz (sp_timezone pol) = Inr loc"
    using schedule_validate_None [OF v] by metis
  have "de_run (decide (tick_input tz C (ct_started_at C w) pol now due (de_slot d) latest (slot_row (de_slot d) (jobs w)) att))"
    using d assms(3) by simp
  then have r: "(\<forall>j. slot_row (de_slot d) (jobs w) = Some j \<longrightarrow>
        jr_state j \<noteq> JobSucceeded \<and> jr_state j \<noteq> JobActive \<and> jr_state j \<noteq> JobReconciling) \<and>
     before_bound now (clock_hhmm now (Some loc) (sp_window_end pol)) \<and>
     before_bound now (clock_hhmm now (Some loc) (sp_hard_stop pol)) \<and>
     (is_zero (clock_hhmm now (Some loc) (sp_eligibility_start pol)) \<or>
      clock_hhmm now (Some loc) (sp_eligibility_start pol) \<le> now)"
    unfolding decide_run_iff by (simp add: tick_input_def Let_def loc before_bound_def split: option.splits)
  show ?thesis using n loc r by blast
qed

lemma controller_tick_idle:
  assumes "controller_tick tz C w = ((d, err), w')" "\<not> de_run d"
  shows "\<exists>w1. (ct_reconcile C = None \<and> w1 = w \<or> (\<exists>rec e. ct_reconcile C = Some rec \<and> rec w = (e, w1))) \<and>
     jobs w' = jobs w1 \<and> attempts w' = attempts w1"
proof -
  obtain e1 w1 where r: "(case ct_reconcile C of None \<Rightarrow> (None, w) | Some rec \<Rightarrow> rec w) = (e1, w1)" by force
  have f: "ct_reconcile C = None \<and> w1 = w \<or> (\<exists>rec e. ct_reconcile C = Some rec \<and> rec w = (e, w1))"
    using r by (auto split: option.splits)
  obtain d2 e2 w2 where t: "tick_decide tz C w1 = ((d2, e2), w2)" by (metis prod.exhaust)
  have k: "jobs w2 = jobs w1 \<and> attempts w2 = attempts w1"
    using tick_decide_cases [OF t] by (metis prod.exhaust)
  have "w' = w1 \<or> w' = w2"
    using assms r t by (auto simp: controller_tick_def split: option.splits prod.splits if_splits)
  then show ?thesis using f k by auto
qed

end

end
