(* ===== verification/Policy_Server.thy ===== *)
theory Policy_Server
  imports Domain_Policy GoJson
begin

text \<open>
  The policy of the control plane (\<open>internal/control/policy.go\<close>): the decoded JSON object
  mapped onto a local policy. Anything malformed is the zero value of its field, and the
  validation of the whole decides.
\<close>

section \<open>Conversions\<close>

definition as_string :: "json option \<Rightarrow> string" where
  "as_string v = (case Option.bind v json_str of Some s \<Rightarrow> s | None \<Rightarrow> [])"

text \<open>\<open>int(n)\<close> of a double outside the 64-bit range is the least integer (amd64).\<close>

definition int_of_float :: "rat \<Rightarrow> int" where
  "int_of_float q = (let n = trunc_rat q in if in_int64 n then n else min_int64)"

definition as_int :: "json option \<Rightarrow> int" where
  "as_int v = (case Option.bind v json_num of Some q \<Rightarrow> int_of_float q | None \<Rightarrow> 0)"

definition as_bool :: "json option \<Rightarrow> bool" where
  "as_bool v = (case Option.bind v json_bool of Some b \<Rightarrow> b | None \<Rightarrow> False)"

definition as_string_slice :: "json option \<Rightarrow> string list" where
  "as_string_slice v =
     (case Option.bind v json_arr of None \<Rightarrow> []
      | Some xs \<Rightarrow> filter (\<lambda>s. s \<noteq> []) (map (\<lambda>x. as_string (Some x)) xs))"

definition as_duration_minutes :: "json option \<Rightarrow> duration" where
  "as_duration_minutes v = (let n = as_int v in if n \<le> 0 then 0 else wrap64 (n * minute_ns))"

section \<open>PolicyFromServer\<close>

definition schedule_from_server :: "json_object \<Rightarrow> schedule_policy" where
  "schedule_from_server m =
     \<lparr>sp_epoch = as_string (map_of m ''epoch''),
      sp_eligibility_start = as_string (map_of m ''eligibility_start''),
      sp_window_start = as_string (map_of m ''window_start''),
      sp_window_end = as_string (map_of m ''window_end''),
      sp_hard_stop = as_string (map_of m ''hard_stop''),
      sp_timezone = as_string (map_of m ''timezone''),
      sp_catch_up = as_bool (map_of m ''catch_up''),
      sp_jitter_max_minutes = as_int (map_of m ''jitter_max_minutes''),
      sp_max_attempts = as_int (map_of m ''max_attempts''),
      sp_retry_delay1 = as_duration_minutes (map_of m ''retry_delay_1_minutes''),
      sp_retry_delay2 = as_duration_minutes (map_of m ''retry_delay_2_minutes''),
      sp_boot_delay_min = as_duration_minutes (map_of m ''boot_delay_min_minutes''),
      sp_boot_delay_max = as_duration_minutes (map_of m ''boot_delay_max_minutes''),
      sp_normal_max_runtime = as_duration_minutes (map_of m ''normal_max_runtime_minutes''),
      sp_seed_max_runtime = as_duration_minutes (map_of m ''seed_max_runtime_minutes'')\<rparr>"

definition zero_schedule :: schedule_policy where
  "zero_schedule =
     \<lparr>sp_epoch = [], sp_eligibility_start = [], sp_window_start = [], sp_window_end = [],
      sp_hard_stop = [], sp_timezone = [], sp_catch_up = False, sp_jitter_max_minutes = 0,
      sp_max_attempts = 0, sp_retry_delay1 = 0, sp_retry_delay2 = 0, sp_boot_delay_min = 0,
      sp_boot_delay_max = 0, sp_normal_max_runtime = 0, sp_seed_max_runtime = 0\<rparr>"

definition vss_mode_from_server :: "string \<Rightarrow> vss_mode option" where
  "vss_mode_from_server s =
     (if s = ''required'' \<or> s = [] then Some VSSRequired
      else if s = ''disabled'' then Some VSSDisabled else None)"

text \<open>The mapped policy, before its validation.\<close>

definition mapped_policy :: "time \<Rightarrow> string \<Rightarrow> vss_mode \<Rightarrow> json_object \<Rightarrow> local_policy" where
  "mapped_policy now revision_id mode m =
     (let version = as_int (map_of m ''schema_version'');
          bandwidth = Option.bind (map_of m ''bandwidth'') json_obj
      in \<lparr>lp_revision_id = revision_id,
          lp_schema_version = (if version = 0 then 1 else version), lp_content_hash = [],
          lp_accepted_at = now, lp_issued_at = 0, lp_effective_at = 0,
          lp_source_roots = as_string_slice (map_of m ''source_roots''),
          lp_optional_roots = as_string_slice (map_of m ''optional_roots''),
          lp_excludes = as_string_slice (map_of m ''excludes''),
          lp_vss_mode = mode,
          lp_schedule = (case Option.bind (map_of m ''schedule'') json_obj of
             None \<Rightarrow> zero_schedule | Some s \<Rightarrow> schedule_from_server s),
          lp_bandwidth_kibps = (case bandwidth of None \<Rightarrow> 0
             | Some b \<Rightarrow> as_int (map_of b ''upload_limit_kibps'')),
          lp_restore_download_kibps = (case bandwidth of None \<Rightarrow> 0
             | Some b \<Rightarrow> as_int (map_of b ''restore_download_limit_kibps'')),
          lp_lab_local_unlimited = (case bandwidth of None \<Rightarrow> False
             | Some b \<Rightarrow> as_bool (map_of b ''lab_local_unlimited'')),
          lp_job_deadline = 0, lp_cache_budget_mib = 0, lp_free_space_floor = 0,
          lp_site_id = as_string (map_of m ''site_id'')\<rparr>)"

definition policy_from_server ::
    "tz_database \<Rightarrow> time \<Rightarrow> string \<Rightarrow> json_object option \<Rightarrow> go_error + local_policy" where
  "policy_from_server tz now revision_id cfg =
     (case cfg of None \<Rightarrow> Inl (wrap_msg ErrPolicyInvalid ''empty policy'') | Some m \<Rightarrow>
      (case vss_mode_from_server (as_string (map_of m ''vss_mode'')) of
         None \<Rightarrow> Inl (wrap_msg ErrPolicyInvalid ''vss_mode'')
       | Some mode \<Rightarrow>
         (let p = mapped_policy now revision_id mode m
          in if sp_timezone (lp_schedule p) = []
             then Inl (wrap_msg ErrPolicyInvalid ''timezone required'')
             else (case policy_validate tz p of Some e \<Rightarrow> Inl e | None \<Rightarrow> Inr p))))"

section \<open>Facts\<close>

lemma policy_validate_sentinel: "policy_validate tz p = Some e \<Longrightarrow> errors_is e ErrPolicyInvalid"
  by (auto simp: policy_validate_def dest: schedule_validate_sentinel split: option.splits if_splits)

lemma vss_mode_from_server_cases: "vss_mode_from_server s = Some m \<Longrightarrow> m = VSSRequired \<or> m = VSSDisabled"
  by (auto simp: vss_mode_from_server_def split: if_splits)

lemma mapped_policy_simps:
  "lp_revision_id (mapped_policy now r mode m) = r" "lp_accepted_at (mapped_policy now r mode m) = now"
  "lp_vss_mode (mapped_policy now r mode m) = mode" "lp_free_space_floor (mapped_policy now r mode m) = 0"
  by (simp_all add: mapped_policy_def Let_def)

lemma policy_from_server_Inr:
  assumes "policy_from_server tz now r cfg = Inr p"
  obtains mode m where "cfg = Some m" "p = mapped_policy now r mode m" "policy_validate tz p = None"
    "mode = VSSRequired \<or> mode = VSSDisabled"
  using assms vss_mode_from_server_cases unfolding policy_from_server_def Let_def
  by (auto split: option.splits if_splits)

lemma policy_from_server_Inl:
  "policy_from_server tz now r cfg = Inl e \<Longrightarrow> errors_is e ErrPolicyInvalid"
  unfolding policy_from_server_def Let_def
  by (auto dest: policy_validate_sentinel split: option.splits if_splits)

end
