(* ===== verification/Domain_Redact.thy ===== *)
theory Domain_Redact
  imports Domain_Backup
begin

text \<open>
  \<open>Redact\<close> of \<open>internal/domain/redact.go\<close>, the filter of every diagnostic text. Each of its
  regular expressions is a matcher: from the start of a string, the text that replaces the
  match and the number of bytes matched. The letters of an expression with \<open>(?i)\<close> match in
  either case and, as Go folds them, U+017F for \<open>s\<close> and U+212A for \<open>k\<close>.
\<close>

section \<open>Scanning\<close>

type_synonym matcher = "string \<Rightarrow> (string \<times> nat) option"

text \<open>\<open>ReplaceAll\<close>: the leftmost matches, one after the other; a match is never empty.\<close>

function replace_all :: "matcher \<Rightarrow> string \<Rightarrow> string" where
  "replace_all m [] = []"
| "replace_all m (c # cs) =
     (case m (c # cs) of None \<Rightarrow> c # replace_all m cs
      | Some (out, k) \<Rightarrow> out @ replace_all m (drop (k - 1) cs))"
  by pat_completeness auto
termination by (relation "measure (\<lambda>(m, s). length s)") auto

definition literal :: "string \<Rightarrow> string \<Rightarrow> matcher" where
  "literal old new s = (if has_prefix s old then Some (new, length old) else None)"

text \<open>The class \<open>\s\<close> of the expressions: ASCII, without the vertical tab.\<close>

definition re_space :: "char \<Rightarrow> bool" where
  "re_space c = (let n = (of_char c :: nat) in n = 9 \<or> n = 10 \<or> n = 12 \<or> n = 13 \<or> n = 32)"

text \<open>The next letter under folding, with its bytes.\<close>

definition fold_next :: "string \<Rightarrow> (char \<times> nat) option" where
  "fold_next s =
     (if s = [] then None
      else if byte_at s 0 = 197 \<and> byte_at s 1 = 191 then Some (CHR ''s'', 2)
      else if byte_at s 0 = 226 \<and> byte_at s 1 = 132 \<and> byte_at s 2 = 170 then Some (CHR ''k'', 3)
      else Some (lower_char (hd s), 1))"

text \<open>The bytes of a word, and of the longest run of letters of a class.\<close>

fun fold_word :: "string \<Rightarrow> string \<Rightarrow> nat option" where
  "fold_word [] s = Some 0"
| "fold_word (p # ps) s =
     (case fold_next s of None \<Rightarrow> None
      | Some (c, n) \<Rightarrow> if c = p then map_option (\<lambda>k. n + k) (fold_word ps (drop n s)) else None)"

fun fold_run :: "(char \<Rightarrow> bool) \<Rightarrow> nat \<Rightarrow> string \<Rightarrow> string \<times> nat" where
  "fold_run P 0 s = ([], 0)"
| "fold_run P (Suc fuel) s =
     (case fold_next s of None \<Rightarrow> ([], 0)
      | Some (c, n) \<Rightarrow> if P c then (case fold_run P fuel (drop n s) of (cs, k) \<Rightarrow> (c # cs, n + k)) else ([], 0))"

definition space_run :: "string \<Rightarrow> nat" where
  "space_run s = length (takeWhile re_space s)"

definition value_run :: "string \<Rightarrow> nat" where
  "value_run s = length (takeWhile (\<lambda>c. \<not> re_space c) s)"

section \<open>The expressions\<close>

abbreviation redacted :: string where "redacted \<equiv> ''[REDACTED]''"

definition name_char :: "char \<Rightarrow> bool" where
  "name_char c \<longleftrightarrow> CHR ''a'' \<le> c \<and> c \<le> CHR ''z'' \<or> c = CHR ''_''"

definition bearer_char :: "char \<Rightarrow> bool" where
  "bearer_char c \<longleftrightarrow> CHR ''a'' \<le> c \<and> c \<le> CHR ''z'' \<or> CHR ''0'' \<le> c \<and> c \<le> CHR ''9'' \<or> c \<in> set ''._-+/=''"

text \<open>An assignment \<open>\s*=\s*\S+\<close>, as its number of bytes.\<close>

definition assign_run :: "string \<Rightarrow> nat option" where
  "assign_run s =
     (let a = space_run s; s1 = drop a s in
      case s1 of c # s2 \<Rightarrow>
        if c = CHR ''='' then
          let b = space_run s2; v = value_run (drop b s2)
          in if v = 0 then None else Some (a + 1 + b + v)
        else None
      | [] \<Rightarrow> None)"

text \<open>\<open>(?i)RESTIC_[A-Z_]*PASSWORD[A-Z_]*\s*=\s*\S+\<close>\<close>

definition restic_pass_re :: matcher where
  "restic_pass_re s =
     (case fold_word ''restic_'' s of None \<Rightarrow> None
      | Some k \<Rightarrow>
        (case fold_run name_char (length s) (drop k s) of (name, n) \<Rightarrow>
          if str_contains name ''password'' then
            map_option (\<lambda>v. (''RESTIC_PASSWORD=[REDACTED]'', k + n + v)) (assign_run (drop (k + n) s))
          else None))"

text \<open>\<open>(?i)RCLONE_CONFIG_PASS\s*=\s*\S+\<close>\<close>

definition rclone_pass_re :: matcher where
  "rclone_pass_re s =
     (case fold_word ''rclone_config_pass'' s of None \<Rightarrow> None
      | Some k \<Rightarrow> map_option (\<lambda>v. (''RCLONE_CONFIG_PASS=[REDACTED]'', k + v)) (assign_run (drop k s)))"

text \<open>\<open>(?i)(bearer\s+)[a-z0-9._\-+/=]+\<close>\<close>

definition bearer_re :: matcher where
  "bearer_re s =
     (case fold_word ''bearer'' s of None \<Rightarrow> None
      | Some k \<Rightarrow>
        (let a = space_run (drop k s); t = drop (k + a) s;
             n = snd (fold_run bearer_char (length t) t)
         in if a = 0 \<or> n = 0 then None else Some (take (k + a) s @ redacted, k + a + n)))"

text \<open>\<open>(?i)(password\s*[=:]\s*)\S+\<close>\<close>

definition password_re :: matcher where
  "password_re s =
     (case fold_word ''password'' s of None \<Rightarrow> None
      | Some k \<Rightarrow>
        (let a = space_run (drop k s) in
         case drop (k + a) s of [] \<Rightarrow> None
         | c # t \<Rightarrow>
           if c = CHR ''='' \<or> c = CHR '':'' then
             let b = space_run t; v = value_run (drop b t); g = k + a + 1 + b
             in if v = 0 then None else Some (take g s @ redacted, g + v)
           else None))"

text \<open>\<open>(?i)(authorization:\s*)\S+\<close>\<close>

definition auth_re :: matcher where
  "auth_re s =
     (case fold_word ''authorization:'' s of None \<Rightarrow> None
      | Some k \<Rightarrow>
        (let a = space_run (drop k s); v = value_run (drop (k + a) s)
         in if v = 0 then None else Some (take (k + a) s @ redacted, k + a + v)))"

definition redact :: "string \<Rightarrow> string" where
  "redact s =
     (if s = [] then s
      else replace_all auth_re (replace_all password_re (replace_all bearer_re
             (replace_all rclone_pass_re (replace_all restic_pass_re
               (replace_all (literal canary_secret redacted) s))))))"

section \<open>The canary is gone\<close>

text \<open>
  A replacement keeps a part of the matched text and ends in a bracketed word; neither a
  bracket nor the end of \<open>RESTIC_PASSWORD=\<close> occurs in the canary.
\<close>

definition safe_matcher :: "matcher \<Rightarrow> bool" where
  "safe_matcher m \<longleftrightarrow> (\<forall>s out k. m s = Some (out, k) \<longrightarrow>
     (\<exists>x. out = x @ redacted \<and> (x = take (length x) s \<or> CHR ''b'' \<notin> set x)))"

abbreviation canary_free :: "string \<Rightarrow> bool" where
  "canary_free s \<equiv> \<not> str_contains s canary_secret"

lemma sub_without:
  assumes "u @ sub @ v = x @ c # y" "c \<notin> set sub"
  shows "(\<exists>w. x = u @ sub @ w) \<or> (\<exists>w. y = w @ sub @ v)"
proof (cases "length u + length sub \<le> length x")
  case True
  then have "take (length (u @ sub)) (u @ sub @ v) = take (length (u @ sub)) (x @ c # y)"
    using assms(1) by simp
  then have "u @ sub = take (length (u @ sub)) x" using True by simp
  then have "x = u @ sub @ drop (length (u @ sub)) x" by (metis append.assoc append_take_drop_id)
  then show ?thesis by blast
next
  case False
  have n: "(u @ sub @ v) ! length x = c" using assms(1) by simp
  show ?thesis
  proof (cases "length x < length u")
    case True
    have "drop (Suc (length x)) (u @ sub @ v) = y" using assms(1) by simp
    then have "y = drop (Suc (length x)) u @ sub @ v" using True by simp
    then show ?thesis by blast
  next
    case f2: False
    then have "sub ! (length x - length u) = c" using n False
      by (auto simp: nth_append split: if_splits)
    then show ?thesis using assms(2) False f2
      by (metis add.commute less_diff_conv2 linorder_not_le nth_mem)
  qed
qed

lemma canary_free_split:
  assumes "c \<notin> set canary_secret" "canary_free x" "canary_free y"
  shows "canary_free (x @ c # y)"
  using assms sub_without [of _ canary_secret _ x c y] unfolding str_contains_iff by metis

lemma canary_free_part: "canary_free (x @ y) \<Longrightarrow> canary_free x \<and> canary_free y"
proof -
  have "str_contains (x @ y) sub" if "str_contains x sub \<or> str_contains y sub" for sub
    using that unfolding str_contains_iff
  proof
    assume "\<exists>a b. x = a @ sub @ b"
    then obtain a b where "x @ y = a @ sub @ (b @ y)" by auto
    then show "\<exists>a b. x @ y = a @ sub @ b" by blast
  next
    assume "\<exists>a b. y = a @ sub @ b"
    then obtain a b where "x @ y = (x @ a) @ sub @ b" by auto
    then show "\<exists>a b. x @ y = a @ sub @ b" by blast
  qed
  then show "canary_free (x @ y) \<Longrightarrow> canary_free x \<and> canary_free y" by blast
qed

lemma canary_free_no_b:
  assumes "canary_free x" "CHR ''b'' \<notin> set y"
  shows "canary_free (x @ y)"
proof
  let ?r = "''STOWLINE_CANARY_SECRET_DO_NOT_LEAK_9f3a2c1''"
  assume "str_contains (x @ y) canary_secret"
  then obtain u v where e: "x @ y = u @ canary_secret @ v" unfolding str_contains_iff by blast
  define p where "p = u @ ?r"
  have e2: "x @ y = p @ CHR ''b'' # v" using e by (simp add: p_def)
  then obtain us where "x = p @ us \<and> us @ y = CHR ''b'' # v \<or> x @ us = p \<and> y = us @ CHR ''b'' # v"
    unfolding append_eq_append_conv2 by metis
  then show False
  proof
    assume h: "x = p @ us \<and> us @ y = CHR ''b'' # v"
    then obtain w where "us = CHR ''b'' # w" using assms(2) by (cases us) auto
    then have "x = u @ canary_secret @ w" using h by (simp add: p_def)
    then show False using assms(1) unfolding str_contains_iff by blast
  next
    assume "x @ us = p \<and> y = us @ CHR ''b'' # v"
    then show False using assms(2) by simp
  qed
qed

lemma canary_free_no_S:
  assumes "canary_free x" "CHR ''S'' \<notin> set y"
  shows "canary_free (y @ x)"
proof
  let ?r = "''TOWLINE_CANARY_SECRET_DO_NOT_LEAK_9f3a2c1b''"
  assume "str_contains (y @ x) canary_secret"
  then obtain u v where "y @ x = u @ canary_secret @ v" unfolding str_contains_iff by blast
  then have e: "y @ x = u @ CHR ''S'' # (?r @ v)" by simp
  then obtain us where "y = u @ us \<and> us @ x = CHR ''S'' # (?r @ v) \<or> y @ us = u \<and> x = us @ CHR ''S'' # (?r @ v)"
    unfolding append_eq_append_conv2 by metis
  then have "\<exists>w. x = w @ CHR ''S'' # (?r @ v)"
  proof
    assume h: "y = u @ us \<and> us @ x = CHR ''S'' # (?r @ v)"
    then have "us = []" using assms(2) by (cases us) auto
    then show ?thesis using h by auto
  qed blast
  then obtain w where "x = w @ canary_secret @ v" by auto
  then show False using assms(1) unfolding str_contains_iff by blast
qed

lemma canary_free_redacted:
  assumes "canary_free x" "canary_free y"
  shows "canary_free (x @ redacted @ y)"
proof -
  have "canary_free ((x @ CHR ''['' # ''REDACTED'') @ CHR '']'' # y)"
    by (intro canary_free_split assms) simp_all
  then show ?thesis by simp
qed

lemma replace_all_free:
  "safe_matcher m \<Longrightarrow> canary_free (x @ s) \<Longrightarrow> canary_free (x @ replace_all m s)"
proof (induction m s arbitrary: x rule: replace_all.induct)
  case (1 m)
  then show ?case by simp
next
  case (2 m c cs)
  show ?case
  proof (cases "m (c # cs)")
    case None
    then show ?thesis using "2.IH"(1) [OF None "2.prems"(1), of "x @ [c]"] "2.prems" by simp
  next
    case (Some a)
    obtain out k where a: "a = (out, k)" by force
    obtain y where y: "out = y @ redacted" "y = take (length y) (c # cs) \<or> CHR ''b'' \<notin> set y"
      using "2.prems"(1) [unfolded safe_matcher_def, rule_format, OF Some [unfolded a]] by (elim exE conjE)
    have free: "canary_free x" "canary_free (drop (k - 1) cs)"
      using canary_free_part [OF "2.prems"(2)] canary_free_part [of "c # take (k - 1) cs" "drop (k - 1) cs"]
      by simp_all
    have "canary_free (x @ y)"
      using y(2) canary_free_no_b [OF free(1)]
        canary_free_part [of "x @ take (length y) (c # cs)" "drop (length y) (c # cs)"] "2.prems"
      by auto
    moreover have "canary_free (replace_all m (drop (k - 1) cs))"
      using "2.IH"(2) [OF Some a [symmetric] "2.prems"(1), of "[]"] free(2) by simp
    ultimately have "canary_free ((x @ y) @ redacted @ replace_all m (drop (k - 1) cs))"
      by (rule canary_free_redacted)
    then show ?thesis using Some a y(1) by simp
  qed
qed

text \<open>Every occurrence of the canary is found: none starts in the text already passed.\<close>

lemma literal_free:
  assumes "\<And>u v. x @ s = u @ canary_secret @ v \<Longrightarrow> length x \<le> length u"
  shows "canary_free (x @ replace_all (literal canary_secret redacted) s)"
  using assms
proof (induction "literal canary_secret redacted" s arbitrary: x rule: replace_all.induct)
  case 1
  show ?case unfolding str_contains_iff using "1.prems" by fastforce
next
  case (2 c cs)
  have x: "canary_free x"
  proof
    assume "str_contains x canary_secret"
    then obtain u v where "x = u @ canary_secret @ v" unfolding str_contains_iff by blast
    then show False using "2.prems" [of u "v @ c # cs"] by simp
  qed
  show ?case
  proof (cases "has_prefix (c # cs) canary_secret")
    case False
    then have n: "literal canary_secret redacted (c # cs) = None" by (simp only: literal_def if_False)
    have "canary_free ((x @ [c]) @ replace_all (literal canary_secret redacted) cs)"
    proof (rule "2.hyps"(1) [OF n])
      fix u v assume e: "(x @ [c]) @ cs = u @ canary_secret @ v"
      then have le: "length x \<le> length u" using "2.prems" [of u v] by simp
      have "length x \<noteq> length u"
      proof
        assume "length x = length u"
        then have "c # cs = canary_secret @ v" using e by simp
        then show False using False unfolding has_prefix_iff by blast
      qed
      then show "length (x @ [c]) \<le> length u" using le by simp
    qed
    then show ?thesis using n by simp
  next
    case True
    then have n: "literal canary_secret redacted (c # cs) = Some (redacted, length canary_secret)"
      by (simp only: literal_def if_True)
    have "canary_free ([] @ replace_all (literal canary_secret redacted) (drop (length canary_secret - 1) cs))"
      by (rule "2.hyps"(2) [OF n refl]) simp
    then show ?thesis using canary_free_redacted [OF x] n
      by (simp only: replace_all.simps option.case prod.case append_Nil)
  qed
qed

lemma safe_matchers: "safe_matcher restic_pass_re" "safe_matcher rclone_pass_re"
  "safe_matcher bearer_re" "safe_matcher password_re" "safe_matcher auth_re"
proof -
  have f: "\<exists>x. take n s @ redacted = x @ redacted \<and> (x = take (length x) s \<or> CHR ''b'' \<notin> set x)" for n and s :: string
  proof (rule exI [of _ "take n s"], intro conjI disjI1 refl)
    show "take n s = take (length (take n s)) s" by (cases "n \<le> length s") (simp_all add: min_def)
  qed
  have r: "\<exists>x. ''RESTIC_PASSWORD=[REDACTED]'' = x @ redacted \<and> (x = take (length x) s \<or> CHR ''b'' \<notin> set x)" for s
    by (rule exI [of _ "''RESTIC_PASSWORD=''"]) simp
  have c: "\<exists>x. ''RCLONE_CONFIG_PASS=[REDACTED]'' = x @ redacted \<and> (x = take (length x) s \<or> CHR ''b'' \<notin> set x)" for s
    by (rule exI [of _ "''RCLONE_CONFIG_PASS=''"]) simp
  show "safe_matcher restic_pass_re" unfolding safe_matcher_def restic_pass_re_def
    using r by (auto split: option.splits prod.splits if_splits)
  show "safe_matcher rclone_pass_re" unfolding safe_matcher_def rclone_pass_re_def
    using c by (auto split: option.splits)
  show "safe_matcher bearer_re" "safe_matcher password_re" "safe_matcher auth_re"
    unfolding safe_matcher_def bearer_re_def password_re_def auth_re_def Let_def
    using f by (auto split: option.splits if_splits list.splits)
qed

lemma redact_free: "canary_free (redact s)"
proof -
  have step: "safe_matcher m \<Longrightarrow> canary_free t \<Longrightarrow> canary_free (replace_all m t)" for m t
    using replace_all_free [of m "[]" t] by simp
  have "canary_free (replace_all (literal canary_secret redacted) s)"
    using literal_free [of "[]" s] by simp
  from step [OF safe_matchers(5) step [OF safe_matchers(4) step [OF safe_matchers(3)
        step [OF safe_matchers(2) step [OF safe_matchers(1) this]]]]]
  show ?thesis by (simp add: redact_def)
qed

end
