(* ===== verification/Outcome.thy ===== *)
theory Outcome
  imports Domain_Redact
begin

text \<open>
  The operator-visible outcome of a tick (\<open>internal/windows/service/outcome.go\<close>): backup
  results wrapped as errors, and the Event Log entries of a tick with the suppression of
  repeated messages. The text of a \<open>TickError\<close> is \<open>tick_text\<close>.
\<close>

section \<open>Wrapping a backup result\<close>

definition wrap_backup :: "backup_result \<Rightarrow> go_error option \<Rightarrow> go_error option" where
  "wrap_backup res run_err =
     (if br_outcome res = NoPhase then run_err
      else Some (TickError (br_outcome res)
             (if br_error_class res = NoErrorClass \<and> br_outcome res \<noteq> PhaseSucceeded
              then ErrorInternal else br_error_class res)
             (br_attempt_id res) (br_job_id res) (effective_class (br_attempt_class res))))"

definition wrap_operator_backup :: "backup_result \<Rightarrow> go_error option \<Rightarrow> go_error option" where
  "wrap_operator_backup res run_err =
     (if br_outcome res = PhaseSucceeded then None else wrap_backup res run_err)"

section \<open>The Event Log\<close>

abbreviation ev_start :: int where "ev_start \<equiv> 1"
abbreviation ev_stop :: int where "ev_stop \<equiv> 2"
abbreviation ev_tick_error :: int where "ev_tick_error \<equiv> 10"
abbreviation ev_tick_warn :: int where "ev_tick_warn \<equiv> 11"
abbreviation ev_tick_ok :: int where "ev_tick_ok \<equiv> 12"
abbreviation ev_command :: int where "ev_command \<equiv> 13"

datatype log_entry = LogInfo int string | LogWarning int string | LogError int string

primrec entry_text :: "log_entry \<Rightarrow> string" where
  "entry_text (LogInfo _ m) = m"
| "entry_text (LogWarning _ m) = m"
| "entry_text (LogError _ m) = m"

text \<open>The pointer to the last message: absent, or holding nil or a message.\<close>

datatype last_message = NoLast | Last "string option"

definition emit_deduped :: "last_message \<Rightarrow> int \<Rightarrow> bool \<Rightarrow> string \<Rightarrow> log_entry list \<times> last_message" where
  "emit_deduped seen eid is_error msg =
     (let entry = (if is_error then LogError eid msg else LogWarning eid msg) in
      case seen of
        NoLast \<Rightarrow> ([entry], seen)
      | Last prev \<Rightarrow> if prev = Some msg then ([], seen) else ([entry], Last (Some msg)))"

definition report_tick_error :: "bool \<Rightarrow> attempt_phase \<times> error_class \<times> string \<times> string \<times> attempt_class \<Rightarrow>
    last_message \<Rightarrow> log_entry list \<times> last_message" where
  "report_tick_error ctx_done te seen =
     (case te of (p, c, a, j, k) \<Rightarrow>
      let msg = redact (tick_text p c a k) in
      if p = PhaseSucceeded then
        ([LogInfo ev_tick_ok msg], (case seen of NoLast \<Rightarrow> NoLast | Last _ \<Rightarrow> Last None))
      else if p = PhasePartial then emit_deduped seen ev_tick_warn False msg
      else if p = PhaseCancelled then
        (if ctx_done then
           ([LogInfo ev_stop (redact (kind_label k @ '' CANCELLED during service stop attempt='' @ safe_attempt a))], seen)
         else emit_deduped seen ev_tick_warn False msg)
      else emit_deduped seen ev_tick_error True msg)"

text \<open>\<open>ctx_done\<close> is \<open>ctx != nil && ctx.Err() != nil\<close>; every cause of a joined error is reported.\<close>

fun report_tick :: "bool \<Rightarrow> go_error \<Rightarrow> last_message \<Rightarrow> log_entry list \<times> last_message"
and report_causes :: "bool \<Rightarrow> go_error list \<Rightarrow> last_message \<Rightarrow> log_entry list \<times> last_message" where
  "report_tick ctx_done err seen =
     (case err of
        Joined causes \<Rightarrow> report_causes ctx_done causes seen
      | _ \<Rightarrow>
        (case as_tick_error err of
           Some te \<Rightarrow> report_tick_error ctx_done te seen
         | None \<Rightarrow>
           if ctx_done \<or> errors_is err ContextCanceled then ([], seen)
           else emit_deduped seen ev_tick_error True (''backup tick failed: '' @ redact (error_text err))))"
| "report_causes ctx_done [] seen = ([], seen)"
| "report_causes ctx_done (e # es) seen =
     (case report_tick ctx_done e seen of (l1, last1) \<Rightarrow>
      case report_causes ctx_done es last1 of (l2, last2) \<Rightarrow> (l1 @ l2, last2))"

text \<open>The call with a possibly nil error.\<close>

definition report_result :: "bool \<Rightarrow> go_error option \<Rightarrow> last_message \<Rightarrow> log_entry list \<times> last_message" where
  "report_result ctx_done err seen = (case err of None \<Rightarrow> ([], seen) | Some e \<Rightarrow> report_tick ctx_done e seen)"

section \<open>Facts\<close>

text \<open>No entry of the log carries the canary.\<close>

definition entries_free :: "log_entry list \<Rightarrow> bool" where
  "entries_free es \<longleftrightarrow> (\<forall>e\<in>set es. canary_free (entry_text e))"

lemma entries_free_append [simp]: "entries_free (xs @ ys) \<longleftrightarrow> entries_free xs \<and> entries_free ys"
  by (auto simp: entries_free_def)

lemma emit_free: "canary_free msg \<Longrightarrow> entries_free (fst (emit_deduped seen eid b msg))"
  by (auto simp: emit_deduped_def Let_def entries_free_def split: last_message.split)

lemma report_tick_error_free: "entries_free (fst (report_tick_error d te seen))"
proof (cases te)
  case (fields p c a j k)
  have one: "entries_free [LogInfo n (redact t)]" for n t by (simp add: entries_free_def redact_free)
  show ?thesis unfolding fields report_tick_error_def prod.case Let_def
    by (simp only: if_distrib [of fst] fst_conv) (simp add: one emit_free redact_free)
qed

lemma report_entries_free:
  "entries_free (fst (report_tick d e seen))" "entries_free (fst (report_causes d es seen))"
proof (induction d e seen and d es seen rule: report_tick_report_causes.induct)
  case (1 d err seen)
  have m: "entries_free (fst (emit_deduped seen ev_tick_error True (''backup tick failed: '' @ redact t)))" for t
    by (intro emit_free canary_free_no_S redact_free) simp
  have n: "entries_free []" by (simp add: entries_free_def)
  have other: "entries_free (fst (case as_tick_error err of
      Some te \<Rightarrow> report_tick_error d te seen
    | None \<Rightarrow> if d \<or> errors_is err ContextCanceled then ([], seen)
       else emit_deduped seen ev_tick_error True (''backup tick failed: '' @ redact (error_text err))))"
    using m n report_tick_error_free by (simp only: fst_conv split: option.split if_split) blast
  show ?case
  proof (cases err)
    case (Joined x)
    show ?thesis using 1 [OF Joined] Joined by simp
  qed (use other in \<open>simp_all only: report_tick.simps go_error.case\<close>)
next
  case (2 d seen)
  show ?case by (simp add: entries_free_def)
next
  case (3 d e es seen)
  obtain l1 s1 where a: "report_tick d e seen = (l1, s1)" by force
  obtain l2 s2 where b: "report_causes d es s1 = (l2, s2)" by force
  show ?case using "3.IH"(1) "3.IH"(2) [OF a [symmetric]] a b by simp
qed

text \<open>A failure that repeats is not logged again.\<close>

lemma emit_deduped_again:
  "emit_deduped seen eid b msg = (es, seen') \<Longrightarrow> seen \<noteq> NoLast \<Longrightarrow> emit_deduped seen' eid b msg = ([], seen')"
  by (auto simp: emit_deduped_def Let_def split: last_message.splits if_splits)

end
