(* ===== verification/Executor.thy ===== *)
theory Executor
  imports Service Policy_Server Outcome
begin

text \<open>
  The executor of control-plane commands (\<open>internal/control/execute.go\<close>) and the parts of
  its client that decide (\<open>client.go\<close>): the heartbeat, the claim, the durable consumption
  of a command, its dispatch, the durable result, the acknowledgement, and the flush of the
  outbox. HTTP and the decoding of answers are the client port; the handlers are hooks.
\<close>

section \<open>The client (client.go)\<close>

record heartbeat_result =
  hb_poll_seconds :: int
  hb_desired_revision :: string
  hb_policy :: "json_object option"
  hb_pause_wan :: bool
  hb_provider_unavailable :: bool
  hb_site_id :: string
  hb_agent_sha256 :: string
  hb_agent_qualified :: bool

record command_envelope =
  cv_command_id :: string
  cv_job_id :: string
  cv_kind :: string
  cv_payload :: json_object

record admission_result =
  am_status :: string
  am_lease_id :: string
  am_bandwidth_kibps :: int
  am_restore_download_kibps :: int

record policy_result =
  po_revision_id :: string
  po_config :: "json_object option"

text \<open>\<open>cl_claim\<close> is the round trip of the claim, before its checks; \<open>AcquireLease\<close> returns a
  result with its error.\<close>

record 'w client_port =
  cl_base_url :: string
  cl_heartbeat :: "int \<Rightarrow> string \<Rightarrow> string \<Rightarrow> string \<Rightarrow> string \<Rightarrow> 'w \<Rightarrow> (go_error + heartbeat_result) \<times> 'w"
  cl_claim :: "'w \<Rightarrow> (go_error + command_envelope option) \<times> 'w"
  cl_policy :: "'w \<Rightarrow> (go_error + policy_result) \<times> 'w"
  cl_report_attempt :: "json_object \<Rightarrow> 'w \<Rightarrow> go_error option \<times> 'w"
  cl_ack_result :: "string \<Rightarrow> string \<Rightarrow> json_object option \<Rightarrow> 'w \<Rightarrow> go_error option \<times> 'w"
  cl_acquire_lease :: "json_object \<Rightarrow> 'w \<Rightarrow> (admission_result \<times> go_error option) \<times> 'w"
  cl_release_lease :: "string \<Rightarrow> string \<Rightarrow> 'w \<Rightarrow> go_error option \<times> 'w"

definition allowed_kinds :: "string list" where
  "allowed_kinds =
     [''RUN_BACKUP'', ''RESTORE_TO_STAGING'', ''RUN_CANARY'', ''REFRESH_POLICY'', ''REPORT_INVENTORY'',
      ''CANCEL_CURRENT_SAFE_OPERATION'', ''BROWSE_SNAPSHOT'', ''BROWSE_LOCAL_DIR'', ''APPLY_SELECTION'',
      ''BUILD_SNAPSHOT_CATALOG'']"

text \<open>\<open>Claim\<close>: the envelope comes with the error that refuses it.\<close>

definition client_claim :: "'w client_port \<Rightarrow> 'w \<Rightarrow> (command_envelope option \<times> go_error option) \<times> 'w" where
  "client_claim c w =
     (case cl_claim c w of
        (Inl e, w1) \<Rightarrow> ((None, Some e), w1)
      | (Inr None, w1) \<Rightarrow> ((None, None), w1)
      | (Inr (Some cmd), w1) \<Rightarrow>
          if cv_kind cmd \<notin> set allowed_kinds
          then ((Some cmd, Some (wrap_msg ErrForbiddenCommand (''remote command '' @ cv_kind cmd))), w1)
          else if cv_kind cmd = ''EXEC'' \<or> equal_fold (cv_kind cmd) ''shell''
          then ((Some cmd, Some (Sentinel ErrForbiddenCommand)), w1)
          else ((Some cmd, None), w1))"

definition lease_granted :: "admission_result \<Rightarrow> bool" where
  "lease_granted a \<longleftrightarrow> am_status a = admission_granted \<and> am_lease_id a \<noteq> []"

section \<open>The executor\<close>

record exec_state =
  xs_policy_rev :: string
  xs_sequence :: int
  xs_poll_seconds :: int
  xs_pause_wan :: bool
  xs_provider_down :: bool
  xs_policy_invalid :: bool
  xs_site_id :: string

record command_diagnostic =
  dg_event :: string
  dg_stage :: poll_stage
  dg_command_id :: string
  dg_kind :: string
  dg_class :: error_class
  dg_reason :: string

definition command_diagnostic_string :: "command_diagnostic \<Rightarrow> string" where
  "command_diagnostic_string d =
     diagnostic_text (dg_event d) (dg_stage d) (dg_command_id d) (dg_kind d) (dg_class d) (dg_reason d)"

record 'w executor =
  xc_client :: "'w client_port option"
  xc_journal :: "'w journal_port option"
  xc_backup :: "('w \<Rightarrow> go_error option \<times> 'w) option"
  xc_restore :: "(string \<Rightarrow> string \<Rightarrow> string list \<Rightarrow> 'w \<Rightarrow> go_error option \<times> 'w) option"
  xc_canary :: "('w \<Rightarrow> go_error option \<times> 'w) option"
  xc_inventory :: "('w \<Rightarrow> go_error option \<times> 'w) option"
  xc_browse :: "(string \<Rightarrow> string \<Rightarrow> 'w \<Rightarrow> (json_object option \<times> go_error option) \<times> 'w) option"
  xc_browse_local_dir :: "(string \<Rightarrow> string \<Rightarrow> int \<Rightarrow> 'w \<Rightarrow> (json_object option \<times> go_error option) \<times> 'w) option"
  xc_build_catalog :: "(string \<Rightarrow> 'w \<Rightarrow> go_error option \<times> 'w) option"
  xc_apply_selection :: "(string \<Rightarrow> string list \<Rightarrow> string list \<Rightarrow> 'w \<Rightarrow>
      (json_object option \<times> go_error option) \<times> 'w) option"
  xc_cancel :: "('w \<Rightarrow> 'w) option"
  xc_on_policy :: "(local_policy \<Rightarrow> 'w \<Rightarrow> 'w) option"
  xc_on_agent_pin :: "(string \<Rightarrow> bool \<Rightarrow> 'w \<Rightarrow> 'w) option"
  xc_on_command_event :: "(command_diagnostic \<Rightarrow> 'w \<Rightarrow> 'w) option"
  xc_agent_sha256 :: string
  xc_version :: string
  xc_state :: "'w \<Rightarrow> exec_state"
  xc_set_state :: "exec_state \<Rightarrow> 'w \<Rightarrow> 'w"
  xc_now :: "'w \<Rightarrow> time \<times> 'w"
  xc_tz :: tz_database

section \<open>Errors of a poll\<close>

definition poll_sentinel_classes :: "(sentinel \<times> error_class) list" where
  "poll_sentinel_classes =
     [(ErrBrowsePathRejected, ErrorPathSafety), (ErrSelectionRejected, ErrorPathSafety),
      (ErrRestorePathRejected, ErrorPathSafety), (ErrStagingEscape, ErrorPathSafety),
      (ErrAuth, ErrorAuth), (ErrConfig, ErrorConfig), (ErrPolicyInvalid, ErrorConfig),
      (ErrForbiddenCommand, ErrorConfig), (ErrWANAdmissionDeclined, ErrorResourceExhausted)]"

definition normalized_poll_class :: "poll_stage \<Rightarrow> go_error \<Rightarrow> error_class" where
  "normalized_poll_class stage err =
     (if errors_is err ContextCanceled \<or> errors_is err ContextDeadlineExceeded then ErrorCancelled
      else case (case as_tick_error err of None \<Rightarrow> NoErrorClass | Some (_, c, _) \<Rightarrow> c) of
        NoErrorClass \<Rightarrow>
          (case find (\<lambda>p. errors_is err (fst p)) poll_sentinel_classes of
             Some p \<Rightarrow> snd p
           | None \<Rightarrow> if stage = StageHeartbeat \<or> stage = StageClaim \<or> stage = StageAck
                     then ErrorNetwork else ErrorInternal)
      | c \<Rightarrow> c)"

definition new_poll_error :: "poll_stage \<Rightarrow> string \<Rightarrow> command_envelope option \<Rightarrow> go_error \<Rightarrow> go_error" where
  "new_poll_error stage event cmd err =
     PollError stage (case cmd of None \<Rightarrow> [] | Some c \<Rightarrow> cv_command_id c)
       (case cmd of None \<Rightarrow> [] | Some c \<Rightarrow> cv_kind c) event (normalized_poll_class stage err) err"

definition command_event :: "'w executor \<Rightarrow> string \<Rightarrow> poll_stage \<Rightarrow> command_envelope \<Rightarrow> error_class \<Rightarrow> 'w \<Rightarrow> 'w" where
  "command_event X event stage cmd cls w =
     (case xc_on_command_event X of None \<Rightarrow> w
      | Some f \<Rightarrow> f \<lparr>dg_event = event, dg_stage = stage, dg_command_id = cv_command_id cmd,
                     dg_kind = cv_kind cmd, dg_class = cls, dg_reason = []\<rparr> w)"

section \<open>The outbox\<close>

definition consistency_text :: "consistency_class \<Rightarrow> string" where
  "consistency_text c =
     (case c of NoConsistency \<Rightarrow> [] | ConsistencyVerified \<Rightarrow> ''CONSISTENCY_VERIFIED''
      | ConsistencyNotMet \<Rightarrow> ''CONSISTENCY_NOT_MET'' | LiveReadAllowed \<Rightarrow> ''LIVE_READ_ALLOWED'')"

text \<open>The members of a decoded payload that the report reads; nothing else decodes to them.\<close>

definition payload_members :: "outbox_payload \<Rightarrow> json_object" where
  "payload_members p =
     (case p of
        BackupPayload (BackupJSON r) \<Rightarrow>
          [(''Outcome'', JStr (phase_text (br_outcome r))), (''SnapshotID'', JStr (br_snapshot_id r)),
           (''ErrorClass'', JStr (error_class_text (br_error_class r))),
           (''PublishedNotGreen'', JBool (br_published_not_green r)),
           (''Consistency'', JStr (consistency_text (br_consistency r))), (''JobID'', JStr (br_job_id r)),
           (''Summary'', JObj [(''DataAdded'', JNum (of_int (bs_data_added (br_summary r)))),
                             (''FilesNew'', JNum (of_int (bs_files_new (br_summary r))))])]
      | BackupPayload (RestoreJSON r) \<Rightarrow> [(''ErrorClass'', JStr (error_class_text (rr_error_class r)))]
      | BackupPayload NoSummaryJSON \<Rightarrow> []
      | CatalogPayload i \<Rightarrow> [(''snapshot_id'', JStr i)]
      | RawPayload _ \<Rightarrow> [])"

definition payload_get :: "json_object \<Rightarrow> string list \<Rightarrow> json" where
  "payload_get m names =
     (case filter (\<lambda>v. v \<noteq> JNull \<and> v \<noteq> JStr []) (List.map_filter (map_of m) names) of
        [] \<Rightarrow> JStr [] | v # _ \<Rightarrow> v)"

text \<open>\<open>fmt.Sprint\<close> of a member: these members are strings.\<close>

definition sprint :: "json \<Rightarrow> string" where
  "sprint v = (case json_str v of Some s \<Rightarrow> s | None \<Rightarrow> [])"

definition outbox_to_attempt :: "outbox_payload \<Rightarrow> string \<Rightarrow> time \<Rightarrow> json_object" where
  "outbox_to_attempt payload attempt_id created_at =
     (let m = payload_members payload; get = payload_get m in
      [(''attempt_id'', JStr attempt_id),
       (''outcome'', JStr (to_upper (sprint (get [''Outcome'', ''outcome''])))),
       (''snapshot_id'', JStr (sprint (get [''SnapshotID'', ''snapshot_id'']))),
       (''error_class'', JStr (sprint (get [''ErrorClass'', ''error_class'']))),
       (''published_not_green'', get [''PublishedNotGreen'', ''published_not_green'']),
       (''consistency'', JStr (sprint (get [''Consistency'', ''consistency'']))),
       (''job_id'', JStr (sprint (get [''JobID'', ''job_id''])))] @
      (if is_zero created_at then []
       else [(''attempt_ended_at'', JStr (format_rfc3339nano created_at))]) @
      (case Option.bind (map_of m ''Summary'') json_obj of None \<Rightarrow> []
       | Some sm \<Rightarrow> [(''bytes_added'', case map_of sm ''DataAdded'' of None \<Rightarrow> JNull | Some v \<Rightarrow> v),
                    (''files_new'', case map_of sm ''FilesNew'' of None \<Rightarrow> JNull | Some v \<Rightarrow> v)]))"

definition catalog_snapshot :: "outbox_payload \<Rightarrow> string" where
  "catalog_snapshot p = (case p of CatalogPayload i \<Rightarrow> i | _ \<Rightarrow> [])"

definition flush_catalog_event :: "'w executor \<Rightarrow> outbox_event \<Rightarrow> 'w \<Rightarrow> go_error option \<times> 'w" where
  "flush_catalog_event X ev w =
     (case xc_build_catalog X of None \<Rightarrow> (None, w)
      | Some build \<Rightarrow>
        if catalog_snapshot (oe_payload ev) = [] then (None, w)
        else (case build (catalog_snapshot (oe_payload ev)) w of
            (Some e, w1) \<Rightarrow> (if errors_is e ErrCatalogEnumerationFailed then None else Some e, w1)
          | (None, w1) \<Rightarrow> (None, w1)))"

definition deliver_event :: "'w executor \<Rightarrow> 'w client_port \<Rightarrow> outbox_event \<Rightarrow> 'w \<Rightarrow> go_error option \<times> 'w" where
  "deliver_event X c ev w =
     (if oe_type ev = ''catalog.build'' then flush_catalog_event X ev w
      else cl_report_attempt c (outbox_to_attempt (oe_payload ev) (oe_attempt_id ev) (oe_created_at ev)) w)"

fun flush_rows :: "'w executor \<Rightarrow> 'w client_port \<Rightarrow> 'w journal_port \<Rightarrow> outbox_event list \<Rightarrow> 'w \<Rightarrow>
    go_error option \<times> 'w" where
  "flush_rows X c J [] w = (None, w)"
| "flush_rows X c J (ev # evs) w =
     (case deliver_event X c ev w of
        (Some e, w1) \<Rightarrow> (Some e, w1)
      | (None, w1) \<Rightarrow>
        (case jp_ack_outbox J (oe_event_id ev) w1 of
           (Some e, w2) \<Rightarrow> (Some e, w2)
         | (None, w2) \<Rightarrow> flush_rows X c J evs w2))"

definition flush_outbox :: "'w executor \<Rightarrow> 'w client_port \<Rightarrow> 'w \<Rightarrow> go_error option \<times> 'w" where
  "flush_outbox X c w =
     (case xc_journal X of None \<Rightarrow> (None, w)
      | Some J \<Rightarrow>
        (case jp_unacked_outbox J 32 w of
           (Inl e, w1) \<Rightarrow> (Some e, w1)
         | (Inr rows, w1) \<Rightarrow> flush_rows X c J rows w1))"

section \<open>Policies\<close>

definition policy_differs :: "local_policy \<Rightarrow> local_policy option \<Rightarrow> bool" where
  "policy_differs p latest =
     (case latest of None \<Rightarrow> True
      | Some q \<Rightarrow> lp_revision_id q \<noteq> lp_revision_id p \<or> lp_bandwidth_kibps q \<noteq> lp_bandwidth_kibps p \<or>
                 lp_restore_download_kibps q \<noteq> lp_restore_download_kibps p)"

text \<open>A policy the journal lacks is saved before it becomes live; a failing read counts as a lack.\<close>

definition save_if_changed :: "'w journal_port option \<Rightarrow> local_policy \<Rightarrow> 'w \<Rightarrow> go_error option \<times> 'w" where
  "save_if_changed journal p w =
     (case journal of None \<Rightarrow> (None, w)
      | Some J \<Rightarrow>
        (case jp_latest_policy J w of (r, w1) \<Rightarrow>
         if policy_differs p (case r of Inl _ \<Rightarrow> None | Inr q \<Rightarrow> q) then jp_save_policy J p w1
         else (None, w1)))"

definition accept_policy :: "'w executor \<Rightarrow> string \<Rightarrow> json_object option \<Rightarrow> 'w \<Rightarrow> go_error option \<times> 'w" where
  "accept_policy X revision_id cfg w =
     (if revision_id = [] \<or> cfg = None then (None, w)
      else case xc_now X w of (now, w1) \<Rightarrow>
        (case policy_from_server (xc_tz X) now revision_id cfg of
           Inl e \<Rightarrow> (Some (Wrapped [] e '': rejecting malformed server policy''), w1)
         | Inr p \<Rightarrow>
           (case save_if_changed (xc_journal X) p w1 of
              (Some e, w2) \<Rightarrow> (Some e, w2)
            | (None, w2) \<Rightarrow>
              (let w3 = xc_set_state X ((xc_state X w2)\<lparr>xs_policy_rev := lp_revision_id p\<rparr>) w2
               in (None, case xc_on_policy X of None \<Rightarrow> w3 | Some f \<Rightarrow> f p w3)))))"

section \<open>Dispatch\<close>

definition missing_executor :: "string \<Rightarrow> json_object option \<times> go_error option" where
  "missing_executor what = (None, Some (wrap_msg ErrConfig (what @ '' missing'')))"

text \<open>A handler that only reports an error.\<close>

definition run_hook :: "string \<Rightarrow> ('w \<Rightarrow> go_error option \<times> 'w) option \<Rightarrow> 'w \<Rightarrow>
    (json_object option \<times> go_error option) \<times> 'w" where
  "run_hook what hook w =
     (case hook of None \<Rightarrow> (missing_executor what, w)
      | Some f \<Rightarrow> (case f w of (e, w1) \<Rightarrow> ((None, e), w1)))"

definition dispatch_refresh :: "'w executor \<Rightarrow> 'w \<Rightarrow> (json_object option \<times> go_error option) \<times> 'w" where
  "dispatch_refresh X w =
     (case xc_client X of None \<Rightarrow> (missing_executor ''policy client'', w)
      | Some c \<Rightarrow>
        (case cl_policy c w of
           (Inl e, w1) \<Rightarrow> ((None, Some e), w1)
         | (Inr pr, w1) \<Rightarrow>
           (case accept_policy X (po_revision_id pr) (po_config pr) w1 of
              (Some e, w2) \<Rightarrow> ((None, Some e), w2)
            | (None, w2) \<Rightarrow> ((Some [(''revision_id'', JStr (po_revision_id pr))], None), w2))))"

text \<open>What a failed backup tells the server: the declined admission, or the class of its tick.\<close>

definition backup_extra :: "go_error option \<Rightarrow> json_object option" where
  "backup_extra run_err =
     (case run_err of None \<Rightarrow> None
      | Some e \<Rightarrow>
        (case as_wan_declined e of
           Some r \<Rightarrow> Some [(''error_class'', JStr ''RESOURCE_EXHAUSTED''), (''reason'', JStr r)]
         | None \<Rightarrow>
           (case as_tick_error e of None \<Rightarrow> None
            | Some (_, c, _) \<Rightarrow> if c = NoErrorClass then None
                               else Some [(''error_class'', JStr (error_class_text c))])))"

definition dispatch_backup :: "'w executor \<Rightarrow> 'w \<Rightarrow> (json_object option \<times> go_error option) \<times> 'w" where
  "dispatch_backup X w =
     (case xc_backup X of None \<Rightarrow> (missing_executor ''backup executor'', w)
      | Some f \<Rightarrow> (case f w of (e, w1) \<Rightarrow> ((backup_extra e, e), w1)))"

fun restore_selections :: "json list \<Rightarrow> string list option" where
  "restore_selections [] = Some []"
| "restore_selections (x # xs) =
     (let s = as_string (Some x) in
      if str_contains s ''..'' then None else map_option ((#) s) (restore_selections xs))"

definition dispatch_restore :: "'w executor \<Rightarrow> command_envelope \<Rightarrow> 'w \<Rightarrow>
    (json_object option \<times> go_error option) \<times> 'w" where
  "dispatch_restore X cmd w =
     (let m = cv_payload cmd; mode = member_str m ''destination_mode''
      in if mode \<noteq> [] \<and> mode \<noteq> ''STAGING''
         then ((None, Some (wrap_msg ErrRestorePathRejected ''only staged restore is allowed'')), w)
         else case restore_selections
             (case Option.bind (map_of m ''selections'') json_arr of None \<Rightarrow> [] | Some xs \<Rightarrow> xs) of
           None \<Rightarrow> ((None, Some (Sentinel ErrRestorePathRejected)), w)
         | Some sel \<Rightarrow>
             run_hook ''restore executor''
               (map_option (\<lambda>f. f (cv_job_id cmd) (member_str m ''snapshot_id'') sel) (xc_restore X)) w)"

definition member_strings :: "json_object \<Rightarrow> string \<Rightarrow> string list" where
  "member_strings m k =
     (case Option.bind (map_of m k) json_arr of None \<Rightarrow> []
      | Some xs \<Rightarrow> map (\<lambda>x. as_string (Some x)) xs)"

definition browse_limit :: "json_object \<Rightarrow> int" where
  "browse_limit m =
     (case member_num m ''limit'' of Some q \<Rightarrow> if q > 0 then int_of_float q else 200 | None \<Rightarrow> 200)"

definition dispatch :: "'w executor \<Rightarrow> command_envelope \<Rightarrow> 'w \<Rightarrow>
    (json_object option \<times> go_error option) \<times> 'w" where
  "dispatch X cmd w =
     (let m = cv_payload cmd; kind = cv_kind cmd in
      if kind = ''REPORT_INVENTORY'' then
        (case xc_inventory X of None \<Rightarrow> ((None, None), w)
         | Some f \<Rightarrow> (case f w of (e, w1) \<Rightarrow> ((None, e), w1)))
      else if kind = ''REFRESH_POLICY'' then dispatch_refresh X w
      else if kind = ''RUN_BACKUP'' then dispatch_backup X w
      else if kind = ''RUN_CANARY'' then run_hook ''canary executor'' (xc_canary X) w
      else if kind = ''BROWSE_SNAPSHOT'' then
        (case xc_browse X of None \<Rightarrow> (missing_executor ''browse executor'', w)
         | Some f \<Rightarrow> f (member_str m ''snapshot_id'') (member_str m ''prefix'') w)
      else if kind = ''BUILD_SNAPSHOT_CATALOG'' then
        run_hook ''catalog executor'' (map_option (\<lambda>f. f (member_str m ''snapshot_id'')) (xc_build_catalog X)) w
      else if kind = ''RESTORE_TO_STAGING'' then dispatch_restore X cmd w
      else if kind = ''BROWSE_LOCAL_DIR'' then
        (case xc_browse_local_dir X of None \<Rightarrow> (missing_executor ''local browse executor'', w)
         | Some f \<Rightarrow> f (member_str m ''path'') (member_str m ''cursor'') (browse_limit m) w)
      else if kind = ''APPLY_SELECTION'' then
        (case xc_apply_selection X of None \<Rightarrow> (missing_executor ''apply-selection executor'', w)
         | Some f \<Rightarrow> f (member_str m ''revision_id'') (member_strings m ''source_roots'')
                      (member_strings m ''sensitive_consents'') w)
      else if kind = ''CANCEL_CURRENT_SAFE_OPERATION'' then
        ((None, None), case xc_cancel X of None \<Rightarrow> w | Some f \<Rightarrow> f w)
      else ((None, Some (wrap_msg ErrForbiddenCommand kind)), w))"

section \<open>Poll\<close>

text \<open>The acknowledgement of a recorded result.\<close>

definition ack_command :: "'w executor \<Rightarrow> 'w client_port \<Rightarrow> command_envelope \<Rightarrow> string \<Rightarrow>
    json_object option \<Rightarrow> 'w \<Rightarrow> go_error option \<times> 'w" where
  "ack_command X c cmd state extra w =
     (case cl_ack_result c (cv_command_id cmd) state extra
             (command_event X ''ACK_STARTED'' StageAck cmd NoErrorClass w) of
        (Some e, w1) \<Rightarrow>
          (Some (new_poll_error StageAck ''ACK_FAILED'' (Some cmd) e),
           command_event X ''ACK_FAILED'' StageAck cmd (normalized_poll_class StageAck e) w1)
      | (None, w1) \<Rightarrow> (None, command_event X ''ACK_SUCCEEDED'' StageAck cmd NoErrorClass w1))"

definition finish_command :: "'w executor \<Rightarrow> 'w journal_port \<Rightarrow> command_envelope \<Rightarrow> string \<Rightarrow>
    json_object option \<Rightarrow> 'w \<Rightarrow> go_error option \<times> 'w" where
  "finish_command X J cmd state extra w =
     (case jp_finish_command J (cv_command_id cmd) state extra w of
        (Some e, w1) \<Rightarrow>
          (Some (new_poll_error StageFinishCommand ''JOURNAL_FINISH_FAILED'' (Some cmd) e),
           command_event X ''JOURNAL_FINISH_FAILED'' StageFinishCommand cmd
             (normalized_poll_class StageFinishCommand e) w1)
      | (None, w1) \<Rightarrow> (None, w1))"

text \<open>A redelivered command whose result is durable: the result again, never the handler.\<close>

definition replay_command :: "'w executor \<Rightarrow> 'w client_port \<Rightarrow> 'w journal_port \<Rightarrow> command_envelope \<Rightarrow>
    string \<Rightarrow> json_object option \<Rightarrow> 'w \<Rightarrow> go_error option \<times> 'w" where
  "replay_command X c J cmd recorded extra w =
     (if recorded = [] then
        (case finish_command X J cmd ''FAILED'' extra w of
           (Some e, w1) \<Rightarrow> (Some e, w1)
         | (None, w1) \<Rightarrow> ack_command X c cmd ''FAILED'' extra w1)
      else ack_command X c cmd recorded extra w)"

text \<open>A command to run: the handler, its durable result, the acknowledgement.\<close>

definition run_command :: "'w executor \<Rightarrow> 'w client_port \<Rightarrow> 'w journal_port \<Rightarrow> command_envelope \<Rightarrow> 'w \<Rightarrow>
    go_error option \<times> 'w" where
  "run_command X c J cmd w =
     (case dispatch X cmd (command_event X ''DISPATCH_STARTED'' StageDispatch cmd NoErrorClass w) of
        ((extra, run_err), w1) \<Rightarrow>
        let cls = (case run_err of None \<Rightarrow> NoErrorClass | Some e \<Rightarrow> normalized_poll_class StageDispatch e);
            w2 = command_event X ''DISPATCH_FINISHED'' StageDispatch cmd cls w1;
            state = (if run_err = None then ''SUCCEEDED'' else ''FAILED'') in
        (case finish_command X J cmd state extra w2 of
           (Some e, w3) \<Rightarrow> (Some e, w3)
         | (None, w3) \<Rightarrow>
           (case ack_command X c cmd state extra w3 of
              (Some e, w4) \<Rightarrow> (Some e, w4)
            | (None, w4) \<Rightarrow>
              (map_option (new_poll_error StageDispatch ''DISPATCH_FINISHED'' (Some cmd)) run_err, w4))))"

definition poll_command :: "'w executor \<Rightarrow> 'w client_port \<Rightarrow> command_envelope \<Rightarrow> 'w \<Rightarrow> go_error option \<times> 'w" where
  "poll_command X c cmd w =
     (let consume_failed = (\<lambda>e. Some (new_poll_error StageConsume ''CONSUME_FAILED'' (Some cmd) e)) in
      case xc_journal X of
        None \<Rightarrow> (consume_failed (wrap_msg ErrConfig ''command journal missing''), w)
      | Some J \<Rightarrow>
        (case jp_consume_command J (cv_command_id cmd) (cv_job_id cmd) False w of
           ((already, Some e), w1) \<Rightarrow> (consume_failed e, w1)
         | ((False, None), w1) \<Rightarrow> run_command X c J cmd w1
         | ((True, None), w1) \<Rightarrow>
           (case jp_command_result J (cv_command_id cmd) w1 of
              (Inl e, w2) \<Rightarrow> (consume_failed e, w2)
            | (Inr (terminal, recorded, extra), w2) \<Rightarrow>
              if terminal then replay_command X c J cmd recorded extra w2
              else run_command X c J cmd w2)))"

definition apply_heartbeat :: "'w executor \<Rightarrow> heartbeat_result \<Rightarrow> 'w \<Rightarrow> go_error option \<times> 'w" where
  "apply_heartbeat X hb w =
     (let st = xc_state X w;
          w1 = xc_set_state X (st\<lparr>xs_poll_seconds := (if hb_poll_seconds hb > 0 then hb_poll_seconds hb
                                                    else xs_poll_seconds st),
                                xs_pause_wan := hb_pause_wan hb,
                                xs_provider_down := hb_provider_unavailable hb,
                                xs_site_id := hb_site_id hb\<rparr>) w
      in case accept_policy X (hb_desired_revision hb) (hb_policy hb) w1 of
        (Some e, w2) \<Rightarrow>
          (Some (new_poll_error StageHeartbeat ''HEARTBEAT_POLICY_FAILED'' None e),
           xc_set_state X ((xc_state X w2)\<lparr>xs_policy_invalid := True\<rparr>) w2)
      | (None, w2) \<Rightarrow>
        (let w3 = xc_set_state X ((xc_state X w2)\<lparr>xs_policy_invalid := False\<rparr>) w2
         in (None, case xc_on_agent_pin X of None \<Rightarrow> w3
             | Some f \<Rightarrow> f (hb_agent_sha256 hb) (hb_agent_qualified hb) w3)))"

definition poll :: "'w executor \<Rightarrow> string \<Rightarrow> 'w \<Rightarrow> go_error option \<times> 'w" where
  "poll X current_op w =
     (case xc_client X of None \<Rightarrow> (None, w) | Some c \<Rightarrow>
      if cl_base_url c = [] then (None, w)
      else case flush_outbox X c w of
        (Some e, w1) \<Rightarrow> (Some (new_poll_error StageHeartbeat ''OUTBOX_FLUSH_FAILED'' None e), w1)
      | (None, w1) \<Rightarrow>
        (let st = xc_state X w1; seq = wrap64 (xs_sequence st + 1);
             w2 = xc_set_state X (st\<lparr>xs_sequence := seq\<rparr>) w1
         in case cl_heartbeat c seq (xc_version X) current_op (xs_policy_rev st) (xc_agent_sha256 X) w2 of
           (Inl e, w3) \<Rightarrow> (Some (new_poll_error StageHeartbeat ''HEARTBEAT_FAILED'' None e), w3)
         | (Inr hb, w3) \<Rightarrow>
           (case apply_heartbeat X hb w3 of
              (Some e, w4) \<Rightarrow> (Some e, w4)
            | (None, w4) \<Rightarrow>
              (case client_claim c w4 of
                 ((cmd, Some e), w5) \<Rightarrow> (Some (new_poll_error StageClaim ''CLAIM_FAILED'' cmd e), w5)
               | ((None, None), w5) \<Rightarrow> (None, w5)
               | ((Some cmd, None), w5) \<Rightarrow> poll_command X c cmd w5))))"

text \<open>\<open>WANStartBlockReason\<close>, of an executor that may be nil.\<close>

definition wan_start_block_reason :: "'w executor option \<Rightarrow> 'w \<Rightarrow> tz_database \<Rightarrow> local_policy \<Rightarrow>
    backend_kind \<Rightarrow> string" where
  "wan_start_block_reason x w tz pol kind =
     (if \<not> requires_wan_rate_limit kind then []
      else case x of None \<Rightarrow> admission_control_unavailable | Some X \<Rightarrow>
        if (case xc_client X of None \<Rightarrow> True | Some c \<Rightarrow> cl_base_url c = []) then admission_control_unavailable
        else if xs_pause_wan (xc_state X w) then admission_paused
        else if xs_provider_down (xc_state X w) then admission_provider_unavailable
        else if xs_policy_invalid (xc_state X w) then admission_denied
        else if policy_validate_for_backend tz pol kind \<noteq> None then admission_site_unmeasured
        else [])"

end
