(* ===== verification/Source_Roots.thy ===== *)
theory Source_Roots
  imports GoJson Domain_Backup
begin

text \<open>
  What a backup reads from \<open>pilot.json\<close> when it starts
  (\<open>cmd/stowline-agent/source_roots.go\<close>). The file is its decoded object, or \<open>None\<close> where
  it cannot be read or is no JSON object. The decoder matches a member to a field without
  regard to case, takes the last one, and refuses a member of another type.
\<close>

definition string_items :: "json \<Rightarrow> string list option" where
  "string_items v =
     (case v of JNull \<Rightarrow> Some []
      | JArr xs \<Rightarrow>
          if list_all (\<lambda>x. x = JNull \<or> json_str x \<noteq> None) xs
          then Some (map (\<lambda>x. case json_str x of Some s \<Rightarrow> s | None \<Rightarrow> []) xs) else None
      | _ \<Rightarrow> None)"

definition field_strings :: "json_object \<Rightarrow> string \<Rightarrow> string list option" where
  "field_strings m name =
     (let vs = map string_items (map snd (filter (\<lambda>kv. equal_fold (fst kv) name) m))
      in if None \<in> set vs then None else if vs = [] then Some [] else last vs)"

definition current_source_roots :: "json_object option \<Rightarrow> string list \<Rightarrow> string list" where
  "current_source_roots pilot fallback =
     (case pilot of None \<Rightarrow> fallback
      | Some m \<Rightarrow>
        (case field_strings m ''source_roots'' of
           None \<Rightarrow> fallback
         | Some roots \<Rightarrow> if roots = [] then fallback else roots))"

abbreviation always_excluded :: string where "always_excluded \<equiv> ''*.ost''"

definition current_excludes :: "json_object option \<Rightarrow> string list" where
  "current_excludes pilot =
     (let out = (case pilot of None \<Rightarrow> []
           | Some m \<Rightarrow>
             (case field_strings m ''exclude_paths'' of None \<Rightarrow> []
              | Some ps \<Rightarrow> filter (\<lambda>p. p \<noteq> [] \<and> hd p \<noteq> CHR ''-'') ps))
      in if always_excluded \<in> set out then out else out @ [always_excluded])"

text \<open>A read problem never empties the backup, and no exclude is a flag or the whole list.\<close>

lemma current_source_roots_nonempty: "fallback \<noteq> [] \<Longrightarrow> current_source_roots pilot fallback \<noteq> []"
  by (simp add: current_source_roots_def split: option.splits)

lemma current_excludes_safe:
  "always_excluded \<in> set (current_excludes pilot)" "p \<in> set (current_excludes pilot) \<Longrightarrow> \<not> looks_like_flag p"
  by (auto simp: current_excludes_def Let_def looks_like_flag_def split: option.splits if_splits list.splits)

end
