(* ===== verification/Agent.thy ===== *)
theory Agent
  imports Controller Executor Service_Restore Source_Roots
begin

text \<open>
  The service command of \<open>cmd/stowline-agent/main.go\<close> and \<open>wan.go\<close>: the backup hook of the
  scheduler and of the operator's RUN_BACKUP, with its WAN admission, the restore path of
  the panel and the desktop page, and one round of the service (poll, then tick). The
  renewal of a held lease runs beside the backup and is not modelled; its release is.
\<close>

record 'w agent =
  ag_device_id :: string
  ag_installation_id :: string
  ag_repository :: repository_descriptor
  ag_vss_mode :: vss_mode
  ag_password_ref :: secret_ref
  ag_cache_dir :: string
  ag_staging_root :: string
  ag_config_roots :: "string list"
  ag_pilot_json :: "'w \<Rightarrow> json_object option \<times> 'w"
  ag_live :: "'w \<Rightarrow> local_policy"
  ag_exec :: "'w executor option"
  ag_journal :: "'w journal_port"
  ag_backup :: "backup_request \<Rightarrow> 'w \<Rightarrow> (backup_result \<times> go_error option) \<times> 'w"
  ag_restore :: "restore_request \<Rightarrow> 'w \<Rightarrow> (restore_result \<times> go_error option) \<times> 'w"
  ag_snapshots :: "'w \<Rightarrow> (go_error + snapshot list) \<times> 'w"
  ag_load :: "'w \<Rightarrow> go_error option \<times> 'w"
  ag_load_expected :: "string \<Rightarrow> 'w \<Rightarrow> go_error option \<times> 'w"
  ag_verify_restored :: "string \<Rightarrow> string \<Rightarrow> 'w \<Rightarrow> go_error option \<times> 'w"
  ag_now :: "'w \<Rightarrow> time \<times> 'w"
  ag_new_id :: "'w \<Rightarrow> string \<times> 'w"
  ag_tz :: tz_database
  ag_local_zone :: location

section \<open>WAN admission (wan.go)\<close>

definition wan_class_of :: "string \<Rightarrow> wan_class" where
  "wan_class_of latest = (if latest = [] then WANClassInitialSeed else WANClassNormalBackup)"

definition deadline_for :: "tz_database \<Rightarrow> location \<Rightarrow> time \<Rightarrow> schedule_policy \<Rightarrow> wan_class \<Rightarrow> time" where
  "deadline_for tz local now pol cls =
     (let loc = (case load_location tz (sp_timezone pol) of Inl _ \<Rightarrow> local | Inr l \<Rightarrow> l);
          dead = now + runtime_for_class pol cls;
          hard = clock_hhmm now (Some loc) (sp_hard_stop pol)
      in if \<not> is_zero hard \<and> hard < dead then hard else dead)"

definition lease_status :: "admission_result option \<Rightarrow> string" where
  "lease_status lease =
     (case lease of None \<Rightarrow> admission_control_unavailable
      | Some l \<Rightarrow> if am_status l = [] then admission_denied else am_status l)"

definition wan_class_text :: "wan_class \<Rightarrow> string" where
  "wan_class_text c =
     (case c of NoWANClass \<Rightarrow> [] | WANClassNormalBackup \<Rightarrow> ''NORMAL_BACKUP'' | WANClassInitialSeed \<Rightarrow> ''INITIAL_SEED''
      | WANClassRestore \<Rightarrow> ''RESTORE'' | WANClassCanary \<Rightarrow> ''CANARY'' | WANClassMaintenance \<Rightarrow> ''MAINTENANCE''
      | OtherWANClass s \<Rightarrow> s)"

section \<open>The backup hook\<close>

text \<open>The class of a slot's backup: the operator's, a qualification, or by the history.\<close>

definition slot_wan_class :: "string \<Rightarrow> string \<Rightarrow> wan_class" where
  "slot_wan_class slot latest =
     (if is_control_slot_key slot then WANClassNormalBackup
      else if is_qualification_slot_key slot then WANClassCanary else wan_class_of latest)"

text \<open>
  The admitted backup. An operator's click has no slot, so that each click is its own work.
\<close>

definition agent_request :: "'w agent \<Rightarrow> string \<Rightarrow> local_policy \<Rightarrow> wan_class \<Rightarrow> int \<Rightarrow> time \<Rightarrow>
    string list \<Rightarrow> string list \<Rightarrow> backup_request" where
  "agent_request A slot cur cls bandwidth dead roots excludes =
     \<lparr>bq_job_id = [], bq_attempt_id = [], bq_correlation_id = [], bq_device_id = ag_device_id A,
      bq_installation_id = ag_installation_id A, bq_policy_revision_id = lp_revision_id cur,
      bq_repository = ag_repository A, bq_source_roots = roots, bq_optional_roots = [],
      bq_excludes = excludes, bq_tags = [], bq_vss_mode = ag_vss_mode A,
      bq_password_ref = ag_password_ref A, bq_cache_dir = ag_cache_dir A,
      bq_bandwidth_kibps = bandwidth, bq_wan_class = cls, bq_deadline = dead,
      bq_host = ag_device_id A, bq_slot_key = (if is_control_slot_key slot then [] else slot),
      bq_free_space_floor = lp_free_space_floor cur, bq_attempt_class = NoAttemptClass,
      bq_qualification_run_id = []\<rparr>"

definition run_admitted :: "'w agent \<Rightarrow> string \<Rightarrow> local_policy \<Rightarrow> wan_class \<Rightarrow> int \<Rightarrow> 'w \<Rightarrow>
    go_error option \<times> 'w" where
  "run_admitted A slot cur cls bandwidth w =
     (case ag_now A w of (now, w1) \<Rightarrow>
      let dead = deadline_for (ag_tz A) (ag_local_zone A) now (lp_schedule cur) cls in
      case ag_pilot_json A w1 of (pilot1, w2) \<Rightarrow>
      case ag_pilot_json A w2 of (pilot2, w3) \<Rightarrow>
      case ag_backup A (agent_request A slot cur cls bandwidth dead
             (current_source_roots pilot1 (ag_config_roots A)) (current_excludes pilot2)) w3 of
        ((res, err), w4) \<Rightarrow>
          ((if is_control_slot_key slot then wrap_operator_backup res err else wrap_backup res err), w4))"

text \<open>A declined admission is an error for the operator and silence for the schedule.\<close>

definition declined :: "string \<Rightarrow> string \<Rightarrow> go_error option" where
  "declined slot r = (if is_control_slot_key slot then Some (WANAdmissionDeclinedError r) else None)"

definition lease_body :: "string \<Rightarrow> string \<Rightarrow> string \<Rightarrow> wan_class \<Rightarrow> string \<Rightarrow> json_object" where
  "lease_body job_id attempt_id slot cls installation_id =
     [(''job_id'', JStr job_id), (''attempt_id'', JStr attempt_id), (''slot_key'', JStr slot),
      (''class'', JStr (wan_class_text cls)), (''installation_id'', JStr installation_id)]"

definition run_leased :: "'w agent \<Rightarrow> 'w client_port \<Rightarrow> string \<Rightarrow> local_policy \<Rightarrow> wan_class \<Rightarrow> 'w \<Rightarrow>
    go_error option \<times> 'w" where
  "run_leased A c slot cur cls w =
     (case ag_new_id A w of (j, w1) \<Rightarrow> case ag_new_id A w1 of (a, w2) \<Rightarrow>
      case cl_acquire_lease c (lease_body j a slot cls (ag_installation_id A)) w2 of
        ((lease, err), w3) \<Rightarrow>
          if err \<noteq> None \<or> \<not> lease_granted lease then
            (declined slot (if err \<noteq> None then ''LEASE_HTTP_ERROR'' else lease_status (Some lease)), w3)
          else
            (case run_admitted A slot cur cls (am_bandwidth_kibps lease) w3 of (e, w4) \<Rightarrow>
             case cl_release_lease c (am_lease_id lease) ''complete'' w4 of (_, w5) \<Rightarrow> (e, w5)))"

definition agent_backup :: "'w agent \<Rightarrow> string \<Rightarrow> 'w \<Rightarrow> go_error option \<times> 'w" where
  "agent_backup A slot w =
     (let cur = ag_live A w; kind = rd_backend_kind (ag_repository A) in
      case jp_latest_succeeded_slot (ag_journal A) w of (r, w1) \<Rightarrow>
      let cls = slot_wan_class slot (case r of Inl _ \<Rightarrow> [] | Inr s \<Rightarrow> s) in
      if requires_wan_rate_limit kind then
        (let reason = wan_start_block_reason (ag_exec A) w1 (ag_tz A) cur kind in
         if reason \<noteq> [] then (declined slot (''LOCAL_PRECHECK_'' @ reason), w1)
         else (case Option.bind (ag_exec A) xc_client of
                 None \<Rightarrow> (None, w1)
               | Some c \<Rightarrow> run_leased A c slot cur cls w1))
      else (case policy_validate_for_backend (ag_tz A) cur kind of
              Some e \<Rightarrow> (Some e, w1)
            | None \<Rightarrow> run_admitted A slot cur cls (lp_bandwidth_kibps cur) w1))"

section \<open>The restore path\<close>

primrec restore_state_text :: "restore_state \<Rightarrow> string" where
  "restore_state_text NoRestoreState = []"
| "restore_state_text RestoreRequested = ''REQUESTED''"
| "restore_state_text RestorePlanning = ''PLANNING''"
| "restore_state_text RestoreAwaitingAuthorization = ''AWAITING_AUTHORIZATION''"
| "restore_state_text RestoreQueued = ''QUEUED''"
| "restore_state_text RestorePreparing = ''PREPARING''"
| "restore_state_text RestoreRestoring = ''RESTORING''"
| "restore_state_text RestoreVerifying = ''VERIFYING''"
| "restore_state_text RestoreReady = ''READY''"
| "restore_state_text RestoreCompleted = ''COMPLETED''"
| "restore_state_text RestoreFailed = ''FAILED''"
| "restore_state_text RestoreCancelled = ''CANCELLED''"
| "restore_state_text RestoreCancelling = ''CANCELLING''"
| "restore_state_text RestoreExpired = ''EXPIRED''"

definition agent_restore_request :: "'w agent \<Rightarrow> string \<Rightarrow> string \<Rightarrow> string list \<Rightarrow> int \<Rightarrow> time \<Rightarrow> restore_request" where
  "agent_restore_request A job_id snap selections download deadline =
     \<lparr>rq_job_id = job_id, rq_attempt_id = [], rq_correlation_id = [], rq_snapshot_id = snap,
      rq_selections = selections, rq_staging_root = ag_staging_root A, rq_destination_dir = [],
      rq_conflict_mode = NoConflictMode, rq_password_ref = ag_password_ref A,
      rq_repository = ag_repository A, rq_verify_content = True, rq_deadline = deadline,
      rq_bandwidth_kibps = download, rq_download_kibps = download\<rparr>"

definition run_restore :: "'w agent \<Rightarrow> string \<Rightarrow> string \<Rightarrow> string list \<Rightarrow> int \<Rightarrow> 'w \<Rightarrow>
    (go_error + string) \<times> 'w" where
  "run_restore A job_id snap selections download w =
     (case ag_now A w of (now, w1) \<Rightarrow>
      case ag_restore A (agent_restore_request A job_id snap selections download (now + 2 * hour_ns)) w1 of
        ((res, Some e), w2) \<Rightarrow> (Inl e, w2)
      | ((res, None), w2) \<Rightarrow>
          if rr_state res \<noteq> RestoreReady
          then (Inl (PlainError (''restore state '' @ restore_state_text (rr_state res))), w2)
          else (Inr (rr_destination res), w2))"

definition restore_lease_body :: "string \<Rightarrow> string \<Rightarrow> string \<Rightarrow> json_object" where
  "restore_lease_body job_id attempt_id installation_id =
     [(''job_id'', JStr job_id), (''attempt_id'', JStr attempt_id),
      (''class'', JStr (wan_class_text WANClassRestore)), (''installation_id'', JStr installation_id)]"

definition agent_restore :: "'w agent \<Rightarrow> string \<Rightarrow> string \<Rightarrow> string list \<Rightarrow> 'w \<Rightarrow> (go_error + string) \<times> 'w" where
  "agent_restore A job_id snap selections w =
     (let cur = ag_live A w;
          download = (if lp_restore_download_kibps cur = 0 then lp_bandwidth_kibps cur
                      else lp_restore_download_kibps cur) in
      if \<not> requires_wan_rate_limit (rd_backend_kind (ag_repository A))
      then run_restore A job_id snap selections download w
      else case Option.bind (ag_exec A) xc_client of
        None \<Rightarrow> (Inl (wrap_msg ErrConfig ''restore requires control plane admission''), w)
      | Some c \<Rightarrow>
        (case ag_new_id A w of (a, w1) \<Rightarrow>
         case cl_acquire_lease c (restore_lease_body job_id a (ag_installation_id A)) w1 of
           ((lease, Some e), w2) \<Rightarrow> (Inl e, w2)
         | ((lease, None), w2) \<Rightarrow>
             if \<not> lease_granted lease
             then (Inl (wrap_msg ErrConfig (''restore admission '' @ lease_status (Some lease))), w2)
             else (case run_restore A job_id snap selections
                       (if am_restore_download_kibps lease > 0 then am_restore_download_kibps lease else download) w2
                   of (r, w3) \<Rightarrow>
                   case cl_release_lease c (am_lease_id lease) ''complete'' w3 of (_, w4) \<Rightarrow> (r, w4))))"

section \<open>The canary\<close>

text \<open>
  The compiled ceiling of the command line: 20 Mbps, 20 percent of it, in KiB/s with the 10
  percent margin, rounded down. The constants keep clear of the rounding of floats.
\<close>

definition qualification_wan_ceiling_kibps :: int where
  "qualification_wan_ceiling_kibps = \<lfloor>(of_int (20 * 1000000 * 20 div 100 div 8) / 1024 * (9 / 10) :: rat)\<rfloor>"

definition cli_wan_limits :: "backend_kind \<Rightarrow> bool \<Rightarrow> go_error + int" where
  "cli_wan_limits kind qualification_only =
     (if \<not> requires_wan_rate_limit kind then Inr 0
      else if \<not> qualification_only then
        Inl (wrap_msg ErrConfig ''WAN CLI requires QualificationOnly; scheduled WAN uses admission leases'')
      else Inr qualification_wan_ceiling_kibps)"

definition valid_snapshot_arg :: "string \<Rightarrow> bool" where
  "valid_snapshot_arg s \<longleftrightarrow> s = [] \<or> length s = 64 \<and> list_all is_hex_char s"

text \<open>The newest snapshot, or the first one the wanted id names by prefix in either direction.\<close>

definition canary_pick :: "string \<Rightarrow> snapshot list \<Rightarrow> snapshot option" where
  "canary_pick want snaps =
     (if want = [] then (if snaps = [] then None else Some (last snaps))
      else find (\<lambda>sn. let got = to_lower (sn_id sn); w = to_lower want
                     in got = w \<or> has_prefix got w \<or> has_prefix w got) snaps)"

definition canary_stamp :: "time \<Rightarrow> string" where
  "canary_stamp t = filter (\<lambda>c. c \<noteq> CHR ''-'' \<and> c \<noteq> CHR '':'') (format_rfc3339 t)"

text \<open>The outcome of a canary; the evidence file it leaves is not modelled.\<close>

definition canary_result :: "'w agent \<Rightarrow> snapshot \<Rightarrow> restore_result \<Rightarrow> 'w \<Rightarrow> go_error option \<times> 'w" where
  "canary_result A sn res w =
     (let failed = Some (PlainError (''canary did not fully verify snapshot '' @ sn_id sn)) in
      if rr_state res = RestoreReady then
        (case ag_verify_restored A (rr_destination res) (sn_id sn) w of
           (None, w1) \<Rightarrow> (None, w1) | (Some _, w1) \<Rightarrow> (failed, w1))
      else (failed, w))"

definition canary_restore :: "'w agent \<Rightarrow> snapshot \<Rightarrow> 'w \<Rightarrow> go_error option \<times> 'w" where
  "canary_restore A sn w =
     (case ag_load_expected A (sn_id sn) w of
        (Some _, w1) \<Rightarrow> (Some (PlainError ''canary UNVERIFIED: missing expected manifest for snapshot''), w1)
      | (None, w1) \<Rightarrow>
        (case ag_now A w1 of (now, w2) \<Rightarrow>
         case cli_wan_limits (rd_backend_kind (ag_repository A))
                (cap_qualification_only (rd_capabilities (ag_repository A))) of
           Inl e \<Rightarrow> (Some e, w2)
         | Inr down \<Rightarrow>
           (case ag_now A w2 of (now2, w3) \<Rightarrow>
            case ag_restore A (agent_restore_request A (''canary-'' @ canary_stamp now) (sn_id sn) [] down
                   (now2 + 2 * hour_ns)) w3 of
              ((res, Some e), w4) \<Rightarrow> (Some e, w4)
            | ((res, None), w4) \<Rightarrow> canary_result A sn res w4)))"

definition agent_canary :: "'w agent \<Rightarrow> string \<Rightarrow> 'w \<Rightarrow> go_error option \<times> 'w" where
  "agent_canary A want w =
     (if \<not> valid_snapshot_arg want then (Some (PlainError ''--snapshot must be a 64-hex snapshot id''), w)
      else case ag_load A w of
        (Some e, w1) \<Rightarrow> (Some e, w1)
      | (None, w1) \<Rightarrow>
        (case ag_snapshots A w1 of
           (Inl e, w2) \<Rightarrow> (Some e, w2)
         | (Inr snaps, w2) \<Rightarrow>
           if snaps = [] then (Some (PlainError ''no snapshots to canary-restore''), w2)
           else case canary_pick want snaps of
             None \<Rightarrow> (Some (PlainError (''snapshot '' @ want @ '' not in repository'')), w2)
           | Some sn \<Rightarrow> canary_restore A sn w2))"

text \<open>A canary that reports no error restored a snapshot of the repository and verified it.\<close>

lemma agent_canary_ok:
  assumes "agent_canary A want w = (None, w')"
  shows "\<exists>w1 snaps w2 sn req w3 res w4 w5. ag_snapshots A w1 = (Inr snaps, w2) \<and> sn \<in> set snaps \<and>
     rq_snapshot_id req = sn_id sn \<and> rq_verify_content req \<and>
     ag_restore A req w3 = ((res, None), w4) \<and> rr_state res = RestoreReady \<and>
     ag_verify_restored A (rr_destination res) (sn_id sn) w4 = (None, w5)"
proof -
  obtain w1 where l: "ag_load A w = (None, w1)"
    using assms by (auto simp: agent_canary_def split: if_splits prod.splits option.splits)
  obtain snaps w2 where s: "ag_snapshots A w1 = (Inr snaps, w2)" "snaps \<noteq> []"
    using assms l by (auto simp: agent_canary_def split: if_splits prod.splits sum.splits)
  obtain sn where sn: "canary_pick want snaps = Some sn" "canary_restore A sn w2 = (None, w')"
    using assms l s by (auto simp: agent_canary_def split: if_splits option.splits)
  have "sn \<in> set snaps"
    using sn(1) s(2) by (auto simp: canary_pick_def find_Some_iff split: if_splits)
  moreover have "\<exists>req w3 res w4. rq_snapshot_id req = sn_id sn \<and> rq_verify_content req \<and>
      ag_restore A req w3 = ((res, None), w4) \<and> canary_result A sn res w4 = (None, w')"
  proof -
    obtain w3 now w4 down now2 w5 where p: "ag_load_expected A (sn_id sn) w2 = (None, w3)" "ag_now A w3 = (now, w4)"
      "cli_wan_limits (rd_backend_kind (ag_repository A))
         (cap_qualification_only (rd_capabilities (ag_repository A))) = Inr down" "ag_now A w4 = (now2, w5)"
      using sn(2) by (auto simp: canary_restore_def split: option.splits prod.splits sum.splits)
    define req where "req = agent_restore_request A (''canary-'' @ canary_stamp now) (sn_id sn) [] down (now2 + 2 * hour_ns)"
    obtain res w6 where r: "ag_restore A req w5 = ((res, None), w6)" "canary_result A sn res w6 = (None, w')"
      using sn(2) p by (auto simp: canary_restore_def req_def split: option.splits prod.splits)
    show ?thesis using r by (intro exI [of _ req] exI [of _ w5] exI [of _ res] exI [of _ w6])
      (simp add: req_def agent_restore_request_def)
  qed
  ultimately show ?thesis using s(1)
    by (fastforce simp: canary_result_def Let_def split: if_splits prod.splits option.splits)
qed

section \<open>The policy at the start\<close>

text \<open>The journal's latest policy where it may run here, or the default of the pilot.\<close>

definition boot_policy :: "tz_database \<Rightarrow> local_policy \<Rightarrow> backend_kind \<Rightarrow> local_policy option \<Rightarrow> local_policy" where
  "boot_policy tz pilot kind latest =
     (case latest of None \<Rightarrow> pilot
      | Some p \<Rightarrow>
        if policy_validate_for_backend tz p kind = None then p
        else if \<not> requires_wan_rate_limit kind \<and> policy_validate tz p = None then p
        else pilot)"

section \<open>One round of the service\<close>

text \<open>\<open>errors.Join\<close>: nil where every error is nil.\<close>

definition join_errors :: "go_error option list \<Rightarrow> go_error option" where
  "join_errors es =
     (case List.map_filter id es of [] \<Rightarrow> None | xs \<Rightarrow> Some (Joined xs))"

primrec reason_text :: "reason \<Rightarrow> string" where
  "reason_text NoReason = []"
| "reason_text RunScheduled = ''run_scheduled''"
| "reason_text RunCatchUp = ''run_catchup''"
| "reason_text SkipComplete = ''skip_complete''"
| "reason_text SkipUntilDue = ''skip_until_due''"
| "reason_text SkipBackoff = ''skip_backoff''"
| "reason_text SkipActive = ''skip_active''"
| "reason_text SkipUntilEligible = ''skip_until_eligible''"
| "reason_text SkipStartDeadline = ''skip_start_deadline''"
| "reason_text SkipHardStop = ''skip_hard_stop''"
| "reason_text SkipRetryBudget = ''skip_retry_budget''"
| "reason_text SkipBootDelay = ''skip_boot_delay''"
| "reason_text ReconcileFailed = ''reconcile_failed''"
| "reason_text PolicyInvalid = ''policy_invalid''"
| "reason_text SlotError = ''slot_error''"
| "reason_text JournalError = ''journal_error''"

definition run_once :: "tz_database \<Rightarrow> 'w controller \<Rightarrow> 'w executor option \<Rightarrow> 'w \<Rightarrow> go_error option \<times> 'w" where
  "run_once tz C x w =
     (let op = reason_text (last_reason C w) in
      case (case x of None \<Rightarrow> (None, w) | Some X \<Rightarrow> poll X op w) of (poll_err, w1) \<Rightarrow>
      case controller_tick tz C w1 of ((_, tick_err), w2) \<Rightarrow>
      (join_errors [poll_err, tick_err], w2))"

end
