(* ===== verification/Executor_Laws.thy ===== *)
theory Executor_Laws
  imports Executor
begin

text \<open>
  What the executor guarantees over a journal that keeps its commands: the result of a
  command is durable before it is acknowledged, all acknowledgements of a command agree, and
  the handler of a command whose result is durable never runs again.
\<close>

section \<open>The command log\<close>

lemma row_find_append_fresh:
  "k \<notin> key ` set rows \<Longrightarrow> row_find key k (rows @ rows') = row_find key k rows'"
  by (induction rows) auto

text \<open>The recorded result of a command, as an acknowledgement carries it.\<close>

definition extra_value :: "extra_cell \<Rightarrow> json_object option" where
  "extra_value x = (case x of ExtraJSON m \<Rightarrow> Some m | _ \<Rightarrow> None)"

definition recorded_result :: "command_row list \<Rightarrow> string \<Rightarrow> string \<Rightarrow> json_object option \<Rightarrow> bool" where
  "recorded_result rows i state extra \<longleftrightarrow>
     (\<exists>r. row_find cr_command_id i rows = Some r \<and> cr_terminal r \<and> cr_result r = state \<and>
          cr_extra r = (case extra of None \<Rightarrow> ExtraEmpty | Some m \<Rightarrow> ExtraJSON m) \<and> state \<noteq> [])"

definition finished_row :: "string \<Rightarrow> string \<Rightarrow> json_object option \<Rightarrow> time \<Rightarrow> command_row" where
  "finished_row i state extra t =
     \<lparr>cr_command_id = i, cr_job_id = [], cr_consumed_at = t, cr_terminal = True, cr_result = state,
      cr_extra = (case extra of None \<Rightarrow> ExtraEmpty | Some m \<Rightarrow> ExtraJSON m)\<rparr>"

text \<open>
  The contract: the journal's command operations, a log of the acknowledgements sent, and a
  view of everything else (\<open>effects\<close>) that only the handlers may change. Hooks leave the
  commands and the log alone.
\<close>

locale command_contract =
  fixes X :: "'w executor" and c :: "'w client_port" and J :: "'w journal_port"
    and commands :: "'w \<Rightarrow> command_row list"
    and acks :: "'w \<Rightarrow> (string \<times> string \<times> json_object option) list"
    and effects :: "'w \<Rightarrow> 'e"
  assumes journal: "xc_journal X = Some J"
    and consume: "jp_consume_command J i job t w = ((already, err), w') \<Longrightarrow>
      acks w' = acks w \<and> effects w' = effects w \<and>
      (err \<noteq> None \<or> already \<longrightarrow> commands w' = commands w) \<and>
      (err = None \<and> \<not> already \<longrightarrow> (\<exists>r. cr_command_id r = i \<and> cr_terminal r = t \<and>
         commands w' = commands w @ [r] \<and> i \<notin> cr_command_id ` set (commands w)))"
    and result: "jp_command_result J i w = (r, w') \<Longrightarrow>
      acks w' = acks w \<and> effects w' = effects w \<and> commands w' = commands w \<and>
      (\<forall>terminal recorded extra. r = Inr (terminal, recorded, extra) \<longrightarrow>
         (case row_find cr_command_id i (commands w) of
            None \<Rightarrow> \<not> terminal
          | Some row \<Rightarrow> terminal = cr_terminal row \<and> recorded = cr_result row \<and>
              cr_extra row = (case extra of None \<Rightarrow> ExtraEmpty | Some m \<Rightarrow> ExtraJSON m)))"
    and finish: "jp_finish_command J i state extra w = (err', w') \<Longrightarrow>
      acks w' = acks w \<and> effects w' = effects w \<and>
      (case err' of Some e \<Rightarrow> commands w' = commands w
       | None \<Rightarrow> commands w' = row_update cr_command_id i
             (\<lambda>r. r\<lparr>cr_terminal := True, cr_result := state,
                    cr_extra := (case extra of None \<Rightarrow> ExtraEmpty | Some m \<Rightarrow> ExtraJSON m)\<rparr>) (commands w) \<and>
           i \<in> cr_command_id ` set (commands w) \<or>
         (\<exists>t. commands w' = commands w @ [finished_row i state extra t]) \<and>
           i \<notin> cr_command_id ` set (commands w))"
    and ack: "cl_ack_result c i state extra w = (err'', w') \<Longrightarrow>
      commands w' = commands w \<and> effects w' = effects w \<and> acks w' = acks w @ [(i, state, extra)]"
    and event: "xc_on_command_event X = Some f \<Longrightarrow>
      commands (f d w) = commands w \<and> effects (f d w) = effects w \<and> acks (f d w) = acks w"
    and handlers: "dispatch X cmd w = (ra, w') \<Longrightarrow> commands w' = commands w \<and> acks w' = acks w"
begin

definition acks_ok :: "'w \<Rightarrow> bool" where
  "acks_ok w \<longleftrightarrow> (\<forall>(i, state, extra) \<in> set (acks w). recorded_result (commands w) i state extra)"

lemma acks_agree:
  assumes "acks_ok w" "(i, s, x) \<in> set (acks w)" "(i, s', x') \<in> set (acks w)"
  shows "s = s' \<and> x = x'"
proof -
  have "recorded_result (commands w) i s x" "recorded_result (commands w) i s' x'"
    using assms unfolding acks_ok_def by blast+
  then show ?thesis unfolding recorded_result_def by (auto split: option.splits)
qed

lemma event_keeps: "commands (command_event X ev st cmd cls w) = commands w"
  "effects (command_event X ev st cmd cls w) = effects w" "acks (command_event X ev st cmd cls w) = acks w"
  using event by (auto simp: command_event_def split: option.splits)

lemma ack_command_laws:
  assumes "ack_command X c cmd state extra w = (r, w')"
  shows "commands w' = commands w \<and> effects w' = effects w \<and> acks w' = acks w @ [(cv_command_id cmd, state, extra)]"
proof -
  obtain e w1 where a: "cl_ack_result c (cv_command_id cmd) state extra
      (command_event X ''ACK_STARTED'' StageAck cmd NoErrorClass w) = (e, w1)" by force
  show ?thesis using assms a ack [OF a]
    by (auto simp: ack_command_def event_keeps split: option.splits)
qed

text \<open>Finishing a command whose result is not recorded yet.\<close>

lemma finish_command_laws:
  assumes "finish_command X J cmd state extra w = (r, w')" "acks_ok w" "state \<noteq> []"
    "\<And>s x. \<not> recorded_result (commands w) (cv_command_id cmd) s x"
  shows "acks_ok w' \<and> effects w' = effects w \<and>
     (r = None \<longrightarrow> recorded_result (commands w') (cv_command_id cmd) state extra)"
proof -
  let ?i = "cv_command_id cmd"
  obtain e w1 where f: "jp_finish_command J ?i state extra w = (e, w1)" by force
  have w': "commands w' = commands w1" "effects w' = effects w1" "acks w' = acks w1" "r = None \<longleftrightarrow> e = None"
    using assms(1) f by (auto simp: finish_command_def event_keeps split: option.splits)
  note k = finish [OF f]
  have other: "(i, s, x) \<in> set (acks w) \<Longrightarrow> i \<noteq> ?i \<and> recorded_result (commands w) i s x" for i s x
    using assms(2,4) unfolding acks_ok_def by blast
  have keep: "row_find cr_command_id i (commands w1) = row_find cr_command_id i (commands w)" if "i \<noteq> ?i" for i
    using k that by (cases "row_find cr_command_id i (commands w)")
      (auto simp: row_find_append row_find_update finished_row_def split: option.splits)
  have "recorded_result (commands w1) i s x" if "(i, s, x) \<in> set (acks w)" for i s x
    using other [OF that] keep unfolding recorded_result_def by simp
  then have "acks_ok w'" using k w' unfolding acks_ok_def by (simp add: case_prod_beta)
  moreover have "recorded_result (commands w1) ?i state extra" if "e = None"
  proof -
    from that k have "commands w1 = row_update cr_command_id ?i
             (\<lambda>r. r\<lparr>cr_terminal := True, cr_result := state,
                    cr_extra := (case extra of None \<Rightarrow> ExtraEmpty | Some m \<Rightarrow> ExtraJSON m)\<rparr>) (commands w) \<and>
           ?i \<in> cr_command_id ` set (commands w) \<or>
         (\<exists>t. commands w1 = commands w @ [finished_row ?i state extra t]) \<and>
           ?i \<notin> cr_command_id ` set (commands w)" by simp
    then show ?thesis
    proof
      assume h: "commands w1 = row_update cr_command_id ?i
             (\<lambda>r. r\<lparr>cr_terminal := True, cr_result := state,
                    cr_extra := (case extra of None \<Rightarrow> ExtraEmpty | Some m \<Rightarrow> ExtraJSON m)\<rparr>) (commands w) \<and>
           ?i \<in> cr_command_id ` set (commands w)"
      then obtain row where "row_find cr_command_id ?i (commands w) = Some row"
        by (cases "row_find cr_command_id ?i (commands w)") (auto simp: row_simps)
      then show ?thesis using h assms(3) unfolding recorded_result_def by (simp add: row_simps)
    next
      assume "(\<exists>t. commands w1 = commands w @ [finished_row ?i state extra t]) \<and>
           ?i \<notin> cr_command_id ` set (commands w)"
      then obtain t where t: "commands w1 = commands w @ [finished_row ?i state extra t]"
        and n: "?i \<notin> cr_command_id ` set (commands w)" by blast
      show ?thesis using assms(3) unfolding recorded_result_def t row_find_append_fresh [OF n]
        by (simp add: finished_row_def)
    qed
  qed
  ultimately show ?thesis using k w' by simp
qed

lemma ack_recorded:
  assumes "ack_command X c cmd state extra w = (r, w')" "acks_ok w"
    "recorded_result (commands w) (cv_command_id cmd) state extra"
  shows "acks_ok w' \<and> effects w' = effects w"
  using ack_command_laws [OF assms(1)] assms(2,3) unfolding acks_ok_def by auto

lemma run_command_acks:
  assumes "run_command X c J cmd w = (r, w')" "acks_ok w"
    "\<And>s x. \<not> recorded_result (commands w) (cv_command_id cmd) s x"
  shows "acks_ok w'"
proof -
  let ?w0 = "command_event X ''DISPATCH_STARTED'' StageDispatch cmd NoErrorClass w"
  obtain extra run_err w1 where d: "dispatch X cmd ?w0 = ((extra, run_err), w1)" by (metis prod.exhaust)
  define cls where "cls = (case run_err of None \<Rightarrow> NoErrorClass | Some e \<Rightarrow> normalized_poll_class StageDispatch e)"
  define w2 where "w2 = command_event X ''DISPATCH_FINISHED'' StageDispatch cmd cls w1"
  define state where "state = (if run_err = None then ''SUCCEEDED'' else ''FAILED'')"
  have k: "commands w2 = commands w" "acks w2 = acks w"
    using handlers [OF d] by (simp_all add: w2_def event_keeps)
  have ok2: "acks_ok w2" using assms(2) k by (simp add: acks_ok_def)
  obtain e3 w3 where f: "finish_command X J cmd state extra w2 = (e3, w3)" by force
  have l: "acks_ok w3 \<and> (e3 = None \<longrightarrow> recorded_result (commands w3) (cv_command_id cmd) state extra)"
    using finish_command_laws [OF f ok2] assms(3) k by (simp add: state_def)
  obtain e4 w4 where a: "ack_command X c cmd state extra w3 = (e4, w4)" by force
  have "w' = w3 \<and> e3 \<noteq> None \<or> w' = w4 \<and> e3 = None"
    using assms(1) d f a by (auto simp: run_command_def cls_def w2_def state_def Let_def split: option.splits)
  then show ?thesis using l ack_recorded [OF a] by blast
qed

lemma replay_command_laws:
  assumes "replay_command X c J cmd recorded extra w = (r, w')" "acks_ok w"
    "row_find cr_command_id (cv_command_id cmd) (commands w) = Some row" "cr_terminal row"
    "recorded = cr_result row" "cr_extra row = (case extra of None \<Rightarrow> ExtraEmpty | Some m \<Rightarrow> ExtraJSON m)"
  shows "acks_ok w' \<and> effects w' = effects w"
proof (cases "recorded = []")
  case False
  then have "ack_command X c cmd recorded extra w = (r, w')" using assms(1) by (simp add: replay_command_def)
  then show ?thesis using ack_recorded [of cmd recorded extra w r w'] assms(2-6) False
    by (auto simp: recorded_result_def)
next
  case True
  obtain e1 w1 where f: "finish_command X J cmd ''FAILED'' extra w = (e1, w1)" by force
  have n: "\<not> recorded_result (commands w) (cv_command_id cmd) s x" for s x
    using assms(3,5) True by (auto simp: recorded_result_def)
  have l: "acks_ok w1 \<and> effects w1 = effects w \<and>
      (e1 = None \<longrightarrow> recorded_result (commands w1) (cv_command_id cmd) ''FAILED'' extra)"
    using finish_command_laws [OF f assms(2) _ n] by simp
  obtain e2 w2 where a: "ack_command X c cmd ''FAILED'' extra w1 = (e2, w2)" by force
  have "w' = w1 \<or> w' = w2 \<and> e1 = None"
    using assms(1) f a True by (auto simp: replay_command_def split: option.splits)
  then show ?thesis using l ack_recorded [OF a] by auto
qed

text \<open>
  The two laws of a command: after any delivery the acknowledgements still match the
  recorded results, and a delivery of a command whose result is durable has no effect but
  the acknowledgement.
\<close>

lemma poll_command_laws:
  assumes "poll_command X c cmd w = (r, w')" "acks_ok w"
  shows "acks_ok w'"
    and "row_find cr_command_id (cv_command_id cmd) (commands w) = Some row \<Longrightarrow> cr_terminal row \<Longrightarrow>
      effects w' = effects w"
proof -
  let ?i = "cv_command_id cmd"
  obtain already e1 w1 where b: "jp_consume_command J ?i (cv_job_id cmd) False w = ((already, e1), w1)"
    by (metis prod.exhaust)
  note kb = consume [OF b]
  obtain rr w2 where q: "jp_command_result J ?i w1 = (rr, w2)" by force
  note kq = result [OF q]
  have fresh: "acks_ok w1 \<and> (\<forall>s x. \<not> recorded_result (commands w1) ?i s x)" if n: "e1 = None" "\<not> already"
  proof -
    obtain row' where row': "cr_command_id row' = ?i" "\<not> cr_terminal row'"
        "commands w1 = commands w @ [row']" "?i \<notin> cr_command_id ` set (commands w)"
      using kb n by auto
    have "recorded_result (commands w) i s x \<Longrightarrow> recorded_result (commands w1) i s x" for i s x
      unfolding row'(3) recorded_result_def by (auto simp: row_simps)
    then have "acks_ok w1" using assms(2) kb unfolding acks_ok_def by auto
    moreover have "row_find cr_command_id ?i (commands w1) = Some row'"
      using row'(1) unfolding row'(3) row_find_append_fresh [OF row'(4)] by simp
    then have "\<not> recorded_result (commands w1) ?i s x" for s x
      using row'(2) unfolding recorded_result_def by auto
    ultimately show ?thesis by blast
  qed
  have same: "commands w1 = commands w \<and> acks w1 = acks w" if "already \<or> e1 \<noteq> None"
    using kb that by auto
  have "acks_ok w' \<and> (row_find cr_command_id ?i (commands w) = Some row \<longrightarrow> cr_terminal row \<longrightarrow> effects w' = effects w)"
  proof (cases e1)
    case (Some e)
    then have "w' = w1" using assms(1) b by (cases already) (auto simp: poll_command_def Let_def journal)
    then show ?thesis using kb same Some assms(2) by (auto simp: acks_ok_def)
  next
    case None
    show ?thesis
    proof (cases already)
      case False
      have "run_command X c J cmd w1 = (r, w')" using assms(1) b None False by (simp add: poll_command_def Let_def journal)
      then have "acks_ok w'" using run_command_acks fresh None False by blast
      moreover have "row_find cr_command_id ?i (commands w) \<noteq> Some row"
        using kb None False row_find_None [of cr_command_id ?i "commands w"] by auto
      ultimately show ?thesis by blast
    next
      case True
      have k2: "commands w2 = commands w" "acks w2 = acks w" "effects w2 = effects w"
        using kq kb True by auto
      have ok2: "acks_ok w2" using assms(2) k2 by (simp add: acks_ok_def)
      show ?thesis
      proof (cases rr)
        case (Inl e)
        then have "w' = w2" using assms(1) b q None True by (simp add: poll_command_def Let_def journal)
        then show ?thesis using ok2 k2 by simp
      next
        case (Inr t)
        obtain terminal recorded extra where t: "t = (terminal, recorded, extra)" by (metis prod.exhaust)
        have p: "(if terminal then replay_command X c J cmd recorded extra w2 else run_command X c J cmd w2) = (r, w')"
          using assms(1) b q None True Inr t by (simp add: poll_command_def Let_def journal)
        have res: "case row_find cr_command_id ?i (commands w2) of
            None \<Rightarrow> \<not> terminal
          | Some row \<Rightarrow> terminal = cr_terminal row \<and> recorded = cr_result row \<and>
              cr_extra row = (case extra of None \<Rightarrow> ExtraEmpty | Some m \<Rightarrow> ExtraJSON m)"
          using kq Inr t same True by auto
        show ?thesis
        proof (cases terminal)
          case T: True
          obtain row' where "row_find cr_command_id ?i (commands w2) = Some row'" using res T
            by (cases "row_find cr_command_id ?i (commands w2)") auto
          then show ?thesis using replay_command_laws [of cmd recorded extra w2 r w' row'] p T ok2 res k2 by simp
        next
          case F: False
          have n: "\<not> recorded_result (commands w2) ?i s x" for s x
            using res F by (auto simp: recorded_result_def split: option.splits)
          have "acks_ok w'" using run_command_acks [of cmd w2 r w'] p F ok2 n by simp
          then show ?thesis using res F k2 by auto
        qed
      qed
    qed
  qed
  then show "acks_ok w'"
    and "row_find cr_command_id ?i (commands w) = Some row \<Longrightarrow> cr_terminal row \<Longrightarrow> effects w' = effects w"
    by blast+
qed

end

end
