(* ===== verification/Service_Frame.thy ===== *)
theory Service_Frame
  imports Service_Restore
begin

text \<open>
  What the service leaves alone: any view of the world that the operations of its ports keep.
  The agent's own state (its policy, its commands, the acknowledgements) is such a view.
\<close>

locale service_frame =
  fixes s :: "'w service" and view :: "'w \<Rightarrow> 'v"
  assumes journal_frame: "keeps view (jp_begin_job (sv_journal s) job a)"
    "keeps view (jp_begin_attempt (sv_journal s) a)" "keeps view (jp_update_attempt (sv_journal s) a)"
    "keeps view (jp_complete_attempt (sv_journal s) a st)" "keeps view (jp_job_by_slot (sv_journal s) k)"
    "keeps view (jp_get_job (sv_journal s) k)" "keeps view (jp_latest_attempt (sv_journal s) k)"
    "keeps view (jp_incomplete_attempts (sv_journal s))" "keeps view (jp_append_outbox (sv_journal s) ev)"
  and engine_frame: "keeps view (ep_backup (sv_engine s) req)" "keeps view (ep_restore (sv_engine s) rreq)"
    "keeps view (ep_snapshots (sv_engine s) repo pw)" "keeps view (ep_read_snapshot (sv_engine s) repo pw i)"
  and host_frame: "keeps view (hp_now (sv_host s))" "keeps view (hp_ctx_err (sv_host s))"
    "keeps view (hp_new_id (sv_host s))" "keeps view (hp_stat (sv_host s) p)"
    "keeps view (hp_volume_free (sv_host s) p)" "keeps view (hp_hash_roots (sv_host s) ps)"
    "keeps view (hp_write_expected (sv_host s) d m)" "keeps view (hp_prepare_staging (sv_host s) d m')"
    "keeps view (hp_revalidate (sv_host s) sd)" "keeps view (hp_write_manifest (sv_host s) sd sn b)"
    "keeps view (hp_verify_restore (sv_host s) x y z)"
    "view (hp_set_active (sv_host s) c w) = view w"
begin

lemmas jf = journal_frame [THEN keepsD]
lemmas ef = engine_frame [THEN keepsD]
lemmas hf = host_frame(1-11) [THEN keepsD]

lemma missing_roots_view: "missing_roots (sv_host s) rs w = (m, w') \<Longrightarrow> view w' = view w"
  by (induction rs arbitrary: w m w') (auto split: prod.splits dest: hf)

lemma new_event_view: "new_event (sv_host s) a t p w = (ev, w') \<Longrightarrow> view w' = view w"
  unfolding new_event_def by (auto split: prod.splits dest!: hf)

lemma finish_events_view: "finish_events s a b res w = (r, w') \<Longrightarrow> view w' = view w"
  unfolding finish_events_def Let_def
  by (auto split: prod.splits option.splits if_splits dest!: new_event_view jf)

lemma finish_view: "finish s a res st w = (r, w') \<Longrightarrow> view w' = view w"
  unfolding finish_def Let_def
  by (auto split: prod.splits option.splits if_splits dest!: finish_events_view jf hf)

lemma record_view: "record_expected_manifest s req res hashed w = (r, w') \<Longrightarrow> view w' = view w"
  unfolding record_expected_manifest_def
  by (auto split: prod.splits sum.splits if_splits dest!: hf)

lemma fill_ids_view: "fill_ids (sv_host s) req w = (r, w') \<Longrightarrow> view w' = view w"
  unfolding fill_ids_def Let_def by (auto split: prod.splits if_splits dest!: hf)

lemma latest_view: "latest_or_none (sv_journal s) k w = (r, w') \<Longrightarrow> view w' = view w"
  unfolding latest_or_none_def by (auto split: prod.splits sum.splits dest!: jf)

lemma backup_slot_view: "backup_slot s req w = (r, w') \<Longrightarrow> view w' = view w"
  unfolding backup_slot_def Let_def
  by (auto split: prod.splits sum.splits option.splits if_splits dest!: latest_view jf(5))

lemma intent_view: "backup_intent s req reuse n w = (r, w') \<Longrightarrow> view w' = view w"
  unfolding backup_intent_def Let_def
  by (auto split: prod.splits option.splits if_splits dest!: hf(1) jf(1,2))

lemma preflight_view: "backup_preflight s req w = (r, w') \<Longrightarrow> view w' = view w"
  unfolding backup_preflight_def Let_def
  by (auto split: prod.splits sum.splits if_splits dest!: missing_roots_view hf(5))

lemma backup_run_view:
  assumes "backup_run s req a w = (r, w')" shows "view w' = view w"
proof -
  obtain p w1 where p: "backup_preflight s req w = (p, w1)" by force
  note v1 = preflight_view [OF p]
  show ?thesis
  proof (cases p)
    case (Some res)
    then show ?thesis using assms p v1 finish_view by (simp add: backup_run_def)
  next
    case None
    obtain h w2 where h: "(if sv_manifest_dir s = [] then (Inr [], w1)
        else hp_hash_roots (sv_host s) (bq_source_roots req) w1) = (h, w2)" by force
    have v2: "view w2 = view w1" using h hf(6) by (auto split: if_splits)
    obtain e w3 where u: "jp_update_attempt (sv_journal s) (a\<lparr>ar_phase := PhaseBackingUp\<rparr>) w2 = (e, w3)" by force
    show ?thesis
    proof (cases e)
      case (Some x)
      then show ?thesis using assms p None h u v1 v2 jf(3) [OF u] by (simp add: backup_run_def Let_def)
    next
      case e: None
      obtain ans w4 where b: "ep_backup (sv_engine s) req w3 = (ans, w4)" by (metis surj_pair)
      define res where "res = evaluate_backup req (engine_answer ans)"
      obtain res1 w5 where m: "(if br_outcome res = PhaseSucceeded then record_expected_manifest s req res h w4
                  else (res, w4)) = (res1, w5)" by (metis surj_pair)
      have v5: "view w5 = view w4" using m record_view by (auto split: if_splits)
      obtain ctx w6 where x: "hp_ctx_err (sv_host s) w5 = (ctx, w6)" by force
      have "finish s (a\<lparr>ar_phase := PhaseBackingUp\<rparr>) (cancelled_result ctx res1)
          (job_state_from_attempt (br_outcome (cancelled_result ctx res1))) w6 = (r, w')"
        using assms p None h u e b m [unfolded res_def] x by (simp add: backup_run_def Let_def)
      from finish_view [OF this] show ?thesis using v1 v2 v5 jf(3) [OF u] ef(1) [OF b] hf(2) [OF x] by simp
    qed
  qed
qed

lemma backup_view: "service_backup s req w = (r, w') \<Longrightarrow> view w' = view w"
  unfolding service_backup_def backup_locked_def
  by (auto simp: host_frame(12) split: prod.splits sum.splits option.splits if_splits
      dest!: fill_ids_view backup_slot_view intent_view backup_run_view)

lemma complete_as_view: "complete_as s a st w = (r, w') \<Longrightarrow> view w' = view w"
  unfolding complete_as_def by (auto split: prod.splits option.splits dest!: jf(4))

lemma reconcile_snapshots_view: "reconcile_snapshots s repo pw a b w = (r, w') \<Longrightarrow> view w' = view w"
  unfolding reconcile_snapshots_def
  by (auto split: prod.splits sum.splits option.splits dest!: complete_as_view ef(3) hf(1))

lemma reconcile_one_view: "reconcile_one s repo pw a w = (r, w') \<Longrightarrow> view w' = view w"
  unfolding reconcile_one_def Let_def
  by (auto split: prod.splits sum.splits option.splits if_splits
      dest!: complete_as_view reconcile_snapshots_view ef(4) hf(1) jf(3))

lemma reconcile_loop_view: "reconcile_loop s repo pw recs out w = (r, w') \<Longrightarrow> view w' = view w"
  by (induction recs arbitrary: out w)
    (auto split: prod.splits sum.splits dest!: reconcile_one_view)

lemma reconcile_view: "service_reconcile s repo pw w = (r, w') \<Longrightarrow> view w' = view w"
  unfolding service_reconcile_def
  by (auto split: prod.splits sum.splits dest!: reconcile_loop_view jf(8))

lemma idempotent_view: "restore_idempotent s j hash w = (r, w') \<Longrightarrow> view w' = view w"
  unfolding restore_idempotent_def Let_def
  by (auto split: prod.splits sum.splits option.splits if_splits job_state.splits dest!: jf(7))

lemma finish_restore_view: "finish_restore s a res st w = (r, w') \<Longrightarrow> view w' = view w"
  unfolding finish_restore_def Let_def by (auto split: prod.splits option.splits dest!: jf(4))

lemma restore_staged_view: "restore_staged s req sd res w = (r, w') \<Longrightarrow> view w' = view w"
  unfolding restore_staged_def Let_def
  by (auto split: prod.splits sum.splits option.splits if_splits dest!: hf)

lemma restore_run_view: "restore_run s req sd a w = (r, w') \<Longrightarrow> view w' = view w"
  unfolding restore_run_def Let_def
  by (auto split: prod.splits option.splits
      dest!: finish_restore_view restore_staged_view ef(2) hf(2) hf(9))

lemma restore_locked_view: "restore_locked s req hash payload w = (r, w') \<Longrightarrow> view w' = view w"
  unfolding restore_locked_def Let_def
  by (auto split: prod.splits sum.splits option.splits if_splits
      dest!: restore_run_view idempotent_view jf(1) jf(6) hf(1) hf(3) hf(8))

lemma restore_view: "service_restore sha s req w = (r, w') \<Longrightarrow> view w' = view w"
  unfolding service_restore_def Let_def
  by (auto simp: host_frame(12) split: prod.splits sum.splits option.splits if_splits
      dest!: restore_locked_view idempotent_view jf(6) hf(3))

end

end
