(* ===== verification/Agent_World.thy ===== *)
theory Agent_World
  imports World Agent Executor_Laws Service_Frame
begin

text \<open>
  The service process on the concrete world: the machine of \<open>World\<close> extended with the state
  of the executor, of the controller and of the live policy, the log of the acknowledgements
  and of the leases asked for, and the diagnostics written. The server's answers and the
  handlers outside the model (browsing, the selection, the catalog, the upgrade) are chosen
  by the environment.
\<close>

record agent_world = world +
  aw_exec :: exec_state
  aw_live :: local_policy
  aw_schedule :: "schedule_policy \<times> string"
  aw_last_op :: reason
  aw_started_at :: time
  aw_acks :: "(string \<times> string \<times> json_object option) list"
  aw_leases :: "(json_object \<times> admission_result \<times> go_error option) list"
  aw_diagnostics :: "string list"

record agent_environment =
  ae_base :: environment
  ae_device_id :: string
  ae_installation_id :: string
  ae_repository :: repository_descriptor
  ae_vss_mode :: vss_mode
  ae_password_ref :: secret_ref
  ae_cache_dir :: string
  ae_staging_root :: string
  ae_manifest_dir :: string
  ae_config_roots :: "string list"
  ae_control_url :: string
  ae_version :: string
  ae_agent_sha256 :: string
  ae_tz :: tz_database
  ae_local_zone :: location
  ae_sha256 :: "string \<Rightarrow> string"
  ae_pilot_json :: "nat \<Rightarrow> json_object option"
  ae_heartbeat :: "nat \<Rightarrow> go_error + heartbeat_result"
  ae_claim :: "nat \<Rightarrow> go_error + command_envelope option"
  ae_policy :: "nat \<Rightarrow> go_error + policy_result"
  ae_report :: "nat \<Rightarrow> go_error option"
  ae_ack :: "nat \<Rightarrow> go_error option"
  ae_lease :: "nat \<Rightarrow> admission_result \<times> go_error option"
  ae_release :: "nat \<Rightarrow> go_error option"
  ae_load :: "nat \<Rightarrow> go_error option"
  ae_load_expected :: "nat \<Rightarrow> go_error option"
  ae_verify_restored :: "nat \<Rightarrow> go_error option"
  ae_browse :: "nat \<Rightarrow> string \<Rightarrow> string \<Rightarrow> json_object option \<times> go_error option"
  ae_browse_local :: "nat \<Rightarrow> string \<Rightarrow> string \<Rightarrow> int \<Rightarrow> json_object option \<times> go_error option"
  ae_build_catalog :: "nat \<Rightarrow> string \<Rightarrow> go_error option"
  ae_apply_selection :: "nat \<Rightarrow> string \<Rightarrow> string list \<Rightarrow> string list \<Rightarrow> json_object option \<times> go_error option"

section \<open>The parts of the process\<close>

definition agent_service :: "agent_environment \<Rightarrow> agent_world service" where
  "agent_service env = world_service (ae_base env) (ae_manifest_dir env)"

definition agent_client :: "agent_environment \<Rightarrow> agent_world client_port" where
  "agent_client env =
     \<lparr>cl_base_url = ae_control_url env,
      cl_heartbeat = \<lambda>sq version op revision sha. ask (ae_heartbeat env),
      cl_claim = ask (ae_claim env), cl_policy = ask (ae_policy env),
      cl_report_attempt = \<lambda>body. ask (ae_report env),
      cl_ack_result = \<lambda>i st x w. ask (ae_ack env) (w\<lparr>aw_acks := aw_acks w @ [(i, st, x)]\<rparr>),
      cl_acquire_lease = \<lambda>body w. (case ask (ae_lease env) w of ((lease, err), w1) \<Rightarrow>
         ((lease, err), w1\<lparr>aw_leases := aw_leases w1 @ [(body, lease, err)]\<rparr>)),
      cl_release_lease = \<lambda>i why. ask (ae_release env)\<rparr>"

text \<open>The executor's data, and the fields the hooks of \<open>main.go\<close> fill in.\<close>

definition bare_executor :: "agent_environment \<Rightarrow> agent_world executor" where
  "bare_executor env =
     \<lparr>xc_client = Some (agent_client env), xc_journal = Some (world_journal (ae_base env)),
      xc_backup = None, xc_restore = None, xc_canary = None, xc_inventory = None,
      xc_browse = Some (\<lambda>snap dir. ask (\<lambda>n. ae_browse env n snap dir)),
      xc_browse_local_dir = Some (\<lambda>path cur limit. ask (\<lambda>n. ae_browse_local env n path cur limit)),
      xc_build_catalog = Some (\<lambda>snap. ask (\<lambda>n. ae_build_catalog env n snap)),
      xc_apply_selection = Some (\<lambda>rev roots sens. ask (\<lambda>n. ae_apply_selection env n rev roots sens)),
      xc_cancel = Some (\<lambda>w. w), xc_on_policy = None, xc_on_agent_pin = Some (\<lambda>sha ok w. w),
      xc_on_command_event = Some (\<lambda>d w. w\<lparr>aw_diagnostics := aw_diagnostics w @ [command_diagnostic_string d]\<rparr>),
      xc_agent_sha256 = ae_agent_sha256 env, xc_version = ae_version env,
      xc_state = aw_exec, xc_set_state = \<lambda>st w. w\<lparr>aw_exec := st\<rparr>,
      xc_now = ask (en_now (ae_base env)), xc_tz = ae_tz env\<rparr>"

definition the_agent :: "agent_environment \<Rightarrow> agent_world agent" where
  "the_agent env =
     \<lparr>ag_device_id = ae_device_id env, ag_installation_id = ae_installation_id env,
      ag_repository = ae_repository env, ag_vss_mode = ae_vss_mode env,
      ag_password_ref = ae_password_ref env, ag_cache_dir = ae_cache_dir env,
      ag_staging_root = ae_staging_root env, ag_config_roots = ae_config_roots env,
      ag_pilot_json = ask (ae_pilot_json env), ag_live = aw_live,
      ag_exec = (if ae_control_url env = [] then None else Some (bare_executor env)),
      ag_journal = world_journal (ae_base env), ag_backup = service_backup (agent_service env),
      ag_restore = service_restore (ae_sha256 env) (agent_service env),
      ag_snapshots = ep_snapshots (world_engine (ae_base env)) (ae_repository env) (ae_password_ref env),
      ag_load = ask (ae_load env), ag_load_expected = \<lambda>snap. ask (ae_load_expected env),
      ag_verify_restored = \<lambda>dest snap. ask (ae_verify_restored env),
      ag_now = ask (en_now (ae_base env)), ag_new_id = ask (en_id (ae_base env)),
      ag_tz = ae_tz env, ag_local_zone = ae_local_zone env\<rparr>"

definition agent_controller :: "agent_environment \<Rightarrow> agent_world controller" where
  "agent_controller env =
     \<lparr>ct_device_id = ae_device_id env, ct_installation_id = ae_installation_id env,
      ct_backoff = default_backoff, ct_started_at = aw_started_at,
      ct_journal = world_journal (ae_base env), ct_now = ask (en_now (ae_base env)),
      ct_policy = aw_schedule, ct_set_policy = \<lambda>p w. w\<lparr>aw_schedule := p\<rparr>,
      ct_last_op = aw_last_op, ct_set_last_op = \<lambda>r w. w\<lparr>aw_last_op := r\<rparr>,
      ct_reconcile = Some (\<lambda>w. case service_reconcile (agent_service env) (ae_repository env)
                                     (ae_password_ref env) w of ((_, e), w1) \<Rightarrow> (e, w1)),
      ct_backup = Some (agent_backup (the_agent env))\<rparr>"

text \<open>A new policy reaches the live policy and the scheduler together.\<close>

definition on_policy :: "agent_environment \<Rightarrow> local_policy \<Rightarrow> agent_world \<Rightarrow> agent_world" where
  "on_policy env p w =
     controller_set_policy (agent_controller env) (lp_schedule p) (lp_revision_id p) (w\<lparr>aw_live := p\<rparr>)"

definition agent_executor :: "agent_environment \<Rightarrow> agent_world executor" where
  "agent_executor env = (bare_executor env)
     \<lparr>xc_backup := Some (\<lambda>w. agent_backup (the_agent env) (control_slot_key (ae_device_id env)) w),
      xc_restore := Some (\<lambda>job snap sel w. case agent_restore (the_agent env) job snap sel w of
         (Inl e, w1) \<Rightarrow> (Some e, w1) | (Inr _, w1) \<Rightarrow> (None, w1)),
      xc_canary := Some (agent_canary (the_agent env) []),
      xc_on_policy := Some (on_policy env)\<rparr>"

section \<open>The operations of the process\<close>

text \<open>The start of the process: the policy from the journal, a fresh executor and controller.\<close>

definition zero_exec_state :: "string \<Rightarrow> exec_state" where
  "zero_exec_state revision = \<lparr>xs_policy_rev = revision, xs_sequence = 0, xs_poll_seconds = 0,
     xs_pause_wan = False, xs_provider_down = False, xs_policy_invalid = False, xs_site_id = []\<rparr>"

definition agent_boot :: "agent_environment \<Rightarrow> agent_world \<Rightarrow> agent_world" where
  "agent_boot env w =
     (case ask (en_now (ae_base env)) w of (now, w1) \<Rightarrow>
      case jp_latest_policy (world_journal (ae_base env)) w1 of (r, w2) \<Rightarrow>
      let pol = boot_policy (ae_tz env) (default_pilot_policy now (ae_config_roots env))
                  (rd_backend_kind (ae_repository env)) (case r of Inl _ \<Rightarrow> None | Inr p \<Rightarrow> p)
      in case ask (en_now (ae_base env)) w2 of (started, w3) \<Rightarrow>
         w3\<lparr>wd_active := False, aw_live := pol, aw_schedule := (lp_schedule pol, lp_revision_id pol),
            aw_last_op := NoReason, aw_started_at := started, aw_exec := zero_exec_state (lp_revision_id pol)\<rparr>)"

text \<open>The round of every minute: the poll, then the tick.\<close>

definition agent_round :: "agent_environment \<Rightarrow> agent_world \<Rightarrow> go_error option \<times> agent_world" where
  "agent_round env w =
     run_once (ae_tz env) (agent_controller env)
       (if ae_control_url env = [] then None else Some (agent_executor env)) w"

text \<open>A restore from the desktop page, and a backup of a qualification run.\<close>

definition desktop_restore :: "agent_environment \<Rightarrow> string \<Rightarrow> string \<Rightarrow> string list \<Rightarrow> agent_world \<Rightarrow>
    (go_error + string) \<times> agent_world" where
  "desktop_restore env = agent_restore (the_agent env)"

definition qualification_backup :: "agent_environment \<Rightarrow> backup_request \<Rightarrow> agent_world \<Rightarrow>
    (backup_result \<times> go_error option) \<times> agent_world" where
  "qualification_backup env req w =
     (case ask (en_now (ae_base env)) w of (now, w1) \<Rightarrow>
      service_backup (agent_service env) (req\<lparr>bq_deadline := now + 8 * hour_ns\<rparr>) w1)"

end
