(* ===== verification/Agent_Frame.thy ===== *)
theory Agent_Frame
  imports Agent_World
begin

text \<open>
  The service leaves the agent's own state alone, the controller's decision the tables:
  the contracts of the controller and of the executor hold of the process.
\<close>

section \<open>The service and the agent's state\<close>

definition agent_view where
  "agent_view w = (jd_commands (wd_db w), aw_exec w, aw_live w, aw_schedule w, aw_last_op w, aw_acks w,
     aw_leases w, aw_diagnostics w)"

lemma agent_viewD:
  "agent_view w' = agent_view w \<Longrightarrow> jd_commands (wd_db w') = jd_commands (wd_db w)"
  "agent_view w' = agent_view w \<Longrightarrow> aw_exec w' = aw_exec w"
  "agent_view w' = agent_view w \<Longrightarrow> aw_live w' = aw_live w"
  "agent_view w' = agent_view w \<Longrightarrow> aw_schedule w' = aw_schedule w"
  "agent_view w' = agent_view w \<Longrightarrow> aw_acks w' = aw_acks w"
  "agent_view w' = agent_view w \<Longrightarrow> aw_leases w' = aw_leases w"
  by (simp_all add: agent_view_def)

lemma agent_advance [simp]: "aw_exec (advance w) = aw_exec w" "aw_live (advance w) = aw_live w"
  "aw_schedule (advance w) = aw_schedule w" "aw_last_op (advance w) = aw_last_op w"
  "aw_acks (advance w) = aw_acks w" "aw_leases (advance w) = aw_leases w"
  "aw_diagnostics (advance w) = aw_diagnostics w"
  by (simp_all add: advance_def)

lemma keeps_ask_agent [simp]: "keeps agent_view (ask f)"
  by (simp add: keeps_def ask_def agent_view_def)

lemma keeps_read_agent [simp]: "keeps agent_view (db_read env q)"
  by (simp add: keeps_def db_read_def agent_view_def)

lemma keeps_write_agent [intro]:
  assumes "\<And>je db r db'. q je db = (r, db') \<Longrightarrow> jd_commands db' = jd_commands db"
  shows "keeps agent_view (db_write env q)"
  using assms by (auto simp: keeps_def db_write_eq agent_view_def)

lemma sql_commands:
  "sql_begin_job je job a db = (r, db') \<Longrightarrow> jd_commands db' = jd_commands db"
  "sql_begin_attempt je a db = (r, db') \<Longrightarrow> jd_commands db' = jd_commands db"
  "sql_update_attempt je a db = (r, db') \<Longrightarrow> jd_commands db' = jd_commands db"
  "sql_complete_attempt je a st db = (r, db') \<Longrightarrow> jd_commands db' = jd_commands db"
  "sql_append_outbox je ev db = (r, db') \<Longrightarrow> jd_commands db' = jd_commands db"
  "sql_ack_outbox je i db = (r, db') \<Longrightarrow> jd_commands db' = jd_commands db"
  "sql_save_policy je p db = (r, db') \<Longrightarrow> jd_commands db' = jd_commands db"
  by (auto simp: sql_begin_job_def sql_begin_attempt_def sql_update_attempt_def sql_complete_attempt_def
      sql_append_outbox_def sql_ack_outbox_def sql_save_policy_def Let_def split: option.splits if_splits)

interpretation waa: adapter_frame "world_adapter env" agent_view for env
  by unfold_locales (simp_all add: world_adapter_def)

lemma agent_view_launch [simp]: "agent_view (log_launch l w) = agent_view w"
  by (simp add: log_launch_def agent_view_def)

interpretation wf: service_frame "agent_service env" agent_view for env
proof unfold_locales
  fix req
  show "keeps agent_view (ep_backup (sv_engine (agent_service env)) req)"
    by (auto simp: agent_service_def world_service_def world_engine_def keeps_def dest!: waa.backup_view)
next
  fix rreq
  show "keeps agent_view (ep_restore (sv_engine (agent_service env)) rreq)"
    by (auto simp: agent_service_def world_service_def world_engine_def keeps_def dest!: waa.restore_view)
next
  fix repo pw
  show "keeps agent_view (ep_snapshots (sv_engine (agent_service env)) repo pw)"
    by (auto simp: agent_service_def world_service_def world_engine_def keeps_def dest!: waa.snapshots_view)
next
  fix repo pw i
  show "keeps agent_view (ep_read_snapshot (sv_engine (agent_service env)) repo pw i)"
    by (auto simp: agent_service_def world_service_def world_engine_def keeps_def dest!: waa.read_snapshot_view)
qed (auto simp: agent_service_def world_service_def world_journal_def world_host_def agent_view_def
      dest: sql_commands)

section \<open>The controller\<close>

interpretation wc: controller_contract "world_journal (ae_base env)" world_jobs world_attempts
    "agent_controller env" for env
  by unfold_locales
    (auto simp: agent_controller_def world_journal_def keeps_def db_read_eq ask_def)

end
