(* ===== verification/Agent_Laws.thy ===== *)
theory Agent_Laws
  imports Agent_Frame
begin

text \<open>
  What the process does to the ledger and when it starts the engine: every operation keeps
  the ledger invariant; over a metered link a backup or restore starts only under a granted
  lease, at the bandwidth of the lease, and no result of a command is acknowledged twice
  with different values.
\<close>

section \<open>The tables\<close>

definition ledger_view where
  "ledger_view w = (world_jobs w, world_attempts w, wd_launches w)"

lemma keeps_ledger [simp]: "keeps ledger_view (ask f)" "keeps ledger_view (db_read env q)"
  by (simp_all add: keeps_def ask_def db_read_def ledger_view_def)

lemma ledger_viewD:
  "ledger_view w' = ledger_view w \<Longrightarrow> world_jobs w' = world_jobs w"
  "ledger_view w' = ledger_view w \<Longrightarrow> world_attempts w' = world_attempts w"
  "ledger_view w' = ledger_view w \<Longrightarrow> wd_launches w' = wd_launches w"
  by (simp_all add: ledger_view_def)

abbreviation world_ledger_ok where
  "world_ledger_ok w \<equiv> ledger_ok (world_jobs w) (world_attempts w)"

lemma agent_service_svc: "agent_service env = ws.svc (ae_base env) (ae_manifest_dir env)"
  by (simp add: agent_service_def)

section \<open>The backup hook\<close>

lemma same_workD:
  "same_work req0 req \<Longrightarrow> bq_bandwidth_kibps req = bq_bandwidth_kibps req0"
  "same_work req0 req \<Longrightarrow> bq_repository req = bq_repository req0"
  "same_work req0 req \<Longrightarrow> bq_source_roots req = bq_source_roots req0"
  "same_work req0 req \<Longrightarrow> bq_excludes req = bq_excludes req0"
  by (cases req, cases req0, simp add: same_work_def)+

text \<open>
  What an admitted backup started, at a bandwidth: the agent's repository, a list of roots
  that is not empty unless the configuration is, and never without the fixed exclusion.
\<close>

definition backup_started :: "'w agent \<Rightarrow> int \<Rightarrow> launch list \<Rightarrow> bool" where
  "backup_started A kibps new \<longleftrightarrow>
     new = [] \<or> (\<exists>req. durable_launch req new \<and> bq_bandwidth_kibps req = kibps \<and>
       bq_repository req = ag_repository A \<and> always_excluded \<in> set (bq_excludes req) \<and>
       (ag_config_roots A \<noteq> [] \<longrightarrow> bq_source_roots req \<noteq> []))"

lemma agent_ports [simp]: "ag_now (the_agent env) = ask (en_now (ae_base env))"
  "ag_pilot_json (the_agent env) = ask (ae_pilot_json env)"
  "ag_backup (the_agent env) = service_backup (agent_service env)"
  "ag_restore (the_agent env) = service_restore (ae_sha256 env) (agent_service env)"
  "ag_new_id (the_agent env) = ask (en_id (ae_base env))" "ag_live (the_agent env) = aw_live"
  "ag_repository (the_agent env) = ae_repository env" "ag_journal (the_agent env) = world_journal (ae_base env)"
  "ag_exec (the_agent env) = (if ae_control_url env = [] then None else Some (bare_executor env))"
  "ag_tz (the_agent env) = ae_tz env"
  by (simp_all add: the_agent_def)

lemma ask_tables [simp]: "world_jobs (snd (ask f w)) = world_jobs w" "world_attempts (snd (ask f w)) = world_attempts w"
  "wd_launches (snd (ask f w)) = wd_launches w" "agent_view (snd (ask f w')) = agent_view w'"
  by (simp_all add: ask_def agent_view_def)

lemma run_admitted_laws:
  assumes "run_admitted (the_agent env) slot cur cls kibps w = (e, w')" "world_ledger_ok w"
  shows "world_ledger_ok w'" "agent_view w' = agent_view w"
    "\<exists>new. wd_launches w' = wd_launches w @ new \<and> backup_started (the_agent env) kibps new"
proof -
  let ?A = "the_agent env"
  define w1 where "w1 = snd (ask (en_now (ae_base env)) w)"
  define w2 where "w2 = snd (ask (ae_pilot_json env) w1)"
  define w3 where "w3 = snd (ask (ae_pilot_json env) w2)"
  define req where "req = agent_request ?A slot cur cls kibps
      (deadline_for (ae_tz env) (ag_local_zone ?A) (fst (ask (en_now (ae_base env)) w)) (lp_schedule cur) cls)
      (current_source_roots (fst (ask (ae_pilot_json env) w1)) (ag_config_roots ?A))
      (current_excludes (fst (ask (ae_pilot_json env) w2)))"
  note ws = w1_def w2_def w3_def
  obtain res err where b: "service_backup (agent_service env) req w3 = ((res, err), w')"
    using assms(1) unfolding run_admitted_def req_def ws
    by (auto simp: case_prod_beta' prod_eq_iff Let_def)
  have ok: "world_ledger_ok w3" using assms(2) by (simp add: ws)
  note l = ws.service_backup_laws [OF b [unfolded agent_service_svc] ok]
  show "world_ledger_ok w'" by (rule l(1))
  show "agent_view w' = agent_view w" using wf.backup_view [OF b] by (simp add: ws)
  obtain new where n: "wd_launches w' = wd_launches w3 @ new"
    "new = [] \<or> (\<exists>r. durable_launch r new \<and> same_work req r)" using l(2) by blast
  have "backup_started ?A kibps new"
  proof (cases "new = []")
    case False
    then obtain r where r: "durable_launch r new" "same_work req r" using n(2) by blast
    have "bq_bandwidth_kibps r = kibps \<and> bq_repository r = ag_repository ?A \<and>
       always_excluded \<in> set (bq_excludes r) \<and> (ag_config_roots ?A \<noteq> [] \<longrightarrow> bq_source_roots r \<noteq> [])"
      using current_excludes_safe(1) current_source_roots_nonempty [of "ag_config_roots ?A"]
      by (simp add: same_workD [OF r(2)] req_def agent_request_def)
    with r(1) show ?thesis unfolding backup_started_def by blast
  qed (simp add: backup_started_def)
  with n(1) show "\<exists>new. wd_launches w' = wd_launches w @ new \<and> backup_started ?A kibps new"
    by (auto simp: ws)
qed

text \<open>The lease a metered operation started under, or that nothing started.\<close>

definition leased_start :: "'w agent \<Rightarrow> (json_object \<times> admission_result \<times> go_error option) list \<Rightarrow>
    launch list \<Rightarrow> bool" where
  "leased_start A asked new \<longleftrightarrow>
     new = [] \<or> (\<exists>body lease. asked = [(body, lease, None)] \<and> lease_granted lease \<and>
       backup_started A (am_bandwidth_kibps lease) new)"

lemma acquire_lease_eq: "cl_acquire_lease (agent_client env) body w = ((lease, err), w') \<longleftrightarrow>
    (lease, err) = ae_lease env (wd_pos w) \<and>
    w' = (advance w)\<lparr>aw_leases := aw_leases w @ [(body, lease, err)]\<rparr>"
  by (auto simp: agent_client_def ask_def split: prod.splits)

lemma client_quiet [simp]: "cl_release_lease (agent_client env) i why = ask (ae_release env)"
  "cl_report_attempt (agent_client env) body = ask (ae_report env)"
  "cl_heartbeat (agent_client env) sq version op revision sha = ask (ae_heartbeat env)"
  "cl_claim (agent_client env) = ask (ae_claim env)" "cl_policy (agent_client env) = ask (ae_policy env)"
  "cl_base_url (agent_client env) = ae_control_url env"
  by (simp_all add: agent_client_def)

lemma run_leased_laws:
  assumes "run_leased (the_agent env) (agent_client env) slot cur cls w = (e, w')" "world_ledger_ok w"
  shows "world_ledger_ok w' \<and> jd_commands (wd_db w') = jd_commands (wd_db w) \<and> aw_acks w' = aw_acks w \<and>
    (\<exists>asked new. aw_leases w' = aw_leases w @ asked \<and> wd_launches w' = wd_launches w @ new \<and>
       leased_start (the_agent env) asked new)"
proof -
  let ?A = "the_agent env"
  define w2 where "w2 = snd (ask (en_id (ae_base env)) (snd (ask (en_id (ae_base env)) w)))"
  define body where "body = lease_body (fst (ask (en_id (ae_base env)) w))
      (fst (ask (en_id (ae_base env)) (snd (ask (en_id (ae_base env)) w)))) slot cls (ag_installation_id ?A)"
  obtain lease err w3 where l: "cl_acquire_lease (agent_client env) body w2 = ((lease, err), w3)"
    by (metis prod.exhaust)
  have same2: "world_jobs w2 = world_jobs w" "world_attempts w2 = world_attempts w"
    "wd_launches w2 = wd_launches w" "agent_view w2 = agent_view w" by (simp_all add: w2_def)
  have w3: "world_jobs w3 = world_jobs w" "world_attempts w3 = world_attempts w" "wd_launches w3 = wd_launches w"
    "jd_commands (wd_db w3) = jd_commands (wd_db w)" "aw_acks w3 = aw_acks w"
    "aw_leases w3 = aw_leases w @ [(body, lease, err)]"
    using l same2 agent_viewD [OF same2(4)] by (simp_all add: acquire_lease_eq)
  show ?thesis
  proof (cases "err \<noteq> None \<or> \<not> lease_granted lease")
    case True
    then have "w' = w3" using assms(1) l
      by (auto simp: run_leased_def case_prod_beta' w2_def body_def)
    with w3 assms(2) show ?thesis unfolding leased_start_def by auto
  next
    case False
    obtain e1 w4 where r: "run_admitted ?A slot cur cls (am_bandwidth_kibps lease) w3 = (e1, w4)" by force
    have w': "w' = snd (ask (ae_release env) w4)"
      using assms(1) l False r by (auto simp: run_leased_def case_prod_beta' w2_def body_def)
    have ok3: "world_ledger_ok w3" using assms(2) w3 by simp
    note a = run_admitted_laws [OF r ok3]
    have v: "agent_view w' = agent_view w3" using a(2) by (simp add: w')
    obtain new where n: "wd_launches w' = wd_launches w3 @ new" "backup_started ?A (am_bandwidth_kibps lease) new"
      using a(3) by (auto simp: w')
    have "leased_start ?A [(body, lease, err)] new"
      using False n(2) unfolding leased_start_def by auto
    moreover have "world_ledger_ok w'" using a(1) by (simp add: w')
    ultimately show ?thesis using n(1) w3 agent_viewD [OF v] by auto
  qed
qed

text \<open>The guards a backup over a metered link has passed.\<close>

definition wan_may_start :: "agent_environment \<Rightarrow> agent_world \<Rightarrow> bool" where
  "wan_may_start env w \<longleftrightarrow>
     ae_control_url env \<noteq> [] \<and> \<not> xs_pause_wan (aw_exec w) \<and> \<not> xs_provider_down (aw_exec w) \<and>
     \<not> xs_policy_invalid (aw_exec w) \<and>
     policy_validate_for_backend (ae_tz env) (aw_live w) (rd_backend_kind (ae_repository env)) = None"

lemma wan_start_block_reason_agent:
  assumes "requires_wan_rate_limit kind"
  shows "wan_start_block_reason (if ae_control_url env = [] then None else Some (bare_executor env)) w tz pol kind = []
    \<longleftrightarrow> ae_control_url env \<noteq> [] \<and> \<not> xs_pause_wan (aw_exec w) \<and> \<not> xs_provider_down (aw_exec w) \<and>
     \<not> xs_policy_invalid (aw_exec w) \<and> policy_validate_for_backend tz pol kind = None"
  using assms by (simp add: wan_start_block_reason_def bare_executor_def)

lemma latest_slot_quiet:
  assumes "jp_latest_succeeded_slot (world_journal env) w = (r, w')"
  shows "ledger_view w' = ledger_view w" "agent_view w' = agent_view w" "wd_pos w' = Suc (wd_pos w)"
  using assms by (auto simp: world_journal_def db_read_eq ledger_view_def agent_view_def advance_def)

lemma agent_backup_laws:
  assumes "agent_backup (the_agent env) slot w = (e, w')" "world_ledger_ok w"
  shows "world_ledger_ok w'" "jd_commands (wd_db w') = jd_commands (wd_db w)" "aw_acks w' = aw_acks w"
    "\<exists>asked new. aw_leases w' = aw_leases w @ asked \<and> wd_launches w' = wd_launches w @ new \<and>
      (new = [] \<or>
       (if requires_wan_rate_limit (rd_backend_kind (ae_repository env))
        then wan_may_start env w \<and> leased_start (the_agent env) asked new
        else policy_validate_for_backend (ae_tz env) (aw_live w) (rd_backend_kind (ae_repository env)) = None \<and>
             backup_started (the_agent env) (lp_bandwidth_kibps (aw_live w)) new))"
proof -
  let ?A = "the_agent env" and ?kind = "rd_backend_kind (ae_repository env)"
  obtain r w1 where q: "jp_latest_succeeded_slot (world_journal (ae_base env)) w = (r, w1)" by force
  define cls where "cls = slot_wan_class slot (case r of Inl _ \<Rightarrow> [] | Inr s \<Rightarrow> s)"
  note k = ledger_viewD [OF latest_slot_quiet(1) [OF q]] agent_viewD [OF latest_slot_quiet(2) [OF q]]
  have ok1: "world_ledger_ok w1" using assms(2) k by simp
  have "world_ledger_ok w' \<and> jd_commands (wd_db w') = jd_commands (wd_db w) \<and> aw_acks w' = aw_acks w \<and>
    (\<exists>asked new. aw_leases w' = aw_leases w @ asked \<and> wd_launches w' = wd_launches w @ new \<and>
      (new = [] \<or>
       (if requires_wan_rate_limit ?kind then wan_may_start env w \<and> leased_start ?A asked new
        else policy_validate_for_backend (ae_tz env) (aw_live w) ?kind = None \<and>
             backup_started ?A (lp_bandwidth_kibps (aw_live w)) new)))"
  proof (cases "requires_wan_rate_limit ?kind")
    case True
    let ?reason = "wan_start_block_reason (ag_exec ?A) w1 (ae_tz env) (aw_live w) ?kind"
    show ?thesis
    proof (cases "?reason = []")
      case False
      then have "w' = w1" using assms(1) q True by (auto simp: agent_backup_def Let_def)
      with k ok1 show ?thesis by auto
    next
      case R: True
      then have m: "wan_may_start env w"
        using k by (simp add: wan_start_block_reason_agent [OF True] wan_may_start_def)
      have "run_leased ?A (agent_client env) slot (aw_live w) cls w1 = (e, w')"
        using assms(1) q True R m by (simp add: agent_backup_def Let_def cls_def wan_may_start_def bare_executor_def)
      from run_leased_laws [OF this ok1] m k True show ?thesis by auto
    qed
  next
    case False
    show ?thesis
    proof (cases "policy_validate_for_backend (ae_tz env) (aw_live w) ?kind")
      case (Some x)
      then have "w' = w1" using assms(1) q False by (auto simp: agent_backup_def Let_def)
      with k ok1 show ?thesis by auto
    next
      case None
      have "run_admitted ?A slot (aw_live w) cls (lp_bandwidth_kibps (aw_live w)) w1 = (e, w')"
        using assms(1) q False None by (simp add: agent_backup_def Let_def cls_def)
      note a = run_admitted_laws [OF this ok1]
      show ?thesis using a(1,3) k agent_viewD [OF a(2)] False None by auto
    qed
  qed
  then show "world_ledger_ok w'" "jd_commands (wd_db w') = jd_commands (wd_db w)" "aw_acks w' = aw_acks w"
    "\<exists>asked new. aw_leases w' = aw_leases w @ asked \<and> wd_launches w' = wd_launches w @ new \<and>
      (new = [] \<or>
       (if requires_wan_rate_limit ?kind then wan_may_start env w \<and> leased_start ?A asked new
        else policy_validate_for_backend (ae_tz env) (aw_live w) ?kind = None \<and>
             backup_started ?A (lp_bandwidth_kibps (aw_live w)) new))"
    by blast+
qed

end
