(* ===== verification/Agent_Steps.thy ===== *)
theory Agent_Steps
  imports Agent_Laws
begin

text \<open>
  Every handler of the process keeps the ledger invariant and leaves the commands and the
  acknowledgements to the executor; with that the executor's contract holds of the process.
\<close>

section \<open>Handlers leave the commands alone\<close>

definition command_view where
  "command_view w = (jd_commands (wd_db w), aw_acks w)"

lemma command_view_agent: "agent_view w' = agent_view w \<Longrightarrow> command_view w' = command_view w"
  by (simp add: command_view_def agent_view_def)

lemma keeps_command [simp]: "keeps command_view (ask f)" "keeps command_view (db_read env q)"
  by (simp_all add: keeps_def ask_def db_read_def command_view_def)

lemmas ask_command = keeps_command(1) [THEN keepsD]
lemmas read_command = keeps_command(2) [THEN keepsD]

lemma backup_command: "service_backup (agent_service env) req w = (r, w') \<Longrightarrow> command_view w' = command_view w"
  by (drule wf.backup_view) (rule command_view_agent)

lemma restore_command: "service_restore sha (agent_service env) req w = (r, w') \<Longrightarrow> command_view w' = command_view w"
  by (drule wf.restore_view) (rule command_view_agent)

lemma lease_command: "cl_acquire_lease (agent_client env) body w = (r, w') \<Longrightarrow> command_view w' = command_view w"
  by (cases r) (simp add: acquire_lease_eq command_view_def)

lemma run_admitted_command: "run_admitted (the_agent env) slot cur cls kibps w = (e, w') \<Longrightarrow> command_view w' = command_view w"
  unfolding run_admitted_def Let_def
  by (auto split: prod.splits if_splits dest!: backup_command ask_command)

lemma run_leased_command:
  "run_leased (the_agent env) (agent_client env) slot cur cls w = (e, w') \<Longrightarrow> command_view w' = command_view w"
  unfolding run_leased_def
  by (auto split: prod.splits if_splits dest!: run_admitted_command lease_command ask_command)

lemma bare_executor_client [simp]: "xc_client (bare_executor env) = Some (agent_client env)"
  by (simp add: bare_executor_def)

lemma agent_backup_command: "agent_backup (the_agent env) slot w = (e, w') \<Longrightarrow> command_view w' = command_view w"
  unfolding agent_backup_def Let_def
  by (auto simp: world_journal_def split: prod.splits if_splits option.splits
      dest!: run_leased_command run_admitted_command read_command)

lemma run_restore_command: "run_restore (the_agent env) job snap sel kibps w = (e, w') \<Longrightarrow> command_view w' = command_view w"
  unfolding run_restore_def
  by (auto split: prod.splits if_splits option.splits dest!: restore_command ask_command)

text \<open>The ways a restore of the process may go.\<close>

lemma agent_restore_cases:
  assumes "agent_restore (the_agent env) job snap sel w = (r, w')"
  obtains (unmetered) kibps where "\<not> requires_wan_rate_limit (rd_backend_kind (ae_repository env))"
      "run_restore (the_agent env) job snap sel kibps w = (r, w')"
  | (refused) e where "r = Inl e" "w' = w"
  | (declined) i w1 body lease err e where "ask (en_id (ae_base env)) w = (i, w1)"
      "cl_acquire_lease (agent_client env) body w1 = ((lease, err), w')" "r = Inl e"
      "err \<noteq> None \<or> \<not> lease_granted lease"
  | (leased) i w1 body lease w2 kibps w3 x where "ask (en_id (ae_base env)) w = (i, w1)"
      "cl_acquire_lease (agent_client env) body w1 = ((lease, None), w2)" "lease_granted lease"
      "run_restore (the_agent env) job snap sel kibps w2 = (r, w3)" "ask (ae_release env) w3 = (x, w')"
proof -
  let ?A = "the_agent env"
  define down where "down = (if lp_restore_download_kibps (aw_live w) = 0 then lp_bandwidth_kibps (aw_live w)
                      else lp_restore_download_kibps (aw_live w))"
  show ?thesis
  proof (cases "\<not> requires_wan_rate_limit (rd_backend_kind (ae_repository env))")
    case True
    with assms show ?thesis by (intro unmetered [of down]) (simp_all add: agent_restore_def Let_def down_def)
  next
    case False
    show ?thesis
    proof (cases "ae_control_url env = []")
      case True
      have "w' = w" and "\<exists>e. r = Inl e" using assms False True by (auto simp: agent_restore_def Let_def)
      then show ?thesis using refused by blast
    next
      case C: False
      obtain i w1 where i: "ask (en_id (ae_base env)) w = (i, w1)" by force
      define body where "body = restore_lease_body job i (ag_installation_id ?A)"
      obtain lease err w2 where l: "cl_acquire_lease (agent_client env) body w1 = ((lease, err), w2)"
        by (metis prod.exhaust)
      show ?thesis
      proof (cases "err \<noteq> None \<or> \<not> lease_granted lease")
        case True
        then have "w' = w2" "\<exists>e. r = Inl e"
          using assms False C i l by (auto simp: agent_restore_def Let_def body_def split: option.splits)
        then show ?thesis using declined i l True by blast
      next
        case G: False
        define kibps where "kibps = (if am_restore_download_kibps lease > 0 then am_restore_download_kibps lease else down)"
        obtain r3 w3 where s: "run_restore ?A job snap sel kibps w2 = (r3, w3)" by force
        obtain x w4 where y: "ask (ae_release env) w3 = (x, w4)" by force
        have e: "r = r3" "w' = w4"
          using assms False C i l G s [unfolded kibps_def down_def] y
          by (simp_all add: agent_restore_def Let_def body_def)
        show ?thesis by (rule leased [OF i, of body lease w2 kibps w3 x]) (use l G s y e in simp_all)
      qed
    qed
  qed
qed

lemma agent_restore_command:
  assumes "agent_restore (the_agent env) job snap sel w = (e, w')" shows "command_view w' = command_view w"
  using assms by (cases rule: agent_restore_cases)
    (auto dest!: run_restore_command lease_command ask_command)

lemma snapshots_command:
  "ep_snapshots (world_engine env) repo pw w = (r, w') \<Longrightarrow> command_view w' = command_view w"
  by (rule command_view_agent) (auto simp: world_engine_def dest: waa.snapshots_view)

lemma agent_more [simp]: "ag_load (the_agent env) = ask (ae_load env)"
  "ag_load_expected (the_agent env) snap = ask (ae_load_expected env)"
  "ag_verify_restored (the_agent env) dest snap = ask (ae_verify_restored env)"
  "ag_snapshots (the_agent env) = ep_snapshots (world_engine (ae_base env)) (ae_repository env) (ae_password_ref env)"
  by (simp_all add: the_agent_def)

lemma agent_canary_command: "agent_canary (the_agent env) want w = (e, w') \<Longrightarrow> command_view w' = command_view w"
  unfolding agent_canary_def canary_restore_def canary_result_def Let_def
  by (auto split: prod.splits if_splits option.splits sum.splits
      dest!: snapshots_command restore_command ask_command)

section \<open>The executor\<close>

lemma executor_simps [simp]:
  "xc_client (agent_executor env) = Some (agent_client env)"
  "xc_journal (agent_executor env) = Some (world_journal (ae_base env))"
  "xc_state (agent_executor env) = aw_exec" "xc_set_state (agent_executor env) = (\<lambda>st w. w\<lparr>aw_exec := st\<rparr>)"
  "xc_now (agent_executor env) = ask (en_now (ae_base env))" "xc_tz (agent_executor env) = ae_tz env"
  "xc_on_policy (agent_executor env) = Some (on_policy env)"
  "xc_backup (agent_executor env) = Some (agent_backup (the_agent env) (control_slot_key (ae_device_id env)))"
  "xc_canary (agent_executor env) = Some (agent_canary (the_agent env) [])"
  "xc_inventory (agent_executor env) = None" "xc_cancel (agent_executor env) = Some (\<lambda>w. w)"
  by (simp_all add: agent_executor_def bare_executor_def)

lemma on_policy_simps [simp]: "wd_db (on_policy env p w) = wd_db w" "aw_acks (on_policy env p w) = aw_acks w"
  "wd_launches (on_policy env p w) = wd_launches w" "aw_live (on_policy env p w) = p"
  "aw_schedule (on_policy env p w) = (lp_schedule p, lp_revision_id p)" "aw_exec (on_policy env p w) = aw_exec w"
  by (simp_all add: on_policy_def controller_set_policy_def agent_controller_def)

lemma save_command:
  assumes "save_if_changed (Some (world_journal env)) p w = (r, w')"
  shows "command_view w' = command_view w \<and> ledger_view w' = ledger_view w"
  using assms
  by (auto simp: save_if_changed_def world_journal_def command_view_def ledger_view_def db_read_eq db_write_eq
      sql_save_policy_def Let_def split: prod.splits if_splits option.splits)

lemma accept_policy_views:
  assumes "accept_policy (agent_executor env) revision cfg w = (r, w')"
  shows "command_view w' = command_view w \<and> ledger_view w' = ledger_view w"
  proof (cases "revision = [] \<or> cfg = None")
    case True
    then show ?thesis using assms by (auto simp: accept_policy_def)
  next
    case False
    obtain now w1 where n: "ask (en_now (ae_base env)) w = (now, w1)" by force
    have v1: "command_view w1 = command_view w" "ledger_view w1 = ledger_view w"
      using keepsD [OF keeps_command(1) n] keepsD [OF keeps_ledger(1) n] by simp_all
    show ?thesis
    proof (cases "policy_from_server (ae_tz env) now revision cfg")
      case (Inl e)
      then show ?thesis using assms False n v1 by (auto simp: accept_policy_def)
    next
      case (Inr p)
      obtain r2 w2 where q: "save_if_changed (Some (world_journal (ae_base env))) p w1 = (r2, w2)" by force
      have "w' = w2 \<or> w' = on_policy env p (w2\<lparr>aw_exec := (aw_exec w2)\<lparr>xs_policy_rev := lp_revision_id p\<rparr>\<rparr>)"
        using assms False n Inr q by (auto simp: accept_policy_def split: option.splits)
      with save_command [OF q] v1 show ?thesis by (auto simp: command_view_def ledger_view_def)
    qed
  qed

text \<open>Every handler leaves the commands and the acknowledgements alone.\<close>

lemma run_hook_command:
  assumes "run_hook what f w = (r, w')" "\<And>g e w'. f = Some g \<Longrightarrow> g w = (e, w') \<Longrightarrow> command_view w' = command_view w"
  shows "command_view w' = command_view w"
  using assms by (auto simp: run_hook_def split: option.splits prod.splits)

lemma ask_views: "ask f w = (x, w') \<Longrightarrow> command_view w' = command_view w \<and> ledger_view w' = ledger_view w"
  by (auto simp: ask_def command_view_def ledger_view_def)

lemma dispatch_refresh_command:
  "dispatch_refresh (agent_executor env) w = (r, w') \<Longrightarrow> command_view w' = command_view w \<and> ledger_view w' = ledger_view w"
  unfolding dispatch_refresh_def
  by (auto split: prod.splits sum.splits option.splits dest!: accept_policy_views ask_views)

lemma dispatch_restore_command: "dispatch_restore (agent_executor env) cmd w = (r, w') \<Longrightarrow> command_view w' = command_view w"
  unfolding dispatch_restore_def Let_def
  by (auto simp: agent_executor_def split: if_splits option.splits prod.splits sum.splits
      dest!: agent_restore_command elim!: run_hook_command)

lemma dispatch_command:
  assumes "dispatch (agent_executor env) cmd w = (r, w')"
  shows "command_view w' = command_view w"
proof -
  let ?X = "agent_executor env"
  have browse: "xc_browse ?X = Some g \<Longrightarrow> g s d v = (r, v') \<Longrightarrow> command_view v' = command_view v"
    "xc_browse_local_dir ?X = Some g2 \<Longrightarrow> g2 s d n v = (r, v') \<Longrightarrow> command_view v' = command_view v"
    "xc_build_catalog ?X = Some g3 \<Longrightarrow> g3 s v = (r3, v') \<Longrightarrow> command_view v' = command_view v"
    "xc_apply_selection ?X = Some g4 \<Longrightarrow> g4 s xs ys v = (r, v') \<Longrightarrow> command_view v' = command_view v"
    for g g2 g3 g4 s d n xs ys v v' r3 r by (auto simp: agent_executor_def bare_executor_def dest: ask_command)
  have backup: "dispatch_backup ?X w = (r, w') \<Longrightarrow> command_view w' = command_view w"
    by (auto simp: dispatch_backup_def split: prod.splits dest: agent_backup_command)
  have canary: "run_hook t (xc_canary ?X) w = (r, w') \<Longrightarrow> command_view w' = command_view w" for t
    by (erule run_hook_command) (auto dest: agent_canary_command)
  have catalog: "run_hook t (map_option (\<lambda>f. f s) (xc_build_catalog ?X)) w = (r, w') \<Longrightarrow> command_view w' = command_view w" for t s
    by (erule run_hook_command) (auto dest: browse(3))
  show ?thesis
    using assms dispatch_refresh_command [of env w r w'] dispatch_restore_command [of env cmd w r w'] backup canary catalog
    unfolding dispatch_def Let_def
    by (auto split: if_splits option.splits dest: browse(1,2,4))
qed

interpretation we: command_contract "agent_executor env" "agent_client env" "world_journal (ae_base env)"
    "\<lambda>w. jd_commands (wd_db w)" aw_acks "\<lambda>w. (world_jobs w, world_attempts w, wd_launches w, aw_live w, aw_leases w)" for env
proof unfold_locales
  fix cmd ra and w w' :: agent_world
  assume "dispatch (agent_executor env) cmd w = (ra, w')"
  from dispatch_command [OF this] show "jd_commands (wd_db w') = jd_commands (wd_db w) \<and> aw_acks w' = aw_acks w"
    by (simp add: command_view_def)
next
  fix i job t already err and w w' :: agent_world
  assume "jp_consume_command (world_journal (ae_base env)) i job t w = ((already, err), w')"
  then show "aw_acks w' = aw_acks w \<and>
       (world_jobs w', world_attempts w', wd_launches w', aw_live w', aw_leases w') =
       (world_jobs w, world_attempts w, wd_launches w, aw_live w, aw_leases w) \<and>
       (err \<noteq> None \<or> already \<longrightarrow> jd_commands (wd_db w') = jd_commands (wd_db w)) \<and>
       (err = None \<and> \<not> already \<longrightarrow>
        (\<exists>r. cr_command_id r = i \<and> cr_terminal r = t \<and> jd_commands (wd_db w') = jd_commands (wd_db w) @ [r] \<and>
             i \<notin> cr_command_id ` set (jd_commands (wd_db w))))"
    by (auto simp: world_journal_def db_write_eq sql_consume_command_def row_find_None split: option.splits)
next
  fix i r and w w' :: agent_world
  assume "jp_command_result (world_journal (ae_base env)) i w = (r, w')"
  then show "aw_acks w' = aw_acks w \<and>
       (world_jobs w', world_attempts w', wd_launches w', aw_live w', aw_leases w') =
       (world_jobs w, world_attempts w, wd_launches w, aw_live w, aw_leases w) \<and>
       jd_commands (wd_db w') = jd_commands (wd_db w) \<and>
       (\<forall>terminal recorded extra. r = Inr (terminal, recorded, extra) \<longrightarrow>
           (case row_find cr_command_id i (jd_commands (wd_db w)) of None \<Rightarrow> \<not> terminal
            | Some row \<Rightarrow> terminal = cr_terminal row \<and> recorded = cr_result row \<and>
                cr_extra row = (case extra of None \<Rightarrow> ExtraEmpty | Some m \<Rightarrow> ExtraJSON m)))"
    by (auto simp: world_journal_def db_read_eq sql_command_result_def split: option.splits extra_cell.splits)
next
  fix i state extra err and w w' :: agent_world
  assume "jp_finish_command (world_journal (ae_base env)) i state extra w = (err, w')"
  then show "aw_acks w' = aw_acks w \<and>
       (world_jobs w', world_attempts w', wd_launches w', aw_live w', aw_leases w') =
       (world_jobs w, world_attempts w, wd_launches w, aw_live w, aw_leases w) \<and>
       (case err of
          None \<Rightarrow>
            jd_commands (wd_db w') = row_update cr_command_id i
              (\<lambda>r. r\<lparr>cr_terminal := True, cr_result := state,
                     cr_extra := case extra of None \<Rightarrow> ExtraEmpty | Some m \<Rightarrow> ExtraJSON m\<rparr>)
              (jd_commands (wd_db w)) \<and> i \<in> cr_command_id ` set (jd_commands (wd_db w)) \<or>
            (\<exists>t. jd_commands (wd_db w') = jd_commands (wd_db w) @ [finished_row i state extra t]) \<and>
            i \<notin> cr_command_id ` set (jd_commands (wd_db w))
        | Some e \<Rightarrow> jd_commands (wd_db w') = jd_commands (wd_db w))"
    by (auto simp: world_journal_def db_write_eq sql_finish_command_def finished_row_def Let_def
        split: option.splits if_splits)
next
  fix f d and w :: agent_world
  assume "xc_on_command_event (agent_executor env) = Some f"
  then show "jd_commands (wd_db (f d w)) = jd_commands (wd_db w) \<and>
       (world_jobs (f d w), world_attempts (f d w), wd_launches (f d w), aw_live (f d w), aw_leases (f d w)) =
       (world_jobs w, world_attempts w, wd_launches w, aw_live w, aw_leases w) \<and>
       aw_acks (f d w) = aw_acks w"
    by (auto simp: agent_executor_def bare_executor_def)
qed (auto simp: agent_client_def ask_def)

end
