(* ===== verification/Agent_Safety.thy ===== *)
theory Agent_Safety
  imports Agent_Steps
begin

text \<open>
  The invariant of the process over any sequence of its operations: the ledger is sound,
  every start of the engine had its attempt on record, a backup over a metered link had a
  granted lease of its bandwidth, and every acknowledgement carries the recorded result.
\<close>

section \<open>The invariant\<close>

definition launch_ok :: "agent_environment \<Rightarrow> (json_object \<times> admission_result \<times> go_error option) list \<Rightarrow>
    launch \<Rightarrow> bool" where
  "launch_ok env leases l =
     (case l of
        BackupLaunch req a j \<Rightarrow> durable_launch req [l] \<and>
          (requires_wan_rate_limit (rd_backend_kind (ae_repository env)) \<and>
           bq_attempt_class req \<noteq> AttemptQualification \<longrightarrow>
           (\<exists>(body, lease, err) \<in> set leases. err = None \<and> lease_granted lease \<and>
              bq_bandwidth_kibps req = am_bandwidth_kibps lease))
      | RestoreLaunch req a j \<Rightarrow> durable_restore req [l])"

definition agent_safe :: "agent_environment \<Rightarrow> agent_world \<Rightarrow> bool" where
  "agent_safe env w \<longleftrightarrow> ledger_ok (world_jobs w) (world_attempts w) \<and>
     (\<forall>l \<in> set (wd_launches w). launch_ok env (aw_leases w) l)"

definition acks_recorded :: "agent_world \<Rightarrow> bool" where
  "acks_recorded w \<longleftrightarrow>
     (\<forall>(i, state, extra) \<in> set (aw_acks w). recorded_result (jd_commands (wd_db w)) i state extra)"

lemma acks_recorded_we: "acks_recorded w = we.acks_ok w"
  by (simp add: acks_recorded_def we.acks_ok_def)

lemma launch_ok_mono: "launch_ok env ls l \<Longrightarrow> set ls \<subseteq> set ls' \<Longrightarrow> launch_ok env ls' l"
  unfolding launch_ok_def by (cases l; simp; blast)

lemma agent_safeI:
  assumes "agent_safe env w" "world_ledger_ok w'" "wd_launches w' = wd_launches w @ new"
    "aw_leases w' = aw_leases w @ asked" "\<And>l. l \<in> set new \<Longrightarrow> launch_ok env (aw_leases w @ asked) l"
  shows "agent_safe env w'"
  using assms launch_ok_mono [of env "aw_leases w" _ "aw_leases w @ asked"] unfolding agent_safe_def by auto

lemma agent_safe_views:
  "agent_safe env w \<Longrightarrow> ledger_view w' = ledger_view w \<Longrightarrow> aw_leases w' = aw_leases w \<Longrightarrow> agent_safe env w'"
  by (simp add: agent_safe_def ledger_view_def)

lemma safe_ask: "ask f w = (x, w') \<Longrightarrow> agent_safe env w \<Longrightarrow> agent_safe env w'"
  by (erule agent_safe_views) (auto simp: ask_def ledger_view_def)

lemma safe_read: "db_read je q w = (x, w') \<Longrightarrow> agent_safe env w \<Longrightarrow> agent_safe env w'"
  by (erule agent_safe_views) (auto simp: db_read_def ledger_view_def)

lemma agent_safe_update [simp]: "agent_safe env (w\<lparr>aw_exec := x\<rparr>) = agent_safe env w"
  "agent_safe env (w\<lparr>aw_last_op := r\<rparr>) = agent_safe env w"
  "agent_safe env (w\<lparr>aw_diagnostics := ds\<rparr>) = agent_safe env w"
  "agent_safe env (w\<lparr>aw_acks := ks\<rparr>) = agent_safe env w"
  "agent_safe env (on_policy env p w) = agent_safe env w"
  by (simp_all add: agent_safe_def on_policy_def controller_set_policy_def agent_controller_def)

section \<open>Backups\<close>

lemma agent_request_class: "same_work (agent_request A slot cur cls kibps dead roots excludes) req \<Longrightarrow>
    bq_attempt_class req = NoAttemptClass"
  by (cases req) (simp add: same_work_def agent_request_def)

lemma durable_launch_single: "durable_launch req new \<Longrightarrow> l \<in> set new \<Longrightarrow>
    new = [l] \<and> (\<exists>a j. l = BackupLaunch req a j)"
  by (auto simp: durable_launch_def)

lemma durable_restore_single: "durable_restore req new \<Longrightarrow> l \<in> set new \<Longrightarrow>
    new = [l] \<and> (\<exists>a j. l = RestoreLaunch req a j)"
  by (auto simp: durable_restore_def)

lemma safe_agent_backup:
  assumes "agent_backup (the_agent env) slot w = (e, w')" "agent_safe env w"
  shows "agent_safe env w'"
proof -
  have ok: "world_ledger_ok w" using assms(2) by (simp add: agent_safe_def)
  note a = agent_backup_laws [OF assms(1) ok]
  obtain asked new where n: "aw_leases w' = aw_leases w @ asked" "wd_launches w' = wd_launches w @ new"
    "new = [] \<or>
       (if requires_wan_rate_limit (rd_backend_kind (ae_repository env))
        then wan_may_start env w \<and> leased_start (the_agent env) asked new
        else policy_validate_for_backend (ae_tz env) (aw_live w) (rd_backend_kind (ae_repository env)) = None \<and>
             backup_started (the_agent env) (lp_bandwidth_kibps (aw_live w)) new)"
    using a(4) by blast
  show ?thesis
  proof (rule agent_safeI [OF assms(2) a(1) n(2,1)])
    fix l assume l: "l \<in> set new"
    show "launch_ok env (aw_leases w @ asked) l"
    proof (cases "requires_wan_rate_limit (rd_backend_kind (ae_repository env))")
      case True
      then have "leased_start (the_agent env) asked new" using n(3) l by auto
      then obtain body lease where b: "asked = [(body, lease, None)]" "lease_granted lease"
          "backup_started (the_agent env) (am_bandwidth_kibps lease) new"
        using l unfolding leased_start_def by auto
      then obtain req where r: "durable_launch req new" "bq_bandwidth_kibps req = am_bandwidth_kibps lease"
        using l unfolding backup_started_def by auto
      from durable_launch_single [OF r(1) l] r b show ?thesis unfolding launch_ok_def by auto
    next
      case False
      then obtain req where r: "durable_launch req new"
        using n(3) l unfolding backup_started_def by auto
      from durable_launch_single [OF r l] r False show ?thesis unfolding launch_ok_def by auto
    qed
  qed
qed

lemma safe_qualification:
  assumes "qualification_backup env req w = ((res, err), w')" "agent_safe env w"
    "bq_attempt_class req = AttemptQualification"
  shows "agent_safe env w'"
proof -
  obtain now w1 where t: "ask (en_now (ae_base env)) w = (now, w1)" by force
  have s1: "agent_safe env w1" using safe_ask [OF t assms(2)] .
  have b: "service_backup (agent_service env) (req\<lparr>bq_deadline := now + 8 * hour_ns\<rparr>) w1 = ((res, err), w')"
    using assms(1) t by (simp add: qualification_backup_def)
  have ok: "world_ledger_ok w1" using s1 by (simp add: agent_safe_def)
  note l = ws.service_backup_laws(1,2) [OF b [unfolded agent_service_svc] ok]
  obtain new where n: "wd_launches w' = wd_launches w1 @ new"
    "new = [] \<or> (\<exists>r. durable_launch r new \<and> same_work (req\<lparr>bq_deadline := now + 8 * hour_ns\<rparr>) r)"
    using l(2) by blast
  show ?thesis
  proof (rule agent_safeI [OF s1 l(1) n(1), of "[]"])
    show "aw_leases w' = aw_leases w1 @ []" using agent_viewD(6) [OF wf.backup_view [OF b]] by simp
  next
    fix x assume x: "x \<in> set new"
    then obtain r where r: "durable_launch r new" "same_work (req\<lparr>bq_deadline := now + 8 * hour_ns\<rparr>) r"
      using n(2) by auto
    have "bq_attempt_class r = AttemptQualification"
      using r(2) assms(3) by (cases r, cases req) (simp add: same_work_def)
    with durable_launch_single [OF r(1) x] r(1) show "launch_ok env (aw_leases w1 @ []) x"
      unfolding launch_ok_def by auto
  qed
qed

section \<open>Restores and reconciliation\<close>

lemma safe_service_restore:
  assumes "service_restore sha (agent_service env) req w = ((res, err), w')" "agent_safe env w"
  shows "agent_safe env w'"
proof -
  have ok: "world_ledger_ok w" using assms(2) by (simp add: agent_safe_def)
  obtain r where p: "ws.restore_post (ae_base env) r w res w'"
    using ws.service_restore_post [OF assms(1) [unfolded agent_service_svc] ok] by blast
  obtain new where n: "world_ledger_ok w'" "wd_launches w' = wd_launches w @ new"
    "new = [] \<or> (\<exists>r. durable_restore r new)"
    using p unfolding ws.restore_post_def by blast
  show ?thesis
  proof (rule agent_safeI [OF assms(2) n(1,2), of "[]"])
    show "aw_leases w' = aw_leases w @ []" using agent_viewD(6) [OF wf.restore_view [OF assms(1)]] by simp
  next
    fix x assume x: "x \<in> set new"
    then obtain r where r: "durable_restore r new" using n(3) by auto
    from durable_restore_single [OF r x] r show "launch_ok env (aw_leases w @ []) x"
      unfolding launch_ok_def by auto
  qed
qed

lemma safe_reconcile:
  assumes "service_reconcile (agent_service env) repo pw w = ((out, err), w')" "agent_safe env w"
  shows "agent_safe env w'"
proof -
  have ok: "world_ledger_ok w" using assms(2) by (simp add: agent_safe_def)
  note l = ws.service_reconcile_laws [OF assms(1) [unfolded agent_service_svc] ok]
  have "aw_leases w' = aw_leases w" using agent_viewD(6) [OF wf.reconcile_view [OF assms(1)]] .
  then show ?thesis using agent_safeI [OF assms(2) l(1), of "[]" "[]"] l(2) by simp
qed

lemma safe_lease:
  assumes "cl_acquire_lease (agent_client env) body w = ((lease, err), w')" "agent_safe env w"
  shows "agent_safe env w'"
  using assms by (intro agent_safeI [OF assms(2), of w' "[]" "[(body, lease, err)]"])
    (auto simp: acquire_lease_eq agent_safe_def)

lemma safe_run_restore:
  assumes "run_restore (the_agent env) job snap sel kibps w = (r, w')" "agent_safe env w"
  shows "agent_safe env w'"
proof -
  obtain now w1 where t: "ask (en_now (ae_base env)) w = (now, w1)" by force
  define req where "req = agent_restore_request (the_agent env) job snap sel kibps (now + 2 * hour_ns)"
  obtain res err w2 where s: "service_restore (ae_sha256 env) (agent_service env) req w1 = ((res, err), w2)"
    by (metis prod.exhaust)
  have "w' = w2" using assms(1) t s by (auto simp: run_restore_def req_def split: option.splits if_splits)
  with safe_service_restore [OF s safe_ask [OF t assms(2)]] show ?thesis by simp
qed

lemma safe_agent_restore:
  assumes "agent_restore (the_agent env) job snap sel w = (r, w')" "agent_safe env w"
  shows "agent_safe env w'"
  using assms(1)
proof (cases rule: agent_restore_cases)
  case (unmetered kibps)
  then show ?thesis using safe_run_restore assms(2) by blast
next
  case (refused e)
  then show ?thesis using assms(2) by simp
next
  case (declined i w1 body lease err e)
  from safe_lease [OF declined(2) safe_ask [OF declined(1) assms(2)]] show ?thesis .
next
  case (leased i w1 body lease w2 kibps w3 x)
  from safe_ask [OF leased(5) safe_run_restore [OF leased(4) safe_lease [OF leased(2)
      safe_ask [OF leased(1) assms(2)]]]] show ?thesis .
qed

lemma safe_snapshots:
  assumes "ep_snapshots (world_engine je) repo pw w = (r, w')" "agent_safe env w"
  shows "agent_safe env w'"
proof -
  have "(wd_db w', wd_launches w', wd_active w') = (wd_db w, wd_launches w, wd_active w)"
    using assms(1) by (auto simp: world_engine_def dest: wa.snapshots_view)
  moreover have "agent_view w' = agent_view w"
    using assms(1) by (auto simp: world_engine_def dest: waa.snapshots_view)
  ultimately show ?thesis using assms(2)
    by (intro agent_safe_views [OF assms(2)]) (simp_all add: ledger_view_def agent_view_def)
qed

lemma safe_agent_canary:
  assumes "agent_canary (the_agent env) want w = (e, w')" "agent_safe env w"
  shows "agent_safe env w'"
proof -
  have result: "canary_result (the_agent env) sn res v = (e', v') \<Longrightarrow> agent_safe env v \<Longrightarrow> agent_safe env v'"
    for sn res v e' v'
    by (auto simp: canary_result_def Let_def split: if_splits prod.splits option.splits dest: safe_ask)
  have restore: "canary_restore (the_agent env) sn v = (e', v') \<Longrightarrow> agent_safe env v \<Longrightarrow> agent_safe env v'" for sn v e' v'
    unfolding canary_restore_def
    by (auto split: prod.splits option.splits sum.splits dest: safe_ask dest!: safe_service_restore result)
  show ?thesis using assms unfolding agent_canary_def
    by (auto split: if_splits prod.splits option.splits sum.splits dest: safe_ask safe_snapshots restore)
qed

end
