(* ===== verification/Agent_Reach.thy ===== *)
theory Agent_Reach
  imports Agent_Safety
begin

text \<open>
  The process as a step relation: it starts, makes its rounds, serves the desktop and the
  qualification runs, and restarts, in any order; the invariant holds in every state it
  reaches.
\<close>

section \<open>The poll\<close>

definition agent_inv :: "agent_environment \<Rightarrow> agent_world \<Rightarrow> bool" where
  "agent_inv env w \<longleftrightarrow> agent_safe env w \<and> acks_recorded w"

definition calm_view where
  "calm_view w = (command_view w, ledger_view w, aw_leases w)"

lemma calm_inv: "calm_view w' = calm_view w \<Longrightarrow> agent_inv env w \<Longrightarrow> agent_inv env w'"
  unfolding agent_inv_def
  by (auto simp: calm_view_def command_view_def acks_recorded_def elim!: agent_safe_views)

lemma inv_handler: "command_view w' = command_view w \<Longrightarrow> agent_safe env w' \<Longrightarrow> agent_inv env w \<Longrightarrow> agent_inv env w'"
  by (simp add: agent_inv_def acks_recorded_def command_view_def)

lemma calm_update [simp]: "calm_view (w\<lparr>aw_exec := x\<rparr>) = calm_view w"
  "calm_view (w\<lparr>aw_diagnostics := d\<rparr>) = calm_view w" "calm_view (w\<lparr>aw_last_op := r\<rparr>) = calm_view w"
  by (simp_all add: calm_view_def command_view_def ledger_view_def)

lemma calm_ask: "ask f w = (x, w') \<Longrightarrow> calm_view w' = calm_view w"
  by (auto simp: ask_def calm_view_def command_view_def ledger_view_def)

lemma calm_read: "db_read je q w = (x, w') \<Longrightarrow> calm_view w' = calm_view w"
  by (auto simp: db_read_def calm_view_def command_view_def ledger_view_def)

lemma calm_ack_outbox: "jp_ack_outbox (world_journal je) i w = (r, w') \<Longrightarrow> calm_view w' = calm_view w"
  by (auto simp: world_journal_def db_write_eq sql_ack_outbox_def calm_view_def command_view_def ledger_view_def
      split: option.splits)

lemma build_catalog_ask: "xc_build_catalog (agent_executor env) = Some f \<Longrightarrow> f snap w = (r, w') \<Longrightarrow> calm_view w' = calm_view w"
  by (auto simp: agent_executor_def bare_executor_def dest: calm_ask)

lemma deliver_calm: "deliver_event (agent_executor env) (agent_client env) ev w = (r, w') \<Longrightarrow> calm_view w' = calm_view w"
  unfolding deliver_event_def flush_catalog_event_def
  by (auto split: if_splits option.splits prod.splits dest: calm_ask build_catalog_ask)

lemma flush_rows_calm: "flush_rows (agent_executor env) (agent_client env) (world_journal je) evs w = (r, w') \<Longrightarrow>
    calm_view w' = calm_view w"
  by (induction evs arbitrary: w) (auto split: prod.splits option.splits dest!: deliver_calm calm_ack_outbox)

lemma calm_unacked: "jp_unacked_outbox (world_journal je) n w = (r, w') \<Longrightarrow> calm_view w' = calm_view w"
  by (auto simp: world_journal_def dest: calm_read)

lemma flush_calm: "flush_outbox (agent_executor env) (agent_client env) w = (r, w') \<Longrightarrow> calm_view w' = calm_view w"
  unfolding flush_outbox_def
  by (auto split: prod.splits sum.splits dest!: flush_rows_calm calm_unacked)

lemma accept_policy_leases:
  assumes "accept_policy (agent_executor env) revision cfg w = (r, w')"
  shows "aw_leases w' = aw_leases w"
proof -
  have s: "save_if_changed (Some (world_journal je)) p v = (x, v') \<Longrightarrow> aw_leases v' = aw_leases v" for je p v x v'
    by (auto simp: save_if_changed_def world_journal_def db_read_eq db_write_eq split: if_splits prod.splits)
  show ?thesis using assms unfolding accept_policy_def
    by (auto simp: ask_def on_policy_def controller_set_policy_def agent_controller_def Let_def
        split: if_splits prod.splits sum.splits option.splits dest!: s)
qed

lemma accept_policy_calm:
  "accept_policy (agent_executor env) revision cfg w = (r, w') \<Longrightarrow> calm_view w' = calm_view w"
  using accept_policy_views [of env revision cfg w r w'] accept_policy_leases [of env revision cfg w r w']
  by (simp add: calm_view_def)

lemma heartbeat_calm:
  assumes "apply_heartbeat (agent_executor env) hb w = (r, w')" shows "calm_view w' = calm_view w"
proof -
  have pin: "xc_on_agent_pin (agent_executor env) = Some (\<lambda>sha ok w. w)"
    by (simp add: agent_executor_def bare_executor_def)
  show ?thesis using assms unfolding apply_heartbeat_def Let_def
    by (auto simp: pin split: prod.splits option.splits dest!: accept_policy_calm)
qed

lemma claim_calm: "client_claim (agent_client env) w = (r, w') \<Longrightarrow> calm_view w' = calm_view w"
  unfolding client_claim_def
  by (auto split: prod.splits sum.splits option.splits if_splits dest: calm_ask)

section \<open>Commands\<close>

lemma safe_hook_hyp:
  assumes "run_hook what f w = (r, w')" "agent_safe env w"
    "\<And>g e. f = Some g \<Longrightarrow> g w = (e, w') \<Longrightarrow> agent_safe env w'"
  shows "agent_safe env w'"
  using assms by (auto simp: run_hook_def split: option.splits prod.splits)

lemma calm_safe: "calm_view w' = calm_view w \<Longrightarrow> agent_safe env w \<Longrightarrow> agent_safe env w'"
  by (rule agent_safe_views) (simp_all add: calm_view_def)

lemma safe_dispatch:
  assumes "dispatch (agent_executor env) cmd w = (r, w')" "agent_safe env w"
  shows "agent_safe env w'"
proof -
  let ?X = "agent_executor env"
  have browse: "xc_browse ?X = Some g \<Longrightarrow> g s d w = (r, w') \<Longrightarrow> agent_safe env w'"
    "xc_browse_local_dir ?X = Some g2 \<Longrightarrow> g2 s d n w = (r, w') \<Longrightarrow> agent_safe env w'"
    "xc_apply_selection ?X = Some g4 \<Longrightarrow> g4 s xs ys w = (r, w') \<Longrightarrow> agent_safe env w'"
    for g g2 g4 s d n xs ys using assms(2) by (auto simp: agent_executor_def bare_executor_def dest: safe_ask)
  have refresh: "dispatch_refresh ?X w = (r, w') \<Longrightarrow> agent_safe env w'"
    unfolding dispatch_refresh_def using assms(2)
    by (auto split: prod.splits sum.splits option.splits dest!: calm_ask accept_policy_calm dest: calm_safe)
  have backup: "dispatch_backup ?X w = (r, w') \<Longrightarrow> agent_safe env w'"
    using assms(2) by (auto simp: dispatch_backup_def split: prod.splits dest: safe_agent_backup)
  have canary: "run_hook t (xc_canary ?X) w = (r, w') \<Longrightarrow> agent_safe env w'" for t
    by (erule safe_hook_hyp) (auto intro: assms(2) dest: safe_agent_canary [OF _ assms(2)])
  have catalog: "run_hook t (map_option (\<lambda>f. f s) (xc_build_catalog ?X)) w = (r, w') \<Longrightarrow> agent_safe env w'" for t s
    by (erule safe_hook_hyp) (auto intro: assms(2) dest!: build_catalog_ask intro: calm_safe)
  have restore: "dispatch_restore ?X cmd w = (r, w') \<Longrightarrow> agent_safe env w'"
    unfolding dispatch_restore_def Let_def using assms(2)
    by (auto simp: agent_executor_def split: if_splits option.splits prod.splits sum.splits
        dest!: safe_agent_restore elim!: safe_hook_hyp)
  show ?thesis using assms refresh restore backup canary catalog
    unfolding dispatch_def Let_def
    by (auto split: if_splits option.splits dest: browse)
qed

text \<open>The command operations of the journal and the acknowledgement leave the ledger alone.\<close>

lemma safe_effects:
  "(world_jobs w', world_attempts w', wd_launches w', aw_live w', aw_leases w') =
   (world_jobs w, world_attempts w, wd_launches w, aw_live w, aw_leases w) \<Longrightarrow> agent_safe env w \<Longrightarrow> agent_safe env w'"
  by (rule agent_safe_views) (simp_all add: ledger_view_def)

lemma safe_event: "agent_safe env (command_event (agent_executor env) ev st cmd cls w) = agent_safe env w"
  by (simp add: command_event_def agent_executor_def bare_executor_def)

lemma safe_finish_command:
  assumes "finish_command (agent_executor env) (world_journal (ae_base env)) cmd st x w = (r, w')" "agent_safe env w"
  shows "agent_safe env w'"
proof -
  obtain e w1 where f: "jp_finish_command (world_journal (ae_base env)) (cv_command_id cmd) st x w = (e, w1)" by force
  have "agent_safe env w1" using we.finish [OF f] assms(2) by (blast intro: safe_effects)
  then show ?thesis using assms(1) f by (auto simp: finish_command_def safe_event split: option.splits)
qed

lemma safe_ack_command:
  assumes "ack_command (agent_executor env) (agent_client env) cmd st x w = (r, w')" "agent_safe env w"
  shows "agent_safe env w'"
  using we.ack_command_laws [OF assms(1)] assms(2) by (blast intro: safe_effects)

lemma safe_run_command:
  assumes "run_command (agent_executor env) (agent_client env) (world_journal (ae_base env)) cmd w = (r, w')"
    "agent_safe env w"
  shows "agent_safe env w'"
  using assms unfolding run_command_def Let_def
  by (auto split: prod.splits option.splits simp: safe_event
      dest!: safe_dispatch safe_finish_command safe_ack_command)

lemma safe_poll_command:
  assumes "poll_command (agent_executor env) (agent_client env) cmd w = (r, w')" "agent_safe env w"
  shows "agent_safe env w'"
proof -
  let ?J = "world_journal (ae_base env)"
  have consume: "jp_consume_command ?J i job t v = ((b, e), v') \<Longrightarrow> agent_safe env v \<Longrightarrow> agent_safe env v'" for i job t v b e v'
    using we.consume by (blast intro: safe_effects)
  have result: "jp_command_result ?J i v = (x, v') \<Longrightarrow> agent_safe env v \<Longrightarrow> agent_safe env v'" for i v x v'
    using we.result by (blast intro: safe_effects)
  have replay: "replay_command (agent_executor env) (agent_client env) ?J cmd rec x v = (e, v') \<Longrightarrow>
      agent_safe env v \<Longrightarrow> agent_safe env v'" for rec x v e v'
    unfolding replay_command_def
    by (auto split: if_splits option.splits prod.splits dest: safe_finish_command safe_ack_command)
  obtain b e w1 where c: "jp_consume_command ?J (cv_command_id cmd) (cv_job_id cmd) False w = ((b, e), w1)"
    by (metis prod.exhaust)
  obtain x w2 where q: "jp_command_result ?J (cv_command_id cmd) w1 = (x, w2)" by force
  have s: "agent_safe env w1" "agent_safe env w2" using consume [OF c assms(2)] result [OF q] by auto
  show ?thesis using assms(1) c q s replay safe_run_command
    unfolding poll_command_def Let_def
    by (auto split: bool.splits option.splits sum.splits prod.splits if_splits)
qed

lemma poll_command_inv:
  assumes "poll_command (agent_executor env) (agent_client env) cmd w = (r, w')" "agent_inv env w"
  shows "agent_inv env w'"
  using assms safe_poll_command [OF assms(1)] we.poll_command_laws(1) [OF assms(1)]
  by (simp add: agent_inv_def acks_recorded_we)

lemma poll_inv:
  assumes "poll (agent_executor env) op w = (r, w')" "agent_inv env w"
  shows "agent_inv env w'"
proof -
  let ?X = "agent_executor env" and ?c = "agent_client env"
  show ?thesis
  proof (cases "ae_control_url env = []")
    case True
    then show ?thesis using assms by (simp add: poll_def)
  next
    case False
    obtain e1 w1 where f: "flush_outbox ?X ?c w = (e1, w1)" by force
    have i1: "agent_inv env w1" using calm_inv [OF flush_calm [OF f] assms(2)] .
    define w2 where "w2 = w1\<lparr>aw_exec := (aw_exec w1)\<lparr>xs_sequence := wrap64 (xs_sequence (aw_exec w1) + 1)\<rparr>\<rparr>"
    obtain hb w3 where h: "ask (ae_heartbeat env) w2 = (hb, w3)" by force
    have i3: "agent_inv env w3" using calm_inv [OF _ i1] calm_ask [OF h] by (simp add: w2_def)
    show ?thesis
    proof (cases "e1 = None \<and> (\<exists>v. hb = Inr v)")
      case no: False
      then have "w' = w1 \<or> w' = w3"
        using assms(1) False f h by (auto simp: poll_def Let_def w2_def split: option.splits sum.splits)
      with i1 i3 show ?thesis by blast
    next
      case True
      then obtain v where v: "hb = Inr v" "e1 = None" by blast
      obtain e4 w4 where p: "apply_heartbeat ?X v w3 = (e4, w4)" by force
      have i4: "agent_inv env w4" using calm_inv [OF heartbeat_calm [OF p] i3] .
      obtain cmd e5 w5 where k: "client_claim ?c w4 = ((cmd, e5), w5)" by (metis prod.exhaust)
      have i5: "agent_inv env w5" using calm_inv [OF claim_calm [OF k] i4] .
      have "w' = w4 \<or> w' = w5 \<or> (\<exists>cm. poll_command ?X ?c cm w5 = (r, w'))"
        using assms(1) False f h v p k
        by (auto simp: poll_def Let_def w2_def split: option.splits)
      with i4 i5 show ?thesis using poll_command_inv by blast
    qed
  qed
qed

section \<open>The tick\<close>

lemma reconcile_inv:
  assumes "service_reconcile (agent_service env) repo pw w = ((out, err), w')" "agent_inv env w"
  shows "agent_inv env w'"
  using inv_handler [OF command_view_agent [OF wf.reconcile_view [OF assms(1)]] safe_reconcile [OF assms(1)]] assms(2)
  by (simp add: agent_inv_def)

lemma latest_calm: "latest_or_none (world_journal je) i w = (r, w') \<Longrightarrow> calm_view w' = calm_view w"
  by (auto simp: latest_or_none_def world_journal_def split: prod.splits sum.splits dest: calm_read)

lemma tick_decide_calm:
  assumes "tick_decide tz (agent_controller env) w = (r, w')"
  shows "calm_view w' = calm_view w"
proof -
  have ports: "ct_journal (agent_controller env) = world_journal (ae_base env)"
    "ct_now (agent_controller env) = ask (en_now (ae_base env))"
    "ct_set_last_op (agent_controller env) x v = v\<lparr>aw_last_op := x\<rparr>" for x v
    by (simp_all add: agent_controller_def)
  have reads: "jp_latest_succeeded_slot (world_journal je) v = (x, v') \<Longrightarrow> calm_view v' = calm_view v"
    "jp_job_by_slot (world_journal je) k v = (y, v') \<Longrightarrow> calm_view v' = calm_view v" for je v x v' y k
    by (auto simp: world_journal_def dest: calm_read)
  show ?thesis using assms unfolding tick_decide_def Let_def ports
    by (auto split: prod.splits option.splits sum.splits dest!: calm_ask reads latest_calm)
qed

lemma agent_backup_inv:
  assumes "agent_backup (the_agent env) slot w = (e, w')" "agent_inv env w"
  shows "agent_inv env w'"
  using inv_handler [OF agent_backup_command [OF assms(1)] safe_agent_backup [OF assms(1)]] assms(2)
  by (simp add: agent_inv_def)

lemma tick_inv:
  assumes "controller_tick tz (agent_controller env) w = (r, w')" "agent_inv env w"
  shows "agent_inv env w'"
proof -
  let ?C = "agent_controller env"
  obtain out e1 w1 where rc: "service_reconcile (agent_service env) (ae_repository env) (ae_password_ref env) w = ((out, e1), w1)"
    by (metis prod.exhaust)
  have i1: "agent_inv env w1" using reconcile_inv [OF rc assms(2)] .
  obtain d e2 w2 where t: "tick_decide tz ?C w1 = ((d, e2), w2)" by (metis prod.exhaust)
  have i2: "agent_inv env w2" using calm_inv [OF tick_decide_calm [OF t] i1] .
  have hooks: "ct_reconcile ?C = Some (\<lambda>w. case service_reconcile (agent_service env) (ae_repository env)
      (ae_password_ref env) w of ((_, e), w1) \<Rightarrow> (e, w1))" "ct_backup ?C = Some (agent_backup (the_agent env))"
    by (simp_all add: agent_controller_def)
  have "w' = w1 \<or> w' = w2 \<or> (\<exists>slot e. agent_backup (the_agent env) slot w2 = (e, w'))"
    using assms(1) rc t unfolding controller_tick_def
    by (auto simp: hooks split: option.splits if_splits prod.splits)
  with i1 i2 show ?thesis using agent_backup_inv by blast
qed

lemma round_inv:
  assumes "agent_round env w = (r, w')" "agent_inv env w"
  shows "agent_inv env w'"
proof -
  obtain pe w1 where p: "(case (if ae_control_url env = [] then None else Some (agent_executor env)) of
      None \<Rightarrow> (None, w) | Some X \<Rightarrow> poll X (reason_text (last_reason (agent_controller env) w)) w) = (pe, w1)" by force
  have i1: "agent_inv env w1" using p assms(2) poll_inv by (auto split: if_splits)
  obtain t w2 where t: "controller_tick (ae_tz env) (agent_controller env) w1 = (t, w2)" by (metis surj_pair)
  have "w' = w2" using assms(1) p t unfolding agent_round_def run_once_def Let_def by (cases t) auto
  with tick_inv [OF t i1] show ?thesis by simp
qed

text \<open>A tick leaves the commands and the acknowledgements alone.\<close>

lemma tick_command:
  assumes "controller_tick tz (agent_controller env) w = (r, w')"
  shows "command_view w' = command_view w"
proof -
  let ?C = "agent_controller env"
  obtain out e1 w1 where rc: "service_reconcile (agent_service env) (ae_repository env) (ae_password_ref env) w = ((out, e1), w1)"
    by (metis prod.exhaust)
  obtain d e2 w2 where t: "tick_decide tz ?C w1 = ((d, e2), w2)" by (metis prod.exhaust)
  have v: "command_view w1 = command_view w" "command_view w2 = command_view w1"
    using command_view_agent [OF wf.reconcile_view [OF rc]] tick_decide_calm [OF t] by (simp_all add: calm_view_def)
  have hooks: "ct_reconcile ?C = Some (\<lambda>w. case service_reconcile (agent_service env) (ae_repository env)
      (ae_password_ref env) w of ((_, e), w1) \<Rightarrow> (e, w1))" "ct_backup ?C = Some (agent_backup (the_agent env))"
    by (simp_all add: agent_controller_def)
  have "w' = w1 \<or> w' = w2 \<or> (\<exists>slot e. agent_backup (the_agent env) slot w2 = (e, w'))"
    using assms rc t unfolding controller_tick_def
    by (auto simp: hooks split: option.splits if_splits prod.splits)
  with v show ?thesis using agent_backup_command by metis
qed

section \<open>The reachable states\<close>

definition empty_db :: journal_db where
  "empty_db = \<lparr>jd_open = True, jd_jobs = [], jd_attempts = [], jd_outbox = [], jd_commands = [], jd_policies = []\<rparr>"

definition fresh_world :: "agent_world \<Rightarrow> bool" where
  "fresh_world w \<longleftrightarrow> jd_jobs (wd_db w) = [] \<and> jd_attempts (wd_db w) = [] \<and> jd_commands (wd_db w) = [] \<and>
     wd_launches w = [] \<and> aw_leases w = [] \<and> aw_acks w = []"

text \<open>
  The backup hook is also a step of its own, whatever the slot: what a round decides about
  it does not matter for the invariant.
\<close>

inductive agent_reach :: "agent_environment \<Rightarrow> agent_world \<Rightarrow> bool" for env where
  start: "fresh_world w \<Longrightarrow> agent_reach env (agent_boot env w)"
| restart: "agent_reach env w \<Longrightarrow> agent_reach env (agent_boot env w)"
| round: "agent_reach env w \<Longrightarrow> agent_round env w = (e, w') \<Longrightarrow> agent_reach env w'"
| hook: "agent_reach env w \<Longrightarrow> agent_backup (the_agent env) slot w = (e, w') \<Longrightarrow> agent_reach env w'"
| desktop: "agent_reach env w \<Longrightarrow> desktop_restore env job snap sel w = (r, w') \<Longrightarrow> agent_reach env w'"
| qualify: "agent_reach env w \<Longrightarrow> bq_attempt_class req = AttemptQualification \<Longrightarrow>
    qualification_backup env req w = (q, w') \<Longrightarrow> agent_reach env w'"

lemma boot_calm: "calm_view (agent_boot env w) = calm_view w"
  by (simp add: agent_boot_def ask_def world_journal_def db_read_def Let_def calm_view_def command_view_def
      ledger_view_def)

lemma reach_inv: "agent_reach env w \<Longrightarrow> agent_inv env w"
proof (induction rule: agent_reach.induct)
  case (start w)
  then have "agent_inv env w"
    by (simp add: fresh_world_def agent_inv_def agent_safe_def acks_recorded_def ledger_ok_empty)
  then show ?case using calm_inv [OF boot_calm] by blast
next
  case (restart w)
  then show ?case using calm_inv [OF boot_calm] by blast
next
  case (round w e w')
  then show ?case using round_inv by blast
next
  case (hook w slot e w')
  then show ?case using agent_backup_inv by blast
next
  case (desktop w job snap sel r w')
  then have "agent_restore (the_agent env) job snap sel w = (r, w')" by (simp add: desktop_restore_def)
  then show ?case using desktop.IH agent_restore_command safe_agent_restore
    by (meson agent_inv_def inv_handler)
next
  case (qualify w req q w')
  obtain res err where q: "q = (res, err)" by force
  obtain now w1 where t: "ask (en_now (ae_base env)) w = (now, w1)" by force
  have "command_view w' = command_view w"
    using qualify.hyps t by (auto simp: qualification_backup_def dest!: backup_command ask_command)
  then show ?case using safe_qualification qualify q by (meson agent_inv_def inv_handler)
qed

end
