(* ===== verification/Example.thy ===== *)
theory Example
  imports Agent_Reach
begin

text \<open>
  A concrete device for the witnesses: a gateway repository, an engine that publishes one
  snapshot, a server that grants a lease of 500 KiB/s and sends one command, a journal that
  does not fail.
\<close>

definition ex_snapshot_id :: string where "ex_snapshot_id = replicate 64 CHR ''a''"

definition ex_snapshot :: snapshot where
  "ex_snapshot = \<lparr>sn_id = ex_snapshot_id, sn_time = [], sn_hostname = ''dev-1'', sn_paths = [''D:/Work''],
     sn_tags = [], sn_parent = []\<rparr>"

text \<open>Monday 2026-01-05, 13:00 in Istanbul.\<close>

definition ex_now :: time where "ex_now = 63903204000 * 1000000000"

definition ex_exit :: "int \<Rightarrow> run_outcome" where
  "ex_exit code = RunDone \<lparr>ps_exit_code = code, ps_timed_out = False, ps_cancelled = False, ps_stdout = ''done'',
     ps_stderr = [], ps_stdout_truncated = False, ps_stderr_truncated = False\<rparr> None"

definition ex_readers :: output_readers where
  "ex_readers = \<lparr>or_summary = \<lambda>s. zero_summary\<lparr>bs_snapshot_id := ex_snapshot_id, bs_message_seen := True\<rparr>,
     or_evidence = \<lambda>out err trunc mode roots ver. zero_evidence\<lparr>ve_mode := mode, ve_positive_all_required := True\<rparr>,
     or_snapshots = \<lambda>s. Inr [ex_snapshot], or_repo_config = \<lambda>s. Inr ''repo'', or_diag = \<lambda>r. ''diag''\<rparr>"

definition ex_repo :: repository_descriptor where
  "ex_repo = \<lparr>rd_backend_kind = BackendRESTGateway, rd_location = ''rest:https://gw.example.com/dev-1'',
     rd_expected_repo_id = [], rd_generation_id = [], rd_device_id = ''dev-1'', rd_transport_profile = [],
     rd_credential_refs = [],
     rd_tls = \<lparr>tls_min_version = [], tls_insecure_skip_verify = False, tls_pinned_ca_path = []\<rparr>,
     rd_capabilities = default_capabilities BackendRESTGateway\<rparr>"

definition ex_bound :: bound_repository where
  "ex_bound = \<lparr>bd_location = ''rest:https://gw.example.com/dev-1'', bd_options = [], bd_env = [],
     bd_capabilities = default_capabilities BackendRESTGateway, bd_binary_pins = []\<rparr>"

definition ex_env :: environment where
  "ex_env = \<lparr>en_journal = \<lambda>n. \<lparr>je_fault = \<lambda>k. None, je_now = \<lambda>k. ex_now, je_violation = []\<rparr>,
     en_now = \<lambda>n. ex_now, en_ctx = \<lambda>n. None, en_id = \<lambda>n. CHR ''i'' # show_int (int n),
     en_stat = \<lambda>n p. None, en_free = \<lambda>n p. Inr 1000000000000, en_hash = \<lambda>n ps. Inr [],
     en_expected = \<lambda>n. Inr (''m.json'', ''00''),
     en_staging = \<lambda>n r j. Inr \<lparr>sd_root = r, sd_path = r @ ''/'' @ j, sd_job_id = j\<rparr>,
     en_revalidate = \<lambda>n. None, en_manifest = \<lambda>n. Inr ''restore.json'', en_verify = \<lambda>n. None,
     en_bind = \<lambda>n repo. Inr ex_bound, en_secret = \<lambda>n ref. Inr ''pw'', en_child_env = Inr,
     en_run = \<lambda>n kind args. (ex_exit 0, False), en_stall_timeout = 0, en_readers = ex_readers\<rparr>"

definition ex_password :: secret_ref where
  "ex_password = \<lparr>sr_purpose = ''restic-repository-password'', sr_provider = ''dpapi'', sr_locator = ''pw.bin'', sr_version = ''1''\<rparr>"

definition ex_policy :: local_policy where
  "ex_policy = (default_pilot_policy ex_now [''D:/Work''])\<lparr>lp_revision_id := ''rev-1'', lp_bandwidth_kibps := 400,
     lp_lab_local_unlimited := False\<rparr>"

text \<open>The journal: the policy alone.\<close>

definition ex_db :: journal_db where
  "ex_db = empty_db\<lparr>jd_policies := [\<lparr>pr_id = ''rev-1'', pr_policy = ex_policy, pr_accepted_at = ex_now\<rparr>]\<rparr>"

text \<open>The admitted backup: until the hard stop at 17:45, with the bandwidth of the lease.\<close>

definition ex_request :: backup_request where
  "ex_request = \<lparr>bq_job_id = [], bq_attempt_id = [], bq_correlation_id = [], bq_device_id = ''dev-1'',
     bq_installation_id = ''inst-1'', bq_policy_revision_id = ''rev-1'', bq_repository = ex_repo,
     bq_source_roots = [''D:/Work''], bq_optional_roots = [], bq_excludes = [''*.ost''], bq_tags = [],
     bq_vss_mode = VSSRequired, bq_password_ref = ex_password, bq_cache_dir = ''C:/cache'',
     bq_bandwidth_kibps = 500, bq_wan_class = WANClassInitialSeed, bq_deadline = ex_now + 285 * minute_ns,
     bq_host = ''dev-1'', bq_slot_key = ''slot'', bq_free_space_floor = 2147483648,
     bq_attempt_class = NoAttemptClass, bq_qualification_run_id = []\<rparr>"

section \<open>A backup that succeeds, step by step\<close>

definition ex_req1 :: backup_request where
  "ex_req1 = ex_request\<lparr>bq_job_id := ''i10'', bq_attempt_id := ''i11''\<rparr>"

definition ex_job :: job_record where
  "ex_job = \<lparr>jr_id = ''i10'', jr_kind = JobBackup, jr_slot_key = ''slot'', jr_policy_revision_id = ''rev-1'',
     jr_state = JobActive, jr_request_hash = [], jr_request_json = [], jr_created_at = ex_now,
     jr_updated_at = ex_now\<rparr>"

definition ex_attempt :: "attempt_phase \<Rightarrow> attempt_record" where
  "ex_attempt p = \<lparr>ar_id = ''i11'', ar_job_id = ''i10'', ar_attempt_no = 1, ar_kind = JobBackup,
     ar_slot_key = ''slot'', ar_policy_revision_id = ''rev-1'', ar_phase = p, ar_outcome = NoPhase,
     ar_snapshot_id = [], ar_error_class = NoErrorClass, ar_summary_json = NoSummaryJSON,
     ar_evidence_json = [], ar_intent_at = ex_now, ar_started_at = ex_now, ar_ended_at = 0\<rparr>"

text \<open>The state while the backup is under way; \<open>m\<close> is what the world is extended with.\<close>

definition ex_idle :: "nat \<Rightarrow> bool \<Rightarrow> 'z \<Rightarrow> 'z world_scheme" where
  "ex_idle n active m = \<lparr>wd_db = ex_db, wd_pos = n, wd_active = active, wd_launches = [], \<dots> = m\<rparr>"

definition ex_state :: "nat \<Rightarrow> attempt_phase \<Rightarrow> launch list \<Rightarrow> 'z \<Rightarrow> 'z world_scheme" where
  "ex_state n p ls m = \<lparr>wd_db = ex_db\<lparr>jd_jobs := [ex_job], jd_attempts := [ex_attempt p]\<rparr>, wd_pos = n,
     wd_active = True, wd_launches = ls, \<dots> = m\<rparr>"

abbreviation ex_launch :: launch where
  "ex_launch \<equiv> BackupLaunch ex_req1 (Some (ex_attempt PhaseBackingUp)) (Some ex_job)"

definition ex_result :: backup_result where
  "ex_result = zero_result\<lparr>br_outcome := PhaseSucceeded, br_exit_known := True, br_snapshot_id := ex_snapshot_id,
     br_summary := zero_summary\<lparr>bs_snapshot_id := ex_snapshot_id, bs_message_seen := True\<rparr>,
     br_vss := zero_evidence\<lparr>ve_mode := VSSRequired, ve_positive_all_required := True\<rparr>,
     br_consistency := ConsistencyVerified, br_required_roots_ok := True, br_readback_ok := True,
     br_cleanup_ok := True, br_started_at := ex_now, br_ended_at := ex_now\<rparr>"

lemma ex_begin: "backup_validate ex_request = None" "hp_active (world_host ex_env) (ex_idle 10 False (m :: 'z :: equal)) = False"
  "fill_ids (world_host ex_env) ex_request (hp_set_active (world_host ex_env) True (ex_idle 10 False m)) =
     (ex_req1, ex_idle 12 True m)"
  "backup_slot (world_service ex_env []) ex_req1 (ex_idle 12 True m) = (Inr (ex_req1, False, 1), ex_idle 13 True m)"
  by code_simp+

lemma ex_intent: "backup_intent (world_service ex_env []) ex_req1 False 1 (ex_idle 13 True (m :: 'z :: equal)) =
    (Inr (ex_attempt PhasePreparing), ex_state 18 PhasePreparing [] m)"
  by code_simp

lemma ex_preflight: "backup_preflight (world_service ex_env []) ex_req1 (ex_state 18 PhasePreparing [] (m :: 'z :: equal)) =
    (None, ex_state 20 PhasePreparing [] m)"
  by code_simp

lemma ex_update: "jp_update_attempt (world_journal ex_env) (ex_attempt PhaseBackingUp) (ex_state 20 PhasePreparing [] (m :: 'z :: equal)) =
    (None, ex_state 21 PhaseBackingUp [] m)"
  by code_simp

lemma ex_engine: "ep_backup (world_engine ex_env) ex_req1 (ex_state 21 PhaseBackingUp [] (m :: 'z :: equal)) =
    ((ex_result, None), ex_state 31 PhaseBackingUp [ex_launch] m)"
  by code_simp

lemma ex_snapshot_id_nonempty: "ex_snapshot_id \<noteq> []"
  by (simp add: ex_snapshot_id_def)

lemma ex_judged: "evaluate_backup ex_req1 (engine_answer (ex_result, None)) = ex_result"
  "br_outcome ex_result = PhaseSucceeded" "br_snapshot_id ex_result = ex_snapshot_id"
  by (simp_all add: ex_result_def ex_req1_def ex_request_def engine_answer_def evaluate_backup_def
      ex_snapshot_id_nonempty)

lemma ex_backup_run: "backup_run (world_service ex_env []) ex_req1 (ex_attempt PhasePreparing) (ex_state 18 PhasePreparing [] (m :: 'z :: equal)) =
    finish (world_service ex_env []) (ex_attempt PhaseBackingUp) ex_result JobSucceeded (ex_state 32 PhaseBackingUp [ex_launch] m)"
proof -
  have parts: "sv_engine (world_service ex_env []) = world_engine ex_env" "sv_journal (world_service ex_env []) = world_journal ex_env"
    "sv_host (world_service ex_env []) = world_host ex_env" "sv_manifest_dir (world_service ex_env []) = []"
    by (simp_all add: world_service_def)
  have ctx: "hp_ctx_err (world_host ex_env) (ex_state 31 PhaseBackingUp ls m) = (None, ex_state 32 PhaseBackingUp ls m)" for ls
    by (simp add: world_host_def ask_def ex_env_def advance_def ex_state_def)
  have mark: "(ex_attempt PhasePreparing)\<lparr>ar_phase := PhaseBackingUp\<rparr> = ex_attempt PhaseBackingUp"
    by (simp add: ex_attempt_def)
  have manifest: "record_expected_manifest (world_service ex_env []) ex_req1 ex_result (Inr []) w = (ex_result, w)"
    for w :: "'z world_scheme"
    by (simp add: record_expected_manifest_def)
  show ?thesis
    by (simp add: backup_run_def Let_def parts ex_preflight mark ex_update ex_engine ex_judged manifest
        ctx cancelled_result_def job_state_from_attempt_def)
qed

lemma ex_finish: "fst (finish (world_service ex_env []) (ex_attempt PhaseBackingUp) ex_result JobSucceeded
    (ex_state 32 PhaseBackingUp [ex_launch] (m :: 'z :: equal))) = (finish_result (ex_attempt PhaseBackingUp) ex_result, None)"
  by code_simp

lemma ex_backup: "fst (service_backup (world_service ex_env []) ex_request (ex_idle 10 False (m :: 'z :: equal))) =
    (finish_result (ex_attempt PhaseBackingUp) ex_result, None)"
proof -
  have parts: "sv_host (world_service ex_env []) = world_host ex_env" by (simp add: world_service_def)
  show ?thesis using ex_finish [of m]
    by (auto simp: service_backup_def backup_locked_def parts ex_begin ex_intent ex_backup_run split: prod.splits)
qed

lemma ex_finish_launches: "wd_launches (snd (finish (world_service ex_env []) (ex_attempt PhaseBackingUp) ex_result
    JobSucceeded (ex_state 32 PhaseBackingUp [ex_launch] (m :: 'z :: equal)))) = [ex_launch]"
  by code_simp

lemma ex_backup_launches:
  "wd_launches (snd (service_backup (world_service ex_env []) ex_request (ex_idle 10 False (m :: 'z :: equal)))) = [ex_launch]"
proof -
  have parts: "sv_host (world_service ex_env []) = world_host ex_env" by (simp add: world_service_def)
  have idle: "wd_launches (hp_set_active (world_host ex_env) b w) = wd_launches w" for b and w :: "'z world_scheme"
    by (simp add: world_host_def)
  show ?thesis using ex_finish_launches [of m]
    by (auto simp: service_backup_def backup_locked_def parts ex_begin ex_intent ex_backup_run idle split: prod.splits)
qed

section \<open>The device\<close>

definition ex_lease :: admission_result where
  "ex_lease = \<lparr>am_status = ''GRANTED'', am_lease_id = ''lease-1'', am_bandwidth_kibps = 500,
     am_restore_download_kibps = 0\<rparr>"

definition ex_command :: command_envelope where
  "ex_command = \<lparr>cv_command_id = ''cmd-1'', cv_job_id = [], cv_kind = ''BROWSE_SNAPSHOT'', cv_payload = []\<rparr>"

definition ex_device :: agent_environment where
  "ex_device = \<lparr>ae_base = ex_env, ae_device_id = ''dev-1'', ae_installation_id = ''inst-1'',
     ae_repository = ex_repo, ae_vss_mode = VSSRequired, ae_password_ref = ex_password,
     ae_cache_dir = ''C:/cache'', ae_staging_root = ''C:/staging'', ae_manifest_dir = [],
     ae_config_roots = [''D:/Work''], ae_control_url = ''https://control.example.com'', ae_version = ''1.0'',
     ae_agent_sha256 = ''00'', ae_tz = \<lambda>name. Inr (\<lambda>t. 10800), ae_local_zone = \<lambda>t. 0, ae_sha256 = \<lambda>s. s,
     ae_pilot_json = \<lambda>n. None,
     ae_heartbeat = \<lambda>n. Inr \<lparr>hb_poll_seconds = 60, hb_desired_revision = [], hb_policy = None,
       hb_pause_wan = False, hb_provider_unavailable = False, hb_site_id = [], hb_agent_sha256 = [],
       hb_agent_qualified = False\<rparr>,
     ae_claim = \<lambda>n. Inr (Some ex_command), ae_policy = \<lambda>n. Inl (PlainError ''offline''),
     ae_report = \<lambda>n. None, ae_ack = \<lambda>n. None, ae_lease = \<lambda>n. (ex_lease, None), ae_release = \<lambda>n. None,
     ae_load = \<lambda>n. None, ae_load_expected = \<lambda>n. None, ae_verify_restored = \<lambda>n. None,
     ae_browse = \<lambda>n a b. (None, None), ae_browse_local = \<lambda>n a b c. (None, None),
     ae_build_catalog = \<lambda>n a. None, ae_apply_selection = \<lambda>n a b c. (None, None)\<rparr>"

text \<open>The device at rest with an accepted policy; and the same once the lease is granted.\<close>

definition ex_agent :: "nat \<Rightarrow> (json_object \<times> admission_result \<times> go_error option) list \<Rightarrow> agent_world" where
  "ex_agent n leases = \<lparr>wd_db = ex_db, wd_pos = n, wd_active = False, wd_launches = [],
     aw_exec = zero_exec_state ''rev-1'', aw_live = ex_policy,
     aw_schedule = (default_schedule, ''rev-1''), aw_last_op = NoReason, aw_started_at = ex_now,
     aw_acks = [], aw_leases = leases, aw_diagnostics = []\<rparr>"

abbreviation ex_lease_log where
  "ex_lease_log \<equiv> [(lease_body ''i4'' ''i5'' ''slot'' WANClassInitialSeed ''inst-1'', ex_lease, None)]"

lemma ex_guard: "wan_start_block_reason (Some (bare_executor ex_device)) (ex_agent 4 []) (ae_tz ex_device) ex_policy
    BackendRESTGateway = []"
  by code_simp

lemma ex_agent_idle: "ex_agent 10 leases = ex_idle 10 False (world.more (ex_agent 10 leases))"
  by (simp add: ex_agent_def ex_idle_def)

lemma ex_agent_request: "agent_request (the_agent ex_device) ''slot'' ex_policy WANClassInitialSeed 500
    (deadline_for (ae_tz ex_device) (ag_local_zone (the_agent ex_device)) ex_now (lp_schedule ex_policy) WANClassInitialSeed)
    [''D:/Work''] [''*.ost''] = ex_request"
  by code_simp

text \<open>A scheduled backup of the device: it runs under the lease and publishes its snapshot.\<close>

lemma ex_agent_steps:
  "jp_latest_succeeded_slot (world_journal ex_env) (ex_agent 3 []) = (Inr [], ex_agent 4 [])"
  "ask (en_id ex_env) (ex_agent 4 []) = (''i4'', ex_agent 5 [])"
  "ask (en_id ex_env) (ex_agent 5 []) = (''i5'', ex_agent 6 [])"
  "cl_acquire_lease (agent_client ex_device) (lease_body ''i4'' ''i5'' ''slot'' WANClassInitialSeed ''inst-1'')
     (ex_agent 6 []) = ((ex_lease, None), ex_agent 7 ex_lease_log)"
  "ask (en_now ex_env) (ex_agent 7 l) = (ex_now, ex_agent 8 l)"
  "ask (ae_pilot_json ex_device) (ex_agent 8 l) = (None, ex_agent 9 l)"
  "ask (ae_pilot_json ex_device) (ex_agent 9 l) = (None, ex_agent 10 l)"
  "lease_granted ex_lease" "am_bandwidth_kibps ex_lease = 500" "slot_wan_class ''slot'' [] = WANClassInitialSeed"
  "is_control_slot_key ''slot'' = False"
  "current_source_roots None [''D:/Work''] = [''D:/Work'']" "current_excludes None = [''*.ost'']"
  by code_simp+

lemma ex_device_simps: "ae_base ex_device = ex_env" "ae_repository ex_device = ex_repo"
  "ae_control_url ex_device \<noteq> []" "ae_tz ex_device = (\<lambda>name. Inr (\<lambda>t. 10800))"
  "ag_installation_id (the_agent ex_device) = ''inst-1''" "ag_config_roots (the_agent ex_device) = [''D:/Work'']"
  "rd_backend_kind ex_repo = BackendRESTGateway" "aw_live (ex_agent n l) = ex_policy"
  "requires_wan_rate_limit BackendRESTGateway" "agent_service ex_device = world_service ex_env []"
  by (simp_all add: ex_device_def the_agent_def ex_repo_def ex_agent_def requires_wan_rate_limit_def agent_service_def)

abbreviation ex_tick :: go_error where
  "ex_tick \<equiv> TickError PhaseSucceeded NoErrorClass ''i11'' ''i10'' AttemptScheduled"

lemma ex_agent_backup:
  "fst (agent_backup (the_agent ex_device) ''slot'' (ex_agent 3 [])) = Some ex_tick"
  "wd_launches (snd (agent_backup (the_agent ex_device) ''slot'' (ex_agent 3 []))) = [ex_launch]"
proof -
  obtain w where b: "service_backup (world_service ex_env []) ex_request (ex_agent 10 ex_lease_log) =
      ((finish_result (ex_attempt PhaseBackingUp) ex_result, None), w)" and l: "wd_launches w = [ex_launch]"
    using ex_backup [of "world.more (ex_agent 10 ex_lease_log)"]
      ex_backup_launches [of "world.more (ex_agent 10 ex_lease_log)"] ex_agent_idle [of ex_lease_log]
    by (metis prod.collapse)
  have ok: "wrap_backup (finish_result (ex_attempt PhaseBackingUp) ex_result) None = Some ex_tick"
    by code_simp
  have adm: "run_admitted (the_agent ex_device) ''slot'' ex_policy WANClassInitialSeed 500 (ex_agent 7 ex_lease_log) = (Some ex_tick, w)"
    using ex_agent_request by (simp add: run_admitted_def ex_device_simps ex_agent_steps b ok)
  have "agent_backup (the_agent ex_device) ''slot'' (ex_agent 3 []) = (Some ex_tick, snd (ask (ae_release ex_device) w))"
    using ex_guard
    by (simp add: agent_backup_def Let_def ex_device_simps ex_agent_steps run_leased_def adm del: One_nat_def
        split: prod.splits)
  with l show "fst (agent_backup (the_agent ex_device) ''slot'' (ex_agent 3 [])) = Some ex_tick"
    "wd_launches (snd (agent_backup (the_agent ex_device) ''slot'' (ex_agent 3 []))) = [ex_launch]" by simp_all
qed

section \<open>Reachable states of the device\<close>

text \<open>The device starts with the policy of its journal.\<close>

lemma ex_latest_policy:
  "jp_latest_policy (world_journal ex_env) (ex_agent 1 []) = (Inr (Some ex_policy), ex_agent 2 [])"
  by (simp add: world_journal_def db_read_def ex_env_def sql_latest_policy_def sql_query_def order_desc_def
      ex_agent_def ex_db_def empty_db_def advance_def)

lemma ex_policy_valid: "policy_validate_for_backend (ae_tz ex_device) ex_policy BackendRESTGateway = None"
  by code_simp

lemma ex_boot: "agent_boot ex_device (ex_agent 0 []) = ex_agent 3 []"
proof -
  have now: "ask (en_now ex_env) (ex_agent n l) = (ex_now, ex_agent (Suc n) l)" for n l
    by (simp add: ask_def ex_env_def ex_agent_def advance_def)
  have agent: "(ex_agent 3 [])\<lparr>wd_active := False, aw_live := ex_policy, aw_schedule := (lp_schedule ex_policy, lp_revision_id ex_policy),
      aw_last_op := NoReason, aw_started_at := ex_now, aw_exec := zero_exec_state (lp_revision_id ex_policy)\<rparr> = ex_agent 3 []"
    by (simp add: ex_agent_def ex_policy_def default_pilot_policy_def)
  show ?thesis
    using agent ex_latest_policy ex_policy_valid
    by (simp add: agent_boot_def ex_device_simps(1,2,7) now boot_policy_def Let_def eval_nat_numeral)
qed

lemma ex_fresh: "fresh_world (ex_agent 0 [])"
  by (simp add: fresh_world_def ex_agent_def ex_db_def empty_db_def)

lemma ex_reach_boot: "agent_reach ex_device (ex_agent 3 [])"
  using agent_reach.start [OF ex_fresh, of ex_device] unfolding ex_boot .

definition ex_backed_up :: agent_world where
  "ex_backed_up = snd (agent_backup (the_agent ex_device) ''slot'' (ex_agent 3 []))"

lemma ex_reach_backup: "agent_reach ex_device ex_backed_up" "wd_launches ex_backed_up = [ex_launch]"
  using agent_reach.hook [OF ex_reach_boot prod.collapse [symmetric]] ex_agent_backup(2)
  by (simp_all add: ex_backed_up_def)

definition ex_after :: agent_world where
  "ex_after = snd (agent_round ex_device (ex_agent 3 []))"

lemma ex_reach_round: "agent_reach ex_device ex_after"
  using agent_reach.round [OF ex_reach_boot prod.collapse [symmetric]] by (simp add: ex_after_def)

end
