(* ===== verification/WinPath.thy ===== *)
theory WinPath
  imports GoStrings
begin

text \<open>
  Package \<open>path/filepath\<close> on Windows, for paths with a drive letter or without a volume:
  \<open>Clean\<close>, \<open>IsAbs\<close>, \<open>Join\<close>, \<open>Dir\<close>, \<open>Base\<close> and \<open>Rel\<close> on the parts of a path. UNC and device
  paths are refused by the agent before any of these is asked.
\<close>

abbreviation backslash :: char where "backslash \<equiv> CHR 0x5C"

definition is_sep :: "char \<Rightarrow> bool" where
  "is_sep c \<longleftrightarrow> c = backslash \<or> c = CHR ''/''"

definition from_slash :: "string \<Rightarrow> string" where
  "from_slash = map (\<lambda>c. if c = CHR ''/'' then backslash else c)"

definition to_slash :: "string \<Rightarrow> string" where
  "to_slash = map (\<lambda>c. if c = backslash then CHR ''/'' else c)"

definition volume :: "string \<Rightarrow> string" where
  "volume s = (if 2 \<le> length s \<and> s ! 1 = CHR '':'' then take 2 s else [])"

definition win_is_abs :: "string \<Rightarrow> bool" where
  "win_is_abs s \<longleftrightarrow> volume s \<noteq> [] \<and> (case drop 2 s of [] \<Rightarrow> False | c # _ \<Rightarrow> is_sep c)"

section \<open>The parts of a path\<close>

record path_parts =
  pt_volume :: string
  pt_rooted :: bool
  pt_elems :: "string list"

text \<open>One element against those kept so far, the last first.\<close>

definition clean_elem :: "bool \<Rightarrow> string list \<Rightarrow> string \<Rightarrow> string list" where
  "clean_elem rooted kept e =
     (if e = [] \<or> e = ''.'' then kept
      else if e = ''..'' then
        (case kept of
           x # xs \<Rightarrow> if x = ''..'' then ''..'' # kept else xs
         | [] \<Rightarrow> if rooted then [] else [''..''])
      else e # kept)"

definition clean_parts :: "string \<Rightarrow> path_parts" where
  "clean_parts s =
     (let vol = volume s; rest = drop (length vol) s;
          rooted = (case rest of [] \<Rightarrow> False | c # _ \<Rightarrow> is_sep c)
      in \<lparr>pt_volume = from_slash vol, pt_rooted = rooted,
          pt_elems = rev (foldl (clean_elem rooted) [] (split_on backslash (from_slash rest)))\<rparr>)"

definition parts_path :: "path_parts \<Rightarrow> string" where
  "parts_path p =
     pt_volume p @ (if pt_rooted p then [backslash] else []) @
     (if \<not> pt_rooted p \<and> pt_elems p = [] then ''.'' else join_with [backslash] (pt_elems p))"

text \<open>A cleaned path never begins like a drive or a device path that the original was not.\<close>

definition win_clean :: "string \<Rightarrow> string" where
  "win_clean s =
     (let out = parts_path (clean_parts s) in
      if volume s \<noteq> [] \<or> has_prefix s out then out
      else if CHR '':'' \<in> set (takeWhile (\<lambda>c. c \<noteq> backslash) out) then ''.'' @ [backslash] @ out
      else if has_prefix out ([backslash] @ ''??'' @ [backslash]) then [backslash] @ ''.'' @ out
      else out)"

definition win_join :: "string \<Rightarrow> string \<Rightarrow> string" where
  "win_join dir name = (if dir = [] then (if name = [] then [] else win_clean name)
     else if name = [] then win_clean dir else win_clean (dir @ [backslash] @ name))"

text \<open>The directories above a clean absolute path, itself first: repeated \<open>filepath.Dir\<close>.\<close>

definition ancestors :: "string \<Rightarrow> string list" where
  "ancestors s =
     (let p = clean_parts s in
      map (\<lambda>k. parts_path (p\<lparr>pt_elems := take k (pt_elems p)\<rparr>)) (rev [0..<Suc (length (pt_elems p))]))"

fun strip_common :: "string list \<Rightarrow> string list \<Rightarrow> string list \<times> string list" where
  "strip_common (b # bs) (t # ts) = (if equal_fold b t then strip_common bs ts else (b # bs, t # ts))"
| "strip_common bs ts = (bs, ts)"

definition win_rel :: "string \<Rightarrow> string \<Rightarrow> string option" where
  "win_rel base targ =
     (let b = clean_parts base; t = clean_parts targ in
      if equal_fold (parts_path t) (parts_path b) then Some ''.''
      else if pt_rooted b \<noteq> pt_rooted t \<or> \<not> equal_fold (pt_volume b) (pt_volume t) then None
      else case strip_common (pt_elems b) (pt_elems t) of
        ([], ts) \<Rightarrow> Some (join_with [backslash] ts)
      | (x # xs, ts) \<Rightarrow> if x = ''..'' then None
                        else Some (join_with [backslash] (replicate (length (x # xs)) ''..'' @ ts)))"

section \<open>The names of a path\<close>

definition win_dir :: "string \<Rightarrow> string" where
  "win_dir s =
     volume s @ win_clean (rev (dropWhile (\<lambda>c. \<not> is_sep c) (rev (drop (length (volume s)) s))))"

definition win_base :: "string \<Rightarrow> string" where
  "win_base s =
     (if s = [] then ''.'' else
      let t = trim_right is_sep s;
          e = rev (takeWhile (\<lambda>c. \<not> is_sep c) (rev (drop (length (volume t)) t)))
      in if e = [] then [backslash] else e)"

text \<open>\<open>filepath.IsAbs\<close> for every path: a drive, a network share, or the root of the object manager.\<close>

definition any_is_abs :: "string \<Rightarrow> bool" where
  "any_is_abs s \<longleftrightarrow>
     win_is_abs s \<or>
     2 \<le> length s \<and> is_sep (s ! 0) \<and> is_sep (s ! 1) \<or>
     4 \<le> length s \<and> is_sep (s ! 0) \<and> s ! 1 = CHR ''?'' \<and> s ! 2 = CHR ''?'' \<and> is_sep (s ! 3) \<and> list_ex is_sep (drop 4 s)"

section \<open>Facts\<close>

definition elems_ok :: "bool \<Rightarrow> string list \<Rightarrow> bool" where
  "elems_ok rooted es \<longleftrightarrow> (\<forall>e\<in>set es. e \<noteq> [] \<and> e \<noteq> ''.'' \<and> (rooted \<longrightarrow> e \<noteq> ''..'') \<and> backslash \<notin> set e)"

lemma elems_ok_Cons:
  "elems_ok r (e # es) \<longleftrightarrow> (e \<noteq> [] \<and> e \<noteq> ''.'' \<and> (r \<longrightarrow> e \<noteq> ''..'') \<and> backslash \<notin> set e) \<and> elems_ok r es"
  by (simp add: elems_ok_def)

lemma clean_elem_ok:
  assumes "elems_ok rooted kept" "backslash \<notin> set e"
  shows "elems_ok rooted (clean_elem rooted kept e)"
proof (cases kept)
  case Nil
  then show ?thesis using assms(2) by (simp add: clean_elem_def elems_ok_Cons) (simp add: elems_ok_def)
next
  case (Cons x xs)
  then show ?thesis using assms by (cases "x = ''..''"; cases rooted) (simp_all add: clean_elem_def elems_ok_Cons)
qed

lemma split_on_parts: "e \<in> set (split_on sep s) \<Longrightarrow> sep \<notin> set e"
  by (induction sep s arbitrary: e rule: split_on.induct) (auto split: list.splits if_splits)

lemma foldl_clean_ok:
  "elems_ok rooted kept \<Longrightarrow> \<forall>e\<in>set es. backslash \<notin> set e \<Longrightarrow> elems_ok rooted (foldl (clean_elem rooted) kept es)"
  by (induction es arbitrary: kept) (auto intro: clean_elem_ok)

text \<open>The elements of a cleaned path: none is empty or a dot, and none of a rooted one is a double dot.\<close>

lemma clean_parts_ok: "elems_ok (pt_rooted (clean_parts s)) (pt_elems (clean_parts s))"
proof -
  have "elems_ok r (foldl (clean_elem r) [] (split_on backslash t))" for r t
    by (rule foldl_clean_ok) (auto simp: elems_ok_def split_on_parts)
  then show ?thesis by (simp add: clean_parts_def Let_def elems_ok_def)
qed

lemma strip_common_split:
  assumes "strip_common bs ts = (bs', ts')"
  shows "\<exists>pre pre'. bs = pre @ bs' \<and> ts = pre' @ ts' \<and> list_all2 equal_fold pre pre'"
  using assms
proof (induction bs ts rule: strip_common.induct)
  case (1 b bs t ts)
  show ?case
  proof (cases "equal_fold b t")
    case True
    then obtain pre pre' where "bs = pre @ bs' \<and> ts = pre' @ ts' \<and> list_all2 equal_fold pre pre'" using 1 by auto
    then have "b # bs = (b # pre) @ bs' \<and> t # ts = (t # pre') @ ts' \<and> list_all2 equal_fold (b # pre) (t # pre')"
      using True by simp
    then show ?thesis by blast
  next
    case False
    with 1 show ?thesis by (intro exI [of _ "[]"]) simp
  qed
qed (intro exI [of _ "[]"]; simp)+

end
