(* ===== verification/Files.thy ===== *)
theory Files
  imports Domain_Types "HOL-Library.AList"
begin

text \<open>
  The files the agent replaces: a disk is the association list of its files, and every call of
  package \<open>os\<close> is one step, at which the environment decides whether it fails. A failing write
  may leave any content behind; another failing call leaves the disk alone. A process that stops
  after a step is one all of whose later steps fail, so what holds for every choice of the faults
  holds at every crash.
\<close>

record 'c disk =
  dk_files :: "(string \<times> 'c) list"
  dk_pos :: nat

datatype io_error = NotExist | IOError string

datatype 'c io_fault = IOFault string "'c option"

type_synonym 'c disk_env = "nat \<Rightarrow> 'c io_fault option"

primrec io_go :: "io_error \<Rightarrow> go_error" where
  "io_go NotExist = PlainError ''The system cannot find the file specified.''"
| "io_go (IOError msg) = PlainError msg"

definition disk_file :: "('c, 'z) disk_scheme \<Rightarrow> string \<Rightarrow> 'c option" where
  "disk_file w = map_of (dk_files w)"

definition disk_step :: "('c, 'z) disk_scheme \<Rightarrow> ('c, 'z) disk_scheme" where
  "disk_step w = w\<lparr>dk_pos := Suc (dk_pos w)\<rparr>"

definition disk_set :: "((string \<times> 'c) list \<Rightarrow> (string \<times> 'c) list) \<Rightarrow> ('c, 'z) disk_scheme \<Rightarrow> ('c, 'z) disk_scheme" where
  "disk_set f w = w\<lparr>dk_files := f (dk_files w), dk_pos := Suc (dk_pos w)\<rparr>"

text \<open>\<open>os.Stat\<close>, \<open>os.ReadFile\<close>, \<open>os.WriteFile\<close>, \<open>os.Remove\<close>, \<open>os.Rename\<close> (which replaces its target).\<close>

definition os_read :: "'c disk_env \<Rightarrow> string \<Rightarrow> ('c, 'z) disk_scheme \<Rightarrow> (io_error + 'c) \<times> ('c, 'z) disk_scheme" where
  "os_read env p w =
     (case env (dk_pos w) of
        Some (IOFault msg _) \<Rightarrow> (Inl (IOError msg), disk_step w)
      | None \<Rightarrow> (case disk_file w p of None \<Rightarrow> Inl NotExist | Some c \<Rightarrow> Inr c, disk_step w))"

definition os_stat :: "'c disk_env \<Rightarrow> string \<Rightarrow> ('c, 'z) disk_scheme \<Rightarrow> io_error option \<times> ('c, 'z) disk_scheme" where
  "os_stat env p w =
     (case os_read env p w of (Inl e, w') \<Rightarrow> (Some e, w') | (Inr _, w') \<Rightarrow> (None, w'))"

definition os_write :: "'c disk_env \<Rightarrow> string \<Rightarrow> 'c \<Rightarrow> ('c, 'z) disk_scheme \<Rightarrow> io_error option \<times> ('c, 'z) disk_scheme" where
  "os_write env p c w =
     (case env (dk_pos w) of
        Some (IOFault msg left) \<Rightarrow>
          (Some (IOError msg), (case left of None \<Rightarrow> disk_step w | Some x \<Rightarrow> disk_set (AList.update p x) w))
      | None \<Rightarrow> (None, disk_set (AList.update p c) w))"

definition os_remove :: "'c disk_env \<Rightarrow> string \<Rightarrow> ('c, 'z) disk_scheme \<Rightarrow> io_error option \<times> ('c, 'z) disk_scheme" where
  "os_remove env p w =
     (case env (dk_pos w) of
        Some (IOFault msg _) \<Rightarrow> (Some (IOError msg), disk_step w)
      | None \<Rightarrow> (case disk_file w p of None \<Rightarrow> (Some NotExist, disk_step w)
                 | Some _ \<Rightarrow> (None, disk_set (AList.delete p) w)))"

definition os_rename :: "'c disk_env \<Rightarrow> string \<Rightarrow> string \<Rightarrow> ('c, 'z) disk_scheme \<Rightarrow> io_error option \<times> ('c, 'z) disk_scheme" where
  "os_rename env p q w =
     (case env (dk_pos w) of
        Some (IOFault msg _) \<Rightarrow> (Some (IOError msg), disk_step w)
      | None \<Rightarrow> (case disk_file w p of None \<Rightarrow> (Some NotExist, disk_step w)
                 | Some c \<Rightarrow> (None, disk_set (\<lambda>fs. AList.update q c (AList.delete p fs)) w)))"

text \<open>\<open>os.MkdirAll\<close>: a disk holds files only, so a call that succeeds leaves it alone.\<close>

definition os_mkdir_all :: "'c disk_env \<Rightarrow> string \<Rightarrow> ('c, 'z) disk_scheme \<Rightarrow> io_error option \<times> ('c, 'z) disk_scheme" where
  "os_mkdir_all env p w =
     (case env (dk_pos w) of
        Some (IOFault msg _) \<Rightarrow> (Some (IOError msg), disk_step w)
      | None \<Rightarrow> (None, disk_step w))"

section \<open>Facts\<close>

text \<open>What a call leaves at a path.\<close>

lemma disk_file_step [simp]: "disk_file (disk_step w) = disk_file w"
  by (simp add: disk_step_def disk_file_def)

lemma disk_file_update [simp]: "disk_file (disk_set (AList.update p c) w) = (disk_file w)(p \<mapsto> c)"
  by (simp add: disk_set_def disk_file_def update_conv')

lemma disk_file_delete [simp]: "disk_file (disk_set (AList.delete p) w) = (disk_file w)(p := None)"
  by (simp add: disk_set_def disk_file_def delete_conv')

lemma disk_file_move [simp]:
  "disk_file (disk_set (\<lambda>fs. AList.update q c (AList.delete p fs)) w) = (disk_file w)(p := None, q \<mapsto> c)"
  by (simp add: disk_set_def disk_file_def delete_conv' update_conv')

lemma os_read_cases:
  assumes "os_read env p w = (r, w')"
  shows "disk_file w' = disk_file w" "r = Inr c \<Longrightarrow> disk_file w p = Some c" "r = Inl NotExist \<Longrightarrow> disk_file w p = None"
  using assms by (auto simp: os_read_def split: option.splits io_fault.splits)

lemma os_stat_file:
  assumes "os_stat env p w = (r, w')"
  shows "disk_file w' = disk_file w" "r = None \<Longrightarrow> disk_file w p \<noteq> None" "r = Some NotExist \<Longrightarrow> disk_file w p = None"
  using assms by (auto simp: os_stat_def os_read_def split: option.splits io_fault.splits)

lemma os_write_file:
  assumes "os_write env p c w = (r, w')"
  shows "r = None \<Longrightarrow> disk_file w' = (disk_file w)(p \<mapsto> c)"
    "disk_file w' = disk_file w \<or> (\<exists>x. disk_file w' = (disk_file w)(p \<mapsto> x))"
  using assms by (auto simp: os_write_def split: option.splits io_fault.splits)

lemma os_remove_file:
  assumes "os_remove env p w = (r, w')"
  shows "disk_file w' = disk_file w \<or> disk_file w' = (disk_file w)(p := None)"
    "r = None \<Longrightarrow> disk_file w' = (disk_file w)(p := None)"
  using assms by (auto simp: os_remove_def split: option.splits io_fault.splits)

lemma os_rename_file:
  assumes "os_rename env p q w = (r, w')"
  shows "r = None \<Longrightarrow> \<exists>c. disk_file w p = Some c \<and> disk_file w' = (disk_file w)(p := None, q \<mapsto> c)"
    "r \<noteq> None \<Longrightarrow> disk_file w' = disk_file w"
  using assms by (auto simp: os_rename_def split: option.splits io_fault.splits)

lemma os_rename_cases:
  assumes "os_rename env p q w = (r, w')"
  obtains (moved) c where "r = None" "disk_file w p = Some c" "disk_file w' = (disk_file w)(p := None, q \<mapsto> c)"
  | (failed) e where "r = Some e" "disk_file w' = disk_file w"
  using os_rename_file [OF assms] by (cases r) auto

lemma os_write_other:
  assumes "os_write env p c w = (r, w')" "p \<noteq> q"
  shows "disk_file w' q = disk_file w q"
  using os_write_file(2) [OF assms(1)] assms(2) by auto

text \<open>No call changes what a world keeps next to its disk.\<close>

lemma disk_more [simp]: "disk.more (disk_step w) = disk.more w" "disk.more (disk_set f w) = disk.more w"
  by (simp_all add: disk_step_def disk_set_def)

lemma os_more:
  "os_read d p w = (x, w') \<Longrightarrow> disk.more w' = disk.more w"
  "os_stat d p w = (e, w') \<Longrightarrow> disk.more w' = disk.more w"
  "os_write d p c w = (e, w') \<Longrightarrow> disk.more w' = disk.more w"
  "os_mkdir_all d' p w2 = (e, w2') \<Longrightarrow> disk.more w2' = disk.more w2"
  by (auto simp: os_read_def os_stat_def os_write_def os_mkdir_all_def split: option.splits io_fault.splits)

lemma os_remove_more [simp]: "disk.more (snd (os_remove d p w)) = disk.more w"
  by (auto simp: os_remove_def split: option.splits io_fault.splits)

lemma os_rename_more [simp]: "disk.more (snd (os_rename d p q w)) = disk.more w"
  by (auto simp: os_rename_def split: option.splits io_fault.splits)

lemma os_mkdir_snd [simp]:
  "disk.more (snd (os_mkdir_all d p w)) = disk.more w" "disk_file (snd (os_mkdir_all d p w)) = disk_file w"
  by (auto simp: os_mkdir_all_def split: option.splits io_fault.splits)

end
