(* ===== verification/Process_Runner.thy ===== *)
theory Process_Runner
  imports WinPath Files Domain_Redact Restic_Adapter
begin

text \<open>
  The one place that starts programs (\<open>internal/adapters/process\<close>): the environment of a child
  (\<open>env.go\<close>), the checks of a program before it runs (\<open>verify.go\<close>) and \<open>Runner.Run\<close>
  (\<open>runner.go\<close>). What the started program does is the answer of the environment; the digest of
  a file is a function of its content.
\<close>

section \<open>The environment of a child (env.go)\<close>

type_synonym env_var = "string \<times> string \<times> bool"

definition add_var :: "env_var list \<Rightarrow> env_var \<Rightarrow> env_var list" where
  "add_var out v = (if fst v = [] \<or> to_upper (fst v) \<in> (\<lambda>x. to_upper (fst x)) ` set out then out else out @ [v])"

definition child_path :: "string \<Rightarrow> string list \<Rightarrow> go_error + string" where
  "child_path system_root dirs =
     (let used = filter (\<lambda>d. d \<noteq> []) dirs in
      if list_ex (\<lambda>d. contains_any d (CHR '';'' # newline_chars)) used
      then Inl (wrap_msg ErrArbitraryFlags ''invalid PATH element'')
      else Inr (system_root @ [backslash] @ ''System32'' @ concat (map (\<lambda>d. CHR '';'' # d) used)))"

definition allowed_child_vars :: "string list" where
  "allowed_child_vars = [''RESTIC_PASSWORD'', ''RESTIC_REST_USERNAME'', ''RESTIC_REST_PASSWORD'',
     ''RCLONE_CONFIG'', ''RCLONE_CONFIG_PASS'', ''RESTIC_PROGRESS_FPS'']"

fun add_extra :: "env_var list \<Rightarrow> env_var list \<Rightarrow> go_error + env_var list" where
  "add_extra out [] = Inr out"
| "add_extra out (e # es) =
     (let upper = to_upper (fst e) in
      if upper = ''RESTIC_PASSWORD_COMMAND'' \<or> upper = ''RESTIC_FROM_PASSWORD_COMMAND''
      then Inl (wrap_msg ErrArbitraryFlags ''password commands are forbidden'')
      else if upper = ''COMSPEC'' then Inl (Sentinel ErrShellInvocation)
      else if upper \<notin> set allowed_child_vars
      then Inl (wrap_msg ErrArbitraryFlags (''environment '' @ fst e @ '' is not allowlisted''))
      else add_extra (add_var out e) es)"

definition restricted_env :: "env_var list \<Rightarrow> string \<Rightarrow> string \<Rightarrow> string \<Rightarrow> string list \<Rightarrow> go_error + env_var list" where
  "restricted_env extra cache_dir temp_dir system_root0 extra_path =
     (let system_root = (if system_root0 = [] then ''C:'' @ [backslash] @ ''Windows'' else system_root0);
          drive = (if 2 \<le> length system_root \<and> system_root ! 1 = CHR '':'' then take 2 system_root else ''C:'') in
      case child_path system_root extra_path of Inl e \<Rightarrow> Inl e | Inr path_val \<Rightarrow>
        add_extra (foldl add_var []
          ([(''SystemRoot'', system_root, False), (''SYSTEMROOT'', system_root, False),
            (''windir'', system_root, False), (''WINDIR'', system_root, False),
            (''SystemDrive'', drive, False), (''PATH'', path_val, False)] @
           (if temp_dir = [] then [] else [(''TEMP'', temp_dir, False), (''TMP'', temp_dir, False)]) @
           (if cache_dir = [] then [] else [(''RESTIC_CACHE_DIR'', cache_dir, False)]))) extra)"

definition env_block :: "env_var list \<Rightarrow> string list" where
  "env_block vars = map (\<lambda>(n, v, _). n @ ''='' @ v) vars"

section \<open>The checks of a program (verify.go)\<close>

record process_spec =
  px_executable :: string
  px_args :: "string list"
  px_env :: "env_var list"
  px_sha256 :: string
  px_dependencies :: "(string \<times> string) list"

text \<open>What the checks ask of the machine, and what a started program does.\<close>

record 'c process_env =
  pv_disk :: "'c disk_env"
  pv_sha :: "'c \<Rightarrow> string"
  pv_is_dir :: "string \<Rightarrow> bool"
  pv_ctx :: "nat \<Rightarrow> go_error option"
  pv_run :: "nat \<Rightarrow> run_outcome"

definition verify_executable :: "('c, 'e) process_env_scheme \<Rightarrow> string \<Rightarrow> string \<Rightarrow> ('c, 'z) disk_scheme \<Rightarrow>
    go_error option \<times> ('c, 'z) disk_scheme" where
  "verify_executable env path want w =
     (if \<not> win_is_abs path then (Some (wrap_msg ErrBinaryDigestMismatch ''empty executable path''), w)
      else if contains_any path newline_chars
      then (Some (wrap_msg ErrArbitraryFlags ''executable path contains newlines''), w)
      else case os_stat (pv_disk env) path w of
        (Some e, w1) \<Rightarrow>
          (Some (if e = NotExist \<and> pv_is_dir env path
                 then wrap_msg ErrBinaryDigestMismatch ''executable path is a directory'' else io_go e), w1)
      | (None, w1) \<Rightarrow>
        if want = [] then (Some (wrap_msg ErrBinaryDigestMismatch ''pinned digest is required''), w1)
        else (case os_read (pv_disk env) path w1 of
            (Inl e, w2) \<Rightarrow> (Some (io_go e), w2)
          | (Inr c, w2) \<Rightarrow>
            if \<not> equal_fold (pv_sha env c) want
            then (Some (wrap_msg ErrBinaryDigestMismatch (''got '' @ pv_sha env c @ '' want '' @ want)), w2)
            else (None, w2)))"

definition shell_names :: "string list" where
  "shell_names = [''cmd.exe'', ''cmd'', ''powershell.exe'', ''powershell'', ''pwsh.exe'', ''pwsh'', ''sh'', ''bash'',
     ''wscript.exe'', ''cscript.exe'']"

definition reject_shell :: "process_spec \<Rightarrow> go_error option" where
  "reject_shell spec =
     (let base = to_lower (px_executable spec); joined = join_with '' '' (px_args spec) in
      if list_ex (\<lambda>f. has_suffix base (backslash # f) \<or> has_suffix base (CHR ''/'' # f) \<or> equal_fold base f) shell_names
      then Some (Sentinel ErrShellInvocation)
      else if str_contains joined ''cmd.exe'' \<or> str_contains joined ''powershell''
      then Some (Sentinel ErrShellInvocation) else None)"

definition secret_values :: "env_var list \<Rightarrow> string list" where
  "secret_values vars = map (\<lambda>v. fst (snd v)) (filter (\<lambda>v. snd (snd v) \<and> fst (snd v) \<noteq> []) vars)"

definition reject_secret_args :: "process_spec \<Rightarrow> string list \<Rightarrow> go_error option" where
  "reject_secret_args spec secrets =
     (if list_ex (\<lambda>a. let al = to_lower a in
          contains_secret a secrets \<or> has_prefix al ''--password='' \<or> al = ''--password'' \<or> al = ''-p'' \<or>
          str_contains al ''://'' \<and> str_contains a ''@'') (px_args spec)
      then Some (Sentinel ErrSecretInArguments) else None)"

section \<open>Runner.Run\<close>

fun verify_all :: "('c, 'e) process_env_scheme \<Rightarrow> (string \<times> string) list \<Rightarrow> ('c, 'z) disk_scheme \<Rightarrow>
    go_error option \<times> ('c, 'z) disk_scheme" where
  "verify_all env [] w = (None, w)"
| "verify_all env ((p, d) # pins) w =
     (case verify_executable env p d w of (Some e, w1) \<Rightarrow> (Some e, w1) | (None, w1) \<Rightarrow> verify_all env pins w1)"

definition scrub_output :: "string list \<Rightarrow> process_result \<Rightarrow> process_result" where
  "scrub_output secrets r =
     (let scrub = (\<lambda>t. foldl (\<lambda>s x. replace_all (literal x redacted) s) t secrets)
      in r\<lparr>ps_stdout := scrub (ps_stdout r), ps_stderr := scrub (ps_stderr r)\<rparr>)"

definition runner_run :: "('c, 'e) process_env_scheme \<Rightarrow> process_spec \<Rightarrow> ('c, 'z) disk_scheme \<Rightarrow>
    run_outcome \<times> ('c, 'z) disk_scheme" where
  "runner_run env spec w =
     (case pv_ctx env (dk_pos w) of Some e \<Rightarrow> (RunError e, disk_step w) | None \<Rightarrow>
      let w1 = disk_step w in
      if px_executable spec = [] then (RunError (Sentinel ErrBinaryDigestMismatch), w1)
      else case reject_shell spec of Some e \<Rightarrow> (RunError e, w1) | None \<Rightarrow>
      (case reject_secret_args spec (secret_values (px_env spec)) of Some e \<Rightarrow> (RunError e, w1) | None \<Rightarrow>
      (case verify_all env ((px_executable spec, px_sha256 spec) # px_dependencies spec) w1 of
         (Some e, w2) \<Rightarrow> (RunError e, w2)
       | (None, w2) \<Rightarrow>
         (case pv_ctx env (dk_pos w2) of Some e \<Rightarrow> (RunError e, disk_step w2) | None \<Rightarrow>
          (case pv_run env (Suc (dk_pos w2)) of
             RunError e \<Rightarrow> (RunError e, disk_step (disk_step w2))
           | RunDone r e \<Rightarrow> (RunDone (scrub_output (secret_values (px_env spec)) r) e, disk_step (disk_step w2)))))))"

section \<open>Facts\<close>

lemma add_var_mem: "x \<in> set (add_var out v) \<Longrightarrow> x \<in> set out \<or> x = v"
  by (auto simp: add_var_def split: if_splits)

lemma add_var_distinct: "distinct (map (\<lambda>x. to_upper (fst x)) out) \<Longrightarrow> distinct (map (\<lambda>x. to_upper (fst x)) (add_var out v))"
  by (auto simp: add_var_def)

lemma foldl_add_var_distinct:
  "distinct (map (\<lambda>x. to_upper (fst x)) out) \<Longrightarrow> distinct (map (\<lambda>x. to_upper (fst x)) (foldl add_var out vs))"
  by (induction vs arbitrary: out) (simp_all add: add_var_distinct)

lemma foldl_add_var_mem: "x \<in> set (foldl add_var out vs) \<Longrightarrow> x \<in> set out \<or> x \<in> set vs"
proof (induction vs arbitrary: out)
  case (Cons v vs)
  then show ?case using add_var_mem [of x out v] by fastforce
qed simp

lemma add_extra_Inr:
  assumes "add_extra out extra = Inr vars" "distinct (map (\<lambda>x. to_upper (fst x)) out)"
  shows "distinct (map (\<lambda>x. to_upper (fst x)) vars) \<and>
    (\<forall>v\<in>set vars. v \<in> set out \<or> v \<in> set extra \<and> to_upper (fst v) \<in> set allowed_child_vars)"
  using assms
proof (induction out extra rule: add_extra.induct)
  case (2 out e es)
  have a: "to_upper (fst e) \<in> set allowed_child_vars" "add_extra (add_var out e) es = Inr vars"
    using "2.prems"(1) by (auto simp: Let_def split: if_splits)
  have "distinct (map (\<lambda>x. to_upper (fst x)) vars) \<and>
    (\<forall>v\<in>set vars. v \<in> set (add_var out e) \<or> v \<in> set es \<and> to_upper (fst v) \<in> set allowed_child_vars)"
    using "2.IH" [OF refl] "2.prems" a add_var_distinct by (auto simp: Let_def split: if_splits)
  then show ?case using add_var_mem [of _ out e] a(1) by fastforce
qed simp

text \<open>A program that was run had the digest that was asked for when it was checked.\<close>

lemma verify_executable_None:
  assumes "verify_executable env path want w = (None, w')"
  shows "disk_file w' = disk_file w" "\<exists>c. disk_file w path = Some c \<and> equal_fold (pv_sha env c) want" "want \<noteq> []"
    "win_is_abs path"
proof -
  obtain r w1 where st: "os_stat (pv_disk env) path w = (r, w1)" by force
  obtain c where rd: "os_read (pv_disk env) path w1 = (Inr c, w')" and d: "equal_fold (pv_sha env c) want" "want \<noteq> []"
    "win_is_abs path"
    using assms st by (auto simp: verify_executable_def split: if_splits option.splits prod.splits sum.splits)
  show "disk_file w' = disk_file w" using os_stat_file(1) [OF st] os_read_cases(1) [OF rd] by simp
  show "\<exists>c. disk_file w path = Some c \<and> equal_fold (pv_sha env c) want"
    using os_stat_file(1) [OF st] os_read_cases(2) [OF rd refl] d(1) by auto
  show "want \<noteq> []" "win_is_abs path" by (rule d)+
qed

lemma verify_all_None:
  assumes "verify_all env pins w = (None, w')"
  shows "disk_file w' = disk_file w \<and> (\<forall>(p, d)\<in>set pins. \<exists>c. disk_file w p = Some c \<and> equal_fold (pv_sha env c) d)"
  using assms
proof (induction pins arbitrary: w)
  case (Cons pin pins)
  obtain p d where pin: "pin = (p, d)" by (metis surj_pair)
  obtain w1 where v: "verify_executable env p d w = (None, w1)" and r: "verify_all env pins w1 = (None, w')"
    using Cons.prems unfolding pin by (auto split: prod.splits option.splits)
  show ?case using Cons.IH [OF r] verify_executable_None(1,2) [OF v] unfolding pin by auto
qed simp

text \<open>What a run that was started had passed.\<close>

lemma runner_run_started:
  assumes "runner_run env spec w = (RunDone r e, w')"
  shows "reject_shell spec = None" "reject_secret_args spec (secret_values (px_env spec)) = None"
    "disk_file w' = disk_file w"
    "\<forall>(p, d)\<in>set ((px_executable spec, px_sha256 spec) # px_dependencies spec). \<exists>c. disk_file w p = Some c \<and> equal_fold (pv_sha env c) d"
proof -
  obtain w2 where v: "verify_all env ((px_executable spec, px_sha256 spec) # px_dependencies spec) (disk_step w) = (None, w2)"
    and w': "disk_file w' = disk_file w2" and c: "reject_shell spec = None"
      "reject_secret_args spec (secret_values (px_env spec)) = None"
    using assms unfolding runner_run_def Let_def
    by (auto simp del: verify_all.simps split: option.splits if_splits prod.splits run_outcome.splits)
  show "reject_shell spec = None" "reject_secret_args spec (secret_values (px_env spec)) = None" by (rule c)+
  show "disk_file w' = disk_file w"
    "\<forall>(p, d)\<in>set ((px_executable spec, px_sha256 spec) # px_dependencies spec). \<exists>c. disk_file w p = Some c \<and> equal_fold (pv_sha env c) d"
    using verify_all_None [OF v] w' by simp_all
qed

lemma verify_executable_keeps: "verify_executable env path want w = (r, w') \<Longrightarrow> disk_file w' = disk_file w"
  using os_stat_file(1) [of "pv_disk env" path w] os_read_cases(1) [of "pv_disk env" path]
  by (fastforce simp: verify_executable_def split: if_splits option.splits prod.splits sum.splits)

lemma verify_all_keeps: "verify_all env pins w = (r, w') \<Longrightarrow> disk_file w' = disk_file w"
  by (induction env pins w arbitrary: r rule: verify_all.induct)
    (auto split: prod.splits option.splits dest: verify_executable_keeps)

lemma runner_run_keeps: "runner_run env spec w = (r, w') \<Longrightarrow> disk_file w' = disk_file w"
  using verify_all_keeps [of env "(px_executable spec, px_sha256 spec) # px_dependencies spec" "disk_step w"]
  unfolding runner_run_def Let_def
  by (auto simp del: verify_all.simps split: option.splits if_splits prod.splits run_outcome.splits)

end
