(* ===== verification/Upgrade.thy ===== *)
theory Upgrade
  imports Process_Runner "HOL-Library.List_Lexorder" "HOL-Library.Char_ord"
begin

text \<open>
  The automatic upgrade of the agent (\<open>cmd/stowline-agent/upgrade.go\<close>) and the hook of
  \<open>main.go\<close> that drives it: download, staging, self-check, swap, the marker of an unconfirmed
  upgrade, the guard that counts the starts of an unconfirmed build, rollback and pruning.
  All of it acts on the directory of the running program, under arbitrary faults of the disk.
  A file is its bytes; the marker file is the marker whose JSON it holds, and other bytes read as
  a marker the environment chooses. The digest is a function of the content.
\<close>

datatype up_file = Bytes string | MarkerFile string int

record upgrade_env = "up_file process_env" +
  ue_unmarshal :: "string \<Rightarrow> (string \<times> int) option"
  ue_now :: "nat \<Rightarrow> int"
  ue_download :: "nat \<Rightarrow> go_error + string"
  ue_busy :: "nat \<Rightarrow> bool"

text \<open>The disk, and \<open>upgradeRestartPending\<close> of the running process.\<close>

record upgrade_world = "up_file disk" +
  uw_pending :: bool

text \<open>The path of the running program, in the parts its neighbours are named with.\<close>

record exe_path =
  xp_dir :: string
  xp_base :: string

definition dir_file :: "exe_path \<Rightarrow> string \<Rightarrow> string" where
  "dir_file x name = xp_dir x @ [backslash] @ name"

definition exe_file :: "exe_path \<Rightarrow> string" where "exe_file x = dir_file x (xp_base x)"
definition marker_path :: "exe_path \<Rightarrow> string" where
  "marker_path x = dir_file x ''stowline-agent.exe.upgrade-pending''"
definition staging_path :: "exe_path \<Rightarrow> string" where
  "staging_path x = dir_file x ''stowline-agent.exe.upgrade-staging''"
definition rollback_path :: "exe_path \<Rightarrow> int \<Rightarrow> string" where
  "rollback_path x now = dir_file x (''stowline-agent.exe.rollback-'' @ show_int now)"
definition failed_path :: "exe_path \<Rightarrow> int \<Rightarrow> string" where
  "failed_path x now = exe_file x @ ''.failed-'' @ show_int now"

definition ask_disk :: "(nat \<Rightarrow> 'a) \<Rightarrow> ('c, 'z) disk_scheme \<Rightarrow> 'a \<times> ('c, 'z) disk_scheme" where
  "ask_disk f w = (f (dk_pos w), disk_step w)"

definition quiet :: "io_error option \<times> 'w \<Rightarrow> 'w" where "quiet = snd"

section \<open>The swap\<close>

definition stage_verified_upgrade ::
    "upgrade_env \<Rightarrow> exe_path \<Rightarrow> string \<Rightarrow> string \<Rightarrow> (upgrade_world \<Rightarrow> go_error option \<times> upgrade_world) \<Rightarrow> int \<Rightarrow>
     upgrade_world \<Rightarrow> (go_error + string) \<times> upgrade_world" where
  "stage_verified_upgrade env x downloaded want self_check now w =
     (let disk = pv_disk env; tmp = staging_path x; cur = exe_file x; rollback = rollback_path x now in
      if pv_sha env (Bytes downloaded) \<noteq> want
      then (Inl (PlainError ''downloaded agent binary does not match the pinned SHA-256''), w)
      else case os_write disk tmp (Bytes downloaded) w of
        (Some e, w1) \<Rightarrow> (Inl (Wrapped ''write staged binary: '' (io_go e) []), w1)
      | (None, w1) \<Rightarrow>
        (case self_check w1 of
           (Some e, w2) \<Rightarrow>
             (Inl (Wrapped ''staged binary failed its own self-check, refusing to install: '' e []),
              quiet (os_remove disk tmp w2))
         | (None, w2) \<Rightarrow>
           (case os_rename disk cur rollback w2 of
              (Some e, w3) \<Rightarrow>
                (Inl (Wrapped ''move current binary aside: '' (io_go e) []), quiet (os_remove disk tmp w3))
            | (None, w3) \<Rightarrow>
              (case os_rename disk tmp cur w3 of
                 (Some e, w4) \<Rightarrow>
                   (Inl (Wrapped ''install staged binary: '' (io_go e) []), quiet (os_rename disk rollback cur w4))
               | (None, w4) \<Rightarrow> (Inr rollback, w4)))))"

definition restore_rollback :: "upgrade_env \<Rightarrow> exe_path \<Rightarrow> string \<Rightarrow> upgrade_world \<Rightarrow> go_error option \<times> upgrade_world" where
  "restore_rollback env x rollback w =
     (let disk = pv_disk env; cur = exe_file x in
      case ask_disk (ue_now env) w of (now, w0) \<Rightarrow>
      let failed = failed_path x now in
      case os_rename disk cur failed w0 of (r, w1) \<Rightarrow>
      if r \<noteq> None \<and> r \<noteq> Some NotExist
      then (Some (Wrapped ''move failed binary aside: '' (io_go (the r)) []), w1)
      else case os_rename disk rollback cur w1 of
        (Some e, w2) \<Rightarrow> (Some (Wrapped ''restore rollback binary: '' (io_go e) []), quiet (os_rename disk failed cur w2))
      | (None, w2) \<Rightarrow> (None, w2))"

section \<open>The marker of an unconfirmed upgrade\<close>

abbreviation max_unconfirmed_boots :: int where "max_unconfirmed_boots \<equiv> 3"

primrec read_marker :: "upgrade_env \<Rightarrow> up_file \<Rightarrow> (string \<times> int) option" where
  "read_marker env (MarkerFile p b) = Some (p, b)"
| "read_marker env (Bytes s) = ue_unmarshal env s"

definition write_upgrade_marker :: "upgrade_env \<Rightarrow> exe_path \<Rightarrow> string \<Rightarrow> upgrade_world \<Rightarrow> io_error option \<times> upgrade_world" where
  "write_upgrade_marker env x rollback w = os_write (pv_disk env) (marker_path x) (MarkerFile rollback 0) w"

definition guard_unconfirmed_upgrade :: "upgrade_env \<Rightarrow> exe_path \<Rightarrow> upgrade_world \<Rightarrow> (bool \<times> go_error option) \<times> upgrade_world" where
  "guard_unconfirmed_upgrade env x w =
     (case os_read (pv_disk env) (marker_path x) w of
        (Inl e, w1) \<Rightarrow> ((False, if e = NotExist then None else Some (io_go e)), w1)
      | (Inr raw, w1) \<Rightarrow>
        (case read_marker env raw of
           None \<Rightarrow> ((False, None), quiet (os_remove (pv_disk env) (marker_path x) w1))
         | Some (rollback, boots0) \<Rightarrow>
           if rollback = [] then ((False, None), quiet (os_remove (pv_disk env) (marker_path x) w1))
           else let boots = wrap64 (boots0 + 1) in
             if boots > max_unconfirmed_boots then
               (case restore_rollback env x rollback w1 of
                  (Some e, w2) \<Rightarrow> ((False, Some e), w2)
                | (None, w2) \<Rightarrow> ((True, None), quiet (os_remove (pv_disk env) (marker_path x) w2)))
             else (case os_write (pv_disk env) (marker_path x) (MarkerFile rollback boots) w1 of
                     (e, w2) \<Rightarrow> ((False, map_option io_go e), w2))))"

definition confirm_upgrade_healthy :: "upgrade_env \<Rightarrow> exe_path \<Rightarrow> upgrade_world \<Rightarrow> upgrade_world" where
  "confirm_upgrade_healthy env x w = quiet (os_remove (pv_disk env) (marker_path x) w)"

section \<open>Pruning\<close>

definition names_in :: "exe_path \<Rightarrow> (string \<times> up_file) list \<Rightarrow> string list" where
  "names_in x files =
     (let pre = xp_dir x @ [backslash] in
      sort (remdups (map (\<lambda>p. drop (length pre) p)
        (filter (\<lambda>p. has_prefix p pre \<and> backslash \<notin> set (drop (length pre) p)) (map fst files)))))"

definition remove_all :: "upgrade_env \<Rightarrow> string list \<Rightarrow> upgrade_world \<Rightarrow> upgrade_world" where
  "remove_all env ps w = foldl (\<lambda>v p. quiet (os_remove (pv_disk env) p v)) w ps"

definition prune_upgrade_leftovers :: "upgrade_env \<Rightarrow> exe_path \<Rightarrow> nat \<Rightarrow> upgrade_world \<Rightarrow> upgrade_world" where
  "prune_upgrade_leftovers env x keep w =
     (case os_read (pv_disk env) (marker_path x) w of (r, w1) \<Rightarrow>
      let protected = (case r of Inl _ \<Rightarrow> [] | Inr raw \<Rightarrow>
            (case read_marker env raw of None \<Rightarrow> [] | Some (p, _) \<Rightarrow> win_clean p)) in
      case pv_disk env (dk_pos w1) of Some _ \<Rightarrow> disk_step w1 | None \<Rightarrow>
      let names = names_in x (dk_files w1);
          rollbacks = sort (map (dir_file x) (filter (\<lambda>n. has_prefix n (xp_base x @ ''.rollback-'')) names));
          stale = filter (\<lambda>n. \<not> has_prefix n (xp_base x @ ''.rollback-'') \<and>
                    (has_prefix n (xp_base x @ ''.failed-'') \<or> n = xp_base x @ ''.upgrade-staging'')) names;
          old = filter (\<lambda>p. win_clean p \<noteq> protected) (take (length rollbacks - keep) rollbacks)
      in remove_all env old (remove_all env (map (dir_file x) stale) (disk_step w1)))"

section \<open>The cycle of a heartbeat\<close>

definition self_check :: "upgrade_env \<Rightarrow> string \<Rightarrow> string \<Rightarrow> upgrade_world \<Rightarrow> go_error option \<times> upgrade_world" where
  "self_check env staged want w =
     (case runner_run env \<lparr>px_executable = staged, px_args = [''version''], px_env = [], px_sha256 = want,
             px_dependencies = []\<rparr> w of
        (RunError e, w1) \<Rightarrow> (Some e, w1)
      | (RunDone r (Some e), w1) \<Rightarrow> (Some e, w1)
      | (RunDone r None, w1) \<Rightarrow>
          (if ps_exit_code r \<noteq> 0
           then Some (PlainError (''self-check exited '' @ show_int (ps_exit_code r) @ '': '' @ ps_stderr r)) else None, w1))"

definition run_agent_upgrade :: "upgrade_env \<Rightarrow> exe_path \<Rightarrow> string \<Rightarrow> string \<Rightarrow> bool \<Rightarrow> upgrade_world \<Rightarrow>
    (go_error + string) \<times> upgrade_world" where
  "run_agent_upgrade env x current want qualified w =
     (if \<not> qualified \<or> want = [] \<or> want = current then (Inr [], w)
      else case ask_disk (ue_download env) w of
        (Inl e, w1) \<Rightarrow> (Inl (Wrapped ''download: '' e []), w1)
      | (Inr bytes, w1) \<Rightarrow>
        (case ask_disk (ue_now env) w1 of (now, w2) \<Rightarrow>
           stage_verified_upgrade env x bytes want (self_check env (staging_path x) want) now w2))"

definition hash_file :: "upgrade_env \<Rightarrow> string \<Rightarrow> upgrade_world \<Rightarrow> (go_error + string) \<times> upgrade_world" where
  "hash_file env p w =
     (case os_read (pv_disk env) p w of (Inl e, w1) \<Rightarrow> (Inl (io_go e), w1) | (Inr c, w1) \<Rightarrow> (Inr (pv_sha env c), w1))"

text \<open>The \<open>OnAgentPin\<close> hook of \<open>main.go\<close>, called after every successful heartbeat.\<close>

definition on_agent_pin :: "upgrade_env \<Rightarrow> exe_path \<Rightarrow> string \<Rightarrow> bool \<Rightarrow> upgrade_world \<Rightarrow> upgrade_world" where
  "on_agent_pin env x want qualified w =
     (let w1 = confirm_upgrade_healthy env x w in
      case ask_disk (ue_busy env) w1 of (busy, w2) \<Rightarrow>
      if busy \<or> uw_pending w2 then w2
      else case hash_file env (exe_file x) w2 of
        (Inl _, w3) \<Rightarrow> w3
      | (Inr current, w3) \<Rightarrow>
        (case run_agent_upgrade env x current want qualified w3 of
           (Inl _, w4) \<Rightarrow> w4
         | (Inr rollback, w4) \<Rightarrow>
             if rollback = [] then w4
             else (case write_upgrade_marker env x rollback w4 of
                 (Some _, w5) \<Rightarrow> snd (restore_rollback env x rollback w5)
               | (None, w5) \<Rightarrow> w5\<lparr>uw_pending := True\<rparr>)))"

text \<open>A start of the service: the guard, then the pruning; a start that rolled back ends at once.\<close>

definition service_start :: "upgrade_env \<Rightarrow> exe_path \<Rightarrow> upgrade_world \<Rightarrow> bool \<times> upgrade_world" where
  "service_start env x w =
     (case guard_unconfirmed_upgrade env x (w\<lparr>uw_pending := False\<rparr>) of ((rolled, err), w1) \<Rightarrow>
      if err = None \<and> rolled then (True, w1) else (False, prune_upgrade_leftovers env x 2 w1))"

section \<open>Facts\<close>

abbreviation agent_exe :: string where "agent_exe \<equiv> ''stowline-agent.exe''"

lemma dir_file_eq [simp]: "dir_file x a = dir_file x b \<longleftrightarrow> a = b"
  by (simp add: dir_file_def)

text \<open>The files of the upgrade have different paths.\<close>

lemma upgrade_paths:
  assumes "xp_base x = agent_exe"
  shows "staging_path x \<noteq> exe_file x" "rollback_path x n \<noteq> exe_file x" "rollback_path x n \<noteq> staging_path x"
    "marker_path x \<noteq> exe_file x" "marker_path x \<noteq> staging_path x" "rollback_path x n \<noteq> marker_path x"
    "failed_path x k \<noteq> exe_file x" "failed_path x k \<noteq> marker_path x" "failed_path x k \<noteq> rollback_path x n"
  using assms by (simp_all add: staging_path_def exe_file_def rollback_path_def marker_path_def failed_path_def dir_file_def)

lemma quiet_pair [simp]: "quiet (r, w) = w"
  by (simp add: quiet_def)

lemma os_remove_other:
  "p \<noteq> q \<Longrightarrow> disk_file (quiet (os_remove env p w)) q = disk_file w q"
  by (cases "os_remove env p w") (use os_remove_file(1) [of env p w] in \<open>fastforce simp: quiet_def\<close>)

lemma self_check_keeps: "self_check env staged want w = (r, w') \<Longrightarrow> disk_file w' = disk_file w"
  and self_check_digest: "self_check env staged want w = (None, w') \<Longrightarrow>
    \<exists>c. disk_file w staged = Some c \<and> equal_fold (pv_sha env c) want"
proof -
  let ?spec = "\<lparr>px_executable = staged, px_args = [''version''], px_env = [], px_sha256 = want, px_dependencies = []\<rparr>"
  show "self_check env staged want w = (None, w') \<Longrightarrow> \<exists>c. disk_file w staged = Some c \<and> equal_fold (pv_sha env c) want"
    using runner_run_started(4) [of env ?spec w]
    by (auto simp: self_check_def split: prod.splits run_outcome.splits option.splits)
  show "self_check env staged want w = (r, w') \<Longrightarrow> disk_file w' = disk_file w"
    using runner_run_keeps [of env ?spec w]
    by (auto simp: self_check_def split: prod.splits run_outcome.splits option.splits)
qed

text \<open>
  Where the old binary is after a swap, whatever failed: at the live path; or aside, with the new
  one at the live path when the swap succeeded, and nothing there when the last two renames failed.
\<close>

definition swap_safe :: "upgrade_env \<Rightarrow> exe_path \<Rightarrow> string \<Rightarrow> int \<Rightarrow> up_file \<Rightarrow> go_error + string \<Rightarrow> (string \<rightharpoonup> up_file) \<Rightarrow> bool" where
  "swap_safe env x want now old r files \<longleftrightarrow>
     (\<exists>e. r = Inl e \<and> files (exe_file x) = Some old) \<or>
     (\<exists>e. r = Inl e \<and> files (exe_file x) = None \<and> files (rollback_path x now) = Some old) \<or>
     (\<exists>new. r = Inr (rollback_path x now) \<and> files (rollback_path x now) = Some old \<and>
        files (exe_file x) = Some (Bytes new) \<and> pv_sha env (Bytes new) = want)"

lemma stage_swap_safe:
  assumes r: "stage_verified_upgrade env x new want chk now w = (r, w')" and x: "xp_base x = agent_exe"
    and old: "disk_file w (exe_file x) = Some old"
    and chk: "\<And>v e v'. chk v = (e, v') \<Longrightarrow> disk_file v' = disk_file v"
  shows "swap_safe env x want now old r (disk_file w')"
proof -
  note p = upgrade_paths [OF x]
  obtain r1 w1 where w1: "os_write (pv_disk env) (staging_path x) (Bytes new) w = (r1, w1)" by force
  obtain r2 w2 where w2: "chk w1 = (r2, w2)" by force
  obtain r3 w3 where w3: "os_rename (pv_disk env) (exe_file x) (rollback_path x now) w2 = (r3, w3)" by force
  obtain r4 w4 where w4: "os_rename (pv_disk env) (staging_path x) (exe_file x) w3 = (r4, w4)" by force
  obtain r5 w5 where w5: "os_rename (pv_disk env) (rollback_path x now) (exe_file x) w4 = (r5, w5)" by force
  have old1: "disk_file w1 (exe_file x) = Some old" using os_write_other [OF w1 p(1)] old by simp
  have f2: "disk_file w2 = disk_file w1" by (rule chk [OF w2])
  have rm: "disk_file (quiet (os_remove (pv_disk env) (staging_path x) v)) (exe_file x) = disk_file v (exe_file x)" for v :: upgrade_world
    by (rule os_remove_other [OF p(1)])
  show ?thesis
  proof (cases "pv_sha env (Bytes new) = want \<and> r1 = None \<and> r2 = None \<and> r3 = None")
    case False
    have "r3 \<noteq> None \<Longrightarrow> disk_file w3 = disk_file w2" using w3 by (cases rule: os_rename_cases) auto
    with False r old old1 f2 w1 w2 w3 rm show ?thesis
      by (auto simp: stage_verified_upgrade_def Let_def swap_safe_def split: if_splits option.splits)
  next
    case True
    have tmp: "disk_file w2 (staging_path x) = Some (Bytes new)"
      using os_write_file(1) [OF w1] True f2 by simp
    have f3: "disk_file w3 = (disk_file w2)(exe_file x := None, rollback_path x now \<mapsto> old)"
      using os_rename_file(1) [OF w3] True old1 f2 by auto
    show ?thesis
    proof (cases r4)
      case None
      have "disk_file w4 = (disk_file w3)(staging_path x := None, exe_file x \<mapsto> Bytes new)"
        using os_rename_file(1) [OF w4 None] f3 tmp p(1) p(3) [THEN not_sym] by auto
      moreover have "r = Inr (rollback_path x now)" "w' = w4"
        using r True w1 w2 w3 w4 None by (simp_all add: stage_verified_upgrade_def)
      ultimately show ?thesis using f3 p True by (simp add: swap_safe_def)
    next
      case (Some e)
      have f4: "disk_file w4 = disk_file w3" using os_rename_file(2) [OF w4] Some by simp
      have "r = Inl (Wrapped ''install staged binary: '' (io_go e) [])" "w' = w5" using r True w1 w2 w3 w4 w5 Some by (simp_all add: stage_verified_upgrade_def)
      with w5 f3 f4 p show ?thesis by (cases rule: os_rename_cases) (auto simp: swap_safe_def)
    qed
  qed
qed

lemma disk_file_ask [simp]: "disk_file (snd (ask_disk f w)) = disk_file w"
  by (simp add: ask_disk_def)

lemma run_upgrade_safe:
  assumes r: "run_agent_upgrade env x current want qualified w = (r, w')" and x: "xp_base x = agent_exe"
    and old: "disk_file w (exe_file x) = Some old"
  shows "(r = Inr [] \<and> w' = w) \<or> (\<exists>now. swap_safe env x want now old r (disk_file w'))"
proof (cases "\<not> qualified \<or> want = [] \<or> want = current")
  case True
  then show ?thesis using r by (auto simp: run_agent_upgrade_def)
next
  case False
  obtain d w1 where d: "ask_disk (ue_download env) w = (d, w1)" by force
  obtain now w2 where n: "ask_disk (ue_now env) w1 = (now, w2)" by force
  have f: "disk_file w1 = disk_file w" "disk_file w2 = disk_file w"
    using d n by (auto simp: ask_disk_def)
  show ?thesis
  proof (cases d)
    case (Inl e)
    then show ?thesis using r False d f old by (auto simp: run_agent_upgrade_def swap_safe_def)
  next
    case (Inr bytes)
    have "stage_verified_upgrade env x bytes want (self_check env (staging_path x) want) now w2 = (r, w')"
      using r False d n Inr by (auto simp: run_agent_upgrade_def)
    from stage_swap_safe [OF this x, of old] self_check_keeps f old show ?thesis by metis
  qed
qed

subsection \<open>Starts\<close>

lemma remove_all_other: "q \<notin> set ps \<Longrightarrow> disk_file (remove_all env ps w) q = disk_file w q"
proof (induction ps arbitrary: w)
  case (Cons p ps)
  then have "disk_file (remove_all env (p # ps) w) q = disk_file (quiet (os_remove (pv_disk env) p w)) q"
    using Cons.IH [of "quiet (os_remove (pv_disk env) p w)"] by (simp add: remove_all_def)
  moreover have "p \<noteq> q" using Cons.prems by auto
  ultimately show ?case by (simp add: os_remove_other)
qed (simp add: remove_all_def)

text \<open>What pruning may remove: staging and failed copies, and rollback copies other than the protected one.\<close>

definition stale_name :: "string \<Rightarrow> bool" where
  "stale_name n \<longleftrightarrow> has_prefix n (agent_exe @ ''.failed-'') \<or> n = agent_exe @ ''.upgrade-staging''"

lemma prune_keeps:
  assumes x: "xp_base x = agent_exe" and n: "\<not> stale_name n" and kept: "\<not> has_prefix n (agent_exe @ ''.rollback-'') \<or>
      (\<exists>b w1. os_read (pv_disk env) (marker_path x) w = (Inr (MarkerFile (dir_file x n) b), w1))"
  shows "disk_file (prune_upgrade_leftovers env x keep w) (dir_file x n) = disk_file w (dir_file x n)"
proof -
  obtain r w1 where r: "os_read (pv_disk env) (marker_path x) w = (r, w1)" by force
  have f: "disk_file w1 = disk_file w" by (rule os_read_cases(1) [OF r])
  show ?thesis
  proof (cases "pv_disk env (dk_pos w1)")
    case (Some y)
    then show ?thesis using r f by (simp add: prune_upgrade_leftovers_def)
  next
    case None
    define names where "names = names_in x (dk_files w1)"
    define roll where "roll = sort (map (dir_file x) (filter (\<lambda>n. has_prefix n (xp_base x @ ''.rollback-'')) names))"
    define protected where "protected = (case r of Inl _ \<Rightarrow> [] | Inr raw \<Rightarrow>
        (case read_marker env raw of None \<Rightarrow> [] | Some (p, _) \<Rightarrow> win_clean p))"
    define stale where "stale = filter (\<lambda>n. \<not> has_prefix n (xp_base x @ ''.rollback-'') \<and>
        (has_prefix n (xp_base x @ ''.failed-'') \<or> n = xp_base x @ ''.upgrade-staging'')) names"
    define old where "old = filter (\<lambda>p. win_clean p \<noteq> protected) (take (length roll - keep) roll)"
    have e: "prune_upgrade_leftovers env x keep w =
        remove_all env old (remove_all env (map (dir_file x) stale) (disk_step w1))"
      using r None by (simp add: prune_upgrade_leftovers_def Let_def names_def roll_def protected_def stale_def old_def)
    have "dir_file x n \<notin> set (map (dir_file x) stale)"
      using n by (auto simp: stale_def stale_name_def x)
    moreover have "dir_file x n \<notin> set old"
    proof
      assume a: "dir_file x n \<in> set old"
      then have "dir_file x n \<in> set roll" by (auto simp: old_def dest: in_set_takeD)
      then have "has_prefix n (agent_exe @ ''.rollback-'')" by (auto simp: roll_def x)
      with kept r have "protected = win_clean (dir_file x n)" by (auto simp: protected_def)
      with a show False by (simp add: old_def)
    qed
    ultimately show ?thesis unfolding e using f by (simp add: remove_all_other)
  qed
qed

text \<open>A disk that does not fail.\<close>

definition calm :: "upgrade_env \<Rightarrow> bool" where "calm env \<longleftrightarrow> (\<forall>n. pv_disk env n = None)"

lemma calm_disk_read: "calm env \<Longrightarrow> os_read (pv_disk env) p w = (case disk_file w p of None \<Rightarrow> Inl NotExist | Some c \<Rightarrow> Inr c, disk_step w)"
  by (simp add: os_read_def calm_def)

lemma calm_write: "calm env \<Longrightarrow> os_write (pv_disk env) p c w = (None, disk_set (AList.update p c) w)"
  by (simp add: os_write_def calm_def)

lemma calm_remove: "calm env \<Longrightarrow> disk_file (quiet (os_remove (pv_disk env) p w)) = (disk_file w)(p := None)"
  by (auto simp: os_remove_def calm_def split: option.splits)

text \<open>An upgrade that waits for its confirmation: the marker, the copy it points at, and the number of starts.\<close>

definition unconfirmed :: "exe_path \<Rightarrow> string \<Rightarrow> up_file \<Rightarrow> int \<Rightarrow> upgrade_world \<Rightarrow> bool" where
  "unconfirmed x rb old b w \<longleftrightarrow> (\<exists>t. rb = rollback_path x t) \<and> disk_file w rb = Some old \<and>
     disk_file w (marker_path x) = Some (MarkerFile rb b)"

lemma disk_pending [simp]: "disk_file (w\<lparr>uw_pending := b\<rparr>) = disk_file w"
  by (simp add: disk_file_def)

lemma start_counts:
  assumes c: "calm env" and x: "xp_base x = agent_exe" and u: "unconfirmed x rb old b w" and b: "0 \<le> b" "b < 3"
  shows "\<not> fst (service_start env x w)" "unconfirmed x rb old (b + 1) (snd (service_start env x w))"
proof -
  obtain t where t: "rb = rollback_path x t" and d: "disk_file w rb = Some old"
    "disk_file w (marker_path x) = Some (MarkerFile rb b)" using u by (auto simp: unconfirmed_def)
  have ne: "rb \<noteq> []" by (simp add: t rollback_path_def dir_file_def)
  let ?w = "disk_set (AList.update (marker_path x) (MarkerFile rb (b + 1))) (disk_step (w\<lparr>uw_pending := False\<rparr>))"
  have i: "wrap64 (b + 1) = b + 1" using b by (simp add: wrap64_def)
  have s: "service_start env x w = (False, prune_upgrade_leftovers env x 2 ?w)"
    using b i ne by (simp add: service_start_def guard_unconfirmed_upgrade_def calm_disk_read [OF c] calm_write [OF c] d Let_def)
  show "\<not> fst (service_start env x w)" by (simp add: s)
  have m: "os_read (pv_disk env) (marker_path x) ?w = (Inr (MarkerFile rb (b + 1)), disk_step ?w)"
    by (simp add: calm_disk_read [OF c])
  have "disk_file (prune_upgrade_leftovers env x 2 ?w) rb = disk_file ?w rb"
    using m unfolding t rollback_path_def by (intro prune_keeps [OF x]) (auto simp: stale_name_def)
  moreover have "disk_file (prune_upgrade_leftovers env x 2 ?w) (marker_path x) = disk_file ?w (marker_path x)"
    unfolding marker_path_def by (rule prune_keeps [OF x]) (simp_all add: stale_name_def)
  moreover have "rb \<noteq> marker_path x" unfolding t by (rule upgrade_paths(6) [OF x])
  ultimately show "unconfirmed x rb old (b + 1) (snd (service_start env x w))"
    using t d by (auto simp: unconfirmed_def s)
qed

lemma start_rolls_back:
  assumes c: "calm env" and x: "xp_base x = agent_exe" and u: "unconfirmed x rb old 3 w"
  shows "fst (service_start env x w)" "disk_file (snd (service_start env x w)) (exe_file x) = Some old"
    "disk_file (snd (service_start env x w)) (marker_path x) = None"
proof -
  obtain t where t: "rb = rollback_path x t" and d: "disk_file w rb = Some old"
    "disk_file w (marker_path x) = Some (MarkerFile rb 3)" using u by (auto simp: unconfirmed_def)
  note p = upgrade_paths [OF x]
  have ne: "rb \<noteq> []" by (simp add: t rollback_path_def dir_file_def)
  let ?w = "disk_step (w\<lparr>uw_pending := False\<rparr>)"
  obtain w1 where r: "restore_rollback env x rb ?w = (None, w1)" and f: "disk_file w1 (exe_file x) = Some old"
  proof -
    obtain now w0 where n: "ask_disk (ue_now env) ?w = (now, w0)" by force
    have f0: "disk_file w0 = disk_file w" using n by (auto simp: ask_disk_def)
    obtain r1 v1 where v1: "os_rename (pv_disk env) (exe_file x) (failed_path x now) w0 = (r1, v1)" by force
    have k1: "(r1 = None \<or> r1 = Some NotExist) \<and> disk_file v1 rb = Some old"
      using v1 c f0 d p(2) [of t] p(9) [of now t] unfolding t
      by (auto simp: os_rename_def calm_def split: option.splits)
    obtain v2 where v2: "os_rename (pv_disk env) rb (exe_file x) v1 = (None, v2)" "disk_file v2 (exe_file x) = Some old"
      using k1 c by (auto simp: os_rename_def calm_def)
    have "restore_rollback env x rb ?w = (None, v2)"
      using n v1 k1 v2(1) by (auto simp: restore_rollback_def Let_def)
    then show ?thesis using v2(2) by (rule that)
  qed
  have s: "service_start env x w = (True, quiet (os_remove (pv_disk env) (marker_path x) w1))"
    using ne r by (simp add: service_start_def guard_unconfirmed_upgrade_def calm_disk_read [OF c] d Let_def wrap64_def)
  show "fst (service_start env x w)" "disk_file (snd (service_start env x w)) (exe_file x) = Some old"
    "disk_file (snd (service_start env x w)) (marker_path x) = None"
    using f p(4) by (simp_all add: s calm_remove [OF c])
qed

fun starts :: "upgrade_env \<Rightarrow> exe_path \<Rightarrow> nat \<Rightarrow> upgrade_world \<Rightarrow> upgrade_world" where
  "starts env x 0 w = w"
| "starts env x (Suc n) w = starts env x n (snd (service_start env x w))"

lemma starts_unconfirmed:
  assumes "calm env" "xp_base x = agent_exe" "unconfirmed x rb old b w" "0 \<le> b" "b + int n \<le> 3"
  shows "unconfirmed x rb old (b + int n) (starts env x n w)"
  using assms(3-5)
proof (induction n arbitrary: b w)
  case (Suc n)
  have "unconfirmed x rb old (b + 1 + int n) (starts env x n (snd (service_start env x w)))"
    using Suc.prems by (intro Suc.IH start_counts(2) [OF assms(1,2) Suc.prems(1)]) simp_all
  then show ?case by (simp add: algebra_simps)
qed simp

text \<open>Without a marker no start ever rolls back, and none makes a marker.\<close>

lemma start_unmarked:
  assumes c: "calm env" and x: "xp_base x = agent_exe" and m: "disk_file w (marker_path x) = None"
  shows "\<not> fst (service_start env x w)" "disk_file (snd (service_start env x w)) (marker_path x) = None"
proof -
  have s: "service_start env x w = (False, prune_upgrade_leftovers env x 2 (disk_step (w\<lparr>uw_pending := False\<rparr>)))"
    using m by (simp add: service_start_def guard_unconfirmed_upgrade_def calm_disk_read [OF c])
  have "disk_file (prune_upgrade_leftovers env x 2 (disk_step (w\<lparr>uw_pending := False\<rparr>))) (marker_path x) =
      disk_file (disk_step (w\<lparr>uw_pending := False\<rparr>)) (marker_path x)"
    unfolding marker_path_def by (rule prune_keeps [OF x]) (simp_all add: stale_name_def)
  then show "\<not> fst (service_start env x w)" "disk_file (snd (service_start env x w)) (marker_path x) = None"
    using m by (simp_all add: s)
qed

lemma starts_unmarked:
  assumes "calm env" "xp_base x = agent_exe" "disk_file w (marker_path x) = None"
  shows "disk_file (starts env x n w) (marker_path x) = None"
  using assms(3) by (induction n arbitrary: w) (simp_all add: start_unmarked(2) [OF assms(1,2)])

subsection \<open>The hook\<close>

text \<open>The old binary is at the live path or kept aside; what replaces it has the digest that was pinned.\<close>

definition binary_kept :: "upgrade_env \<Rightarrow> exe_path \<Rightarrow> string \<Rightarrow> up_file \<Rightarrow> upgrade_world \<Rightarrow> bool" where
  "binary_kept env x want old w \<longleftrightarrow>
     disk_file w (exe_file x) = Some old \<or>
     (\<exists>t. disk_file w (rollback_path x t) = Some old \<and>
        (disk_file w (exe_file x) = None \<or>
         (\<exists>new. disk_file w (exe_file x) = Some (Bytes new) \<and> pv_sha env (Bytes new) = want)))"

lemma swap_safe_kept: "swap_safe env x want now old r (disk_file w) \<Longrightarrow> binary_kept env x want old w"
  unfolding swap_safe_def binary_kept_def by blast

lemma restore_rollback_safe:
  assumes r: "restore_rollback env x (rollback_path x t) w = (r, w')" and x: "xp_base x = agent_exe"
    and d: "disk_file w (rollback_path x t) = Some old" "disk_file w (exe_file x) = Some (Bytes new)"
      "pv_sha env (Bytes new) = want"
  shows "binary_kept env x want old w'"
proof -
  note p = upgrade_paths [OF x]
  obtain now w0 where n: "ask_disk (ue_now env) w = (now, w0)" by force
  have f0: "disk_file w0 = disk_file w" using n by (auto simp: ask_disk_def)
  obtain r1 w1 where w1: "os_rename (pv_disk env) (exe_file x) (failed_path x now) w0 = (r1, w1)" by force
  obtain r2 w2 where w2: "os_rename (pv_disk env) (rollback_path x t) (exe_file x) w1 = (r2, w2)" by force
  obtain r3 w3 where w3: "os_rename (pv_disk env) (failed_path x now) (exe_file x) w2 = (r3, w3)" by force
  have k1: "disk_file w1 (rollback_path x t) = Some old" "disk_file w1 (exe_file x) \<in> {None, Some (Bytes new)}"
    "disk_file w1 (failed_path x now) = Some (Bytes new) \<or> r1 \<noteq> None"
    using w1 f0 d p(2) [of t] p(7) [of now] p(9) [of now t] by (cases rule: os_rename_cases; auto)+
  have ne: "r1 \<noteq> Some NotExist"
    using w1 f0 d(2) by (auto simp: os_rename_def split: option.splits io_fault.splits)
  have kept1: "binary_kept env x want old w1" using k1(1,2) d(3) by (auto simp: binary_kept_def)
  show ?thesis
  proof (cases "r1 \<noteq> None \<and> r1 \<noteq> Some NotExist")
    case True
    then show ?thesis using r n w1 kept1 by (simp add: restore_rollback_def Let_def)
  next
    case False
    show ?thesis
    proof (cases r2)
      case None
      have "disk_file w2 (exe_file x) = Some old" using os_rename_file(1) [OF w2 None] k1(1) by auto
      then show ?thesis using r n w1 w2 False None by (auto simp: restore_rollback_def Let_def binary_kept_def)
    next
      case (Some e)
      have f2: "disk_file w2 = disk_file w1" using os_rename_file(2) [OF w2] Some by simp
      have w': "w' = w3" using r n w1 w2 w3 False Some by (auto simp: restore_rollback_def Let_def)
      show ?thesis using w3
      proof (cases rule: os_rename_cases)
        case (moved c)
        have "r1 = None" using ne False by blast
        then have "c = Bytes new" using k1(3) moved(2) f2 by simp
        then show ?thesis using moved(3) f2 k1(1) d(3) p(2) [of t] p(9) [of now t] unfolding w' binary_kept_def by auto
      next
        case (failed e)
        then show ?thesis using kept1 f2 unfolding w' binary_kept_def by simp
      qed
    qed
  qed
qed

lemma confirm_keeps: "xp_base x = agent_exe \<Longrightarrow> disk_file (confirm_upgrade_healthy env x w) (exe_file x) = disk_file w (exe_file x)"
  using upgrade_paths(4) [of x] by (simp add: confirm_upgrade_healthy_def os_remove_other)

lemma pin_keeps_binary:
  assumes x: "xp_base x = agent_exe" and old: "disk_file w (exe_file x) = Some old"
  shows "binary_kept env x want old (on_agent_pin env x want qualified w)"
proof -
  let ?w1 = "confirm_upgrade_healthy env x w"
  obtain busy w2 where b: "ask_disk (ue_busy env) ?w1 = (busy, w2)" by force
  have d2: "disk_file w2 (exe_file x) = Some old"
    using b confirm_keeps [OF x, of env w] old by (auto simp: ask_disk_def)
  obtain h w3 where h: "hash_file env (exe_file x) w2 = (h, w3)" by force
  have d3: "disk_file w3 (exe_file x) = Some old"
    using h d2 os_read_cases(1) [of "pv_disk env" "exe_file x" w2] by (auto simp: hash_file_def split: prod.splits sum.splits)
  obtain r w4 where r: "run_agent_upgrade env x (case h of Inl _ \<Rightarrow> [] | Inr c \<Rightarrow> c) want qualified w3 = (r, w4)" by force
  have k4: "binary_kept env x want old w4"
  proof -
    have "w4 = w3 \<or> binary_kept env x want old w4" using run_upgrade_safe [OF r x d3] swap_safe_kept by blast
    then show ?thesis using d3 unfolding binary_kept_def by blast
  qed
  show ?thesis
  proof (cases "busy \<or> uw_pending w2 \<or> (\<exists>e. h = Inl e) \<or> (\<exists>e. r = Inl e) \<or> r = Inr []")
    case True
    have "on_agent_pin env x want qualified w \<in> {w2, w3, w4}"
      using True b h r by (auto simp: on_agent_pin_def Let_def split: sum.splits)
    then show ?thesis using d2 d3 k4 by (auto simp: binary_kept_def)
  next
    case False
    then obtain rb cur where rb: "r = Inr rb" "rb \<noteq> []" "h = Inr cur" by (metis sum.exhaust)
    obtain t new where s: "rb = rollback_path x t" "disk_file w4 (rollback_path x t) = Some old"
      "disk_file w4 (exe_file x) = Some (Bytes new)" "pv_sha env (Bytes new) = want"
      using run_upgrade_safe [OF r x d3] rb(1,2) by (auto simp: swap_safe_def)
    obtain m w5 where m: "write_upgrade_marker env x rb w4 = (m, w5)" by force
    have d5: "disk_file w5 (rollback_path x t) = Some old" "disk_file w5 (exe_file x) = Some (Bytes new)"
      using os_write_other [OF m [unfolded write_upgrade_marker_def]] s upgrade_paths(4) [OF x] upgrade_paths(6) [OF x]
      by metis+
    show ?thesis
    proof (cases m)
      case None
      have "on_agent_pin env x want qualified w = w5\<lparr>uw_pending := True\<rparr>"
        using False b h r rb m None by (simp add: on_agent_pin_def Let_def)
      then show ?thesis using d5 s(4) by (auto simp: binary_kept_def)
    next
      case (Some e)
      have "on_agent_pin env x want qualified w = snd (restore_rollback env x rb w5)"
        using False b h r rb m Some by (simp add: on_agent_pin_def Let_def)
      then show ?thesis using restore_rollback_safe [OF prod.collapse [symmetric] x d5 s(4)] s(1) by simp
    qed
  qed
qed

text \<open>A heartbeat of the process that waits for its restart removes the marker.\<close>

lemma pin_disarms:
  assumes "calm env" "uw_pending w"
  shows "disk_file (on_agent_pin env x want qualified w) (marker_path x) = None"
proof -
  have "uw_pending (confirm_upgrade_healthy env x w)"
    using assms(2) by (simp add: confirm_upgrade_healthy_def os_remove_def quiet_def disk_step_def disk_set_def split: option.splits io_fault.splits)
  then have "on_agent_pin env x want qualified w = disk_step (confirm_upgrade_healthy env x w)"
    by (simp add: on_agent_pin_def Let_def ask_disk_def disk_step_def)
  then show ?thesis by (simp add: confirm_upgrade_healthy_def calm_remove [OF assms(1)])
qed

end
