(* ===== verification/Example_Tick.thy ===== *)
theory Example_Tick
  imports Example Upgrade
begin

text \<open>
  Concrete inputs of the scheduler and of the upgrade: the device of \<open>Example\<close> on a day whose slot is
  due, and an agent in \<open>C:/agent\<close> before and during an upgrade.
\<close>

section \<open>A tick\<close>

text \<open>The device at 13:00 of a day with a window from 12:00 to 16:30 and no jitter.\<close>

definition ex_calm :: schedule_policy where
  "ex_calm = default_schedule\<lparr>sp_jitter_max_minutes := 0\<rparr>"

definition ex_due :: "nat \<Rightarrow> agent_world" where
  "ex_due n = (ex_agent n [])\<lparr>aw_started_at := 0, aw_schedule := (ex_calm, ''rev-1'')\<rparr>"

lemma ex_calm_fields: "schedule_validate (ae_tz ex_device) ex_calm = None"
  "parse_hhmm (sp_window_start ex_calm) = Inr (12, 0)" "parse_hhmm (sp_window_end ex_calm) = Inr (16, 30)"
  "parse_hhmm (sp_hard_stop ex_calm) = Inr (17, 45)" "parse_hhmm (sp_eligibility_start ex_calm) = Inr (8, 30)"
  "sp_jitter_max_minutes ex_calm = 0" "civil_day_of (\<lambda>_. 10800) ex_now = 739620"
  "sp_window_end ex_calm \<noteq> []" "sp_hard_stop ex_calm \<noteq> []" "sp_eligibility_start ex_calm \<noteq> []"
  by code_simp+

lemma ex_zone: "load_location (ae_tz ex_device) (sp_timezone ex_calm) = Inr (\<lambda>_. 10800)"
  by (simp add: ex_device_simps load_location_def ex_calm_def default_schedule_def)

lemma ex_slot: "next_slot (ae_tz ex_device) dev inst e ex_calm ex_now =
    Inr (63903200400 * 1000000000, slot_key_of dev inst e (63903200400 * 1000000000))"
  by (simp add: next_slot_def ex_calm_fields ex_zone time_date_fixed deterministic_jitter_def time_sub_def wrap64_def
      Let_def max_def min_def)

lemma ex_due_reads: "ct_policy (agent_controller ex_device) (ex_due 3) = (ex_calm, ''rev-1'')"
  "ct_now (agent_controller ex_device) (ex_due 3) = (ex_now, ex_due 4)"
  "jp_latest_succeeded_slot (world_journal ex_env) (ex_due 4) = (Inr [], ex_due 5)"
  by code_simp+

lemma ex_due_steps: "ct_started_at (agent_controller ex_device) (ex_due n) = 0"
  "ct_journal (agent_controller ex_device) = world_journal ex_env"
  by (simp_all add: agent_controller_def ex_due_def ex_device_simps)

lemma ex_due_job: "jp_job_by_slot (world_journal ex_env) k (ex_due 5) = (Inr None, ex_due 6)"
  by (simp add: world_journal_def db_read_def sql_query_def ex_env_def ex_due_def ex_agent_def ex_db_def empty_db_def
      advance_def slot_row_def sql_job_by_slot_def)

lemma ex_tick_runs: "de_run (fst (fst (tick_decide (ae_tz ex_device) (agent_controller ex_device) (ex_due 3))))"
proof -
  have "de_run (decide (tick_input (ae_tz ex_device) (agent_controller ex_device) 0 ex_calm ex_now
      (63903200400 * 1000000000) key [] None None))" for key
    unfolding decide_run_iff
    by (simp add: tick_input_def Let_def ex_zone clock_hhmm_def ex_calm_fields time_date_fixed failed_state_def is_zero_def)
      (simp add: ex_now_def)
  then show ?thesis
    by (simp add: tick_decide_def ex_due_reads ex_calm_fields(1) ex_slot ex_due_steps ex_due_job Let_def)
qed

section \<open>An upgrade\<close>

text \<open>An agent in \<open>C:/agent\<close> whose server has a new build.\<close>

definition ex_exe :: exe_path where
  "ex_exe = \<lparr>xp_dir = ''C:/agent'', xp_base = ''stowline-agent.exe''\<rparr>"

definition ex_upgrade :: upgrade_env where
  "ex_upgrade = \<lparr>pv_disk = \<lambda>n. None, pv_sha = \<lambda>c. (case c of Bytes s \<Rightarrow> s | MarkerFile p b \<Rightarrow> p),
     pv_is_dir = \<lambda>p. False, pv_ctx = \<lambda>n. None, pv_run = \<lambda>n. ex_exit 0,
     ue_unmarshal = \<lambda>s. None, ue_now = \<lambda>n. 1767600000, ue_download = \<lambda>n. Inr ''new'', ue_busy = \<lambda>n. False\<rparr>"

definition ex_installed :: upgrade_world where
  "ex_installed = \<lparr>dk_files = [(exe_file ex_exe, Bytes ''old'')], dk_pos = 0, uw_pending = False\<rparr>"

definition ex_unconfirmed :: upgrade_world where
  "ex_unconfirmed = \<lparr>dk_files = [(exe_file ex_exe, Bytes ''new''), (rollback_path ex_exe 1767600000, Bytes ''old''),
     (marker_path ex_exe, MarkerFile (rollback_path ex_exe 1767600000) 0)], dk_pos = 0, uw_pending = False\<rparr>"

lemma ex_exe_base: "xp_base ex_exe = ''stowline-agent.exe''"
  by (simp add: ex_exe_def)

end
