(* ===== verification/Secret_Store.thy ===== *)
theory Secret_Store
  imports Domain_Repository Files WinPath
begin

text \<open>
  The secret stores (\<open>internal/adapters/secrets\<close>): the DPAPI envelope and its provider
  (\<open>dpapi_windows.go\<close>), the plain file provider (\<open>file.go\<close>) and the choice between them
  (\<open>select.go\<close>). The files are those of a \<open>disk\<close>; DPAPI itself is two functions of the
  environment, which may fail at any call. A handle is the text it holds.
\<close>

section \<open>Envelopes (dpapi_windows.go)\<close>

abbreviation scope_user :: string where "scope_user \<equiv> ''user''"
abbreviation scope_machine :: string where "scope_machine \<equiv> ''machine''"

definition envelope_magic :: string where
  "envelope_magic = ''STOWLINE-DPAPI-1''"

definition newline :: string where "newline = [CHR 0x0A]"

definition encode_envelope :: "string \<Rightarrow> string \<Rightarrow> string" where
  "encode_envelope scope blob =
     envelope_magic @ newline @ ''scope='' @ scope @ newline @ newline @ blob"

text \<open>\<open>bytes.SplitN(raw, "\n\n", 2)\<close> with two parts.\<close>

fun cut_blank_line :: "string \<Rightarrow> (string \<times> string) option" where
  "cut_blank_line [] = None"
| "cut_blank_line (c # s) =
     (if has_prefix (c # s) (newline @ newline) then Some ([], drop 1 s)
      else map_option (\<lambda>(head, blob). (c # head, blob)) (cut_blank_line s))"

definition looks_like_plaintext :: "string \<Rightarrow> bool" where
  "looks_like_plaintext blob =
     (length blob < 16 \<or>
      list_all (\<lambda>c. \<not> (of_char c < (9::nat) \<or> (13::nat) < of_char c \<and> of_char c < (32::nat))) blob)"

definition decode_envelope :: "string \<Rightarrow> go_error + (string \<times> string)" where
  "decode_envelope raw =
     (case cut_blank_line raw of
        None \<Rightarrow> Inl (wrap_msg ErrSecretScopeMismatch ''missing DPAPI envelope (refusing raw/plaintext)'')
      | Some (part, blob) \<Rightarrow>
          (case split_on CHR 0x0A part of
             magic # second # _ \<Rightarrow>
               if magic \<noteq> envelope_magic \<or> \<not> has_prefix second ''scope='' then
                 Inl (wrap_msg ErrSecretScopeMismatch ''invalid DPAPI envelope'')
               else if drop 6 second \<noteq> scope_user \<and> drop 6 second \<noteq> scope_machine then
                 Inl (wrap_msg ErrSecretScopeMismatch ''unknown envelope scope'')
               else if looks_like_plaintext blob then
                 Inl (wrap_msg ErrSecretScopeMismatch ''envelope blob is not DPAPI'')
               else Inr (drop 6 second, blob)
           | _ \<Rightarrow> Inl (wrap_msg ErrSecretScopeMismatch ''invalid DPAPI envelope'')))"

section \<open>DPAPI and directories\<close>

text \<open>
  \<open>CryptProtectData\<close> and \<open>CryptUnprotectData\<close>, the proof that a secret unlocks the repository
  (by the content of its file), the random source and the access lists, at each position of the script.
\<close>

record sealing_env =
  sk_disk :: "string disk_env"
  sk_seal :: "nat \<Rightarrow> string \<Rightarrow> string \<Rightarrow> string + string"
  sk_unseal :: "nat \<Rightarrow> string \<Rightarrow> string + string"
  sk_unlocks :: "nat \<Rightarrow> secret_ref \<Rightarrow> string option \<Rightarrow> go_error + string"
  sk_random :: "nat \<Rightarrow> string + string"
  sk_acl :: "nat \<Rightarrow> string \<Rightarrow> string \<Rightarrow> go_error option"

type_synonym 'z secret_disk = "(string, 'z) disk_scheme"

definition dpapi_protect :: "sealing_env \<Rightarrow> string \<Rightarrow> string \<Rightarrow> 'z secret_disk \<Rightarrow> (go_error + string) \<times> 'z secret_disk" where
  "dpapi_protect env plain scope w =
     (if plain = [] then (Inl (PlainError ''empty secret''), w)
      else (case sk_seal env (dk_pos w) scope plain of
              Inl msg \<Rightarrow> Inl (Wrapped ''CryptProtectData: '' (PlainError msg) '''')
            | Inr blob \<Rightarrow> Inr blob, disk_step w))"

definition dpapi_unprotect :: "sealing_env \<Rightarrow> string \<Rightarrow> 'z secret_disk \<Rightarrow> (go_error + string) \<times> 'z secret_disk" where
  "dpapi_unprotect env blob w =
     (if blob = [] then (Inl (PlainError ''empty blob''), w)
      else (case sk_unseal env (dk_pos w) blob of
              Inl msg \<Rightarrow> Inl (Wrapped ''CryptUnprotectData: '' (PlainError msg) '''')
            | Inr plain \<Rightarrow> Inr plain, disk_step w))"

section \<open>Providers\<close>

datatype secret_provider = FileProvider | DPAPIProvider string string

definition new_pilot :: "string \<Rightarrow> secret_provider" where
  "new_pilot dir = DPAPIProvider dir scope_user"

definition new_service :: "string \<Rightarrow> secret_provider" where
  "new_service dir = DPAPIProvider dir scope_machine"

definition scope_known :: "string \<Rightarrow> bool" where
  "scope_known scope \<longleftrightarrow> scope = scope_user \<or> scope = scope_machine"

definition unknown_scope :: go_error where
  "unknown_scope = wrap_msg ErrConfig ''DPAPI scope must be user or machine''"

definition provider_protect ::
  "sealing_env \<Rightarrow> string \<Rightarrow> string \<Rightarrow> string \<Rightarrow> string \<Rightarrow> 'z secret_disk \<Rightarrow> go_error option \<times> 'z secret_disk" where
  "provider_protect env dir scope name plain w =
     (if \<not> scope_known scope then (Some unknown_scope, w)
      else case os_mkdir_all (sk_disk env) dir w of
        (Some e, w1) \<Rightarrow> (Some (io_go e), w1)
      | (None, w1) \<Rightarrow>
          (case dpapi_protect env plain scope w1 of
             (Inl e, w2) \<Rightarrow> (Some e, w2)
           | (Inr blob, w2) \<Rightarrow>
               (case os_write (sk_disk env) (win_join dir name) (encode_envelope scope blob) w2 of
                  (e, w3) \<Rightarrow> (map_option io_go e, w3))))"

definition dpapi_open ::
  "sealing_env \<Rightarrow> string \<Rightarrow> string \<Rightarrow> secret_ref \<Rightarrow> 'z secret_disk \<Rightarrow> (go_error + string) \<times> 'z secret_disk" where
  "dpapi_open env dir scope ref w =
     (if \<not> scope_known scope then (Inl unknown_scope, w)
      else
        let path = (if sr_locator ref = [] then win_join dir (sr_purpose ref @ ''.dpapi'') else sr_locator ref)
        in case os_read (sk_disk env) path w of
          (Inl e, w1) \<Rightarrow> (Inl (io_go e), w1)
        | (Inr raw, w1) \<Rightarrow>
            (case decode_envelope raw of
               Inl e \<Rightarrow> (Inl e, w1)
             | Inr (found, blob) \<Rightarrow>
                 if found \<noteq> scope then
                   (Inl (wrap_msg ErrSecretScopeMismatch (''blob is '' @ found @ '', provider is '' @ scope)), w1)
                 else dpapi_unprotect env blob w1))"

definition file_open ::
  "sealing_env \<Rightarrow> secret_ref \<Rightarrow> 'z secret_disk \<Rightarrow> (go_error + string) \<times> 'z secret_disk" where
  "file_open env ref w =
     (if sr_locator ref = [] then (Inl (wrap_msg ErrConfig ''empty secret locator''), w)
      else if str_contains (sr_locator ref) ''://'' then (Inl (Sentinel ErrRemoteExecutable), w)
      else if str_contains (to_lower (sr_locator ref)) ''.dpapi'' then
        (Inl (wrap_msg ErrSecretScopeMismatch ''file provider refuses DPAPI locators''), w)
      else case os_read (sk_disk env) (sr_locator ref) w of
        (Inl e, w1) \<Rightarrow> (Inl (io_go e), w1)
      | (Inr b, w1) \<Rightarrow>
          if str_contains b envelope_magic then
            (Inl (wrap_msg ErrSecretScopeMismatch ''file provider refuses DPAPI envelopes''), w1)
          else (Inr (trim_space b), w1))"

definition provider_open ::
  "sealing_env \<Rightarrow> secret_provider \<Rightarrow> secret_ref \<Rightarrow> 'z secret_disk \<Rightarrow> (go_error + string) \<times> 'z secret_disk" where
  "provider_open env p ref w =
     (case p of FileProvider \<Rightarrow> file_open env ref w | DPAPIProvider dir scope \<Rightarrow> dpapi_open env dir scope ref w)"

section \<open>Selection (select.go)\<close>

abbreviation provider_file :: string where "provider_file \<equiv> ''file''"
abbreviation provider_user :: string where "provider_user \<equiv> ''dpapi-user''"
abbreviation provider_machine :: string where "provider_machine \<equiv> ''dpapi-machine''"

definition for_ref :: "secret_ref \<Rightarrow> go_error + (secret_provider \<times> string)" where
  "for_ref ref =
     (if sr_provider ref = provider_file \<or> sr_provider ref = [] then Inr (FileProvider, provider_file)
      else if sr_provider ref = provider_user then Inr (new_pilot (win_dir (sr_locator ref)), provider_user)
      else if sr_provider ref = provider_machine then Inr (new_service (win_dir (sr_locator ref)), provider_machine)
      else Inl (wrap_msg ErrConfig (''unknown secret provider '' @ sr_provider ref)))"

definition require_service_provider :: "secret_ref \<Rightarrow> go_error option" where
  "require_service_provider ref =
     (if sr_provider ref \<noteq> provider_machine then
        Some (wrap_msg ErrSecretScopeMismatch (''service mode requires '' @ provider_machine @ '', not '' @ sr_provider ref))
      else if str_contains (to_lower (sr_locator ref)) ''.user.'' then
        Some (wrap_msg ErrSecretScopeMismatch ''refusing user-scope locator in service mode'')
      else None)"

definition default_open ::
  "sealing_env \<Rightarrow> secret_ref \<Rightarrow> 'z secret_disk \<Rightarrow> (go_error + string) \<times> 'z secret_disk" where
  "default_open env ref w =
     (case for_ref ref of Inl e \<Rightarrow> (Inl e, w) | Inr (p, _) \<Rightarrow> provider_open env p ref w)"

section \<open>Facts\<close>

text \<open>What is sealed reads back, and only the scope it was sealed for reads it.\<close>

lemma cut_blank_line_head:
  "cut_blank_line (h @ newline @ newline @ blob) = Some (h, blob)" if "CHR 0x0A \<notin> set h"
  using that by (induction h) (auto simp: newline_def)

lemma cut_envelope:
  assumes "CHR 0x0A \<notin> set h" "CHR 0x0A \<notin> set g" "g \<noteq> []"
  shows "cut_blank_line (h @ newline @ g @ newline @ newline @ blob) = Some (h @ newline @ g, blob)"
  using assms(1)
proof (induction h)
  case Nil
  obtain c cs where g: "g = c # cs" using assms(3) by (cases g) auto
  have "cut_blank_line (g @ newline @ newline @ blob) = Some (g, blob)"
    by (rule cut_blank_line_head [OF assms(2)])
  moreover have "c \<noteq> CHR 0x0A" using assms(2) g by auto
  ultimately show ?case using g by (simp add: newline_def)
next
  case (Cons c h)
  then have "c \<noteq> CHR 0x0A" by auto
  then show ?case using Cons by (simp add: newline_def)
qed

lemma scope_known_line: "scope_known scope \<Longrightarrow> CHR 0x0A \<notin> set (''scope='' @ scope)"
  by (auto simp: scope_known_def)

lemma decode_encode:
  assumes "scope_known scope" "\<not> looks_like_plaintext blob"
  shows "decode_envelope (encode_envelope scope blob) = Inr (scope, blob)"
proof -
  have m: "CHR 0x0A \<notin> set envelope_magic" by (simp add: envelope_magic_def)
  have c: "cut_blank_line (encode_envelope scope blob) = Some (envelope_magic @ newline @ ''scope='' @ scope, blob)"
    using cut_envelope [OF m scope_known_line [OF assms(1)], of blob] by (simp add: encode_envelope_def)
  have s: "split_on CHR 0x0A (envelope_magic @ newline @ ''scope='' @ scope) = [envelope_magic, ''scope='' @ scope]"
    using split_on_append [OF m, of "''scope='' @ scope"] split_on_no_sep [OF scope_known_line [OF assms(1)]]
    by (simp add: newline_def)
  have d: "drop 6 (''scope='' @ scope) = scope" by simp
  show ?thesis using assms
    by (simp only: decode_envelope_def c s option.case prod.case list.case has_prefix_append d) (simp add: scope_known_def)
qed

text \<open>The files of a directory on a drive have the names they are given.\<close>

definition simple_name :: "string \<Rightarrow> bool" where
  "simple_name n \<longleftrightarrow> n \<noteq> [] \<and> n \<noteq> ''.'' \<and> n \<noteq> ''..'' \<and> list_all (\<lambda>c. \<not> is_sep c) n"

lemma split_on_snoc: "split_on sep (s @ sep # t) = split_on sep s @ split_on sep t"
proof (induction s)
  case (Cons c s)
  obtain p ps where "split_on sep s = p # ps" by (cases "split_on sep s") auto
  then show ?case using Cons by simp
qed simp

lemma from_slash_simple: "simple_name n \<Longrightarrow> from_slash n = n"
  unfolding from_slash_def
  by (rule map_idI) (auto simp: simple_name_def is_sep_def list_all_iff)

lemma join_with_name: "\<exists>P. \<forall>n. join_with [sep] (xs @ [n]) = P @ n"
proof (induction xs)
  case Nil
  show ?case by (rule exI [of _ "[]"]) simp
next
  case (Cons x xs)
  then obtain P where P: "\<And>n. join_with [sep] (xs @ [n]) = P @ n" by blast
  have "join_with [sep] ((x # xs) @ [n]) = (x @ sep # P) @ n" for n
    using P [of n] by (cases xs) simp_all
  then show ?case by blast
qed

lemma clean_parts_name:
  assumes "volume dir \<noteq> []"
  shows "\<exists>r K. \<forall>n. simple_name n \<longrightarrow>
    clean_parts (dir @ backslash # n) = \<lparr>pt_volume = from_slash (volume dir), pt_rooted = r, pt_elems = K @ [n]\<rparr>"
proof -
  define r where "r = (case drop 2 dir of [] \<Rightarrow> True | c # _ \<Rightarrow> is_sep c)"
  define K where "K = foldl (clean_elem r) [] (split_on backslash (from_slash (drop 2 dir)))"
  have len: "2 \<le> length dir" using assms by (auto simp: volume_def split: if_splits)
  have "clean_parts (dir @ backslash # n) =
      \<lparr>pt_volume = from_slash (volume dir), pt_rooted = r, pt_elems = rev K @ [n]\<rparr>" if n: "simple_name n" for n
  proof -
    have v: "volume (dir @ backslash # n) = volume dir" using len by (auto simp: volume_def nth_append)
    have l: "length (volume dir) = 2" using len assms by (simp add: volume_def split: if_splits)
    have s: "drop 2 (dir @ backslash # n) = drop 2 dir @ backslash # n" using len by simp
    have rt: "(case drop 2 dir @ backslash # n of [] \<Rightarrow> False | c # _ \<Rightarrow> is_sep c) = r"
      by (simp add: r_def is_sep_def split: list.splits)
    have "split_on backslash (from_slash (drop 2 dir @ backslash # n)) =
        split_on backslash (from_slash (drop 2 dir)) @ [n]"
    proof -
      have "from_slash (drop 2 dir @ backslash # n) = from_slash (drop 2 dir) @ backslash # n"
        using from_slash_simple [OF n] by (simp add: from_slash_def)
      moreover have "backslash \<notin> set n" using n by (auto simp: simple_name_def list_all_iff is_sep_def)
      ultimately show ?thesis by (simp add: split_on_snoc split_on_no_sep)
    qed
    moreover have "clean_elem r K n = n # K" using n by (simp add: clean_elem_def simple_name_def)
    ultimately show ?thesis by (simp only: clean_parts_def Let_def v l s rt K_def foldl_append foldl.simps rev.simps)
  qed
  then show ?thesis by blast
qed

lemma win_join_name:
  assumes "volume dir \<noteq> []"
  shows "\<exists>P. \<forall>n. simple_name n \<longrightarrow> win_join dir n = P @ n"
proof -
  obtain r K where c: "\<And>n. simple_name n \<Longrightarrow>
      clean_parts (dir @ backslash # n) = \<lparr>pt_volume = from_slash (volume dir), pt_rooted = r, pt_elems = K @ [n]\<rparr>"
    using clean_parts_name [OF assms] by blast
  obtain P where P: "\<And>n. join_with [backslash] (K @ [n]) = P @ n" using join_with_name by blast
  have len: "2 \<le> length dir" using assms by (auto simp: volume_def split: if_splits)
  have "win_join dir n = (from_slash (volume dir) @ (if r then [backslash] else []) @ P) @ n" if n: "simple_name n" for n
  proof -
    have "volume (dir @ backslash # n) = volume dir" using len by (simp add: volume_def nth_append)
    then have "volume (dir @ backslash # n) \<noteq> []" using assms by simp
    moreover have "dir \<noteq> []" "n \<noteq> []" using assms n by (auto simp: volume_def simple_name_def)
    ultimately show ?thesis by (simp add: win_join_def win_clean_def Let_def c [OF n] parts_path_def P)
  qed
  then show ?thesis by blast
qed

lemma win_join_inj:
  assumes "volume dir \<noteq> []" "simple_name a" "simple_name b"
  shows "win_join dir a = win_join dir b \<longleftrightarrow> a = b"
  using win_join_name [OF assms(1)] assms(2,3) by auto

text \<open>What the stores do to the files.\<close>

lemma mkdir_keeps: "os_mkdir_all env p w = (r, w') \<Longrightarrow> disk_file w' = disk_file w"
  by (auto simp: os_mkdir_all_def split: option.splits io_fault.splits)

lemma dpapi_keeps:
  "dpapi_protect env plain scope w = (r, w') \<Longrightarrow> disk_file w' = disk_file w"
  "dpapi_unprotect env blob w = (r, w') \<Longrightarrow> disk_file w' = disk_file w"
  by (auto simp: dpapi_protect_def dpapi_unprotect_def split: if_splits)

lemma dpapi_open_keeps: "dpapi_open env dir scope ref w = (r, w') \<Longrightarrow> disk_file w' = disk_file w"
  unfolding dpapi_open_def Let_def
  by (auto split: prod.splits sum.splits if_splits dest!: dpapi_keeps(2) os_read_cases(1))

lemma file_open_keeps: "file_open env ref w = (r, w') \<Longrightarrow> disk_file w' = disk_file w"
  unfolding file_open_def by (auto split: prod.splits sum.splits if_splits dest!: os_read_cases(1))

lemma default_open_keeps: "default_open env ref w = (r, w') \<Longrightarrow> disk_file w' = disk_file w"
  unfolding default_open_def provider_open_def
  by (auto split: sum.splits prod.splits secret_provider.splits dest: dpapi_open_keeps file_open_keeps)

lemma provider_protect_other:
  assumes "provider_protect env dir scope name plain w = (r, w')" "p \<noteq> win_join dir name"
  shows "disk_file w' p = disk_file w p"
  using assms unfolding provider_protect_def
  by (auto split: prod.splits sum.splits option.splits if_splits dest!: mkdir_keeps dpapi_keeps(1) os_write_file(2))

lemma sealed_content:
  assumes "provider_protect env dir scope name plain w = (None, w')"
  shows "scope_known scope" "\<exists>n blob. sk_seal env n scope plain = Inr blob \<and>
     disk_file w' = (disk_file w)(win_join dir name \<mapsto> encode_envelope scope blob)"
  using assms unfolding provider_protect_def dpapi_protect_def
  by (fastforce split: if_splits prod.splits option.splits sum.splits dest!: mkdir_keeps os_write_file(1))+

end
