(* ===== verification/Secrets_Migrate.thy ===== *)
theory Secrets_Migrate
  imports Secret_Store Domain_Backup
begin

text \<open>
  Moving the repository password into a machine-scope envelope
  (\<open>internal/adapters/secrets/migrate.go\<close>) and the provisioning that calls it
  (\<open>provisionSecrets\<close> of \<open>ops.go\<close>). A request carries the operations it may replace, nil where the
  default is meant.
\<close>

section \<open>References\<close>

abbreviation user_envelope_name :: string where "user_envelope_name \<equiv> ''restic-password.user.dpapi''"
abbreviation machine_envelope_name :: string where "machine_envelope_name \<equiv> ''restic-password.machine.dpapi''"
abbreviation machine_tmp_name :: string where "machine_tmp_name \<equiv> ''restic-password.machine.dpapi.tmp''"
abbreviation legacy_password_name :: string where "legacy_password_name \<equiv> ''restic-password''"
abbreviation secret_restic_password :: string where "secret_restic_password \<equiv> ''restic-repository-password''"

definition user_ref :: "string \<Rightarrow> secret_ref" where
  "user_ref dir = no_secret_ref\<lparr>sr_purpose := secret_restic_password, sr_provider := provider_user,
     sr_locator := win_join dir user_envelope_name\<rparr>"

definition machine_ref :: "string \<Rightarrow> secret_ref" where
  "machine_ref dir = no_secret_ref\<lparr>sr_purpose := secret_restic_password, sr_provider := provider_machine,
     sr_locator := win_join dir machine_envelope_name\<rparr>"

definition machine_tmp_ref :: "string \<Rightarrow> secret_ref" where
  "machine_tmp_ref dir = (machine_ref dir)\<lparr>sr_locator := win_join dir machine_tmp_name\<rparr>"

definition legacy_ref :: "string \<Rightarrow> secret_ref" where
  "legacy_ref dir = no_secret_ref\<lparr>sr_purpose := secret_restic_password, sr_provider := provider_file,
     sr_locator := win_join dir legacy_password_name\<rparr>"

section \<open>The request\<close>

record 'w migrate_request =
  mg_dir :: string
  mg_repo_location :: string
  mg_authenticate :: "(secret_ref \<Rightarrow> 'w \<Rightarrow> (go_error + string) \<times> 'w) option"
  mg_open :: "(secret_ref \<Rightarrow> 'w \<Rightarrow> (go_error + string) \<times> 'w) option"
  mg_protect :: "(string \<Rightarrow> string \<Rightarrow> 'w \<Rightarrow> go_error option \<times> 'w) option"
  mg_generate :: "('w \<Rightarrow> (go_error + string) \<times> 'w) option"

definition default_protect_machine ::
  "sealing_env \<Rightarrow> string \<Rightarrow> string \<Rightarrow> string \<Rightarrow> 'z secret_disk \<Rightarrow> go_error option \<times> 'z secret_disk" where
  "default_protect_machine env dir = provider_protect env dir scope_machine"

definition default_generate :: "sealing_env \<Rightarrow> 'z secret_disk \<Rightarrow> (go_error + string) \<times> 'z secret_disk" where
  "default_generate env w =
     (case sk_random env (dk_pos w) of
        Inl msg \<Rightarrow> Inl (PlainError msg)
      | Inr pw \<Rightarrow> Inr (hex_encode (map of_char pw)), disk_step w)"

definition repo_config_exists :: "sealing_env \<Rightarrow> string \<Rightarrow> 'z secret_disk \<Rightarrow> bool \<times> 'z secret_disk" where
  "repo_config_exists env location w =
     (if location = [] then (True, w)
      else case os_stat (sk_disk env) (win_join location ''config'') w of
        (e, w1) \<Rightarrow> (e \<noteq> Some NotExist, w1))"

definition file_present :: "sealing_env \<Rightarrow> string \<Rightarrow> 'z secret_disk \<Rightarrow> bool \<times> 'z secret_disk" where
  "file_present env p w = (case os_stat (sk_disk env) p w of (e, w1) \<Rightarrow> (e = None, w1))"

text \<open>
  The two sources in their order: the first that opens to a secret which is not empty. Whether
  \<open>Stat\<close> found the file or failed otherwise makes no difference to what follows.
\<close>

fun load_candidates ::
  "sealing_env \<Rightarrow> (secret_ref \<Rightarrow> 'z secret_disk \<Rightarrow> (go_error + string) \<times> 'z secret_disk) \<Rightarrow> secret_ref list \<Rightarrow>
   go_error option \<Rightarrow> 'z secret_disk \<Rightarrow> (go_error + string \<times> secret_ref) \<times> 'z secret_disk" where
  "load_candidates env opn [] seen w =
     (Inl (case seen of None \<Rightarrow> PlainError ''no recoverable source secret'' | Some e \<Rightarrow> e), w)"
| "load_candidates env opn (ref # refs) seen w =
     (case os_stat (sk_disk env) (sr_locator ref) w of
        (Some NotExist, w1) \<Rightarrow> load_candidates env opn refs seen w1
      | (_, w1) \<Rightarrow>
          (case opn ref w1 of
             (Inl e, w2) \<Rightarrow> load_candidates env opn refs (Some e) w2
           | (Inr secret, w2) \<Rightarrow>
               if secret = [] then load_candidates env opn refs (Some (PlainError ''empty secret'')) w2
               else (Inr (secret, ref), w2)))"

definition load_source_secret ::
  "sealing_env \<Rightarrow> string \<Rightarrow> (secret_ref \<Rightarrow> 'z secret_disk \<Rightarrow> (go_error + string) \<times> 'z secret_disk) \<Rightarrow>
   'z secret_disk \<Rightarrow> (go_error + string \<times> secret_ref) \<times> 'z secret_disk" where
  "load_source_secret env dir opn w = load_candidates env opn [user_ref dir, legacy_ref dir] None w"

definition promote_envelope ::
  "sealing_env \<Rightarrow> string \<Rightarrow> string \<Rightarrow> string \<Rightarrow> 'z secret_disk \<Rightarrow> (io_error + string) \<times> 'z secret_disk" where
  "promote_envelope env dir tmp_name final_name w =
     (let d = sk_disk env; tmp = win_join dir tmp_name; final = win_join dir final_name;
          bak = win_join dir (final_name @ ''.bak'')
      in case os_stat d final w of
           (Some _, w1) \<Rightarrow>
             (case os_rename d tmp final w1 of (Some e, w2) \<Rightarrow> (Inl e, w2) | (None, w2) \<Rightarrow> (Inr [], w2))
         | (None, w1) \<Rightarrow>
             (case os_remove d bak w1 of (_, w2) \<Rightarrow>
              (case os_rename d final bak w2 of
                 (Some e, w3) \<Rightarrow> (Inl e, w3)
               | (None, w3) \<Rightarrow>
                   (case os_rename d tmp final w3 of
                      (Some e, w4) \<Rightarrow> (Inl e, snd (os_rename d bak final w4))
                    | (None, w4) \<Rightarrow> (Inr bak, w4)))))"

section \<open>ReWrapToMachine\<close>

definition auth_refused :: "string \<Rightarrow> go_error \<Rightarrow> go_error \<Rightarrow> go_error" where
  "auth_refused msg other e = (if errors_is e ErrAuth then wrap_msg ErrAuth msg else other)"

text \<open>
  The stages of the function, the last first: what follows the promotion, the reading back of the
  temporary envelope, the secret to wrap. The authenticator is called only where a repository or a
  source exists; the branches are those of the code.
\<close>

definition rewrap_promoted ::
  "sealing_env \<Rightarrow> string \<Rightarrow> (secret_ref \<Rightarrow> 'z secret_disk \<Rightarrow> (go_error + string) \<times> 'z secret_disk) \<Rightarrow> bool \<Rightarrow>
   string \<Rightarrow> 'z secret_disk \<Rightarrow> (go_error + secret_ref) \<times> 'z secret_disk" where
  "rewrap_promoted env dir auth check bak w =
     (let dest = machine_ref dir; d = sk_disk env;
          clean = (\<lambda>v. if bak = [] then v else snd (os_remove d bak v))
      in if \<not> check then (Inr dest, clean w)
         else case auth dest w of
           (Inr _, w1) \<Rightarrow> (Inr dest, clean w1)
         | (Inl e, w1) \<Rightarrow>
             (Inl (auth_refused ''promoted machine envelope does not unlock the repository'' e e),
              if bak = [] then w1
              else snd (os_rename d bak (sr_locator dest) (snd (os_remove d (sr_locator dest) w1)))))"

definition rewrap_promote ::
  "sealing_env \<Rightarrow> string \<Rightarrow> (secret_ref \<Rightarrow> 'z secret_disk \<Rightarrow> (go_error + string) \<times> 'z secret_disk) \<Rightarrow> bool \<Rightarrow>
   'z secret_disk \<Rightarrow> (go_error + secret_ref) \<times> 'z secret_disk" where
  "rewrap_promote env dir auth check w =
     (case promote_envelope env dir machine_tmp_name machine_envelope_name w of
        (Inl e, w1) \<Rightarrow> (Inl (io_go e), snd (os_remove (sk_disk env) (sr_locator (machine_tmp_ref dir)) w1))
      | (Inr bak, w1) \<Rightarrow> rewrap_promoted env dir auth check bak w1)"

definition rewrap_written ::
  "sealing_env \<Rightarrow> string \<Rightarrow> (secret_ref \<Rightarrow> 'z secret_disk \<Rightarrow> (go_error + string) \<times> 'z secret_disk) \<Rightarrow>
   (secret_ref \<Rightarrow> 'z secret_disk \<Rightarrow> (go_error + string) \<times> 'z secret_disk) \<Rightarrow> bool \<Rightarrow>
   string \<Rightarrow> 'z secret_disk \<Rightarrow> (go_error + secret_ref) \<times> 'z secret_disk" where
  "rewrap_written env dir auth opn check secret w =
     (let tmp = machine_tmp_ref dir; drop_tmp = (\<lambda>v. snd (os_remove (sk_disk env) (sr_locator tmp) v))
      in case opn tmp w of
           (Inl e, w1) \<Rightarrow> (Inl (Wrapped ''machine envelope read-back failed: '' e ''''), drop_tmp w1)
         | (Inr back, w1) \<Rightarrow>
             if back \<noteq> secret then
               (Inl (wrap_msg ErrSecretScopeMismatch ''machine envelope read-back did not preserve secret bytes''),
                drop_tmp w1)
             else if \<not> check then rewrap_promote env dir auth check w1
             else case auth tmp w1 of
               (Inl e, w2) \<Rightarrow>
                 (Inl (auth_refused ''temporary machine envelope does not unlock the repository'' e e), drop_tmp w2)
             | (Inr _, w2) \<Rightarrow> rewrap_promote env dir auth check w2)"

definition rewrap_secret ::
  "sealing_env \<Rightarrow> string \<Rightarrow> (secret_ref \<Rightarrow> 'z secret_disk \<Rightarrow> (go_error + string) \<times> 'z secret_disk) \<Rightarrow>
   (secret_ref \<Rightarrow> 'z secret_disk \<Rightarrow> (go_error + string) \<times> 'z secret_disk) \<Rightarrow>
   (string \<Rightarrow> string \<Rightarrow> 'z secret_disk \<Rightarrow> go_error option \<times> 'z secret_disk) \<Rightarrow> bool \<Rightarrow> string \<Rightarrow>
   'z secret_disk \<Rightarrow> (go_error + secret_ref) \<times> 'z secret_disk" where
  "rewrap_secret env dir auth opn protect check secret w =
     (case protect machine_tmp_name secret (snd (os_remove (sk_disk env) (sr_locator (machine_tmp_ref dir)) w)) of
        (Some e, w1) \<Rightarrow> (Inl e, w1)
      | (None, w1) \<Rightarrow> rewrap_written env dir auth opn check secret w1)"

definition rewrap_source ::
  "sealing_env \<Rightarrow> string \<Rightarrow> (secret_ref \<Rightarrow> 'z secret_disk \<Rightarrow> (go_error + string) \<times> 'z secret_disk) \<Rightarrow>
   (secret_ref \<Rightarrow> 'z secret_disk \<Rightarrow> (go_error + string) \<times> 'z secret_disk) \<Rightarrow>
   ('z secret_disk \<Rightarrow> (go_error + string) \<times> 'z secret_disk) \<Rightarrow> bool \<Rightarrow>
   'z secret_disk \<Rightarrow> (go_error + string \<times> bool) \<times> 'z secret_disk" where
  "rewrap_source env dir auth opn generate repo_exists w =
     (case load_source_secret env dir opn w of
        (Inl e, w1) \<Rightarrow>
          if repo_exists then
            (Inl (wrap_msg ErrConfig (''existing repository; refusing to generate a replacement password ('' @
               error_text e @ '')'')), w1)
          else (case generate w1 of (Inl e', w2) \<Rightarrow> (Inl e', w2) | (Inr pw, w2) \<Rightarrow> (Inr (pw, False), w2))
      | (Inr (secret, ref), w1) \<Rightarrow>
          if \<not> repo_exists then (Inr (secret, sr_locator ref \<noteq> []), w1)
          else (case auth ref w1 of
                  (Inl e, w2) \<Rightarrow>
                    (Inl (auth_refused ''source secret does not unlock the existing repository''
                       (Wrapped ''source secret could not authenticate the existing repository: '' e '''') e), w2)
                | (Inr _, w2) \<Rightarrow> (Inr (secret, True), w2)))"

text \<open>An envelope that already unlocks the repository is the answer; without a repository it is an error.\<close>

definition rewrap_existing ::
  "sealing_env \<Rightarrow> string \<Rightarrow> (secret_ref \<Rightarrow> 'z secret_disk \<Rightarrow> (go_error + string) \<times> 'z secret_disk) \<Rightarrow> bool \<Rightarrow>
   'z secret_disk \<Rightarrow> (go_error + secret_ref) option \<times> 'z secret_disk" where
  "rewrap_existing env dir auth repo_exists w =
     (case file_present env (sr_locator (machine_ref dir)) w of
        (False, w1) \<Rightarrow> (None, w1)
      | (True, w1) \<Rightarrow>
          (case auth (machine_ref dir) w1 of
             (Inr _, w2) \<Rightarrow> (Some (Inr (machine_ref dir)), w2)
           | (Inl _, w2) \<Rightarrow>
               if repo_exists then (None, w2)
               else (Some (Inl (wrap_msg ErrAuth
                  ''existing machine envelope does not authenticate and no repository is present to re-init silently'')), w2)))"

definition rewrap_to_machine ::
  "sealing_env \<Rightarrow> 'z secret_disk migrate_request \<Rightarrow> 'z secret_disk \<Rightarrow> (go_error + secret_ref) \<times> 'z secret_disk" where
  "rewrap_to_machine env req w =
     (if mg_dir req = [] then (Inl (wrap_msg ErrConfig ''secrets directory required''), w)
      else case mg_authenticate req of
        None \<Rightarrow> (Inl (wrap_msg ErrConfig ''repository authenticator required''), w)
      | Some auth \<Rightarrow>
          let dir = mg_dir req;
              opn = (case mg_open req of None \<Rightarrow> default_open env | Some f \<Rightarrow> f);
              protect = (case mg_protect req of None \<Rightarrow> default_protect_machine env dir | Some f \<Rightarrow> f);
              generate = (case mg_generate req of None \<Rightarrow> default_generate env | Some f \<Rightarrow> f)
          in case os_mkdir_all (sk_disk env) dir w of
               (Some e, w1) \<Rightarrow> (Inl (io_go e), w1)
             | (None, w1) \<Rightarrow>
               (case repo_config_exists env (mg_repo_location req) w1 of (repo_exists, w2) \<Rightarrow>
               (case rewrap_existing env dir auth repo_exists w2 of
                  (Some r, w3) \<Rightarrow> (r, w3)
                | (None, w3) \<Rightarrow>
                    (case rewrap_source env dir auth opn generate repo_exists w3 of
                       (Inl e, w4) \<Rightarrow> (Inl e, w4)
                     | (Inr (secret, sourced), w4) \<Rightarrow>
                         rewrap_secret env dir auth opn protect (repo_exists \<or> sourced) secret w4))))"

section \<open>ReWrapNamedToMachine\<close>

definition machine_envelope_ref :: "string \<Rightarrow> secret_ref" where
  "machine_envelope_ref p = no_secret_ref\<lparr>sr_provider := provider_machine, sr_locator := p\<rparr>"

definition user_envelope_ref :: "string \<Rightarrow> secret_ref" where
  "user_envelope_ref p = no_secret_ref\<lparr>sr_provider := provider_user, sr_locator := p\<rparr>"

text \<open>Wrapping the user envelope, and reading the new one back: a copy that differs is removed.\<close>

definition rewrap_named_copy ::
  "sealing_env \<Rightarrow> string \<Rightarrow> string \<Rightarrow> string \<Rightarrow> 'z secret_disk \<Rightarrow> go_error option \<times> 'z secret_disk" where
  "rewrap_named_copy env dir src dest_name w =
     (let dest = win_join dir dest_name; drop_dest = (\<lambda>v. snd (os_remove (sk_disk env) dest v)) in
      case default_open env (user_envelope_ref src) w of
        (Inl e, w1) \<Rightarrow> (Some e, w1)
      | (Inr secret, w1) \<Rightarrow>
          (case default_protect_machine env dir dest_name secret w1 of
             (Some e, w2) \<Rightarrow> (Some e, w2)
           | (None, w2) \<Rightarrow>
               (case default_open env (machine_envelope_ref dest) w2 of
                  (Inl e, w3) \<Rightarrow> (Some e, drop_dest w3)
                | (Inr back, w3) \<Rightarrow>
                    if back = secret then (None, w3)
                    else (Some (wrap_msg ErrSecretScopeMismatch ''machine envelope read-back did not preserve secret bytes''),
                          drop_dest w3))))"

definition rewrap_named_to_machine ::
  "sealing_env \<Rightarrow> string \<Rightarrow> string \<Rightarrow> string \<Rightarrow> 'z secret_disk \<Rightarrow> go_error option \<times> 'z secret_disk" where
  "rewrap_named_to_machine env dir src_name dest_name w =
     (if dir = [] \<or> src_name = [] \<or> dest_name = [] then (Some (wrap_msg ErrConfig ''re-wrap names required''), w)
      else if win_base src_name \<noteq> src_name \<or> win_base dest_name \<noteq> dest_name then
        (Some (wrap_msg ErrConfig ''invalid envelope name''), w)
      else
        let src = win_join dir src_name; dest = win_join dir dest_name in
        case os_stat (sk_disk env) src w of
          (Some NotExist, w1) \<Rightarrow> (None, w1)
        | (Some e, w1) \<Rightarrow> (Some (io_go e), w1)
        | (None, w1) \<Rightarrow>
            (case file_present env dest w1 of
               (False, w2) \<Rightarrow> rewrap_named_copy env dir src dest_name w2
             | (True, w2) \<Rightarrow>
                 (case default_open env (machine_envelope_ref dest) w2 of
                    (Inr _, w3) \<Rightarrow> (None, w3)
                  | (Inl _, w3) \<Rightarrow> rewrap_named_copy env dir src dest_name w3)))"

section \<open>What a request may rely on\<close>

text \<open>
  The operations of a request: authenticating, opening and generating leave the files alone, and
  protecting writes no file but the named envelope.
\<close>

locale migrate_contract =
  fixes env :: sealing_env and dir :: string
    and auth :: "secret_ref \<Rightarrow> 'z secret_disk \<Rightarrow> (go_error + string) \<times> 'z secret_disk"
    and opn :: "secret_ref \<Rightarrow> 'z secret_disk \<Rightarrow> (go_error + string) \<times> 'z secret_disk"
    and protect :: "string \<Rightarrow> string \<Rightarrow> 'z secret_disk \<Rightarrow> go_error option \<times> 'z secret_disk"
    and generate :: "'z secret_disk \<Rightarrow> (go_error + string) \<times> 'z secret_disk"
  assumes auth_keeps: "auth ref w = (r, w') \<Longrightarrow> disk_file w' = disk_file w"
    and open_keeps: "opn ref w = (r, w') \<Longrightarrow> disk_file w' = disk_file w"
    and generate_keeps: "generate w = (x, w') \<Longrightarrow> disk_file w' = disk_file w"
    and protect_other: "protect name s w = (e, w') \<Longrightarrow> p \<noteq> win_join dir name \<Longrightarrow> disk_file w' p = disk_file w p"
begin

abbreviation tmp_path where "tmp_path \<equiv> win_join dir machine_tmp_name"
abbreviation dest_path where "dest_path \<equiv> win_join dir machine_envelope_name"
abbreviation bak_path where "bak_path \<equiv> win_join dir (machine_envelope_name @ ''.bak'')"

lemma refs [simp]: "sr_locator (machine_ref dir) = dest_path" "sr_locator (machine_tmp_ref dir) = tmp_path"
  by (simp_all add: machine_ref_def machine_tmp_ref_def)

lemma remove_other: "os_remove d q w = (r, w') \<Longrightarrow> p \<noteq> q \<Longrightarrow> disk_file w' p = disk_file w p"
  using os_remove_file(1) [of d q w r w'] by auto

lemma rename_other:
  assumes "os_rename d a b w = (r, w')" "p \<noteq> a" "p \<noteq> b"
  shows "disk_file w' p = disk_file w p"
  using os_rename_file [OF assms(1)] assms(2,3) by (cases r) auto

lemma remove_snd: "p \<noteq> q \<Longrightarrow> disk_file (snd (os_remove d q w)) p = disk_file w p"
  by (rule remove_other [OF prod.collapse [symmetric]])

lemma rename_snd: "p \<noteq> a \<Longrightarrow> p \<noteq> b \<Longrightarrow> disk_file (snd (os_rename d a b w)) p = disk_file w p"
  by (rule rename_other [OF prod.collapse [symmetric]])

lemma load_keeps: "load_candidates env opn refs seen w = (r, w') \<Longrightarrow> disk_file w' = disk_file w"
proof (induction refs arbitrary: seen w)
  case (Cons ref refs)
  obtain e w1 where st: "os_stat (sk_disk env) (sr_locator ref) w = (e, w1)" by force
  obtain x w2 where op: "opn ref w1 = (x, w2)" by force
  have "disk_file w1 = disk_file w" "disk_file w2 = disk_file w1"
    using os_stat_file(1) [OF st] open_keeps [OF op] by simp_all
  then show ?case using Cons.prems Cons.IH
    by (fastforce simp: st op split: option.splits io_error.splits sum.splits if_splits)
qed simp

lemma promote_other:
  assumes "promote_envelope env dir machine_tmp_name machine_envelope_name w = (r, w')"
    "p \<notin> {tmp_path, dest_path, bak_path}"
  shows "disk_file w' p = disk_file w p"
  using assms unfolding promote_envelope_def Let_def
  by (auto split: prod.splits option.splits dest!: os_stat_file(1) rename_other [where p = p] remove_other [where p = p]
      simp: rename_snd)

lemma promote_bak:
  "promote_envelope env dir machine_tmp_name machine_envelope_name w = (Inr bak, w') \<Longrightarrow> bak = [] \<or> bak = bak_path"
  unfolding promote_envelope_def Let_def by (auto split: prod.splits option.splits)

lemma promoted_other:
  assumes "rewrap_promoted env dir auth check bak w = (r, w')" "bak = [] \<or> bak = bak_path"
    "p \<notin> {tmp_path, dest_path, bak_path}"
  shows "disk_file w' p = disk_file w p"
  using assms unfolding rewrap_promoted_def Let_def
  by (auto split: prod.splits sum.splits if_splits dest!: auth_keeps simp: rename_snd remove_snd)

lemma rewrap_promote_other:
  assumes "rewrap_promote env dir auth check w = (r, w')" "p \<notin> {tmp_path, dest_path, bak_path}"
  shows "disk_file w' p = disk_file w p"
proof -
  obtain x w1 where pr: "promote_envelope env dir machine_tmp_name machine_envelope_name w = (x, w1)" by force
  then have k: "disk_file w1 p = disk_file w p" using promote_other [OF pr assms(2)] by simp
  show ?thesis
  proof (cases x)
    case (Inl e)
    then show ?thesis using assms k pr by (auto simp: rewrap_promote_def remove_snd)
  next
    case (Inr bak)
    then have "rewrap_promoted env dir auth check bak w1 = (r, w')" using assms(1) pr by (simp add: rewrap_promote_def)
    moreover have "bak = [] \<or> bak = bak_path" using pr Inr by (blast dest: promote_bak)
    ultimately show ?thesis using promoted_other assms(2) k by metis
  qed
qed

lemma written_other:
  assumes "rewrap_written env dir auth opn check secret w = (r, w')" "p \<notin> {tmp_path, dest_path, bak_path}"
  shows "disk_file w' p = disk_file w p"
proof -
  obtain x w1 where op: "opn (machine_tmp_ref dir) w = (x, w1)" by force
  obtain y w2 where au: "auth (machine_tmp_ref dir) w1 = (y, w2)" by force
  have "disk_file w1 = disk_file w" "disk_file w2 = disk_file w1"
    using open_keeps [OF op] auth_keeps [OF au] by simp_all
  then show ?thesis using assms rewrap_promote_other [where p = p]
    by (auto simp: rewrap_written_def Let_def op au remove_snd split: sum.splits if_splits)
qed

lemma secret_other:
  assumes "rewrap_secret env dir auth opn protect check secret w = (r, w')" "p \<notin> {tmp_path, dest_path, bak_path}"
  shows "disk_file w' p = disk_file w p"
  using assms unfolding rewrap_secret_def
  by (auto split: prod.splits option.splits dest!: protect_other [where p = p] written_other [where p = p]
      simp: remove_snd)

lemma source_keeps:
  assumes "rewrap_source env dir auth opn generate ex w = (r, w')"
  shows "disk_file w' = disk_file w"
proof -
  obtain x w1 where ld: "load_source_secret env dir opn w = (x, w1)" by force
  then have "disk_file w1 = disk_file w" unfolding load_source_secret_def by (rule load_keeps)
  then show ?thesis using assms
    by (auto simp: rewrap_source_def ld split: prod.splits sum.splits if_splits dest!: generate_keeps auth_keeps)
qed

lemma existing_keeps:
  "rewrap_existing env dir auth ex w = (r, w') \<Longrightarrow> disk_file w' = disk_file w"
  unfolding rewrap_existing_def file_present_def
  by (auto split: prod.splits sum.splits if_splits bool.splits dest!: os_stat_file(1) auth_keeps)

text \<open>What a successful migration rests on, when there is a repository to unlock.\<close>

definition unlocked :: "(string \<rightharpoonup> string) \<Rightarrow> bool" where
  "unlocked files \<longleftrightarrow> (\<exists>v i v'. auth (machine_ref dir) v = (Inr i, v') \<and> disk_file v dest_path = files dest_path)"

lemma promoted_success:
  assumes "rewrap_promoted env dir auth True bak w = (Inr ref, w')" "bak = [] \<or> bak = bak_path" "bak_path \<noteq> dest_path"
  shows "ref = machine_ref dir \<and> unlocked (disk_file w')"
proof -
  obtain i w1 where au: "auth (machine_ref dir) w = (Inr i, w1)"
    using assms(1) by (auto simp: rewrap_promoted_def Let_def split: prod.splits sum.splits)
  then have "ref = machine_ref dir" "w' = (if bak = [] then w1 else snd (os_remove (sk_disk env) bak w1))"
    using assms(1) by (auto simp: rewrap_promoted_def Let_def)
  then have "ref = machine_ref dir" "disk_file w dest_path = disk_file w' dest_path"
    using assms(2,3) auth_keeps [OF au] by (auto simp: remove_snd)
  then show ?thesis using au unfolding unlocked_def by blast
qed

lemma secret_success:
  assumes "rewrap_secret env dir auth opn protect True secret w = (Inr ref, w')" "bak_path \<noteq> dest_path"
  shows "ref = machine_ref dir \<and> unlocked (disk_file w')"
proof -
  obtain u where wr: "rewrap_written env dir auth opn True secret u = (Inr ref, w')"
    using assms(1) by (auto simp: rewrap_secret_def split: prod.splits option.splits)
  obtain x w1 where op: "opn (machine_tmp_ref dir) u = (x, w1)" by force
  obtain y v where au: "auth (machine_tmp_ref dir) w1 = (y, v)" by force
  have v: "rewrap_promote env dir auth True v = (Inr ref, w')"
    using wr by (cases x; cases y) (simp_all add: rewrap_written_def Let_def op au split: if_splits)
  obtain bak u where "promote_envelope env dir machine_tmp_name machine_envelope_name v = (Inr bak, u)"
      "rewrap_promoted env dir auth True bak u = (Inr ref, w')"
    using v by (auto simp: rewrap_promote_def split: prod.splits sum.splits)
  then obtain bak v where "rewrap_promoted env dir auth True bak v = (Inr ref, w')" "bak = [] \<or> bak = bak_path"
    by (metis promote_bak)
  then show ?thesis using promoted_success assms(2) by blast
qed

lemma existing_success:
  assumes "rewrap_existing env dir auth ex w = (Some (Inr ref), w')"
  shows "ref = machine_ref dir \<and> unlocked (disk_file w')"
proof -
  obtain b v where fp: "file_present env dest_path w = (b, v)" by force
  obtain x u where au: "auth (machine_ref dir) v = (x, u)" by force
  have b: b using assms by (cases b) (simp_all add: rewrap_existing_def fp)
  have "x = Inr (projr x)" "ref = machine_ref dir" "u = w'"
    using assms b by (cases x; simp add: rewrap_existing_def fp au split: if_splits)+
  then show ?thesis using au auth_keeps [OF au] unfolding unlocked_def by metis
qed

end

text \<open>The secret is generated only where no repository is: with one, the generator does not matter.\<close>

lemma source_without_generate:
  "rewrap_source env dir auth opn g True w = rewrap_source env dir auth opn g' True w"
  by (simp add: rewrap_source_def split: prod.splits sum.splits)

lemma repo_config_exists_present:
  assumes "repo_config_exists env loc w = (b, w')" "loc = [] \<or> disk_file w (win_join loc ''config'') \<noteq> None"
  shows b
  using assms by (auto simp: repo_config_exists_def split: if_splits prod.splits dest: os_stat_file(3) [OF _ refl])

lemma repo_config_keeps: "repo_config_exists env loc w = (b, w') \<Longrightarrow> disk_file w' = disk_file w"
  by (auto simp: repo_config_exists_def split: if_splits prod.splits dest: os_stat_file(1))

section \<open>The request of the installer (ops.go)\<close>

text \<open>
  What \<open>provisionSecrets\<close> reads and writes of the configuration, next to the files.
  \<open>authenticateRepository\<close> has restic open the repository with the secret the reference holds; the
  installer pins the repository id it learns if none is expected.
\<close>

record secret_config =
  sc_pilot_root :: string
  sc_journal_path :: string
  sc_staging_root :: string
  sc_repo_location :: string
  sc_expected_repo_id :: string
  sc_password_ref :: secret_ref
  sc_control_ref :: secret_ref
  sc_credential_refs :: "(string \<times> secret_ref) list"

record provision = "string disk" +
  pw_config :: secret_config

definition authenticate_repository :: "sealing_env \<Rightarrow> secret_ref \<Rightarrow> 'z secret_disk \<Rightarrow> (go_error + string) \<times> 'z secret_disk" where
  "authenticate_repository env ref w = (sk_unlocks env (dk_pos w) ref (disk_file w (sr_locator ref)), disk_step w)"

definition set_config :: "(secret_config \<Rightarrow> secret_config) \<Rightarrow> provision \<Rightarrow> provision" where
  "set_config f w = w\<lparr>pw_config := f (pw_config w)\<rparr>"

definition authenticate_and_pin :: "sealing_env \<Rightarrow> secret_ref \<Rightarrow> provision \<Rightarrow> (go_error + string) \<times> provision" where
  "authenticate_and_pin env ref w =
     (case authenticate_repository env ref w of
        (Inl e, w1) \<Rightarrow> (Inl e, w1)
      | (Inr i, w1) \<Rightarrow>
          (Inr i, if sc_expected_repo_id (pw_config w1) = [] \<and> i \<noteq> []
                  then set_config (\<lambda>c. c\<lparr>sc_expected_repo_id := i\<rparr>) w1 else w1))"

definition service_request :: "sealing_env \<Rightarrow> string \<Rightarrow> string \<Rightarrow> provision migrate_request" where
  "service_request env dir location =
     \<lparr>mg_dir = dir, mg_repo_location = location, mg_authenticate = Some (authenticate_and_pin env),
      mg_open = None, mg_protect = None, mg_generate = None\<rparr>"

lemma disk_file_config [simp]: "disk_file (set_config f w) = disk_file w"
  by (simp add: disk_file_def set_config_def)

lemma authenticate_and_pin_keeps: "authenticate_and_pin env ref w = (r, w') \<Longrightarrow> disk_file w' = disk_file w"
  by (auto simp: authenticate_and_pin_def authenticate_repository_def split: sum.splits if_splits)

interpretation mg: migrate_contract env dir "authenticate_and_pin env" "default_open env"
    "default_protect_machine env dir" "default_generate env" for env dir
proof unfold_locales
  show "default_protect_machine env dir name s w = (e, w') \<Longrightarrow> p \<noteq> win_join dir name \<Longrightarrow> disk_file w' p = disk_file w p"
    for name s e p and w w' :: provision
    unfolding default_protect_machine_def by (rule provider_protect_other)
qed (auto simp: default_generate_def dest: default_open_keeps authenticate_and_pin_keeps)

section \<open>provisionSecrets (ops.go)\<close>

definition secret_bytes :: "sealing_env \<Rightarrow> string \<Rightarrow> bool \<Rightarrow> 'z secret_disk \<Rightarrow> (go_error + string) \<times> 'z secret_disk" where
  "secret_bytes env dir repo_exists w =
     (case os_read (sk_disk env) (win_join dir legacy_password_name) w of
        (Inr b, w1) \<Rightarrow> (Inr (trim_space b), w1)
      | (Inl _, w1) \<Rightarrow>
          if repo_exists then
            (Inl (wrap_msg ErrConfig ''existing repository; refusing to generate a replacement password''), w1)
          else default_generate env w1)"

definition acl_apply :: "sealing_env \<Rightarrow> string \<Rightarrow> string \<Rightarrow> 'z secret_disk \<Rightarrow> go_error option \<times> 'z secret_disk" where
  "acl_apply env p profile w = (sk_acl env (dk_pos w) p profile, disk_step w)"

text \<open>The access list of the secrets must be set; those of the other directories may fail.\<close>

definition acl_strict ::
  "sealing_env \<Rightarrow> string \<Rightarrow> string \<Rightarrow> string \<Rightarrow> (string \<times> string) list \<Rightarrow> 'z secret_disk \<Rightarrow>
   go_error option \<times> 'z secret_disk" where
  "acl_strict env what p profile others w =
     (case acl_apply env p profile w of
        (Some e, w1) \<Rightarrow> (Some (Wrapped (what @ '' secret ACL: '') e ''''), w1)
      | (None, w1) \<Rightarrow> (None, foldl (\<lambda>v (q, pr). snd (acl_apply env q pr v)) w1 others))"

definition provision_user_envelope :: "sealing_env \<Rightarrow> string \<Rightarrow> provision \<Rightarrow> go_error option \<times> provision" where
  "provision_user_envelope env dir w =
     (case os_stat (sk_disk env) (win_join dir user_envelope_name) w of
        (Some NotExist, w1) \<Rightarrow>
          (case repo_config_exists env (sc_repo_location (pw_config w1)) w1 of (ex, w2) \<Rightarrow>
           (case secret_bytes env dir ex w2 of
              (Inl e, w3) \<Rightarrow> (Some e, w3)
            | (Inr pw, w3) \<Rightarrow>
                provider_protect env dir scope_user (win_base (win_join dir user_envelope_name)) pw w3))
      | (_, w1) \<Rightarrow> (None, w1))"

definition provision_pilot :: "sealing_env \<Rightarrow> string \<Rightarrow> provision \<Rightarrow> go_error option \<times> provision" where
  "provision_pilot env dir w =
     (case provision_user_envelope env dir (set_config (\<lambda>c. c\<lparr>sc_password_ref := user_ref dir\<rparr>) w) of
        (Some e, w1) \<Rightarrow> (Some e, w1)
      | (None, w1) \<Rightarrow>
          acl_strict env ''pilot'' dir ''pilot-working''
            [(win_dir (sc_journal_path (pw_config w1)), ''pilot-working''),
             (sc_staging_root (pw_config w1), ''restore-staging''),
             (win_join (sc_pilot_root (pw_config w1)) ''config'', ''pilot-working'')] w1)"

text \<open>A machine envelope that is there after the copy becomes the reference of the configuration.\<close>

definition adopt_envelope ::
  "sealing_env \<Rightarrow> string \<Rightarrow> string \<Rightarrow> string \<Rightarrow> (secret_ref \<Rightarrow> secret_config \<Rightarrow> secret_config) \<Rightarrow> string \<Rightarrow>
   provision \<Rightarrow> go_error option \<times> provision" where
  "adopt_envelope env dir src_name dest_name f purpose w =
     (case rewrap_named_to_machine env dir src_name dest_name w of
        (Some e, w1) \<Rightarrow> (Some e, w1)
      | (None, w1) \<Rightarrow>
          (case file_present env (win_join dir dest_name) w1 of
             (False, w2) \<Rightarrow> (None, w2)
           | (True, w2) \<Rightarrow>
               (None, set_config (f (no_secret_ref\<lparr>sr_purpose := purpose, sr_provider := provider_machine,
                        sr_locator := win_join dir dest_name\<rparr>)) w2)))"

definition provision_service :: "sealing_env \<Rightarrow> string \<Rightarrow> provision \<Rightarrow> go_error option \<times> provision" where
  "provision_service env dir w =
     (case rewrap_to_machine env (service_request env dir (sc_repo_location (pw_config w))) w of
        (Inl e, w1) \<Rightarrow> (Some e, w1)
      | (Inr ref, w1) \<Rightarrow>
          (case adopt_envelope env dir ''control-credential.user.dpapi'' ''control-credential.machine.dpapi''
                  (\<lambda>r c. c\<lparr>sc_control_ref := r\<rparr>) ''control-plane''
                  (set_config (\<lambda>c. c\<lparr>sc_password_ref := ref\<rparr>) w1) of
             (Some e, w2) \<Rightarrow> (Some e, w2)
           | (None, w2) \<Rightarrow>
               (case adopt_envelope env dir ''gateway-credential.user.dpapi'' ''gateway-credential.machine.dpapi''
                       (\<lambda>r c. c\<lparr>sc_credential_refs := AList.update ''restic-rest-password'' r (sc_credential_refs c)\<rparr>)
                       ''restic-rest-password'' w2 of
                  (Some e, w3) \<Rightarrow> (Some e, w3)
                | (None, w3) \<Rightarrow>
                    acl_strict env ''service'' dir ''service-secret''
                      [(win_dir (sc_journal_path (pw_config w3)), ''service-state''),
                       (sc_staging_root (pw_config w3), ''restore-staging'')] w3)))"

definition provision_secrets :: "sealing_env \<Rightarrow> string \<Rightarrow> provision \<Rightarrow> go_error option \<times> provision" where
  "provision_secrets env mode w =
     (let dir = win_join (sc_pilot_root (pw_config w)) ''secrets'' in
      case os_mkdir_all (sk_disk env) dir w of
        (Some e, w1) \<Rightarrow> (Some (io_go e), w1)
      | (None, w1) \<Rightarrow>
          if mode = ''pilot'' then provision_pilot env dir w1
          else if mode = ''service'' then provision_service env dir w1
          else (Some (PlainError ''mode must be pilot or service''), w1))"

section \<open>Facts\<close>

lemma machine_names: "simple_name machine_tmp_name" "simple_name machine_envelope_name"
    "simple_name (machine_envelope_name @ ''.bak'')" "simple_name user_envelope_name" "simple_name legacy_password_name"
  by (simp_all add: simple_name_def is_sep_def)

text \<open>The runs of the whole function: an early answer that writes nothing, or the wrapping of a secret.\<close>

lemma rewrap_runs:
  assumes "rewrap_to_machine env (service_request env dir loc) w = (r, w')"
  obtains (refused) e where "r = Inl e" "disk_file w' = disk_file w"
  | (existing) ex v where "rewrap_existing env dir (authenticate_and_pin env) ex v = (Some r, w')"
      "disk_file v = disk_file w"
  | (wrapped) ex sourced secret v where "disk_file v = disk_file w"
      "loc = [] \<or> disk_file w (win_join loc ''config'') \<noteq> None \<Longrightarrow> ex"
      "rewrap_secret env dir (authenticate_and_pin env) (default_open env) (default_protect_machine env dir)
         (ex \<or> sourced) secret v = (r, w')"
proof -
  obtain e1 w1 where mk: "os_mkdir_all (sk_disk env) dir w = (e1, w1)" by force
  obtain ex w2 where rc: "repo_config_exists env loc w1 = (ex, w2)" by force
  obtain x w3 where xs: "rewrap_existing env dir (authenticate_and_pin env) ex w2 = (x, w3)" by force
  obtain s w4 where so: "rewrap_source env dir (authenticate_and_pin env) (default_open env) (default_generate env) ex w3 = (s, w4)" by force
  note k = mkdir_keeps [OF mk] repo_config_keeps [OF rc] mg.existing_keeps [OF xs] mg.source_keeps [OF so]
  note run = assms [unfolded rewrap_to_machine_def service_request_def, simplified, unfolded Let_def, simplified]
  consider "dir = []" | e where "dir \<noteq> []" "e1 = Some e" | y where "dir \<noteq> []" "e1 = None" "x = Some y"
    | e where "dir \<noteq> []" "e1 = None" "x = None" "s = Inl e"
    | secret sourced where "dir \<noteq> []" "e1 = None" "x = None" "s = Inr (secret, sourced)"
    by (cases "dir = []"; cases e1; cases x; cases s) auto
  then show thesis
  proof cases
    case 1
    then show ?thesis using run by (intro refused) auto
  next
    case 2
    then show ?thesis using run k by (intro refused) (auto simp: mk)
  next
    case 3
    then show ?thesis using run existing xs k by (simp add: mk rc)
  next
    case 4
    then show ?thesis using run k by (intro refused) (auto simp: mk rc xs so)
  next
    case 5
    have "loc = [] \<or> disk_file w (win_join loc ''config'') \<noteq> None \<Longrightarrow> ex"
      using repo_config_exists_present [OF rc] k by simp
    moreover have "rewrap_secret env dir (authenticate_and_pin env) (default_open env) (default_protect_machine env dir)
        (ex \<or> sourced) secret w4 = (r, w')"
      using run 5 by (simp add: mk rc xs so)
    ultimately show ?thesis using k by (intro wrapped [of w4 ex sourced secret]) simp_all
  qed
qed

text \<open>The files outside the migration: only the envelope, its backup and the temporary one change.\<close>

lemma rewrap_other:
  assumes "rewrap_to_machine env (service_request env dir loc) w = (r, w')"
    "p \<notin> win_join dir ` {machine_tmp_name, machine_envelope_name, machine_envelope_name @ ''.bak''}"
  shows "disk_file w' p = disk_file w p"
  using assms(1)
proof (cases rule: rewrap_runs)
  case (wrapped ex sourced secret v)
  then show ?thesis using mg.secret_other [OF wrapped(3)] assms(2) by auto
qed (auto dest: mg.existing_keeps)

lemma rewrap_unlocks:
  assumes "rewrap_to_machine env (service_request env dir loc) w = (Inr ref, w')" "volume dir \<noteq> []"
    "loc = [] \<or> disk_file w (win_join loc ''config'') \<noteq> None"
  shows "ref = machine_ref dir \<and> mg.unlocked dir env (disk_file w')"
  using assms(1)
proof (cases rule: rewrap_runs)
  case (existing ex v)
  then show ?thesis using mg.existing_success by blast
next
  case (wrapped ex sourced secret v)
  have "win_join dir (machine_envelope_name @ ''.bak'') \<noteq> win_join dir machine_envelope_name"
    using win_join_inj [OF assms(2) machine_names(3,2)] by simp
  then show ?thesis using wrapped assms(3) by (intro mg.secret_success) auto
qed simp

lemma rewrap_without_generate:
  assumes "loc = [] \<or> disk_file w (win_join loc ''config'') \<noteq> None"
  shows "rewrap_to_machine env ((service_request env dir loc)\<lparr>mg_generate := g\<rparr>) w =
    rewrap_to_machine env (service_request env dir loc) w"
proof -
  obtain e1 w1 where mk: "os_mkdir_all (sk_disk env) dir w = (e1, w1)" by force
  obtain ex w2 where rc: "repo_config_exists env loc w1 = (ex, w2)" by force
  have ex: "ex = True" using repo_config_exists_present [OF rc] assms mkdir_keeps [OF mk] by simp
  obtain x w3 where xs: "rewrap_existing env dir (authenticate_and_pin env) True w2 = (x, w3)" by force
  have same: "rewrap_source env dir (authenticate_and_pin env) (default_open env) f True w3 =
      rewrap_source env dir (authenticate_and_pin env) (default_open env) (default_generate env) True w3" for f
    by (rule source_without_generate)
  show ?thesis
  proof (cases g)
    case (Some f)
    then show ?thesis
      by (cases e1; cases x) (simp_all add: rewrap_to_machine_def service_request_def mk rc ex xs Let_def same [of f])
  qed (simp add: service_request_def)
qed

section \<open>The named envelopes and the whole provisioning\<close>

lemma named_copy_other:
  assumes "rewrap_named_copy env dir src dest_name w = (r, w')" "p \<noteq> win_join dir dest_name"
  shows "disk_file w' p = disk_file w p"
proof -
  have rm: "disk_file (snd (os_remove d (win_join dir dest_name) v)) p = disk_file v p" for d and v :: "'a secret_disk"
    using os_remove_file(1) [of d "win_join dir dest_name" v "fst (os_remove d (win_join dir dest_name) v)"
        "snd (os_remove d (win_join dir dest_name) v)"] assms(2) by auto
  show ?thesis using assms unfolding rewrap_named_copy_def Let_def default_protect_machine_def
    by (auto split: prod.splits sum.splits option.splits if_splits simp: rm
        dest!: default_open_keeps provider_protect_other [where p = p])
qed

lemma rewrap_named_other:
  assumes "rewrap_named_to_machine env dir src dest_name w = (r, w')" "p \<noteq> win_join dir dest_name"
  shows "disk_file w' p = disk_file w p"
proof -
  obtain e w1 where st: "os_stat (sk_disk env) (win_join dir src) w = (e, w1)" by force
  obtain b w2 where fp: "file_present env (win_join dir dest_name) w1 = (b, w2)" by force
  obtain x w3 where op: "default_open env (machine_envelope_ref (win_join dir dest_name)) w2 = (x, w3)" by force
  have k: "disk_file w1 = disk_file w" "disk_file w2 = disk_file w1" "disk_file w3 = disk_file w2"
    using os_stat_file(1) [OF st] default_open_keeps [OF op] fp
    by (auto simp: file_present_def split: prod.splits dest: os_stat_file(1))
  show ?thesis
    using assms(1) k
    by (auto simp: rewrap_named_to_machine_def Let_def st fp op dest: named_copy_other [OF _ assms(2)]
        split: if_splits option.splits io_error.splits bool.splits sum.splits)
qed

lemma adopt_other:
  assumes "adopt_envelope env dir src dest_name f purpose w = (r, w')" "p \<noteq> win_join dir dest_name"
  shows "disk_file w' p = disk_file w p"
  using assms(1) unfolding adopt_envelope_def file_present_def
  by (auto split: prod.splits option.splits bool.splits if_splits
      dest!: rewrap_named_other [OF _ assms(2)] os_stat_file(1))

text \<open>Next to the files only the authenticator and the provisioning itself write the configuration.\<close>

lemma dpapi_more:
  "dpapi_protect env plain scope w = (x, w') \<Longrightarrow> disk.more w' = disk.more w"
  "dpapi_unprotect env blob w = (x, w') \<Longrightarrow> disk.more w' = disk.more w"
  by (auto simp: dpapi_protect_def dpapi_unprotect_def split: if_splits)

lemma open_more: "default_open env ref w = (x, w') \<Longrightarrow> disk.more w' = disk.more w"
  unfolding default_open_def provider_open_def file_open_def dpapi_open_def Let_def
  by (auto split: sum.splits prod.splits secret_provider.splits if_splits dest!: os_more(1) dpapi_more(2))

lemma protect_more: "provider_protect env dir scope name plain w = (e, w') \<Longrightarrow> disk.more w' = disk.more w"
  unfolding provider_protect_def
  by (auto split: sum.splits prod.splits option.splits if_splits dest!: os_more(3,4) dpapi_more(1))

lemma rewrap_named_more:
  assumes "rewrap_named_to_machine env dir src dest_name w = (r, w')"
  shows "disk.more w' = disk.more w"
proof -
  have copy: "rewrap_named_copy env dir s dest_name v = (r, v') \<Longrightarrow> disk.more v' = disk.more v" for s r and v v' :: "'a secret_disk"
    unfolding rewrap_named_copy_def Let_def default_protect_machine_def
    by (auto split: prod.splits sum.splits option.splits if_splits dest!: open_more protect_more)
  obtain e w1 where st: "os_stat (sk_disk env) (win_join dir src) w = (e, w1)" by force
  obtain b w2 where fp: "file_present env (win_join dir dest_name) w1 = (b, w2)" by force
  obtain x w3 where op: "default_open env (machine_envelope_ref (win_join dir dest_name)) w2 = (x, w3)" by force
  have k: "disk.more w1 = disk.more w" "disk.more w2 = disk.more w1" "disk.more w3 = disk.more w2"
    using os_more(2) [OF st] open_more [OF op] fp by (auto simp: file_present_def split: prod.splits dest: os_more(2))
  show ?thesis using assms k copy
    by (auto simp: rewrap_named_to_machine_def Let_def st fp op split: if_splits option.splits io_error.splits bool.splits sum.splits)
qed

lemma pw_config_more: "disk.more w' = disk.more w \<Longrightarrow> pw_config w' = pw_config w" for w w' :: provision
  by (cases w; cases w') simp

lemma adopt_password:
  assumes "adopt_envelope env dir src dest_name f purpose w = (r, w')"
    "\<And>ref c. sc_password_ref (f ref c) = sc_password_ref c"
  shows "sc_password_ref (pw_config w') = sc_password_ref (pw_config w)"
proof -
  obtain e w1 where rn: "rewrap_named_to_machine env dir src dest_name w = (e, w1)" by force
  obtain b w2 where fp: "file_present env (win_join dir dest_name) w1 = (b, w2)" by force
  have "disk.more w2 = disk.more w1"
    using fp by (auto simp: file_present_def split: prod.splits dest: os_more(2))
  then have "pw_config w1 = pw_config w" "pw_config w2 = pw_config w1"
    using pw_config_more [OF rewrap_named_more [OF rn]] pw_config_more by blast+
  then show ?thesis using assms
    by (auto simp: adopt_envelope_def rn fp set_config_def split: option.splits bool.splits)
qed

lemma acl_strict_keeps:
  assumes "acl_strict env what p profile others w = (r, w')"
  shows "disk_file w' = disk_file w \<and> disk.more w' = disk.more w"
proof -
  have "disk_file (foldl (\<lambda>v (q, pr). snd (acl_apply env q pr v)) v others) = disk_file v \<and>
      disk.more (foldl (\<lambda>v (q, pr). snd (acl_apply env q pr v)) v others) = disk.more v" for v :: "'a secret_disk"
    by (induction others arbitrary: v) (auto simp: acl_apply_def split: prod.splits)
  then show ?thesis using assms by (auto simp: acl_strict_def acl_apply_def split: option.splits)
qed

text \<open>
  The steps of a provisioning for the service: the password, the two named envelopes and the access
  lists, each only after the one before it succeeded.
\<close>

lemma provision_steps:
  assumes "provision_service env dir w = (r, w')"
  obtains (failed) e where "rewrap_to_machine env (service_request env dir (sc_repo_location (pw_config w))) w = (Inl e, w')"
      "r = Some e"
  | (ran) ref w1 e2 w2 where
      "rewrap_to_machine env (service_request env dir (sc_repo_location (pw_config w))) w = (Inr ref, w1)"
      "adopt_envelope env dir ''control-credential.user.dpapi'' ''control-credential.machine.dpapi''
         (\<lambda>r c. c\<lparr>sc_control_ref := r\<rparr>) ''control-plane'' (set_config (\<lambda>c. c\<lparr>sc_password_ref := ref\<rparr>) w1) = (e2, w2)"
      "w' = w2 \<and> r \<noteq> None \<or>
       (\<exists>e3 w3. adopt_envelope env dir ''gateway-credential.user.dpapi'' ''gateway-credential.machine.dpapi''
          (\<lambda>r c. c\<lparr>sc_credential_refs := AList.update ''restic-rest-password'' r (sc_credential_refs c)\<rparr>)
          ''restic-rest-password'' w2 = (e3, w3) \<and> disk_file w' = disk_file w3 \<and> disk.more w' = disk.more w3)"
proof -
  obtain x w1 where a: "rewrap_to_machine env (service_request env dir (sc_repo_location (pw_config w))) w = (x, w1)" by force
  show thesis
  proof (cases x)
    case (Inl e)
    then show ?thesis using assms a failed by (simp add: provision_service_def)
  next
    case (Inr ref)
    obtain e2 w2 where b: "adopt_envelope env dir ''control-credential.user.dpapi'' ''control-credential.machine.dpapi''
         (\<lambda>r c. c\<lparr>sc_control_ref := r\<rparr>) ''control-plane'' (set_config (\<lambda>c. c\<lparr>sc_password_ref := ref\<rparr>) w1) = (e2, w2)" by force
    obtain e3 w3 where c: "adopt_envelope env dir ''gateway-credential.user.dpapi'' ''gateway-credential.machine.dpapi''
          (\<lambda>r c. c\<lparr>sc_credential_refs := AList.update ''restic-rest-password'' r (sc_credential_refs c)\<rparr>)
          ''restic-rest-password'' w2 = (e3, w3)" by force
    have "w' = w2 \<and> r \<noteq> None \<or> disk_file w' = disk_file w3 \<and> disk.more w' = disk.more w3"
    proof (cases e2)
      case None
      show ?thesis
      proof (cases e3)
        case n: None
        then show ?thesis using assms acl_strict_keeps
          by (simp only: provision_service_def a Inr b c None prod.case sum.case option.case) blast
      qed (use assms in \<open>simp add: provision_service_def a Inr b c None\<close>)
    qed (use assms in \<open>auto simp: provision_service_def a Inr b c\<close>)
    then show ?thesis using ran [OF _ b] a Inr c by blast
  qed
qed

text \<open>The envelopes a provisioning for the service may write; every other file stays.\<close>

lemma provision_other:
  assumes "provision_service env dir w = (r, w')"
    "p \<notin> win_join dir ` {machine_tmp_name, machine_envelope_name, machine_envelope_name @ ''.bak'',
       ''control-credential.machine.dpapi'', ''gateway-credential.machine.dpapi''}"
  shows "disk_file w' p = disk_file w p"
  using assms(1)
proof (cases rule: provision_steps)
  case (failed e)
  then show ?thesis using rewrap_other [where p = p] assms(2) by auto
next
  case (ran ref w1 e2 w2)
  have "disk_file w1 p = disk_file w p" using rewrap_other [OF ran(1)] assms(2) by auto
  moreover have "disk_file w2 p = disk_file w1 p" using adopt_other [OF ran(2)] assms(2) by auto
  ultimately show ?thesis using ran(3) adopt_other [where p = p] assms(2) by fastforce
qed

lemma provision_unlocks:
  assumes "provision_service env dir w = (None, w')" "volume dir \<noteq> []"
    "sc_repo_location (pw_config w) = [] \<or> disk_file w (win_join (sc_repo_location (pw_config w)) ''config'') \<noteq> None"
  shows "sc_password_ref (pw_config w') = machine_ref dir \<and> mg.unlocked dir env (disk_file w')"
  using assms(1)
proof (cases rule: provision_steps)
  case (ran ref w1 e2 w2)
  have names: "simple_name ''control-credential.machine.dpapi''" "simple_name ''gateway-credential.machine.dpapi''"
    by (simp_all add: simple_name_def is_sep_def)
  have ne: "win_join dir machine_envelope_name \<noteq> win_join dir ''control-credential.machine.dpapi''"
      "win_join dir machine_envelope_name \<noteq> win_join dir ''gateway-credential.machine.dpapi''"
    using win_join_inj [OF assms(2) machine_names(2) names(1)] win_join_inj [OF assms(2) machine_names(2) names(2)]
    by simp_all
  obtain e3 w3 where gw: "adopt_envelope env dir ''gateway-credential.user.dpapi'' ''gateway-credential.machine.dpapi''
      (\<lambda>r c. c\<lparr>sc_credential_refs := AList.update ''restic-rest-password'' r (sc_credential_refs c)\<rparr>)
      ''restic-rest-password'' w2 = (e3, w3)" and k: "disk_file w' = disk_file w3" "disk.more w' = disk.more w3"
    using ran(3) by auto
  have un: "ref = machine_ref dir \<and> mg.unlocked dir env (disk_file w1)"
    using rewrap_unlocks [OF ran(1) assms(2,3)] .
  have "sc_password_ref (pw_config w') = sc_password_ref (pw_config w2)"
    using adopt_password [OF gw] pw_config_more [OF k(2)] by simp
  also have "\<dots> = ref" using adopt_password [OF ran(2)] by (simp add: set_config_def)
  finally have "sc_password_ref (pw_config w') = machine_ref dir" using un by simp
  moreover have "disk_file w' (win_join dir machine_envelope_name) = disk_file w1 (win_join dir machine_envelope_name)"
    using adopt_other [OF gw ne(2)] adopt_other [OF ran(2) ne(1)] k(1) by simp
  ultimately show ?thesis using un by (auto simp: mg.unlocked_def)
qed simp

text \<open>With a repository, the random source is not asked: the same provisioning for all of them.\<close>

lemma random_sel:
  "sk_disk (env\<lparr>sk_random := g\<rparr>) = sk_disk env" "sk_seal (env\<lparr>sk_random := g\<rparr>) = sk_seal env"
  "sk_unseal (env\<lparr>sk_random := g\<rparr>) = sk_unseal env" "sk_unlocks (env\<lparr>sk_random := g\<rparr>) = sk_unlocks env"
  "sk_acl (env\<lparr>sk_random := g\<rparr>) = sk_acl env"
  by simp_all

lemma random_dpapi:
  "dpapi_unprotect (env\<lparr>sk_random := g\<rparr>) b w = dpapi_unprotect env b w"
  "dpapi_protect (env\<lparr>sk_random := g\<rparr>) p s w = dpapi_protect env p s w"
  "dpapi_open (env\<lparr>sk_random := g\<rparr>) d s ref w = dpapi_open env d s ref w"
  "file_open (env\<lparr>sk_random := g\<rparr>) ref w = file_open env ref w"
proof -
  show u: "dpapi_unprotect (env\<lparr>sk_random := g\<rparr>) b w = dpapi_unprotect env b w" for b w
    unfolding dpapi_unprotect_def random_sel by (rule refl)
  show "dpapi_open (env\<lparr>sk_random := g\<rparr>) d s ref w = dpapi_open env d s ref w"
    unfolding dpapi_open_def random_sel u by (rule refl)
qed (unfold dpapi_protect_def file_open_def random_sel, (rule refl)+)

lemma random_free:
  "default_open (env\<lparr>sk_random := g\<rparr>) = default_open env"
  "default_protect_machine (env\<lparr>sk_random := g\<rparr>) = default_protect_machine env"
  "repo_config_exists (env\<lparr>sk_random := g\<rparr>) = repo_config_exists env"
  "authenticate_and_pin (env\<lparr>sk_random := g\<rparr>) = authenticate_and_pin env"
  "file_present (env\<lparr>sk_random := g\<rparr>) = file_present env"
  "acl_strict (env\<lparr>sk_random := g\<rparr>) = acl_strict env"
  "promote_envelope (env\<lparr>sk_random := g\<rparr>) = promote_envelope env"
  by (unfold default_open_def provider_open_def default_protect_machine_def provider_protect_def
      repo_config_exists_def authenticate_and_pin_def authenticate_repository_def file_present_def acl_strict_def
      acl_apply_def promote_envelope_def random_dpapi random_sel, (rule refl)+)

lemma random_free_load: "load_candidates (env\<lparr>sk_random := g\<rparr>) opn refs seen w = load_candidates env opn refs seen w"
proof (induction refs arbitrary: seen w)
  case (Cons ref refs)
  show ?case unfolding load_candidates.simps Cons.IH random_sel by (rule refl)
qed simp

lemma random_free_rewrap:
  "rewrap_existing (env\<lparr>sk_random := g\<rparr>) = rewrap_existing env"
  "rewrap_secret (env\<lparr>sk_random := g\<rparr>) = rewrap_secret env"
  "rewrap_source (env\<lparr>sk_random := g\<rparr>) = rewrap_source env"
  "adopt_envelope (env\<lparr>sk_random := g\<rparr>) = adopt_envelope env"
  by (unfold rewrap_existing_def rewrap_secret_def rewrap_written_def rewrap_promote_def rewrap_promoted_def
      rewrap_source_def load_source_secret_def adopt_envelope_def rewrap_named_to_machine_def rewrap_named_copy_def
      random_free random_free_load random_sel, (rule refl)+)

lemma random_free_request:
  "rewrap_to_machine (env\<lparr>sk_random := g\<rparr>) (service_request (env\<lparr>sk_random := g\<rparr>) dir loc) w =
   rewrap_to_machine env ((service_request env dir loc)\<lparr>mg_generate := Some (default_generate (env\<lparr>sk_random := g\<rparr>))\<rparr>) w"
proof -
  have s: "service_request (env\<lparr>sk_random := g\<rparr>) dir loc = service_request env dir loc"
    unfolding service_request_def random_free by (rule refl)
  let ?req = "(service_request env dir loc)\<lparr>mg_generate := Some (default_generate (env\<lparr>sk_random := g\<rparr>))\<rparr>"
  have m: "mg_dir ?req = mg_dir (service_request env dir loc)"
      "mg_repo_location ?req = mg_repo_location (service_request env dir loc)"
      "mg_authenticate ?req = mg_authenticate (service_request env dir loc)"
      "mg_open ?req = mg_open (service_request env dir loc)"
      "mg_protect ?req = mg_protect (service_request env dir loc)"
      "mg_generate ?req = Some (default_generate (env\<lparr>sk_random := g\<rparr>))"
      "mg_generate (service_request env dir loc) = None"
    by (simp_all add: service_request_def)
  show ?thesis
    unfolding rewrap_to_machine_def s random_free random_free_rewrap random_sel m option.case by (rule refl)
qed

lemma provision_without_random:
  assumes "sc_repo_location (pw_config w) = [] \<or> disk_file w (win_join (sc_repo_location (pw_config w)) ''config'') \<noteq> None"
  shows "provision_service (env\<lparr>sk_random := g\<rparr>) dir w = provision_service env dir w"
  unfolding provision_service_def random_free random_free_rewrap random_free_request
    rewrap_without_generate [OF assms] by (rule refl)

text \<open>The provisioning of the service is the provisioning in its secrets directory.\<close>

lemma provision_secrets_service:
  assumes "provision_secrets env ''service'' w = (r, w')"
  obtains (refused) "r \<noteq> None" "disk_file w' = disk_file w"
  | (ran) "provision_service env (win_join (sc_pilot_root (pw_config w)) ''secrets'') (disk_step w) = (r, w')"
  using assms unfolding provision_secrets_def os_mkdir_all_def Let_def
  by (auto split: option.splits io_fault.splits)

lemma disk_step_config [simp]: "pw_config (disk_step w) = pw_config w"
  by (simp add: disk_step_def)

lemma authenticated_repository:
  "authenticate_and_pin env ref v = (Inr i, v') \<Longrightarrow> authenticate_repository env ref v = (Inr i, disk_step v)"
  by (auto simp: authenticate_and_pin_def authenticate_repository_def split: sum.splits if_splits)

lemma mkdir_random: "os_mkdir_all (sk_disk (env\<lparr>sk_random := g\<rparr>)) p w = os_mkdir_all (sk_disk env) p w"
  by simp

text \<open>What the installer keeps of an earlier provisioning.\<close>

definition installer_names :: "string list" where
  "installer_names = [user_envelope_name, legacy_password_name, ''control-credential.user.dpapi'', ''gateway-credential.user.dpapi'']"

lemma installer_names_kept:
  assumes "volume dir \<noteq> []" "n \<in> set installer_names"
  shows "win_join dir n \<notin> win_join dir ` {machine_tmp_name, machine_envelope_name, machine_envelope_name @ ''.bak'',
       ''control-credential.machine.dpapi'', ''gateway-credential.machine.dpapi''}"
proof
  have n: "simple_name n" using assms(2) by (auto simp: installer_names_def simple_name_def is_sep_def)
  assume "win_join dir n \<in> win_join dir ` {machine_tmp_name, machine_envelope_name, machine_envelope_name @ ''.bak'',
       ''control-credential.machine.dpapi'', ''gateway-credential.machine.dpapi''}"
  then obtain m where m: "m \<in> {machine_tmp_name, machine_envelope_name, machine_envelope_name @ ''.bak'',
       ''control-credential.machine.dpapi'', ''gateway-credential.machine.dpapi''}" "win_join dir n = win_join dir m" by blast
  moreover have "simple_name m" using m(1) by (elim insertE emptyE) (simp_all add: simple_name_def is_sep_def)
  ultimately have "n = m" using win_join_inj [OF assms(1) n] by simp
  then show False using m(1) assms(2) unfolding installer_names_def by (elim insertE emptyE) simp_all
qed

end
