(* ===== verification/Pilot_Config.thy ===== *)
theory Pilot_Config
  imports Domain_Backup Files
begin

text \<open>
  The configuration file of a device (\<open>internal/config/config.go\<close>): its fields, what is checked when
  it is loaded and what stands in for a file that is absent. Decoding the JSON into the struct is a
  parameter of the load.
\<close>

record config_file =
  cf_device_id :: string
  cf_installation_id :: string
  cf_pilot_root :: string
  cf_restic_pin :: binary_pin
  cf_rclone_pin :: binary_pin
  cf_repository :: repository_descriptor
  cf_password_ref :: secret_ref
  cf_source_roots :: "string list"
  cf_exclude_paths :: "string list"
  cf_staging_root :: string
  cf_journal_path :: string
  cf_cache_dir :: string
  cf_temp_dir :: string
  cf_vss_mode :: vss_mode
  cf_rclone_config_path :: string
  cf_control_plane_url :: string
  cf_control_secret_ref :: secret_ref
  cf_site_id :: string

definition strip_bom :: "string \<Rightarrow> string" where
  "strip_bom b = (if take 3 b = [CHR 0xEF, CHR 0xBB, CHR 0xBF] then drop 3 b else b)"

text \<open>The check fills in the default mode, so it returns the file as well.\<close>

definition config_validate :: "config_file \<Rightarrow> go_error option \<times> config_file" where
  "config_validate f =
     (if bp_path (cf_restic_pin f) = [] \<or> bp_sha256 (cf_restic_pin f) = [] then
        (Some (wrap_msg ErrConfig ''restic pin required''), f)
      else if rd_backend_kind (cf_repository f) = NoBackend then
        (Some (wrap_msg ErrConfig ''repository required''), f)
      else case repository_validate (cf_repository f) of Some e \<Rightarrow> (Some e, f)
      | None \<Rightarrow>
          let g = (if cf_vss_mode f = NoVSSMode then f\<lparr>cf_vss_mode := VSSRequired\<rparr> else f) in
          if cf_vss_mode g \<noteq> VSSRequired \<and> cf_vss_mode g \<noteq> VSSDisabled then
            (Some (wrap_msg ErrConfig ''invalid vss_mode''), g)
          else if cf_control_plane_url g \<noteq> [] \<and> str_contains (cf_control_plane_url g) ''@'' then
            (Some (wrap_msg ErrConfig ''credentials must not appear in control-plane URLs''), g)
          else (None, g))"

definition config_load ::
  "(string \<Rightarrow> go_error + config_file) \<Rightarrow> string disk_env \<Rightarrow> string \<Rightarrow> (string, 'z) disk_scheme \<Rightarrow>
   (go_error + config_file) \<times> (string, 'z) disk_scheme" where
  "config_load decode env p w =
     (case os_read env p w of
        (Inl e, w1) \<Rightarrow> (Inl (io_go e), w1)
      | (Inr b, w1) \<Rightarrow>
          (case decode (strip_bom b) of
             Inl e \<Rightarrow> Inl e
           | Inr f \<Rightarrow> (case config_validate f of (Some e, _) \<Rightarrow> Inl e | (None, g) \<Rightarrow> Inr g), w1))"

abbreviation pilot_dir :: string where "pilot_dir \<equiv> ''C:'' @ [CHR 0x5C] @ ''Stowline''"

definition under_pilot :: "string list \<Rightarrow> string" where
  "under_pilot names = pilot_dir @ concat (map (\<lambda>n. CHR 0x5C # n) names)"

definition default_pilot :: config_file where
  "default_pilot =
     \<lparr>cf_device_id = ''pilot-device'', cf_installation_id = ''pilot-install'', cf_pilot_root = pilot_dir,
      cf_restic_pin = \<lparr>bp_product = ''restic'', bp_version = ''0.19.1'', bp_path = under_pilot [''bin'', ''restic.exe''],
        bp_sha256 = ''b0dd1fd21eea5d8fe1325f55f7118213c21f36de8a261e04c0624a5ab9fd7830''\<rparr>,
      cf_rclone_pin = \<lparr>bp_product = ''rclone'', bp_version = ''1.75.0'', bp_path = under_pilot [''bin'', ''rclone.exe''],
        bp_sha256 = ''8be30f02266a6eaad9d481941ef287b9744bb7140034b097ad862a2ccff3e24c''\<rparr>,
      cf_repository = \<lparr>rd_backend_kind = BackendLocal, rd_location = under_pilot [''Repos'', ''local''],
        rd_expected_repo_id = [], rd_generation_id = ''pilot-gen-1'', rd_device_id = ''pilot-device'',
        rd_transport_profile = ''local-qualification'', rd_credential_refs = [],
        rd_tls = \<lparr>tls_min_version = [], tls_insecure_skip_verify = False, tls_pinned_ca_path = []\<rparr>,
        rd_capabilities = default_capabilities BackendLocal\<rparr>,
      cf_password_ref = no_secret_ref\<lparr>sr_purpose := ''restic-repository-password'', sr_provider := ''dpapi-user'',
        sr_locator := under_pilot [''secrets'', ''restic-password.user.dpapi'']\<rparr>,
      cf_source_roots = [under_pilot [''TestCorpus'']], cf_exclude_paths = [],
      cf_staging_root = under_pilot [''Restore''], cf_journal_path = under_pilot [''state'', ''journal.sqlite''],
      cf_cache_dir = under_pilot [''cache''], cf_temp_dir = under_pilot [''cache'', ''tmp''],
      cf_vss_mode = VSSRequired, cf_rclone_config_path = [], cf_control_plane_url = [],
      cf_control_secret_ref = no_secret_ref, cf_site_id = []\<rparr>"

section \<open>Facts\<close>

text \<open>The configuration that stands in for an absent file passes its own check, unchanged.\<close>

lemma default_pilot_valid: "config_validate default_pilot = (None, default_pilot)"
  by code_simp

lemma config_load_valid:
  assumes "config_load decode env p w = (Inr g, w')"
  shows "\<exists>b f. disk_file w p = Some b \<and> decode (strip_bom b) = Inr f \<and> config_validate f = (None, g) \<and>
    disk_file w' = disk_file w \<and> repository_validate (cf_repository g) = None \<and> cf_vss_mode g \<in> {VSSRequired, VSSDisabled}"
proof -
  obtain x w1 where rd: "os_read env p w = (x, w1)" by force
  obtain b where b: "x = Inr b" "w1 = w'" using assms rd by (cases x) (auto simp: config_load_def)
  then have d: "disk_file w p = Some b" "disk_file w' = disk_file w"
    using os_read_cases(1,2) [OF rd] by auto
  obtain f where f: "decode (strip_bom b) = Inr f" "config_validate f = (None, g)"
    using assms rd b by (auto simp: config_load_def split: sum.splits prod.splits option.splits)
  then have "repository_validate (cf_repository g) = None \<and> cf_vss_mode g \<in> {VSSRequired, VSSDisabled}"
    by (auto simp: config_validate_def Let_def split: if_splits option.splits)
  then show ?thesis using d f by blast
qed

end
