(* ===== verification/Enrollment.thy ===== *)
theory Enrollment
  imports Secrets_Migrate Pilot_Config
begin

text \<open>
  Enrolling a device with the control plane (\<open>internal/enroll/enroll.go\<close>, \<open>persistConfig\<close> of
  \<open>ops.go\<close>): a probe of the local secret store before the one-time token is spent, the remote
  enrollment, the local persistence, and the abort of the remote device when that fails. The world
  is the disk with the configuration in memory, and a log of what the control plane was asked.

  \<open>CredentialRefs\<close> is a Go map, shared by a copy of the configuration: restoring the copy restores
  every field but the entries of a map that was there before.
\<close>

record enroll_result =
  eo_device_id :: string
  eo_installation_id :: string
  eo_generation_id :: string
  eo_control_credential :: string
  eo_gateway_username :: string
  eo_gateway_credential :: string
  eo_gateway_location :: string
  eo_site_id :: string

record enroll_summary =
  ey_device_id :: string
  ey_installation_id :: string
  ey_generation_id :: string
  ey_site_id :: string
  ey_control_plane_url :: string
  ey_mode :: string

text \<open>The configuration in memory, whether it was loaded without a map of references, and the requests sent.\<close>

record enrollment = "string disk" +
  ew_config :: config_file
  ew_refs_nil :: bool
  ew_tokens :: "string list"
  ew_aborted :: "string list"

record enroll_env = sealing_env +
  en_enroll :: "nat \<Rightarrow> string \<Rightarrow> go_error + enroll_result"
  en_abort :: "nat \<Rightarrow> string \<Rightarrow> go_error option"
  en_encode :: "config_file \<Rightarrow> go_error + string"

definition secret_part :: "enroll_env \<Rightarrow> sealing_env" where
  "secret_part E = sealing_env.truncate E"

section \<open>Modes and names\<close>

abbreviation mode_pilot :: string where "mode_pilot \<equiv> ''pilot''"
abbreviation mode_service :: string where "mode_service \<equiv> ''service''"

abbreviation control_user_name :: string where "control_user_name \<equiv> ''control-credential.user.dpapi''"
abbreviation control_machine_name :: string where "control_machine_name \<equiv> ''control-credential.machine.dpapi''"
abbreviation gateway_user_name :: string where "gateway_user_name \<equiv> ''gateway-credential.user.dpapi''"
abbreviation gateway_machine_name :: string where "gateway_machine_name \<equiv> ''gateway-credential.machine.dpapi''"
abbreviation gateway_user_file :: string where "gateway_user_file \<equiv> ''gateway-username.txt''"
abbreviation probe_user_name :: string where "probe_user_name \<equiv> ''enroll-preflight.user.dpapi.tmp''"
abbreviation probe_machine_name :: string where "probe_machine_name \<equiv> ''enroll-preflight.machine.dpapi.tmp''"

definition parse_mode :: "string \<Rightarrow> go_error + string" where
  "parse_mode raw =
     (let m = trim_space (to_lower raw) in
      if m = [] \<or> m = mode_pilot then Inr mode_pilot
      else if m = mode_service then Inr mode_service
      else Inl (wrap_msg ErrConfig ''enroll --mode must be pilot or service''))"

definition control_name :: "string \<Rightarrow> string" where
  "control_name mode = (if mode = mode_service then control_machine_name else control_user_name)"

definition gateway_name :: "string \<Rightarrow> string" where
  "gateway_name mode = (if mode = mode_service then gateway_machine_name else gateway_user_name)"

definition mode_provider :: "string \<Rightarrow> string" where
  "mode_provider mode = (if mode = mode_service then provider_machine else provider_user)"

definition mode_scope :: "string \<Rightarrow> string" where
  "mode_scope mode = (if mode = mode_service then scope_machine else scope_user)"

section \<open>Preflight\<close>

definition enroll_preflight :: "sealing_env \<Rightarrow> string \<Rightarrow> string \<Rightarrow> 'z secret_disk \<Rightarrow> go_error option \<times> 'z secret_disk" where
  "enroll_preflight env mode dir w =
     (case os_mkdir_all (sk_disk env) dir w of
        (Some e, w1) \<Rightarrow>
          (Some (wrap_msg ErrConfig (''cannot create service secrets directory: '' @ error_text (io_go e))), w1)
      | (None, w1) \<Rightarrow>
          let probe = (if mode = mode_service then probe_machine_name else probe_user_name);
              path = win_join dir probe; drop_probe = (\<lambda>v. snd (os_remove (sk_disk env) path v));
              plain = ''stowline-enroll-preflight''
          in case provider_protect env dir (mode_scope mode) probe plain (drop_probe w1) of
               (Some e, w2) \<Rightarrow>
                 (Some (wrap_msg ErrConfig ((if mode = mode_service then ''service enrollment'' else ''enrollment'') @
                    '' cannot write secret envelopes ('' @ error_text e @ '')'')), w2)
             | (None, w2) \<Rightarrow>
                 (case dpapi_open env dir (mode_scope mode)
                         (no_secret_ref\<lparr>sr_locator := path, sr_provider := mode_provider mode\<rparr>) w2 of
                    (Inl e, w3) \<Rightarrow>
                      (Some (wrap_msg ErrSecretScopeMismatch (''enrollment probe decrypt failed: '' @ error_text e)), drop_probe w3)
                  | (Inr back, w3) \<Rightarrow>
                      (if back = plain then None
                       else Some (wrap_msg ErrSecretScopeMismatch ''enrollment probe round-trip mismatch''), drop_probe w3)))"

section \<open>Bind\<close>

definition set_ref :: "string \<Rightarrow> secret_ref \<Rightarrow> repository_descriptor \<Rightarrow> repository_descriptor" where
  "set_ref k ref d = d\<lparr>rd_credential_refs := AList.update k ref (rd_credential_refs d)\<rparr>"

definition bind_gateway :: "string \<Rightarrow> string \<Rightarrow> enroll_result \<Rightarrow> repository_descriptor \<Rightarrow> repository_descriptor" where
  "bind_gateway dir mode out d =
     set_ref ''restic-rest-password'' (no_secret_ref\<lparr>sr_purpose := ''restic-rest-password'',
         sr_provider := mode_provider mode, sr_locator := win_join dir (gateway_name mode)\<rparr>)
       (set_ref ''restic-rest-username'' (no_secret_ref\<lparr>sr_purpose := ''restic-rest-username'',
           sr_provider := provider_file, sr_locator := win_join dir gateway_user_file\<rparr>)
         (d\<lparr>rd_backend_kind := BackendRESTGateway, rd_location := eo_gateway_location out,
            rd_generation_id := eo_generation_id out, rd_device_id := eo_device_id out,
            rd_transport_profile := ''lab-insecure-http'',
            rd_capabilities := (default_capabilities BackendRESTGateway)\<lparr>cap_qualification_only := True\<rparr>,
            rd_expected_repo_id := []\<rparr>))"

definition enroll_bind :: "config_file \<Rightarrow> enroll_result \<Rightarrow> string \<Rightarrow> string \<Rightarrow> go_error + config_file" where
  "enroll_bind cfg out url raw_mode =
     (if eo_device_id out = [] then Inl (wrap_msg ErrConfig ''incomplete enrollment'')
      else case parse_mode raw_mode of Inl e \<Rightarrow> Inl e
      | Inr mode \<Rightarrow>
          let dir = win_join (cf_pilot_root cfg) ''secrets'';
              bound = cfg\<lparr>cf_device_id := eo_device_id out, cf_installation_id := eo_installation_id out,
                cf_control_plane_url := url, cf_site_id := eo_site_id out,
                cf_control_secret_ref := no_secret_ref\<lparr>sr_purpose := ''control-plane'',
                  sr_provider := mode_provider mode, sr_locator := win_join dir (control_name mode)\<rparr>\<rparr>
          in Inr (if eo_gateway_location out = [] then bound
                  else bound\<lparr>cf_repository := bind_gateway dir mode out (cf_repository bound)\<rparr>))"

section \<open>Writing and scrubbing\<close>

definition write_username :: "sealing_env \<Rightarrow> enroll_result \<Rightarrow> config_file \<Rightarrow> 'z secret_disk \<Rightarrow> go_error option \<times> 'z secret_disk" where
  "write_username env out cfg w =
     (if eo_gateway_username out = [] then (None, w)
      else case map_of (rd_credential_refs (cf_repository cfg)) ''restic-rest-username'' of
        None \<Rightarrow> (None, w)
      | Some ref \<Rightarrow>
          if sr_locator ref = [] then (None, w)
          else (case os_write (sk_disk env) (sr_locator ref) (eo_gateway_username out) w of
                  (e, w1) \<Rightarrow> (map_option io_go e, w1)))"

definition write_envelopes ::
  "sealing_env \<Rightarrow> string \<Rightarrow> string \<Rightarrow> enroll_result \<Rightarrow> config_file \<Rightarrow> 'z secret_disk \<Rightarrow> go_error option \<times> 'z secret_disk" where
  "write_envelopes env dir mode out cfg w =
     (case os_mkdir_all (sk_disk env) dir w of
        (Some e, w1) \<Rightarrow> (Some (io_go e), w1)
      | (None, w1) \<Rightarrow>
          (case provider_protect env dir (mode_scope mode) (control_name mode) (eo_control_credential out) w1 of
             (Some e, w2) \<Rightarrow> (Some (Wrapped ''protect control credential: '' e ''''), w2)
           | (None, w2) \<Rightarrow>
               (case (if eo_gateway_credential out = [] then (None, w2)
                      else provider_protect env dir (mode_scope mode) (gateway_name mode) (eo_gateway_credential out) w2) of
                  (Some e, w3) \<Rightarrow> (Some (Wrapped ''protect gateway credential: '' e ''''), w3)
                | (None, w3) \<Rightarrow> write_username env out cfg w3)))"

definition scrub_names :: "string \<Rightarrow> string list" where
  "scrub_names mode = [control_name mode, gateway_name mode, gateway_user_file, probe_user_name, probe_machine_name]"

definition scrub_enrollment_files :: "sealing_env \<Rightarrow> string \<Rightarrow> string \<Rightarrow> 'z secret_disk \<Rightarrow> 'z secret_disk" where
  "scrub_enrollment_files env dir mode w =
     foldl (\<lambda>v n. snd (os_remove (sk_disk env) (win_join dir n) v)) w (scrub_names mode)"

section \<open>persistConfig (ops.go) and persistLocal\<close>

definition config_path :: "config_file \<Rightarrow> string" where
  "config_path cfg = win_join (win_join (cf_pilot_root cfg) ''config'') ''pilot.json''"

definition persist_config :: "enroll_env \<Rightarrow> config_file \<Rightarrow> enrollment \<Rightarrow> go_error option \<times> enrollment" where
  "persist_config E cfg w =
     (case os_mkdir_all (sk_disk E) (win_join (cf_pilot_root cfg) ''config'') w of
        (Some e, w1) \<Rightarrow> (Some (io_go e), w1)
      | (None, w1) \<Rightarrow>
          (case en_encode E cfg of
             Inl e \<Rightarrow> (Some e, w1)
           | Inr b \<Rightarrow> (case os_write (sk_disk E) (config_path cfg) b w1 of (e, w2) \<Rightarrow> (map_option io_go e, w2))))"

text \<open>\<open>*req.Cfg = orig\<close>, with the shared map.\<close>

definition restore_config :: "config_file \<Rightarrow> bool \<Rightarrow> config_file \<Rightarrow> config_file" where
  "restore_config orig refs_nil cur =
     (if refs_nil then orig
      else orig\<lparr>cf_repository := (cf_repository orig)\<lparr>rd_credential_refs := rd_credential_refs (cf_repository cur)\<rparr>\<rparr>)"

definition put_config :: "config_file \<Rightarrow> enrollment \<Rightarrow> enrollment" where
  "put_config cfg w = w\<lparr>ew_config := cfg\<rparr>"

definition undo_local :: "enroll_env \<Rightarrow> config_file \<Rightarrow> string \<Rightarrow> string \<Rightarrow> enrollment \<Rightarrow> enrollment" where
  "undo_local E orig dir mode w =
     scrub_enrollment_files (secret_part E) dir mode (put_config (restore_config orig (ew_refs_nil w) (ew_config w)) w)"

definition enroll_acl :: "enroll_env \<Rightarrow> string \<Rightarrow> string \<Rightarrow> enrollment \<Rightarrow> go_error option \<times> enrollment" where
  "enroll_acl E dir mode w =
     (case acl_apply (secret_part E) dir (if mode = mode_service then ''service-secret'' else ''pilot-working'') w of
        (Some e, w1) \<Rightarrow> (Some (Wrapped ''enrollment secret ACL: '' e ''''), w1) | (None, w1) \<Rightarrow> (None, w1))"

definition persist_bound :: "enroll_env \<Rightarrow> config_file \<Rightarrow> string \<Rightarrow> string \<Rightarrow> enrollment \<Rightarrow> go_error option \<times> enrollment" where
  "persist_bound E orig dir mode w =
     (case persist_config E (ew_config w) w of
        (None, w1) \<Rightarrow> (None, w1)
      | (Some e, w1) \<Rightarrow>
          (Some e, undo_local E orig dir mode
             (snd (persist_config E (restore_config orig (ew_refs_nil w1) (ew_config w1)) w1))))"

definition persist_local :: "enroll_env \<Rightarrow> string \<Rightarrow> string \<Rightarrow> string \<Rightarrow> enroll_result \<Rightarrow> enrollment \<Rightarrow> go_error option \<times> enrollment" where
  "persist_local E url mode dir out w =
     (let orig = ew_config w in
      case enroll_bind orig out url mode of
        Inl e \<Rightarrow> (Some e, put_config orig w)
      | Inr bound \<Rightarrow>
          (case write_envelopes (secret_part E) dir mode out bound (put_config bound w) of
             (Some e, w1) \<Rightarrow> (Some e, undo_local E orig dir mode w1)
           | (None, w1) \<Rightarrow>
               (case enroll_acl E dir mode w1 of
                  (Some e, w2) \<Rightarrow> (Some e, undo_local E orig dir mode w2)
                | (None, w2) \<Rightarrow>
                    persist_bound E orig dir mode
                      (put_config ((ew_config w2)\<lparr>cf_source_roots := cf_source_roots orig\<rparr>) w2))))"

section \<open>Run\<close>

definition client_enroll :: "enroll_env \<Rightarrow> string \<Rightarrow> enrollment \<Rightarrow> (go_error + enroll_result) \<times> enrollment" where
  "client_enroll E token w = (en_enroll E (dk_pos w) token, disk_step (w\<lparr>ew_tokens := ew_tokens w @ [token]\<rparr>))"

definition client_abort :: "enroll_env \<Rightarrow> string \<Rightarrow> enrollment \<Rightarrow> go_error option \<times> enrollment" where
  "client_abort E cred w = (en_abort E (dk_pos w) cred, disk_step (w\<lparr>ew_aborted := ew_aborted w @ [cred]\<rparr>))"

definition enroll_remote :: "enroll_env \<Rightarrow> string \<Rightarrow> string \<Rightarrow> string \<Rightarrow> string \<Rightarrow> enrollment \<Rightarrow> (go_error + enroll_summary) \<times> enrollment" where
  "enroll_remote E url token mode dir w =
     (case client_enroll E token w of
        (Inl e, w1) \<Rightarrow> (Inl e, w1)
      | (Inr out, w1) \<Rightarrow>
          (case persist_local E url mode dir out w1 of
             (Some e, w2) \<Rightarrow>
               (case client_abort E (eo_control_credential out) w2 of
                  (Some a, w3) \<Rightarrow>
                    (Inl (Wrapped ''local enrollment persistence failed ('' e (''); remote abort also failed: '' @ error_text a)), w3)
                | (None, w3) \<Rightarrow>
                    (Inl (Wrapped ''local enrollment persistence failed; remote device aborted: '' e ''''), w3))
           | (None, w2) \<Rightarrow>
               (Inr \<lparr>ey_device_id = eo_device_id out, ey_installation_id = eo_installation_id out,
                     ey_generation_id = eo_generation_id out, ey_site_id = eo_site_id out,
                     ey_control_plane_url = url, ey_mode = mode\<rparr>, w2)))"

definition enroll_run :: "enroll_env \<Rightarrow> string \<Rightarrow> string \<Rightarrow> string \<Rightarrow> enrollment \<Rightarrow> (go_error + enroll_summary) \<times> enrollment" where
  "enroll_run E raw_mode url token w =
     (case parse_mode raw_mode of Inl e \<Rightarrow> (Inl e, w)
      | Inr mode \<Rightarrow>
          if trim_space url = [] \<or> trim_space token = [] then
            (Inl (wrap_msg ErrConfig ''enroll --url and --token required''), w)
          else
            let dir = win_join (cf_pilot_root (ew_config w)) ''secrets'' in
            case enroll_preflight (secret_part E) mode dir w of
              (Some e, w1) \<Rightarrow> (Inl e, w1)
            | (None, w1) \<Rightarrow> enroll_remote E url token mode dir w1)"

definition diagnostic_string :: "enroll_summary option \<Rightarrow> string" where
  "diagnostic_string r =
     (case r of None \<Rightarrow> ''enrollment incomplete''
      | Some s \<Rightarrow> ''enrolled device_id='' @ ey_device_id s @ '' installation_id='' @ ey_installation_id s @
          '' generation_id='' @ ey_generation_id s @ '' site_id='' @ ey_site_id s @ '' mode='' @ ey_mode s @
          '' (credentials stored, not printed)'')"

section \<open>Facts\<close>

text \<open>The steps on the disk leave the configuration in memory and the log alone.\<close>

lemma enrollment_more:
  "disk.more w' = disk.more w \<Longrightarrow> ew_config w' = ew_config w \<and> ew_refs_nil w' = ew_refs_nil w \<and>
     ew_tokens w' = ew_tokens w \<and> ew_aborted w' = ew_aborted w" for w w' :: enrollment
  by (cases w; cases w') simp

lemma preflight_more: "enroll_preflight env mode dir w = (r, w') \<Longrightarrow> disk.more w' = disk.more w"
proof -
  assume a: "enroll_preflight env mode dir w = (r, w')"
  let ?probe = "if mode = mode_service then probe_machine_name else probe_user_name"
  let ?path = "win_join dir ?probe" and ?plain = "''stowline-enroll-preflight''"
  obtain e1 w1 where m: "os_mkdir_all (sk_disk env) dir w = (e1, w1)" by force
  obtain e2 w2 where p: "provider_protect env dir (mode_scope mode) ?probe ?plain (snd (os_remove (sk_disk env) ?path w1)) = (e2, w2)" by force
  obtain x w3 where o: "dpapi_open env dir (mode_scope mode)
      (no_secret_ref\<lparr>sr_locator := ?path, sr_provider := mode_provider mode\<rparr>) w2 = (x, w3)" by force
  have "disk.more w1 = disk.more w" using os_more(4) [OF m] .
  moreover have "disk.more w2 = disk.more w1" using protect_more [OF p] by simp
  moreover have "disk.more w3 = disk.more w2"
    using o by (auto simp: dpapi_open_def Let_def split: prod.splits sum.splits if_splits dest!: os_more(1) dpapi_more(2))
  ultimately show ?thesis using a
    by (cases e1; cases e2; cases x) (auto simp: enroll_preflight_def Let_def m p o)
qed

lemma write_envelopes_more: "write_envelopes env dir mode out cfg w = (r, w') \<Longrightarrow> disk.more w' = disk.more w"
  unfolding write_envelopes_def write_username_def
  by (auto split: prod.splits option.splits if_splits dest!: os_more(3,4) protect_more)

lemma persist_config_more: "persist_config E cfg w = (r, w') \<Longrightarrow> disk.more w' = disk.more w"
  unfolding persist_config_def
  by (auto split: prod.splits option.splits sum.splits dest!: os_more(3,4))

lemma scrub_more [simp]: "disk.more (scrub_enrollment_files env dir mode w) = disk.more w"
proof -
  have "disk.more (foldl (\<lambda>v n. snd (os_remove d (win_join dir n) v)) v ns) = disk.more v" for d ns and v :: "'a secret_disk"
    by (induction ns arbitrary: v) simp_all
  then show ?thesis by (simp add: scrub_enrollment_files_def)
qed

lemma enroll_acl_more: "enroll_acl E dir mode w = (r, w') \<Longrightarrow> disk.more w' = disk.more w"
  by (auto simp: enroll_acl_def acl_apply_def split: option.splits)

text \<open>The log, and the configuration after a failed attempt to store it: all of it but the shared map.\<close>

definition only_refs_differ :: "config_file \<Rightarrow> config_file \<Rightarrow> bool" where
  "only_refs_differ a b \<longleftrightarrow>
     (\<exists>refs. a = b\<lparr>cf_repository := (cf_repository b)\<lparr>rd_credential_refs := refs\<rparr>\<rparr>)"

lemma restore_only_refs: "only_refs_differ (restore_config orig n cur) orig"
  unfolding only_refs_differ_def restore_config_def
  by (cases n) (auto intro: exI [of _ "rd_credential_refs (cf_repository orig)"])

definition same_log :: "enrollment \<Rightarrow> enrollment \<Rightarrow> bool" where
  "same_log w' w \<longleftrightarrow> ew_tokens w' = ew_tokens w \<and> ew_aborted w' = ew_aborted w"

lemma put_config_simps [simp]:
  "ew_config (put_config c w) = c" "ew_tokens (put_config c w) = ew_tokens w" "ew_aborted (put_config c w) = ew_aborted w"
  "disk_file (put_config c w) = disk_file w"
  by (simp_all add: put_config_def disk_file_def)

lemma undo_local_log: "same_log (undo_local E orig dir mode w) w" "only_refs_differ (ew_config (undo_local E orig dir mode w)) orig"
  using enrollment_more [OF scrub_more, of "secret_part E" dir mode "put_config (restore_config orig (ew_refs_nil w) (ew_config w)) w"]
    restore_only_refs by (simp_all add: undo_local_def same_log_def)

lemma persist_bound_result:
  assumes "persist_bound E orig dir mode w = (r, w')"
  shows "same_log w' w"
    "r \<noteq> None \<Longrightarrow> only_refs_differ (ew_config w') orig"
    "r = None \<Longrightarrow> ew_config w' = ew_config w \<and>
       (\<exists>b. en_encode E (ew_config w') = Inr b \<and> disk_file w' (config_path (ew_config w')) = Some b)"
proof -
  obtain e1 w1 where p: "persist_config E (ew_config w) w = (e1, w1)" by force
  note m = enrollment_more [OF persist_config_more [OF p]]
  show "same_log w' w"
  proof (cases e1)
    case (Some e)
    obtain e2 w2 where q: "persist_config E (restore_config orig (ew_refs_nil w1) (ew_config w1)) w1 = (e2, w2)" by force
    show ?thesis using assms p Some q m enrollment_more [OF persist_config_more [OF q]]
        undo_local_log(1) [of E orig dir mode w2] by (auto simp: persist_bound_def same_log_def)
  qed (use assms p m in \<open>simp add: persist_bound_def same_log_def\<close>)
  show "r \<noteq> None \<Longrightarrow> only_refs_differ (ew_config w') orig"
    using assms p undo_local_log(2) by (cases e1) (auto simp: persist_bound_def)
  show "r = None \<Longrightarrow> ew_config w' = ew_config w \<and>
       (\<exists>b. en_encode E (ew_config w') = Inr b \<and> disk_file w' (config_path (ew_config w')) = Some b)"
  proof -
    assume n: "r = None"
    then have e1: "e1 = None" "w1 = w'" using assms p by (cases e1; simp add: persist_bound_def)+
    obtain e3 v where mk: "os_mkdir_all (sk_disk E) (win_join (cf_pilot_root (ew_config w)) ''config'') w = (e3, v)" by force
    obtain b where b: "en_encode E (ew_config w) = Inr b" "os_write (sk_disk E) (config_path (ew_config w)) b v = (None, w1)"
      using p e1 mk by (cases e3; cases "en_encode E (ew_config w)") (auto simp: persist_config_def split: prod.splits)
    show ?thesis using b os_write_file(1) [OF b(2)] m e1 by simp
  qed
qed

lemma persist_local_result:
  assumes "persist_local E url mode dir out w = (r, w')"
  shows "same_log w' w"
    "r \<noteq> None \<Longrightarrow> only_refs_differ (ew_config w') (ew_config w)"
    "r = None \<Longrightarrow> (\<exists>bound. enroll_bind (ew_config w) out url mode = Inr bound \<and>
        ew_config w' = bound\<lparr>cf_source_roots := cf_source_roots (ew_config w)\<rparr>) \<and>
       (\<exists>b. en_encode E (ew_config w') = Inr b \<and> disk_file w' (config_path (ew_config w')) = Some b)"
proof -
  let ?orig = "ew_config w"
  have self: "only_refs_differ ?orig ?orig"
    unfolding only_refs_differ_def by (rule exI [of _ "rd_credential_refs (cf_repository ?orig)"]) simp
  have "same_log w' w \<and> (r \<noteq> None \<longrightarrow> only_refs_differ (ew_config w') ?orig) \<and>
    (r = None \<longrightarrow> (\<exists>bound. enroll_bind ?orig out url mode = Inr bound \<and>
        ew_config w' = bound\<lparr>cf_source_roots := cf_source_roots ?orig\<rparr>) \<and>
       (\<exists>b. en_encode E (ew_config w') = Inr b \<and> disk_file w' (config_path (ew_config w')) = Some b))"
  proof (cases "enroll_bind ?orig out url mode")
    case (Inl e)
    then show ?thesis using assms self by (auto simp: persist_local_def Let_def same_log_def)
  next
    case (Inr bound)
    obtain e1 w1 where we: "write_envelopes (secret_part E) dir mode out bound (put_config bound w) = (e1, w1)" by force
    obtain e2 w2 where ac: "enroll_acl E dir mode w1 = (e2, w2)" by force
    note m1 = enrollment_more [OF write_envelopes_more [OF we]] and m2 = enrollment_more [OF enroll_acl_more [OF ac]]
    consider e where "e1 = Some e" | e where "e1 = None" "e2 = Some e" | "e1 = None" "e2 = None" by (cases e1; cases e2) auto
    then show ?thesis
    proof cases
      case 1
      then show ?thesis using assms m1 undo_local_log [of E ?orig dir mode w1]
        by (auto simp: persist_local_def Let_def Inr we same_log_def)
    next
      case 2
      then show ?thesis using assms m1 m2 undo_local_log [of E ?orig dir mode w2]
        by (auto simp: persist_local_def Let_def Inr we ac same_log_def)
    next
      case 3
      then have "persist_bound E ?orig dir mode (put_config (bound\<lparr>cf_source_roots := cf_source_roots ?orig\<rparr>) w2) = (r, w')"
        using assms m1 m2 by (simp add: persist_local_def Let_def Inr we ac)
      from persist_bound_result [OF this] show ?thesis using m1 m2 Inr by (auto simp: same_log_def)
    qed
  qed
  then show "same_log w' w"
    "r \<noteq> None \<Longrightarrow> only_refs_differ (ew_config w') (ew_config w)"
    "r = None \<Longrightarrow> (\<exists>bound. enroll_bind (ew_config w) out url mode = Inr bound \<and>
        ew_config w' = bound\<lparr>cf_source_roots := cf_source_roots (ew_config w)\<rparr>) \<and>
       (\<exists>b. en_encode E (ew_config w') = Inr b \<and> disk_file w' (config_path (ew_config w')) = Some b)"
    by blast+
qed

lemma only_refs_refl: "only_refs_differ c c"
  unfolding only_refs_differ_def by (rule exI [of _ "rd_credential_refs (cf_repository c)"]) simp

text \<open>How an enrollment ends: refused before the token is spent, refused by the control plane, undone
  with the new device aborted, or stored.\<close>

lemma enroll_run_result:
  assumes "enroll_run E raw_mode url token w = (r, w')"
  obtains (local) e where "r = Inl e" "same_log w' w" "ew_config w' = ew_config w"
  | (remote) e k where "r = Inl e" "en_enroll E k token = Inl e" "ew_tokens w' = ew_tokens w @ [token]"
      "ew_aborted w' = ew_aborted w" "ew_config w' = ew_config w"
  | (undone) e k out where "r = Inl e" "en_enroll E k token = Inr out" "ew_tokens w' = ew_tokens w @ [token]"
      "ew_aborted w' = ew_aborted w @ [eo_control_credential out]" "only_refs_differ (ew_config w') (ew_config w)"
  | (stored) s k out mode bound b where "r = Inr s" "en_enroll E k token = Inr out" "ew_tokens w' = ew_tokens w @ [token]"
      "ew_aborted w' = ew_aborted w" "enroll_bind (ew_config w) out url mode = Inr bound"
      "ew_config w' = bound\<lparr>cf_source_roots := cf_source_roots (ew_config w)\<rparr>" "en_encode E (ew_config w') = Inr b"
      "disk_file w' (config_path (ew_config w')) = Some b" "ey_device_id s = eo_device_id out" "ey_mode s = mode"
proof -
  let ?dir = "win_join (cf_pilot_root (ew_config w)) ''secrets''"
  show thesis
  proof (cases "parse_mode raw_mode")
    case (Inl e)
    then show ?thesis using assms by (intro local) (auto simp: enroll_run_def same_log_def)
  next
    case (Inr mode)
    show ?thesis
    proof (cases "trim_space url = [] \<or> trim_space token = []")
      case True
      then show ?thesis using assms Inr by (intro local) (auto simp: enroll_run_def same_log_def)
    next
      case False
      obtain e1 w1 where pf: "enroll_preflight (secret_part E) mode ?dir w = (e1, w1)" by force
      note m1 = enrollment_more [OF preflight_more [OF pf]]
      show ?thesis
      proof (cases e1)
        case (Some e)
        then show ?thesis using assms Inr False pf m1 by (intro local) (auto simp: enroll_run_def same_log_def)
      next
        case None
        have run: "enroll_remote E url token mode ?dir w1 = (r, w')"
          using assms Inr False pf None by (simp add: enroll_run_def)
        obtain x w2 where ce: "client_enroll E token w1 = (x, w2)" by force
        have x: "en_enroll E (dk_pos w1) token = x" and w2: "ew_tokens w2 = ew_tokens w @ [token]" "ew_aborted w2 = ew_aborted w"
            "ew_config w2 = ew_config w"
          using ce m1 by (auto simp: client_enroll_def disk_step_def)
        show ?thesis
        proof (cases x)
          case i: (Inl e)
          then show ?thesis using run ce x w2 by (intro remote [of e "dk_pos w1"]) (auto simp: enroll_remote_def)
        next
          case o: (Inr out)
          obtain e3 w3 where pl: "persist_local E url mode ?dir out w2 = (e3, w3)" by force
          note res = persist_local_result [OF pl]
          show ?thesis
          proof (cases e3)
            case (Some e)
            obtain a w4 where ab: "client_abort E (eo_control_credential out) w3 = (a, w4)" by force
            have w4: "ew_tokens w4 = ew_tokens w3" "ew_aborted w4 = ew_aborted w3 @ [eo_control_credential out]" "ew_config w4 = ew_config w3"
              using ab by (auto simp: client_abort_def disk_step_def)
            have "\<exists>e. r = Inl e \<and> w' = w4" using run ce o pl ab Some by (cases a) (auto simp: enroll_remote_def)
            then show ?thesis using undone [of _ "dk_pos w1" out] x o res(1,2) w2 w4 Some by (auto simp: same_log_def)
          next
            case n: None
            then have r: "r = Inr \<lparr>ey_device_id = eo_device_id out, ey_installation_id = eo_installation_id out,
                ey_generation_id = eo_generation_id out, ey_site_id = eo_site_id out, ey_control_plane_url = url, ey_mode = mode\<rparr>" "w' = w3"
              using run ce o pl by (simp_all add: enroll_remote_def)
            then show ?thesis using stored [of _ "dk_pos w1" out mode] x o res(1,3) n w2 by (auto simp: same_log_def)
          qed
        qed
      qed
    qed
  qed
qed

text \<open>
  What a failed enrollment destroys: the control envelope is removed, also where one of an earlier
  enrollment was there that the restored configuration still names; and the references of the
  repository keep what the binding wrote into the shared map.
\<close>

lemma scrub_removes_credential:
  assumes "\<And>k. sk_disk env k = None"
  shows "disk_file (scrub_enrollment_files env dir mode w) (win_join dir (control_name mode)) = None"
proof -
  have rm: "disk_file (snd (os_remove (sk_disk env) p v)) = (disk_file v)(p := None)" for p and v :: "'a secret_disk"
    using assms by (auto simp: os_remove_def split: option.splits)
  have "disk_file v q = None \<Longrightarrow> disk_file (foldl (\<lambda>v n. snd (os_remove (sk_disk env) (win_join dir n) v)) v ns) q = None"
    for ns q and v :: "'a secret_disk"
    by (induction ns arbitrary: v) (simp_all add: rm)
  then show ?thesis by (simp add: scrub_enrollment_files_def scrub_names_def rm)
qed

lemma undo_keeps_new_refs:
  assumes "\<not> ew_refs_nil w"
  shows "rd_credential_refs (cf_repository (ew_config (undo_local E orig dir mode w))) =
    rd_credential_refs (cf_repository (ew_config w))"
  using assms enrollment_more [OF scrub_more, of "secret_part E" dir mode
      "put_config (restore_config orig (ew_refs_nil w) (ew_config w)) w"]
  by (simp add: undo_local_def restore_config_def)

end
