(* ===== verification/Acl_Policy.thy ===== *)
theory Acl_Policy
  imports GoStrings "HOL-Library.Word"
begin

unbundle bit_operations_syntax

text \<open>
  Who may read the service's secrets: the well-known identifiers (\<open>internal/windows/identity/sid.go\<close>),
  the check of an access list (\<open>internal/windows/acl/policy.go\<close>) and the lists the profiles set
  (\<open>acl_windows.go\<close>). Masks are 32-bit words. Reading a list from the file system and writing it
  back are system calls.
\<close>

section \<open>Identifiers (sid.go)\<close>

definition local_system_sid :: string where "local_system_sid = ''S-1-5-18''"
definition builtin_administrators_sid :: string where "builtin_administrators_sid = ''S-1-5-32-544''"

definition broad_sids :: "string list" where
  "broad_sids =
     [''S-1-1-0'', ''S-1-5-11'', ''S-1-5-32-545'', ''S-1-5-4'', ''S-1-5-32-546'', ''S-1-3-0'', ''S-1-2-0'', ''S-1-5-2'']"

definition equal_sid :: "string \<Rightarrow> string \<Rightarrow> bool" where
  "equal_sid a b = equal_fold (trim_space a) (trim_space b)"

definition is_local_system_sid :: "string \<Rightarrow> bool" where
  "is_local_system_sid s = equal_sid s local_system_sid"

definition is_builtin_administrators_sid :: "string \<Rightarrow> bool" where
  "is_builtin_administrators_sid s = equal_sid s builtin_administrators_sid"

definition is_service_secret_allowed_sid :: "string \<Rightarrow> bool" where
  "is_service_secret_allowed_sid s \<longleftrightarrow> is_local_system_sid s \<or> is_builtin_administrators_sid s"

definition is_broad_principal_sid :: "string \<Rightarrow> bool" where
  "is_broad_principal_sid s = list_ex (equal_sid s) broad_sids"

section \<open>Access lists (policy.go)\<close>

record ace_view =
  av_sid :: string
  av_allow :: bool
  av_deny :: bool
  av_mask :: "32 word"
  av_inherited :: bool
  av_inherit_only :: bool
  av_unparsed :: bool

definition mask_file_read_data :: "32 word" where "mask_file_read_data = 0x00000001"
definition mask_generic_all :: "32 word" where "mask_generic_all = 0x10000000"
definition mask_generic_read :: "32 word" where "mask_generic_read = 0x80000000"
definition mask_maximum_allowed :: "32 word" where "mask_maximum_allowed = 0x02000000"
definition mask_file_all_access :: "32 word" where "mask_file_all_access = 0x001F01FF"
definition mask_file_generic_read :: "32 word" where "mask_file_generic_read = 0x00120089"

definition grants_secret_read :: "32 word \<Rightarrow> bool" where
  "grants_secret_read m =
     (if m AND mask_file_read_data \<noteq> 0 then True
      else if m AND mask_generic_read \<noteq> 0 \<or> m AND mask_generic_all \<noteq> 0 \<or> m AND mask_maximum_allowed \<noteq> 0
        then True
      else if m AND mask_file_all_access = mask_file_all_access then True
      else if m AND mask_file_generic_read = mask_file_generic_read then True
      else False)"

text \<open>The loop over the entries; the flags say whether SYSTEM and Administrators were allowed so far.\<close>

fun evaluate_aces :: "bool \<Rightarrow> bool \<Rightarrow> ace_view list \<Rightarrow> bool \<times> string" where
  "evaluate_aces sys adm [] =
     (if \<not> sys then (False, ''missing SYSTEM (S-1-5-18) allow'')
      else if \<not> adm then (False, ''missing Administrators allow'')
      else (True, ''SYSTEM+Administrators only''))"
| "evaluate_aces sys adm (ace # aces) =
     (let sid = trim_space (av_sid ace); reads = grants_secret_read (av_mask ace) in
      if av_unparsed ace then (False, ''unparsed ACE type'')
      else if sid = [] then evaluate_aces sys adm aces
      else if av_deny ace \<and> reads \<and> is_service_secret_allowed_sid sid then
        (False, ''deny ACE blocks SYSTEM or Administrators secret read'')
      else if \<not> av_allow ace \<or> \<not> reads then evaluate_aces sys adm aces
      else if is_local_system_sid sid then evaluate_aces True adm aces
      else if is_builtin_administrators_sid sid then evaluate_aces sys True aces
      else (False, ''unexpected allow ACE for '' @
              (if is_broad_principal_sid sid then ''broad principal '' @ sid else sid)))"

definition evaluate_service_secret :: "ace_view list \<Rightarrow> bool \<times> string" where
  "evaluate_service_secret aces = evaluate_aces False False aces"

section \<open>Profiles (acl_windows.go)\<close>

datatype acl_profile = PilotWorking | ServiceSecret | ServiceState | RestoreStaging | OtherProfile string

text \<open>
  The entries \<open>Apply\<close> sets, all of them \<open>GENERIC_ALL\<close> grants: SYSTEM, Administrators and, where the
  operator works in the directory, the current user.
\<close>

definition grant_all :: "string \<Rightarrow> ace_view" where
  "grant_all sid = \<lparr>av_sid = sid, av_allow = True, av_deny = False, av_mask = mask_generic_all,
     av_inherited = False, av_inherit_only = False, av_unparsed = False\<rparr>"

definition profile_entries :: "acl_profile \<Rightarrow> string \<Rightarrow> string + ace_view list" where
  "profile_entries profile owner =
     (let entries = [grant_all local_system_sid, grant_all builtin_administrators_sid] in
      case profile of
        PilotWorking \<Rightarrow> Inr (entries @ [grant_all owner])
      | RestoreStaging \<Rightarrow> Inr (entries @ [grant_all owner])
      | ServiceSecret \<Rightarrow> Inr entries
      | ServiceState \<Rightarrow> Inr entries
      | OtherProfile p \<Rightarrow> Inl (''acl: unknown profile '' @ p))"

section \<open>Facts\<close>

text \<open>
  Reading is granted by four bits: the two composed masks of the check contain the first of them.
\<close>

lemma grants_secret_read_bits:
  "grants_secret_read m \<longleftrightarrow> m AND 0x92000001 \<noteq> 0"
proof -
  have split: "m AND (a OR b) = 0 \<longleftrightarrow> m AND a = 0 \<and> m AND b = 0" for a b :: "32 word"
    by (auto simp: bit_eq_iff bit_and_iff bit_or_iff)
  have all: "(0x92000001 :: 32 word) =
      mask_file_read_data OR (mask_generic_read OR (mask_generic_all OR mask_maximum_allowed))"
    by (simp add: mask_file_read_data_def mask_generic_read_def mask_generic_all_def mask_maximum_allowed_def)
  have part: "m AND k = k \<Longrightarrow> k AND 1 = 1 \<Longrightarrow> m AND 1 = 1" for k :: "32 word"
    by (metis and.assoc)
  have "m AND mask_file_all_access = mask_file_all_access \<Longrightarrow> m AND mask_file_read_data \<noteq> 0"
       "m AND mask_file_generic_read = mask_file_generic_read \<Longrightarrow> m AND mask_file_read_data \<noteq> 0"
    using part [of mask_file_all_access] part [of mask_file_generic_read]
    by (simp_all add: mask_file_all_access_def mask_file_generic_read_def mask_file_read_data_def)
  then show ?thesis unfolding all by (auto simp: grants_secret_read_def split)
qed

text \<open>What an accepted list is, entry by entry, without the order of the loop.\<close>

definition reads_secret :: "ace_view \<Rightarrow> bool" where
  "reads_secret ace \<longleftrightarrow> trim_space (av_sid ace) \<noteq> [] \<and> grants_secret_read (av_mask ace)"

definition secret_list_ok :: "ace_view list \<Rightarrow> bool" where
  "secret_list_ok aces \<longleftrightarrow>
     (\<forall>ace\<in>set aces. \<not> av_unparsed ace) \<and>
     (\<forall>ace\<in>set aces. reads_secret ace \<longrightarrow>
        (if is_service_secret_allowed_sid (trim_space (av_sid ace)) then \<not> av_deny ace else \<not> av_allow ace)) \<and>
     (\<exists>ace\<in>set aces. reads_secret ace \<and> av_allow ace \<and> is_local_system_sid (trim_space (av_sid ace))) \<and>
     (\<exists>ace\<in>set aces. reads_secret ace \<and> av_allow ace \<and> is_builtin_administrators_sid (trim_space (av_sid ace)))"

lemma sids_differ: "is_local_system_sid s \<Longrightarrow> \<not> is_builtin_administrators_sid s"
proof -
  have "to_lower (trim_space local_system_sid) \<noteq> to_lower (trim_space builtin_administrators_sid)" by code_simp
  then show "is_local_system_sid s \<Longrightarrow> \<not> is_builtin_administrators_sid s"
    by (auto simp: is_local_system_sid_def is_builtin_administrators_sid_def equal_sid_def equal_fold_def)
qed

lemma evaluate_aces_iff:
  "fst (evaluate_aces sys adm aces) \<longleftrightarrow>
     (\<forall>ace\<in>set aces. \<not> av_unparsed ace) \<and>
     (\<forall>ace\<in>set aces. reads_secret ace \<longrightarrow>
        (if is_service_secret_allowed_sid (trim_space (av_sid ace)) then \<not> av_deny ace else \<not> av_allow ace)) \<and>
     (sys \<or> (\<exists>ace\<in>set aces. reads_secret ace \<and> av_allow ace \<and> is_local_system_sid (trim_space (av_sid ace)))) \<and>
     (adm \<or> (\<exists>ace\<in>set aces. reads_secret ace \<and> av_allow ace \<and> is_builtin_administrators_sid (trim_space (av_sid ace))))"
proof (induction aces arbitrary: sys adm)
  case (Cons ace aces)
  show ?case
    using sids_differ [of "trim_space (av_sid ace)"]
    by (auto simp: Let_def Cons.IH reads_secret_def is_service_secret_allowed_sid_def)
qed simp

end
