(* ===== verification/Qualification.thy ===== *)
theory Qualification
  imports Secrets_Migrate Acl_Policy Service Outcome Scheduler
begin

text \<open>
  Qualification runs (\<open>internal/qualification\<close>): \<open>bind.go\<close>, \<open>request.go\<close>, \<open>runner.go\<close>, \<open>verdict.go\<close> and
  \<open>workload.go\<close>. A request is a file that names nothing but a run; the repository, the source and
  the limits are the service's. The runner's hooks (privileges, access lists, journal, backup) are
  functions over the world; JSON of requests and results, and \<open>filepath.Abs\<close>, are the environment's.
\<close>

section \<open>Requests and results (request.go)\<close>

record qual_request =
  qr_schema :: string
  qr_run_id :: string
  qr_operation :: string
  qr_synthetic_corpus :: bool

record qual_result =
  qt_schema :: string
  qt_run_id :: string
  qt_attempt_class :: attempt_class
  qt_outcome :: attempt_phase
  qt_error_class :: error_class
  qt_error_message :: string
  qt_snapshot_id :: string
  qt_job_id :: string
  qt_attempt_id :: string
  qt_published_not_green :: bool
  qt_replay :: bool

definition request_schema :: string where "request_schema = ''stowline.qualification.request.v1''"
definition result_schema :: string where "result_schema = ''stowline.qualification.result.v1''"

definition qual_request_validate :: "qual_request \<Rightarrow> go_error option" where
  "qual_request_validate r =
     (if qr_schema r \<noteq> request_schema then
        Some (wrap_msg ErrConfig (''qualification request schema must be '' @ request_schema))
      else case validate_qualification_run_id (qr_run_id r) of
        Some e \<Rightarrow> Some (wrap_msg ErrConfig (error_text e))
      | None \<Rightarrow>
          if qr_operation r \<noteq> ''BACKUP'' then
            Some (wrap_msg ErrForbiddenCommand (''qualification operation '' @ go_quote (qr_operation r) @ '' is forbidden''))
          else if \<not> qr_synthetic_corpus r then
            Some (wrap_msg ErrConfig ''qualification backup requires synthetic_corpus=true'')
          else None)"

definition parse_qual_request :: "(string \<Rightarrow> string + qual_request) \<Rightarrow> string \<Rightarrow> go_error + qual_request" where
  "parse_qual_request decode raw =
     (case decode raw of
        Inl e \<Rightarrow> Inl (wrap_msg ErrConfig (''qualification request: '' @ e))
      | Inr r \<Rightarrow> (case qual_request_validate r of Some e \<Rightarrow> Inl e | None \<Rightarrow> Inr r))"

definition result_from_backup :: "string \<Rightarrow> backup_result \<Rightarrow> bool \<Rightarrow> qual_result" where
  "result_from_backup run_id res replay =
     \<lparr>qt_schema = result_schema, qt_run_id = run_id, qt_attempt_class = AttemptQualification,
      qt_outcome = br_outcome res, qt_error_class = br_error_class res,
      qt_error_message = (if replay \<and> br_error_message res = [] then replay_message else br_error_message res),
      qt_snapshot_id = br_snapshot_id res, qt_job_id = br_job_id res, qt_attempt_id = br_attempt_id res,
      qt_published_not_green = br_published_not_green res, qt_replay = replay\<rparr>"

definition looks_like_arbitrary_command :: "string \<Rightarrow> bool" where
  "looks_like_arbitrary_command op \<longleftrightarrow>
     to_upper (trim_space op) \<in> {''SHELL'', ''EXEC'', ''POWERSHELL'', ''CMD'', ''FORGET'', ''PRUNE'', ''UNLOCK'',
       ''REPAIR'', ''KEY'', ''RESTORE'', ''RUN_BACKUP''}"

section \<open>The environment and the runner\<close>

record qual_env = sealing_env +
  qv_decode :: "string \<Rightarrow> string + qual_request"
  qv_encode :: "qual_result \<Rightarrow> string"
  qv_abs :: "string \<Rightarrow> go_error + string"
  qv_bytes :: "nat \<Rightarrow> int \<Rightarrow> go_error + string"

record 'w qual_runner =
  ql_dir :: string
  ql_allowed_source :: string
  ql_config_sources :: "string list"
  ql_repository :: repository_descriptor
  ql_vss_mode :: vss_mode
  ql_password_ref :: secret_ref
  ql_device_id :: string
  ql_installation_id :: string
  ql_policy_revision_id :: string
  ql_cache_dir :: string
  ql_host :: string
  ql_free_space_floor :: int
  ql_bandwidth_kibps :: int
  ql_workload_bytes :: int
  ql_allow_execute :: "('w \<Rightarrow> bool \<times> 'w) option"
  ql_inspect_acl :: "(string \<Rightarrow> 'w \<Rightarrow> go_error option \<times> 'w) option"
  ql_journal :: "'w journal_port option"
  ql_backup :: "(backup_request \<Rightarrow> 'w \<Rightarrow> (backup_result \<times> go_error option) \<times> 'w) option"

definition bound_backup_request :: "'w qual_runner \<Rightarrow> string \<Rightarrow> string list \<Rightarrow> backup_request" where
  "bound_backup_request R run_id src =
     \<lparr>bq_job_id = qualification_job_id run_id, bq_attempt_id = qualification_attempt_id run_id,
      bq_correlation_id = [], bq_device_id = ql_device_id R, bq_installation_id = ql_installation_id R,
      bq_policy_revision_id = ql_policy_revision_id R, bq_repository = ql_repository R, bq_source_roots = src,
      bq_optional_roots = [], bq_excludes = [], bq_tags = [], bq_vss_mode = ql_vss_mode R,
      bq_password_ref = ql_password_ref R, bq_cache_dir = ql_cache_dir R,
      bq_bandwidth_kibps = ql_bandwidth_kibps R, bq_wan_class = NoWANClass, bq_deadline = 0, bq_host = ql_host R,
      bq_slot_key = qualification_slot_key run_id, bq_free_space_floor = ql_free_space_floor R,
      bq_attempt_class = AttemptQualification, bq_qualification_run_id = run_id\<rparr>"

section \<open>Binding (bind.go)\<close>

definition require_admin_system_acl ::
  "(string \<Rightarrow> 'w \<Rightarrow> (go_error + ace_view list) \<times> 'w) \<Rightarrow> string \<Rightarrow> 'w \<Rightarrow> go_error option \<times> 'w" where
  "require_admin_system_acl inspect p w =
     (case inspect p w of
        (Inl e, w1) \<Rightarrow> (Some e, w1)
      | (Inr aces, w1) \<Rightarrow>
          (case evaluate_service_secret aces of (ok, reason) \<Rightarrow>
             (if ok then None else Some (wrap_msg ErrConfig (''qualification ACL: '' @ reason)), w1)))"

definition same_path :: "(string \<Rightarrow> go_error + string) \<Rightarrow> string \<Rightarrow> string \<Rightarrow> bool" where
  "same_path to_abs a b =
     (case to_abs (win_clean a) of Inl _ \<Rightarrow> False
      | Inr x \<Rightarrow> (case to_abs (win_clean b) of Inl _ \<Rightarrow> False | Inr y \<Rightarrow> equal_fold x y))"

definition bind_sources ::
  "(string \<Rightarrow> go_error + string) \<Rightarrow> string list \<Rightarrow> string list \<Rightarrow> go_error + string list" where
  "bind_sources to_abs configured allowed =
     (if length allowed \<noteq> 1 then Inl (wrap_msg ErrConfig ''qualification allows exactly one synthetic source'')
      else if length configured \<noteq> 1 then
        Inl (wrap_msg ErrConfig ''qualification requires exactly one configured source root'')
      else if \<not> same_path to_abs (hd configured) (hd allowed) then
        Inl (wrap_msg ErrConfig ''qualification source is not the synthetic corpus'')
      else Inr [win_clean (hd configured)])"

section \<open>The workload (workload.go)\<close>

definition within_root :: "string \<Rightarrow> string \<Rightarrow> go_error option" where
  "within_root base candidate =
     (case win_rel base candidate of
        None \<Rightarrow> Some (PlainError ''Rel: can't make relative'')
      | Some rel \<Rightarrow>
          if rel = ''..'' \<or> has_prefix rel (''..'' @ [backslash]) then
            Some (wrap_msg ErrRestorePathRejected ''qualification workload escaped source root'')
          else None)"

definition workload_chunk :: int where "workload_chunk = 1024 * 1024"

text \<open>Random bytes, a chunk at a time, until the size is reached or a call fails.\<close>

function workload_loop ::
  "qual_env \<Rightarrow> string \<Rightarrow> int \<Rightarrow> int \<Rightarrow> string \<Rightarrow> 'z secret_disk \<Rightarrow> go_error option \<times> 'z secret_disk" where
  "workload_loop env dest sz written content w =
     (if \<not> written < sz then (None, w)
      else
        let n = (if sz - written < workload_chunk then sz - written else workload_chunk) in
        case qv_bytes env (dk_pos w) n of
          Inl e \<Rightarrow> (Some e, disk_step w)
        | Inr b \<Rightarrow>
            (case os_write (sk_disk env) dest (content @ b) (disk_step w) of
               (Some e, w1) \<Rightarrow> (Some (io_go e), w1)
             | (None, w1) \<Rightarrow> workload_loop env dest sz (written + n) (content @ b) w1))"
  by pat_completeness auto
termination
  by (relation "measure (\<lambda>(env, dest, sz, written, content, w). nat (sz - written))")
    (auto simp: workload_chunk_def)

definition workload_dir_name :: string where "workload_dir_name = ''.stowline-qualification-workload''"

definition expand_workload ::
  "qual_env \<Rightarrow> string \<Rightarrow> string \<Rightarrow> int \<Rightarrow> 'z secret_disk \<Rightarrow> (go_error + string) \<times> 'z secret_disk" where
  "expand_workload env src run_id sz w =
     (case validate_qualification_run_id run_id of Some e \<Rightarrow> (Inl e, w)
      | None \<Rightarrow>
        if sz \<le> 0 then (Inr [], w)
        else case qv_abs env src of Inl e \<Rightarrow> (Inl e, w)
        | Inr abs_root \<Rightarrow>
          let dir = win_join abs_root workload_dir_name; dest = win_join dir (run_id @ ''.bin'') in
          case within_root abs_root dir of Some e \<Rightarrow> (Inl e, w)
          | None \<Rightarrow>
            (case os_mkdir_all (sk_disk env) dir w of
               (Some e, w1) \<Rightarrow> (Inl (io_go e), w1)
             | (None, w1) \<Rightarrow>
               (case within_root abs_root dest of Some e \<Rightarrow> (Inl e, w1)
                | None \<Rightarrow>
                  (case os_write (sk_disk env) dest [] w1 of
                     (Some e, w2) \<Rightarrow> (Inl (io_go e), w2)
                   | (None, w2) \<Rightarrow>
                       (case workload_loop env dest sz 0 [] w2 of
                          (Some e, w3) \<Rightarrow> (Inl e, w3) | (None, w3) \<Rightarrow> (Inr dest, w3))))))"

section \<open>The runner (runner.go)\<close>

abbreviation enabled_name :: string where "enabled_name \<equiv> ''enabled''"
abbreviation request_name :: string where "request_name \<equiv> ''request.json''"
abbreviation result_name :: string where "result_name \<equiv> ''result.json''"

definition inspect_acl :: "'w qual_runner \<Rightarrow> string \<Rightarrow> 'w \<Rightarrow> go_error option \<times> 'w" where
  "inspect_acl R p w = (case ql_inspect_acl R of None \<Rightarrow> (None, w) | Some f \<Rightarrow> f p w)"

definition mode_enabled :: "qual_env \<Rightarrow> 'z secret_disk qual_runner \<Rightarrow> 'z secret_disk \<Rightarrow> bool \<times> 'z secret_disk" where
  "mode_enabled env R w =
     (if ql_dir R = [] then (False, w)
      else case os_stat (sk_disk env) (win_join (ql_dir R) enabled_name) w of
        (Some _, w1) \<Rightarrow> (False, w1)
      | (None, w1) \<Rightarrow> (case inspect_acl R (win_join (ql_dir R) enabled_name) w1 of (e, w2) \<Rightarrow> (e = None, w2)))"

text \<open>The result is written as well as it can be: no caller looks at the error.\<close>

definition write_qual_result :: "qual_env \<Rightarrow> 'z secret_disk qual_runner \<Rightarrow> qual_result \<Rightarrow> 'z secret_disk \<Rightarrow> 'z secret_disk" where
  "write_qual_result env R res w =
     (if ql_dir R = [] then w
      else case os_mkdir_all (sk_disk env) (ql_dir R) w of
        (Some _, w1) \<Rightarrow> w1
      | (None, w1) \<Rightarrow>
          let p = win_join (ql_dir R) result_name in
          case os_write (sk_disk env) p (qv_encode env res) w1 of
            (Some _, w2) \<Rightarrow> w2
          | (None, w2) \<Rightarrow> if ql_inspect_acl R = None then w2
                          else snd (acl_apply (sealing_env.truncate env) p ''service-state'' w2))"

definition fail_result ::
  "qual_env \<Rightarrow> 'z secret_disk qual_runner \<Rightarrow> string \<Rightarrow> error_class \<Rightarrow> string \<Rightarrow> go_error \<Rightarrow> 'z secret_disk \<Rightarrow>
   go_error option \<times> 'z secret_disk" where
  "fail_result env R run_id cls msg e w =
     (Some e, write_qual_result env R
        \<lparr>qt_schema = result_schema, qt_run_id = run_id, qt_attempt_class = AttemptQualification,
         qt_outcome = PhaseFailed, qt_error_class = cls, qt_error_message = msg, qt_snapshot_id = [],
         qt_job_id = [], qt_attempt_id = [], qt_published_not_green = False, qt_replay = False\<rparr> w)"

definition replay_result :: "string \<Rightarrow> job_record \<Rightarrow> attempt_record option \<Rightarrow> backup_result" where
  "replay_result run_id job prev =
     (qualification_replay job prev)\<lparr>br_qualification_run_id := run_id\<rparr>"

definition run_qualification ::
  "qual_env \<Rightarrow> 'z secret_disk qual_runner \<Rightarrow> qual_request \<Rightarrow> string list \<Rightarrow>
   (backup_request \<Rightarrow> 'z secret_disk \<Rightarrow> (backup_result \<times> go_error option) \<times> 'z secret_disk) \<Rightarrow>
   'z secret_disk \<Rightarrow> go_error option \<times> 'z secret_disk" where
  "run_qualification env R req src backup w =
     (let run_id = qr_run_id req in
      case (if qr_synthetic_corpus req then
              expand_workload env (hd src) run_id
                (if ql_workload_bytes R \<le> 0 then 8 * workload_chunk else ql_workload_bytes R) w
            else (Inr [], w)) of
        (Inl e, w1) \<Rightarrow> fail_result env R run_id ErrorConfig (error_text e) e w1
      | (Inr _, w1) \<Rightarrow>
          (case backup (bound_backup_request R run_id src) w1 of ((res, err), w2) \<Rightarrow>
             if br_error_message res = replay_message then
               (None, write_qual_result env R (result_from_backup run_id res True) w2)
             else if (case err of Some e \<Rightarrow> errors_is e ErrOperationInProgress | None \<Rightarrow> False) then (None, w2)
             else (wrap_backup res err, write_qual_result env R (result_from_backup run_id res False) w2)))"

text \<open>What the journal knows of the run: an error, nothing, a run under way, or a run that is done.\<close>

definition consult_journal ::
  "qual_env \<Rightarrow> 'z secret_disk qual_runner \<Rightarrow> string \<Rightarrow> 'z secret_disk \<Rightarrow>
   (go_error option \<times> 'z secret_disk) option \<times> 'z secret_disk" where
  "consult_journal env R run_id w =
     (case ql_journal R of None \<Rightarrow> (None, w)
      | Some J \<Rightarrow>
          (case jp_get_job J (qualification_job_id run_id) w of
             (Inl e, w1) \<Rightarrow> (Some (Some e, w1), w1)
           | (Inr None, w1) \<Rightarrow> (None, w1)
           | (Inr (Some job), w1) \<Rightarrow>
               if job_terminal (jr_state job) then
                 (case jp_latest_attempt J (jr_id job) w1 of (prev, w2) \<Rightarrow>
                    let res = replay_result run_id job (case prev of Inr p \<Rightarrow> p | Inl _ \<Rightarrow> None);
                        w3 = write_qual_result env R (result_from_backup run_id res True) w2
                    in (Some (None, w3), w3))
               else if jr_state job = JobActive \<or> jr_state job = JobReconciling then (Some (None, w1), w1)
               else (None, w1)))"

definition poll_request ::
  "qual_env \<Rightarrow> 'z secret_disk qual_runner \<Rightarrow> qual_request \<Rightarrow> 'z secret_disk \<Rightarrow> go_error option \<times> 'z secret_disk" where
  "poll_request env R req w =
     (case ql_backup R of
        None \<Rightarrow> fail_result env R (qr_run_id req) ErrorInternal ''qualification backup executor missing''
                  (Sentinel ErrConfig) w
      | Some backup \<Rightarrow>
          (case bind_sources (qv_abs env) (ql_config_sources R) [ql_allowed_source R] of
             Inl e \<Rightarrow> fail_result env R (qr_run_id req) ErrorConfig (error_text e) e w
           | Inr src \<Rightarrow>
               (case consult_journal env R (qr_run_id req) w of
                  (Some answer, _) \<Rightarrow> answer
                | (None, w1) \<Rightarrow> run_qualification env R req src backup w1)))"

definition poll_file ::
  "qual_env \<Rightarrow> 'z secret_disk qual_runner \<Rightarrow> 'z secret_disk \<Rightarrow> go_error option \<times> 'z secret_disk" where
  "poll_file env R w =
     (let p = win_join (ql_dir R) request_name in
      case os_read (sk_disk env) p w of
        (Inl NotExist, w1) \<Rightarrow> (None, w1)
      | (Inl e, w1) \<Rightarrow> (Some (io_go e), w1)
      | (Inr raw, w1) \<Rightarrow>
          (case inspect_acl R p w1 of
             (Some e, w2) \<Rightarrow> fail_result env R [] ErrorConfig (error_text e) e w2
           | (None, w2) \<Rightarrow>
               (case parse_qual_request (qv_decode env) raw of
                  Inl e \<Rightarrow> fail_result env R [] ErrorConfig (error_text e) e w2
                | Inr req \<Rightarrow> poll_request env R req w2)))"

definition qual_poll ::
  "qual_env \<Rightarrow> 'z secret_disk qual_runner \<Rightarrow> 'z secret_disk \<Rightarrow> go_error option \<times> 'z secret_disk" where
  "qual_poll env R w =
     (case mode_enabled env R w of
        (False, w1) \<Rightarrow> (None, w1)
      | (True, w1) \<Rightarrow>
          (case (case ql_allow_execute R of None \<Rightarrow> (True, w1) | Some f \<Rightarrow> f w1) of
             (False, w2) \<Rightarrow> (Some (wrap_msg ErrConfig ''qualification backup requires LocalSystem''), w2)
           | (True, w2) \<Rightarrow> poll_file env R w2))"

section \<open>Verdicts (verdict.go)\<close>

definition classify_idle_after_service_start :: "reason \<Rightarrow> string" where
  "classify_idle_after_service_start r =
     (if r = SkipComplete then ''BLOCKED_BY_SCHEDULE_SLOT'' else ''QUALIFICATION_FAILURE'')"

definition final_report_label :: "string \<Rightarrow> string" where
  "final_report_label code =
     (if code = ''PASS'' then
        ''FULL PILOT DEBUG-QUALIFIED '' @ [CHR 0xE2, CHR 0x80, CHR 0x94] @ '' EXTERNAL OAUTH/SOAK REMAIN''
      else if code = ''PRODUCT_FAILURE'' then ''NOT READY''
      else ''QUALIFICATION BLOCKED'')"

section \<open>Writing the control files (runner.go)\<close>

definition acl_if :: "sealing_env \<Rightarrow> bool \<Rightarrow> string \<Rightarrow> 'z secret_disk \<Rightarrow> go_error option \<times> 'z secret_disk" where
  "acl_if env apply p w = (if apply then acl_apply env p ''service-state'' w else (None, w))"

definition write_enabled :: "sealing_env \<Rightarrow> string \<Rightarrow> bool \<Rightarrow> 'z secret_disk \<Rightarrow> go_error option \<times> 'z secret_disk" where
  "write_enabled env dir apply w =
     (case os_mkdir_all (sk_disk env) dir w of (Some e, w1) \<Rightarrow> (Some (io_go e), w1)
      | (None, w1) \<Rightarrow>
        (case acl_if env apply dir w1 of (Some e, w2) \<Rightarrow> (Some e, w2)
         | (None, w2) \<Rightarrow>
           let p = win_join dir enabled_name in
           case os_write (sk_disk env) p (''qualification_mode=1'' @ newline) w2 of
             (Some e, w3) \<Rightarrow> (Some (io_go e), w3)
           | (None, w3) \<Rightarrow> acl_if env apply p w3))"

definition write_request_file ::
  "(qual_request \<Rightarrow> string) \<Rightarrow> sealing_env \<Rightarrow> string \<Rightarrow> qual_request \<Rightarrow> bool \<Rightarrow> 'z secret_disk \<Rightarrow> go_error option \<times> 'z secret_disk" where
  "write_request_file encode env dir req apply w =
     (case qual_request_validate req of Some e \<Rightarrow> (Some e, w)
      | None \<Rightarrow>
        (case os_mkdir_all (sk_disk env) dir w of (Some e, w1) \<Rightarrow> (Some (io_go e), w1)
         | (None, w1) \<Rightarrow>
           let p = win_join dir request_name in
           case os_write (sk_disk env) p (encode req) w1 of
             (Some e, w2) \<Rightarrow> (Some (io_go e), w2)
           | (None, w2) \<Rightarrow>
               (case acl_if env apply dir w2 of (Some e, w3) \<Rightarrow> (Some e, w3)
                | (None, w3) \<Rightarrow> acl_if env apply p w3)))"

section \<open>Facts\<close>

text \<open>A request that is accepted orders a backup of the synthetic corpus under a well-formed run id.\<close>

lemma parse_qual_request_Inr:
  assumes "parse_qual_request decode raw = Inr req"
  shows "decode raw = Inr req" "validate_qualification_run_id (qr_run_id req) = None" "qr_operation req = ''BACKUP''"
    "qr_synthetic_corpus req" "qr_schema req = request_schema"
  using assms by (auto simp: parse_qual_request_def qual_request_validate_def split: sum.splits option.splits if_splits)

lemma bind_sources_Inr:
  assumes "bind_sources to_abs configured [allowed] = Inr src"
  shows "\<exists>c. configured = [c] \<and> src = [win_clean c] \<and> same_path to_abs c allowed"
  using assms by (cases configured) (auto simp: bind_sources_def split: if_splits)

text \<open>
  The runner asks for no backup but the one bound to its own configuration and a well-formed run: two
  executors that agree on those requests make the same poll.
\<close>

lemma backup_sel:
  "ql_dir (R\<lparr>ql_backup := b\<rparr>) = ql_dir R" "ql_inspect_acl (R\<lparr>ql_backup := b\<rparr>) = ql_inspect_acl R"
  "ql_workload_bytes (R\<lparr>ql_backup := b\<rparr>) = ql_workload_bytes R" "ql_journal (R\<lparr>ql_backup := b\<rparr>) = ql_journal R"
  "ql_config_sources (R\<lparr>ql_backup := b\<rparr>) = ql_config_sources R" "ql_allowed_source (R\<lparr>ql_backup := b\<rparr>) = ql_allowed_source R"
  "ql_allow_execute (R\<lparr>ql_backup := b\<rparr>) = ql_allow_execute R" "ql_backup (R\<lparr>ql_backup := b\<rparr>) = b"
  "bound_backup_request (R\<lparr>ql_backup := b\<rparr>) run src = bound_backup_request R run src"
  by (simp_all add: bound_backup_request_def)

lemma backup_free:
  "write_qual_result env (R\<lparr>ql_backup := b\<rparr>) = write_qual_result env R"
  "inspect_acl (R\<lparr>ql_backup := b\<rparr>) = inspect_acl R"
  by (unfold write_qual_result_def inspect_acl_def backup_sel, (rule refl)+)

lemma backup_free_result:
  "fail_result env (R\<lparr>ql_backup := b\<rparr>) = fail_result env R"
  "consult_journal env (R\<lparr>ql_backup := b\<rparr>) = consult_journal env R"
  "mode_enabled env (R\<lparr>ql_backup := b\<rparr>) = mode_enabled env R"
  by (unfold fail_result_def consult_journal_def mode_enabled_def backup_free backup_sel, (rule refl)+)

lemma poll_request_bound:
  assumes "\<And>run v. validate_qualification_run_id run = None \<Longrightarrow>
      same_path (qv_abs env) (hd (ql_config_sources R)) (ql_allowed_source R) \<Longrightarrow>
      B (bound_backup_request R run [win_clean (hd (ql_config_sources R))]) v =
      B' (bound_backup_request R run [win_clean (hd (ql_config_sources R))]) v"
    "validate_qualification_run_id (qr_run_id req) = None"
  shows "poll_request env (R\<lparr>ql_backup := Some B\<rparr>) req w = poll_request env (R\<lparr>ql_backup := Some B'\<rparr>) req w"
proof (cases "bind_sources (qv_abs env) (ql_config_sources R) [ql_allowed_source R]")
  case (Inl e)
  then show ?thesis by (simp add: poll_request_def backup_sel backup_free_result)
next
  case (Inr src)
  have src: "src = [win_clean (hd (ql_config_sources R))]"
    and same: "same_path (qv_abs env) (hd (ql_config_sources R)) (ql_allowed_source R)"
    using bind_sources_Inr [OF Inr] by auto
  have "run_qualification env (R\<lparr>ql_backup := Some B\<rparr>) req src B v =
      run_qualification env (R\<lparr>ql_backup := Some B'\<rparr>) req src B' v" for v
    unfolding run_qualification_def Let_def backup_free_result backup_free backup_sel src assms(1) [OF assms(2) same] by (rule refl)
  then show ?thesis unfolding poll_request_def backup_sel backup_free_result option.case Inr sum.case by presburger
qed

lemma qual_poll_bound:
  assumes "\<And>run v. validate_qualification_run_id run = None \<Longrightarrow>
      same_path (qv_abs env) (hd (ql_config_sources R)) (ql_allowed_source R) \<Longrightarrow>
      B (bound_backup_request R run [win_clean (hd (ql_config_sources R))]) v =
      B' (bound_backup_request R run [win_clean (hd (ql_config_sources R))]) v"
  shows "qual_poll env (R\<lparr>ql_backup := Some B\<rparr>) w = qual_poll env (R\<lparr>ql_backup := Some B'\<rparr>) w"
proof -
  have req: "poll_request env (R\<lparr>ql_backup := Some B\<rparr>) req v = poll_request env (R\<lparr>ql_backup := Some B'\<rparr>) req v"
    if "parse_qual_request (qv_decode env) raw = Inr req" for raw req v
    using poll_request_bound [where R = R and B = B and B' = B'] assms parse_qual_request_Inr(2) [OF that] by blast
  have "poll_file env (R\<lparr>ql_backup := Some B\<rparr>) v = poll_file env (R\<lparr>ql_backup := Some B'\<rparr>) v" for v
    unfolding poll_file_def backup_sel backup_free backup_free_result Let_def
    by (auto split: prod.splits sum.splits io_error.splits option.splits simp: req)
  then show ?thesis unfolding qual_poll_def backup_free_result backup_sel by presburger
qed

text \<open>A run the journal knows as done, or under way, is never started again.\<close>

lemma poll_request_done:
  assumes "ql_journal R = Some J" "jp_get_job J (qualification_job_id (qr_run_id req)) w = (Inr (Some job), w1)"
    "job_terminal (jr_state job) \<or> jr_state job = JobActive \<or> jr_state job = JobReconciling"
  shows "poll_request env (R\<lparr>ql_backup := Some B\<rparr>) req w = poll_request env (R\<lparr>ql_backup := Some B'\<rparr>) req w"
proof -
  obtain prev w2 where "jp_latest_attempt J (jr_id job) w1 = (prev, w2)" by force
  then have "\<exists>answer v. consult_journal env R (qr_run_id req) w = (Some answer, v)"
    using assms by (cases "job_terminal (jr_state job)") (auto simp: consult_journal_def Let_def)
  then obtain answer v where "consult_journal env R (qr_run_id req) w = (Some answer, v)" by blast
  then show ?thesis by (simp add: poll_request_def backup_sel backup_free_result split: sum.splits)
qed

end
