(* ===== verification/Restic_Readers.thy ===== *)
theory Restic_Readers
  imports Restic_Adapter Domain_Redact "HOL-Library.Multiset" "HOL-Library.AList"
begin

text \<open>
  Reading what the engine writes (\<open>internal/adapters/restic\<close>: \<open>parse.go\<close>, \<open>vssparse.go\<close>,
  \<open>catalog.go\<close>) and the commands that list and check (\<open>adapter.go\<close>). Decoding one line or one
  document of JSON into a struct is a parameter of the readers, the order in which Go walks a map
  another. \<open>restic_readers\<close> is what the adapter of \<open>Restic_Adapter\<close> reads with.
\<close>

section \<open>Lines (bufio.Scanner)\<close>

text \<open>
  The lines up to the first that does not fit into the buffer of the scanner, and whether there is
  one. The end of a line may carry a carriage return; a last empty line is none.
\<close>

definition drop_cr :: "string \<Rightarrow> string" where
  "drop_cr l = (if l \<noteq> [] \<and> List.last l = CHR 0x0D then butlast l else l)"

definition raw_lines :: "string \<Rightarrow> string list" where
  "raw_lines s =
     (let ls = split_on CHR 0x0A s in if List.last ls = [] then butlast ls else ls)"

definition scan_lines :: "nat \<Rightarrow> string \<Rightarrow> string list \<times> bool" where
  "scan_lines limit s =
     (let ls = raw_lines s; ok = takeWhile (\<lambda>l. length l < limit) ls
      in (map drop_cr ok, length ok < length ls))"

section \<open>JSON documents\<close>

record ls_node =
  ln_name :: string
  ln_path :: string
  ln_type :: string
  ln_size :: int
  ln_mtime :: string

record exit_error =
  xe_message_type :: string
  xe_code :: int
  xe_message :: string

text \<open>
  \<open>json.Unmarshal\<close> into the structs of \<open>parse.go\<close>; a line that is not a JSON document decodes into
  none of them. The summary is its message type and its counters.
\<close>

record json_decoders =
  jd_valid :: "string \<Rightarrow> bool"
  jd_head :: "string \<Rightarrow> string option"
  jd_summary :: "string \<Rightarrow> backup_summary option"
  jd_snapshots :: "string \<Rightarrow> go_error + snapshot list"
  jd_snapshot :: "string \<Rightarrow> snapshot option"
  jd_repo_config :: "string \<Rightarrow> go_error + string"
  jd_exit_error :: "string \<Rightarrow> exit_error option"
  jd_ls :: "string \<Rightarrow> ls_node option"

definition max_json_line :: nat where "max_json_line = 4194304"

definition parse_json_lines :: "json_decoders \<Rightarrow> string \<Rightarrow> string list" where
  "parse_json_lines D s =
     filter (\<lambda>l. l \<noteq> [] \<and> hd l = CHR ''{'' \<and> jd_valid D l)
       (map trim_space (fst (scan_lines max_json_line s)))"

text \<open>\<open>(?im)^snapshot ([0-9a-f]{8,64}) saved\s*$\<close>\<close>

fun search :: "(string \<Rightarrow> 'a option) \<Rightarrow> string \<Rightarrow> 'a option" where
  "search f [] = f []"
| "search f (c # s) = (case f (c # s) of Some x \<Rightarrow> Some x | None \<Rightarrow> search f s)"

definition hex_fold :: "char \<Rightarrow> bool" where
  "hex_fold c = is_lower_hex (lower_char c)"

text \<open>
  The end of a line for \<open>\s*$\<close>: after some white space, before a newline or at the end of the text. As
  the white space may hold the newlines itself, the run of it decides.
\<close>

definition saved_end :: "string \<Rightarrow> bool" where
  "saved_end s =
     (let r = takeWhile re_space s in CHR 0x0A \<in> set r \<or> length r = length s)"

definition saved_at :: "string \<Rightarrow> string option" where
  "saved_at s =
     (case fold_word ''snapshot '' s of None \<Rightarrow> None
      | Some k \<Rightarrow>
          (let t = drop k s; n = length (takeWhile hex_fold t) in
           if n < 8 \<or> 64 < n then None
           else (case fold_word '' saved'' (drop n t) of None \<Rightarrow> None
                 | Some m \<Rightarrow> if saved_end (drop (n + m) t) then Some (take n t) else None)))"

definition saved_snapshot :: "string \<Rightarrow> string option" where
  "saved_snapshot s =
     (case saved_at s of Some i \<Rightarrow> Some i
      | None \<Rightarrow> search (\<lambda>t. case t of [] \<Rightarrow> None | c # u \<Rightarrow> if c = CHR 0x0A then saved_at u else None) s)"

definition parse_backup_summary :: "json_decoders \<Rightarrow> string \<Rightarrow> backup_summary" where
  "parse_backup_summary D s =
     (let sum = foldl (\<lambda>acc l. if jd_head D l = Some ''summary''
                               then (case jd_summary D l of None \<Rightarrow> acc | Some x \<Rightarrow> x\<lparr>bs_message_seen := True\<rparr>)
                               else acc) zero_summary (parse_json_lines D s)
      in if bs_message_seen sum then sum
         else case saved_snapshot s of None \<Rightarrow> sum
           | Some i \<Rightarrow> sum\<lparr>bs_message_seen := True, bs_snapshot_id := i\<rparr>)"

definition parse_snapshots :: "json_decoders \<Rightarrow> string \<Rightarrow> go_error + snapshot list" where
  "parse_snapshots D s =
     (let t = trim_space s in
      if t = [] then Inr []
      else if hd t = CHR ''['' then jd_snapshots D t
      else Inr (filter (\<lambda>x. sn_id x \<noteq> []) (List.map_filter (jd_snapshot D) (parse_json_lines D s))))"

definition parse_repo_config :: "json_decoders \<Rightarrow> string \<Rightarrow> go_error + string" where
  "parse_repo_config D s = jd_repo_config D (trim_space s)"

definition parse_exit_error :: "json_decoders \<Rightarrow> string \<Rightarrow> exit_error option" where
  "parse_exit_error D s =
     find (\<lambda>e. xe_message_type e = ''exit_error'') (List.map_filter (jd_exit_error D) (parse_json_lines D s))"

definition sanitize_diagnostic :: "string \<Rightarrow> string" where
  "sanitize_diagnostic s =
     (let r = redact s in if 4096 < length r then take 4096 r @ ''...[truncated]'' else trim_space r)"

definition adapter_diag :: "json_decoders \<Rightarrow> process_result \<Rightarrow> string" where
  "adapter_diag D r =
     (case parse_exit_error D (ps_stderr r) of
        Some e \<Rightarrow> sanitize_diagnostic (xe_message e)
      | None \<Rightarrow> sanitize_diagnostic (ps_stderr r))"

section \<open>Listings (parse.go)\<close>

record snapshot_entry =
  se_name :: string
  se_path :: string
  se_type :: string
  se_size :: int
  se_mtime :: string

definition trim_slash :: "string \<Rightarrow> string" where
  "trim_slash p = (if has_suffix p ''/'' then butlast p else p)"

definition normalize_ls_prefix :: "string \<Rightarrow> string" where
  "normalize_ls_prefix p = (if p = ''/'' then [] else trim_slash p)"

definition ls_parent_dir :: "string \<Rightarrow> string" where
  "ls_parent_dir p0 =
     (let p = trim_slash p0 in
      case last_index_char CHR ''/'' p of None \<Rightarrow> [] | Some i \<Rightarrow> if i = 0 then [] else take i p)"

definition ls_entry :: "ls_node \<Rightarrow> snapshot_entry" where
  "ls_entry n = \<lparr>se_name = ln_name n, se_path = ln_path n, se_type = ln_type n, se_size = ln_size n, se_mtime = ln_mtime n\<rparr>"

definition ls_nodes :: "json_decoders \<Rightarrow> string \<Rightarrow> ls_node list" where
  "ls_nodes D s = filter (\<lambda>n. ln_name n \<noteq> [] \<and> ln_path n \<noteq> []) (List.map_filter (jd_ls D) (parse_json_lines D s))"

definition parse_ls_entries :: "json_decoders \<Rightarrow> string \<Rightarrow> string \<Rightarrow> snapshot_entry list" where
  "parse_ls_entries D s pre =
     (let norm = normalize_ls_prefix pre in
      map ls_entry (filter (\<lambda>n. normalize_ls_prefix (ln_path n) \<noteq> norm \<and> ls_parent_dir (ln_path n) = norm) (ls_nodes D s)))"

definition parse_ls_entries_full :: "json_decoders \<Rightarrow> string \<Rightarrow> snapshot_entry list" where
  "parse_ls_entries_full D s = map ls_entry (ls_nodes D s)"

section \<open>Catalog hashes (catalog.go)\<close>

definition catalog_checksum :: "(string \<Rightarrow> string) \<Rightarrow> string list \<Rightarrow> string" where
  "catalog_checksum sha hashes = sha (join_with [CHR 0x0A] (sort hashes))"

definition path_hash :: "(string \<Rightarrow> string) \<Rightarrow> string \<Rightarrow> string" where
  "path_hash sha p = sha p"

section \<open>Evidence of a volume snapshot (vssparse.go)\<close>

text \<open>
  \<open>(.+?)\<close> and what must follow it: at least one character, then the shortest text after which the
  rest matches.
\<close>

fun lazy_until :: "(string \<Rightarrow> 'a option) \<Rightarrow> string \<Rightarrow> string \<Rightarrow> (string \<times> 'a) option" where
  "lazy_until f got [] = None"
| "lazy_until f got (c # s) =
     (case f s of Some x \<Rightarrow> Some (got @ [c], x) | None \<Rightarrow> lazy_until f (got @ [c]) s)"

definition bracketed :: "string \<Rightarrow> (string \<Rightarrow> 'a option) \<Rightarrow> string \<Rightarrow> (string \<times> 'a) option" where
  "bracketed word f = search (\<lambda>s. case fold_word word s of None \<Rightarrow> None | Some k \<Rightarrow> lazy_until f [] (drop k s))"

definition close_bracket :: "string \<Rightarrow> unit option" where
  "close_bracket s = (if has_prefix s '']'' then Some () else None)"

definition close_message :: "string \<Rightarrow> string option" where
  "close_message s =
     (if has_prefix s '']:'' \<and> drop 2 s \<noteq> [] then
        let t = drop 2 s in Some (drop (min (space_run t) (length t - 1)) t)
      else None)"

datatype vss_line = LineCreating string | LineSuccess string | LineFailed string string
  | LinePrivilege | LineExcluded string | LineOther

definition privilege_line :: "string \<Rightarrow> bool" where
  "privilege_line l =
     (search (\<lambda>s. case fold_word ''vss error:'' s of None \<Rightarrow> None
        | Some k \<Rightarrow> search (\<lambda>t. if fold_word ''insufficient backup privileges'' t \<noteq> None \<or>
              fold_word ''not an administrator'' t \<noteq> None \<or> fold_word ''e_accessdenied'' t \<noteq> None
            then Some () else None) (drop k s)) l \<noteq> None)"

definition classify_line :: "string \<Rightarrow> vss_line" where
  "classify_line l =
     (case bracketed ''creating vss snapshot for ['' close_bracket l of Some (v, _) \<Rightarrow> LineCreating v
      | None \<Rightarrow>
     (case bracketed ''successfully created snapshot for ['' close_bracket l of Some (v, _) \<Rightarrow> LineSuccess v
      | None \<Rightarrow>
     (case bracketed ''failed to create snapshot for ['' close_message l of Some (v, m) \<Rightarrow> LineFailed v m
      | None \<Rightarrow>
      if privilege_line l then LinePrivilege
      else (case bracketed ''snapshots for ['' (fold_word ''] excluded by user'') l of Some (v, _) \<Rightarrow> LineExcluded v
            | None \<Rightarrow> LineOther))))"

definition trim_right_char :: "char \<Rightarrow> string \<Rightarrow> string" where
  "trim_right_char c s = trim_right (\<lambda>x. x = c) s"

definition normalize_volume_key :: "string \<Rightarrow> string" where
  "normalize_volume_key v = trim_right_char CHR ''/'' (trim_right_char CHR 0x5C (to_lower (trim_space v)))"

text \<open>The volumes seen so far by their keys, in the order they were seen first.\<close>

definition no_volume :: "string \<Rightarrow> volume_evidence" where
  "no_volume v = \<lparr>vv_volume = trim_space v, vv_creating_seen = False, vv_success_seen = False,
     vv_failure_seen = False, vv_failure_message = [], vv_excluded_by_user = False, vv_live_fallback_likely = False\<rparr>"

definition touch_volume ::
  "string \<Rightarrow> (volume_evidence \<Rightarrow> volume_evidence) \<Rightarrow> (string \<times> volume_evidence) list \<Rightarrow> (string \<times> volume_evidence) list" where
  "touch_volume v f vols =
     (let k = normalize_volume_key v in
      AList.update k (f (case map_of vols k of Some x \<Rightarrow> x | None \<Rightarrow> no_volume v)) vols)"

record vss_scan =
  vc_volumes :: "(string \<times> volume_evidence) list"
  vc_matched :: "string list"
  vc_notes :: "string list"
  vc_privilege :: bool

definition scan_vss_line :: "vss_scan \<Rightarrow> string \<Rightarrow> vss_scan" where
  "scan_vss_line S l =
     (let touch = (\<lambda>v f. S\<lparr>vc_volumes := touch_volume v f (vc_volumes S), vc_matched := vc_matched S @ [redact l]\<rparr>) in
      case classify_line l of
        LineCreating v \<Rightarrow> touch v (\<lambda>x. x\<lparr>vv_creating_seen := True\<rparr>)
      | LineSuccess v \<Rightarrow> touch v (\<lambda>x. x\<lparr>vv_success_seen := True\<rparr>)
      | LineFailed v m \<Rightarrow> touch v (\<lambda>x. x\<lparr>vv_failure_seen := True, vv_failure_message := sanitize_diagnostic m,
                                     vv_live_fallback_likely := True\<rparr>)
      | LinePrivilege \<Rightarrow> S\<lparr>vc_privilege := True, vc_notes := vc_notes S @ [sanitize_diagnostic l],
                          vc_matched := vc_matched S @ [redact l]\<rparr>
      | LineExcluded v \<Rightarrow> touch v (\<lambda>x. x\<lparr>vv_excluded_by_user := True\<rparr>)
      | LineOther \<Rightarrow> S)"

definition max_vss_line :: nat where "max_vss_line = 8388608"

definition pinned_version :: string where "pinned_version = ''0.19.1''"
definition vss_parser_bound_to :: string where "vss_parser_bound_to = ''0.19.1''"

definition find_volume :: "volume_evidence list \<Rightarrow> string \<Rightarrow> volume_evidence option" where
  "find_volume vols want =
     (let w = normalize_volume_key want in
      find (\<lambda>x. let v = normalize_volume_key (vv_volume x) in v = w \<or> has_prefix v w \<or> has_prefix w v) vols)"

definition volumes_positive :: "volume_evidence list \<Rightarrow> string list \<Rightarrow> bool" where
  "volumes_positive vols required =
     (if required = [] then
        list_ex (\<lambda>v. vv_success_seen v \<and> \<not> vv_failure_seen v) vols \<and>
        \<not> list_ex (\<lambda>v. vv_failure_seen v \<or> vv_live_fallback_likely v) vols
      else list_all (\<lambda>r. case find_volume vols r of None \<Rightarrow> False
                        | Some v \<Rightarrow> vv_success_seen v \<and> \<not> vv_failure_seen v) required)"

text \<open>The lines that count: those that fit into the scanner, trimmed, without the empty ones.\<close>

definition vss_lines :: "string \<Rightarrow> string list" where
  "vss_lines s = filter (\<lambda>l. l \<noteq> []) (map trim_space (fst (scan_lines max_vss_line s)))"

definition scan_vss :: "vss_scan \<Rightarrow> string \<Rightarrow> vss_scan" where
  "scan_vss S0 s = foldl scan_vss_line S0 (vss_lines s)"

definition parse_vss_evidence ::
  "(volume_evidence list \<Rightarrow> volume_evidence list) \<Rightarrow> string \<Rightarrow> vss_mode \<Rightarrow> string list \<Rightarrow> string \<Rightarrow> vss_evidence" where
  "parse_vss_evidence order s mode required version =
     (let start = (if version \<noteq> [] \<and> \<not> str_contains version pinned_version
            then [''engine version is not the pinned 0.19.1 baseline; parser still applied fail-closed''] else []);
          S = scan_vss \<lparr>vc_volumes = [], vc_matched = [], vc_notes = start, vc_privilege = False\<rparr> s;
          ev = \<lparr>ve_engine_version = version, ve_parser_bound_to = vss_parser_bound_to, ve_mode = mode,
                ve_volumes = [], ve_raw_matched_lines = vc_matched S, ve_positive_all_required = False,
                ve_parser_notes = vc_notes S\<rparr>
      in if snd (scan_lines max_vss_line s) then
           ev\<lparr>ve_parser_notes := vc_notes S @ [''vss parser scan error; refusing CONSISTENCY_VERIFIED'']\<rparr>
         else
           let vols = order (map snd (vc_volumes S)) in
           if mode = VSSDisabled then ev\<lparr>ve_volumes := vols\<rparr>
           else ev\<lparr>ve_volumes := vols,
                   ve_positive_all_required := volumes_positive vols required \<and> \<not> vc_privilege S\<rparr>)"

definition engine_text :: "string \<Rightarrow> string \<Rightarrow> string" where
  "engine_text out err = (if err = [] then out else if out = [] then err else err @ [CHR 0x0A] @ out)"

definition parse_vss_evidence_from_process ::
  "(volume_evidence list \<Rightarrow> volume_evidence list) \<Rightarrow> string \<Rightarrow> string \<Rightarrow> bool \<Rightarrow> vss_mode \<Rightarrow> string list \<Rightarrow> string \<Rightarrow> vss_evidence" where
  "parse_vss_evidence_from_process order out err truncated mode required version =
     (let ev = parse_vss_evidence order (engine_text out err) mode required version in
      if truncated then
        ev\<lparr>ve_parser_notes := ve_parser_notes ev @
             [''captured restic stdout/stderr was truncated; refusing CONSISTENCY_VERIFIED''],
           ve_positive_all_required := False\<rparr>
      else ev)"

definition volumes_for_roots :: "string list \<Rightarrow> string list" where
  "volumes_for_roots roots =
     foldl (\<lambda>out v. if v \<in> set out then out else out @ [v]) []
       (map (\<lambda>r. to_lower (take 2 r) @ [CHR 0x5C]) (filter (\<lambda>r. 2 \<le> length r \<and> r ! 1 = CHR '':'') roots))"

definition restic_readers :: "json_decoders \<Rightarrow> (volume_evidence list \<Rightarrow> volume_evidence list) \<Rightarrow> output_readers" where
  "restic_readers D order =
     \<lparr>or_summary = parse_backup_summary D,
      or_evidence = \<lambda>out err truncated mode roots.
        parse_vss_evidence_from_process order out err truncated mode (volumes_for_roots roots),
      or_snapshots = parse_snapshots D, or_repo_config = parse_repo_config D, or_diag = adapter_diag D\<rparr>"

section \<open>Listing and checking (adapter.go)\<close>

definition max_ls_entries :: nat where "max_ls_entries = 5000"

text \<open>The id of a listing; the error does not say which of its rules it broke.\<close>

definition ls_snapshot_id :: "string \<Rightarrow> string option" where
  "ls_snapshot_id i =
     (let want = to_lower (trim_space i) in
      if length want < 8 \<or> 64 < length want \<or> \<not> is_hex_id want then None else Some want)"

definition run_ls :: "'w adapter \<Rightarrow> repository_descriptor \<Rightarrow> secret_ref \<Rightarrow> string list \<Rightarrow> 'w \<Rightarrow> (go_error + string) \<times> 'w" where
  "run_ls A repo password extra w =
     (case adapter_bind A repo password w of (Inl e, w1) \<Rightarrow> (Inl e, w1)
      | (Inr (bound, env), w1) \<Rightarrow>
        (case run_simple A CmdLS bound env extra (10 * minute_ns) w1 of (Inl e, w2) \<Rightarrow> (Inl e, w2)
         | (Inr r, w2) \<Rightarrow>
           (let cl = classify_exit (ps_exit_code r) in
            (if \<not> ce_ok cl then Inl (adapter_fail A r cl ''ls'') else Inr (ps_stdout r), w2))))"

definition adapter_list_snapshot ::
  "json_decoders \<Rightarrow> 'w adapter \<Rightarrow> repository_descriptor \<Rightarrow> secret_ref \<Rightarrow> string \<Rightarrow> string \<Rightarrow> 'w \<Rightarrow>
   (go_error + snapshot_entry list \<times> bool) \<times> 'w" where
  "adapter_list_snapshot D A repo password i pre w =
     (case ls_snapshot_id i of None \<Rightarrow> (Inl (wrap_msg ErrArbitraryFlags ''snapshot id''), w)
      | Some want \<Rightarrow>
          if str_contains pre ''..'' \<or> contains_any pre newline_chars then (Inl (Sentinel ErrRestorePathRejected), w)
          else (case run_ls A repo password (want # (if pre = [] then [] else [pre])) w of
                  (Inl e, w1) \<Rightarrow> (Inl e, w1)
                | (Inr out, w1) \<Rightarrow>
                    (let entries = parse_ls_entries D out pre; truncated = max_ls_entries < length entries in
                     (Inr (if truncated then take max_ls_entries entries else entries, truncated), w1))))"

definition adapter_list_snapshot_full ::
  "json_decoders \<Rightarrow> 'w adapter \<Rightarrow> repository_descriptor \<Rightarrow> secret_ref \<Rightarrow> string \<Rightarrow> 'w \<Rightarrow>
   (go_error + snapshot_entry list) \<times> 'w" where
  "adapter_list_snapshot_full D A repo password i w =
     (case ls_snapshot_id i of None \<Rightarrow> (Inl (wrap_msg ErrArbitraryFlags ''snapshot id''), w)
      | Some want \<Rightarrow>
          (case run_ls A repo password [want] w of
             (Inl e, w1) \<Rightarrow> (Inl e, w1) | (Inr out, w1) \<Rightarrow> (Inr (parse_ls_entries_full D out), w1)))"

record check_result =
  ck_ok :: bool
  ck_read_data :: bool
  ck_output :: string
  ck_exit_code :: int

definition adapter_check ::
  "'w adapter \<Rightarrow> repository_descriptor \<Rightarrow> secret_ref \<Rightarrow> bool \<Rightarrow> 'w \<Rightarrow> (go_error + check_result) \<times> 'w" where
  "adapter_check A repo password read_data w =
     (case adapter_bind A repo password w of (Inl e, w1) \<Rightarrow> (Inl e, w1)
      | (Inr (bound, env), w1) \<Rightarrow>
        (case run_simple A CmdCheck bound env (if read_data then [''--read-data''] else []) (120 * minute_ns) w1 of
           (Inl e, w2) \<Rightarrow> (Inl e, w2)
         | (Inr r, w2) \<Rightarrow>
             let cl = classify_exit (ps_exit_code r); pre = ce_ok cl \<and> \<not> ps_cancelled r \<and> \<not> ps_timed_out r;
                 result = (\<lambda>alive. \<lparr>ck_ok = pre \<and> alive \<and> \<not> ps_stdout_truncated r \<and> \<not> ps_stderr_truncated r,
                   ck_read_data = read_data,
                   ck_output = sanitize_diagnostic (ps_stdout r @ [CHR 0x0A] @ ps_stderr r),
                   ck_exit_code = ps_exit_code r\<rparr>)
             in if pre then (case ap_ctx_err A w2 of (e, w3) \<Rightarrow> (Inr (result (e = None)), w3))
                else (Inr (result False), w2)))"

section \<open>Facts\<close>

text \<open>A checksum does not depend on the order in which the hashes arrive.\<close>

lemma catalog_checksum_perm: "mset xs = mset ys \<Longrightarrow> catalog_checksum sha xs = catalog_checksum sha ys"
  unfolding catalog_checksum_def by (metis properties_for_sort sorted_sort mset_sort)

lemma trim_right_idem: "trim_right P (trim_right P s) = trim_right P s"
  by (simp add: trim_right_def)

lemma trim_left_right: "trim_left P (trim_right P (trim_left P s)) = trim_right P (trim_left P s)"
proof (cases "trim_left P s")
  case Nil
  then show ?thesis by (simp only: Nil) (simp add: trim_right_def trim_left_def)
next
  case (Cons c cs)
  then have c: "\<not> P c" unfolding trim_left_def by (metis dropWhile_eq_Cons_conv)
  then have "dropWhile P (rev (c # cs)) = dropWhile P (rev cs) @ [c]"
    by (simp add: dropWhile_append)
  then show ?thesis using c by (simp only: Cons) (simp add: trim_right_def trim_left_def)
qed

lemma trim_space_idem [simp]: "trim_space (trim_space s) = trim_space s"
  unfolding trim_space_def by (simp add: trim_left_right trim_right_idem)

lemma volume_key_trimmed [simp]: "normalize_volume_key (trim_space v) = normalize_volume_key v"
  by (simp add: normalize_volume_key_def)

text \<open>What the lines read so far say of each volume.\<close>

definition scan_sound :: "string list \<Rightarrow> vss_scan \<Rightarrow> bool" where
  "scan_sound ls S \<longleftrightarrow>
     (vc_privilege S \<longleftrightarrow> (\<exists>l\<in>set ls. classify_line l = LinePrivilege)) \<and>
     (\<forall>k v. map_of (vc_volumes S) k = Some v \<longrightarrow>
        normalize_volume_key (vv_volume v) = k \<and>
        (vv_success_seen v \<longleftrightarrow> (\<exists>l\<in>set ls. \<exists>u. classify_line l = LineSuccess u \<and> normalize_volume_key u = k)) \<and>
        (vv_failure_seen v \<longleftrightarrow> (\<exists>l\<in>set ls. \<exists>u m. classify_line l = LineFailed u m \<and> normalize_volume_key u = k))) \<and>
     (\<forall>k. map_of (vc_volumes S) k = None \<longrightarrow>
        \<not> (\<exists>l\<in>set ls. \<exists>u. classify_line l = LineSuccess u \<and> normalize_volume_key u = k) \<and>
        \<not> (\<exists>l\<in>set ls. \<exists>u m. classify_line l = LineFailed u m \<and> normalize_volume_key u = k)) \<and>
     distinct (map fst (vc_volumes S))"

lemma touch_lookup:
  "map_of (touch_volume u f vols) k =
     (if k = normalize_volume_key u then Some (f (case map_of vols k of Some x \<Rightarrow> x | None \<Rightarrow> no_volume u)) else map_of vols k)"
  by (simp add: touch_volume_def Let_def update_conv')

lemma touch_distinct: "distinct (map fst vols) \<Longrightarrow> distinct (map fst (touch_volume u f vols))"
  by (simp add: touch_volume_def Let_def distinct_update)

lemma scan_sound_line:
  assumes "scan_sound ls S"
  shows "scan_sound (ls @ [l]) (scan_vss_line S l)"
  using assms
  by (cases "classify_line l")
    (auto simp: scan_sound_def scan_vss_line_def Let_def touch_lookup touch_distinct no_volume_def
      split: option.splits if_splits)

lemma scan_sound_all: "scan_sound ls0 S \<Longrightarrow> scan_sound (ls0 @ ls) (foldl scan_vss_line S ls)"
proof (induction ls arbitrary: ls0 S)
  case (Cons l ls)
  then show ?case using Cons.IH [OF scan_sound_line [OF Cons.prems]] by simp
qed simp

lemma scan_vss_sound:
  "scan_sound (vss_lines s) (scan_vss \<lparr>vc_volumes = [], vc_matched = [], vc_notes = n, vc_privilege = False\<rparr> s)"
  using scan_sound_all [of "[]" "\<lparr>vc_volumes = [], vc_matched = [], vc_notes = n, vc_privilege = False\<rparr>" "vss_lines s"]
  by (simp add: scan_vss_def scan_sound_def)

text \<open>
  When the evidence is positive: for each volume asked for, some line reports the success of a volume
  whose key extends it or is extended by it, and none the failure of that volume.
\<close>

definition keys_related :: "string \<Rightarrow> string \<Rightarrow> bool" where
  "keys_related a b \<longleftrightarrow> has_prefix a b \<or> has_prefix b a"

definition volume_succeeded :: "string list \<Rightarrow> string \<Rightarrow> bool" where
  "volume_succeeded ls want \<longleftrightarrow>
     (\<exists>l\<in>set ls. \<exists>u. classify_line l = LineSuccess u \<and>
        keys_related (normalize_volume_key u) (normalize_volume_key want) \<and>
        (\<forall>l'\<in>set ls. \<forall>u' m. classify_line l' = LineFailed u' m \<longrightarrow> normalize_volume_key u' \<noteq> normalize_volume_key u))"

lemma positive_evidence:
  assumes "ve_positive_all_required (parse_vss_evidence order s mode required ver)" "\<And>vs. set (order vs) = set vs"
    "r \<in> set required"
  shows "volume_succeeded (vss_lines s) r \<and> \<not> (\<exists>l\<in>set (vss_lines s). classify_line l = LinePrivilege)"
proof -
  obtain n where n: "n = (if ver \<noteq> [] \<and> \<not> str_contains ver pinned_version
      then [''engine version is not the pinned 0.19.1 baseline; parser still applied fail-closed''] else [])" by blast
  define S where "S = scan_vss \<lparr>vc_volumes = [], vc_matched = [], vc_notes = n, vc_privilege = False\<rparr> s"
  have so: "scan_sound (vss_lines s) S" unfolding S_def by (rule scan_vss_sound)
  have pos: "volumes_positive (order (map snd (vc_volumes S))) required" "\<not> vc_privilege S"
    using assms(1) unfolding parse_vss_evidence_def Let_def n [symmetric] S_def [symmetric] by (auto split: if_splits)
  from pos(1) assms(3) obtain v where fv: "find_volume (order (map snd (vc_volumes S))) r = Some v"
      and v: "vv_success_seen v" "\<not> vv_failure_seen v"
    by (fastforce simp: volumes_positive_def list_all_iff split: if_splits option.splits)
  have rel: "keys_related (normalize_volume_key (vv_volume v)) (normalize_volume_key r)"
    using fv by (auto simp: find_volume_def Let_def find_Some_iff keys_related_def has_prefix_iff)
  have "v \<in> set (order (map snd (vc_volumes S)))" using fv by (auto simp: find_volume_def Let_def find_Some_iff)
  then obtain k where "(k, v) \<in> set (vc_volumes S)" using assms(2) by auto
  then have kv: "map_of (vc_volumes S) k = Some v" using so by (simp add: scan_sound_def map_of_is_SomeI)
  have k: "normalize_volume_key (vv_volume v) = k"
      "\<exists>l\<in>set (vss_lines s). \<exists>u. classify_line l = LineSuccess u \<and> normalize_volume_key u = k"
      "\<not> (\<exists>l\<in>set (vss_lines s). \<exists>u m. classify_line l = LineFailed u m \<and> normalize_volume_key u = k)"
    using so kv v unfolding scan_sound_def by blast+
  have "volume_succeeded (vss_lines s) r"
    using k(2,3) rel unfolding volume_succeeded_def k(1) by blast
  then show ?thesis using pos(2) so by (simp add: scan_sound_def)
qed

lemma positive_not_truncated:
  "ve_positive_all_required (parse_vss_evidence_from_process order out err tr mode required ver) \<Longrightarrow>
   \<not> tr \<and> ve_positive_all_required (parse_vss_evidence order (engine_text out err) mode required ver)"
  by (auto simp: parse_vss_evidence_from_process_def Let_def split: if_splits)

lemma volumes_for_roots_mem:
  assumes "r \<in> set roots" "2 \<le> length r" "r ! 1 = CHR '':''"
  shows "to_lower (take 2 r) @ [CHR 0x5C] \<in> set (volumes_for_roots roots)"
proof -
  have "set (foldl (\<lambda>out v. if v \<in> set out then out else out @ [v]) out vs) = set out \<union> set vs" for out vs :: "string list"
    by (induction vs arbitrary: out) auto
  then show ?thesis using assms by (auto simp: volumes_for_roots_def)
qed

text \<open>A successful backup of the adapter carries the evidence its reader found in the output of the run.\<close>

lemma engine_text_output: "engine_text (ps_stdout r) (ps_stderr r) = engine_output r"
proof -
  have "CHR 0x0A = char_of (10::nat)" by code_simp
  then show ?thesis by (simp add: engine_output_def engine_text_def)
qed

lemma run_observed_done:
  assumes "run_observed A kind bound env extra t w = ((RunDone r e, b), w')"
  shows "\<exists>args envs. ap_run A kind args envs t w = ((RunDone r e, b), w')"
  using assms by (auto simp: run_observed_def split: sum.splits)

lemma success_evidence_read:
  assumes "adapter_backup A req w = ((res, err), w')" "br_outcome res = PhaseSucceeded"
  shows "\<exists>args envs t v r e b v' ver. ap_run A CmdBackup args envs t v = ((RunDone r e, b), v') \<and>
    br_vss res = or_evidence (ap_readers A) (ps_stdout r) (ps_stderr r)
      (ps_stdout_truncated r \<or> ps_stderr_truncated r) (bq_vss_mode req) (bq_source_roots req) ver"
proof -
  obtain out run stalled w1 bound env extra t v0 v1 where ran: "backup_ran A req out run stalled w1 = ((res, err), w')"
      "run_observed A CmdBackup bound env extra t v0 = ((run, stalled), v1)" "br_outcome out = PhaseFailed"
    using assms unfolding adapter_backup_def Let_def config_failure_def
    by (auto split: prod.splits option.splits sum.splits)
  obtain r e where ex: "backup_exited A req out r w1 = ((res, err), w')" "run = RunDone r e"
    using ran(1,3) assms(2) interrupted_outcome [of A req out _ w1 res err w']
    by (cases run) (auto simp: backup_ran_def Let_def split: if_splits)
  obtain v w2 where v: "adapter_version A w1 = (v, w2)" by (metis surj_pair)
  obtain cl out2 ver where pub: "backup_published A req cl out2 w2 = ((res, err), w')"
      and ver: "br_vss out2 = or_evidence (ap_readers A) (ps_stdout r) (ps_stderr r)
         (ps_stdout_truncated r \<or> ps_stderr_truncated r) (bq_vss_mode req) (bq_source_roots req) ver"
    using ex(1) assms(2) v unfolding backup_exited_def Let_def by (auto split: if_splits)
  have "br_vss res = br_vss out2" using published_outcome(2) [OF pub assms(2)] by blast
  then show ?thesis using run_observed_done [of A CmdBackup] ran(2) ver unfolding ex(2) by metis
qed

lemma required_evidence:
  assumes "adapter_backup A req w = ((res, err), w')" "br_outcome res = PhaseSucceeded" "bq_vss_mode req = VSSRequired"
    "ap_readers A = restic_readers D order" "\<And>vs. set (order vs) = set vs"
  shows "\<exists>args envs t v r e b v'. ap_run A CmdBackup args envs t v = ((RunDone r e, b), v') \<and>
    \<not> ps_stdout_truncated r \<and> \<not> ps_stderr_truncated r \<and>
    (\<forall>vol\<in>set (volumes_for_roots (bq_source_roots req)).
       volume_succeeded (vss_lines (engine_output r)) vol \<and>
       \<not> (\<exists>l\<in>set (vss_lines (engine_output r)). classify_line l = LinePrivilege))"
proof -
  obtain args envs t v r e b v' ver where run: "ap_run A CmdBackup args envs t v = ((RunDone r e, b), v')"
    and e: "br_vss res = parse_vss_evidence_from_process order (ps_stdout r) (ps_stderr r)
      (ps_stdout_truncated r \<or> ps_stderr_truncated r) VSSRequired (volumes_for_roots (bq_source_roots req)) ver"
    using success_evidence_read [OF assms(1,2)] assms(3,4) by (auto simp: restic_readers_def)
  have "br_consistency res = ConsistencyVerified \<and> br_consistency res = vss_class (br_vss res)"
    using adapter_backup_outcome(2) [OF assms(1,2)] assms(3) unfolding engine_success_def by blast
  then have "ve_positive_all_required (br_vss res)" by (auto simp: vss_class_def split: vss_mode.splits if_splits)
  then have p: "\<not> (ps_stdout_truncated r \<or> ps_stderr_truncated r)"
      "ve_positive_all_required (parse_vss_evidence order (engine_output r) VSSRequired (volumes_for_roots (bq_source_roots req)) ver)"
    using positive_not_truncated [of order "ps_stdout r" "ps_stderr r"] unfolding e engine_text_output by blast+
  show ?thesis using run p(1) positive_evidence [OF p(2) assms(5)] by blast
qed

end
