(* ===== verification/Example_Install.thy ===== *)
theory Example_Install
  imports Enrollment Qualification Restic_Readers Example
begin

text \<open>
  Concrete inputs of the parts around the service, on which the properties are applied: secrets on a
  disk without faults, an enrollment, a qualification runner, and a backup whose output is read by
  the parsers of the program.
\<close>

section \<open>Secrets\<close>

definition ex_sealing :: sealing_env where
  "ex_sealing = \<lparr>sk_disk = \<lambda>_. None, sk_seal = \<lambda>_ scope plain. Inr (replicate 16 (CHR 0x01) @ plain),
     sk_unseal = \<lambda>_ blob. Inr (drop 16 blob),
     sk_unlocks = \<lambda>_ ref content. (case content of None \<Rightarrow> Inl (Sentinel ErrAuth) | Some _ \<Rightarrow> Inr ''repository''),
     sk_random = \<lambda>_. Inl ''no entropy'', sk_acl = \<lambda>_ _ _. None\<rparr>"

definition ex_provision :: provision where
  "ex_provision = \<lparr>
     dk_files =
       [(''C:'' @ backslash # ''S'' @ backslash # ''secrets'' @ backslash # user_envelope_name,
         encode_envelope ''user'' (replicate 16 (CHR 0x01) @ ''pw'')),
        (''C:'' @ backslash # ''R'' @ backslash # ''config'', ''v2'')],
     dk_pos = 0,
     pw_config = \<lparr>sc_pilot_root = ''C:'' @ backslash # ''S'', sc_journal_path = ''C:'' @ backslash # ''S'' @ backslash # ''j.db'',
       sc_staging_root = ''C:'' @ backslash # ''T'', sc_repo_location = ''C:'' @ backslash # ''R'', sc_expected_repo_id = [],
       sc_password_ref = no_secret_ref, sc_control_ref = no_secret_ref, sc_credential_refs = []\<rparr>\<rparr>"

definition ex_secrets :: string where "ex_secrets = ''C:'' @ backslash # ''S''"

definition ex_sealed :: "string disk" where
  "ex_sealed = snd (provider_protect ex_sealing ex_secrets scope_machine machine_envelope_name ''pw'' \<lparr>dk_files = [], dk_pos = 0\<rparr>)"

section \<open>Enrollment\<close>

text \<open>An enrollment the control plane answers without a device.\<close>

definition ex_enroll_env :: enroll_env where
  "ex_enroll_env = sealing_env.extend
     \<lparr>sk_disk = \<lambda>_. None, sk_seal = \<lambda>_ scope plain. Inr (replicate 16 (CHR 0x01) @ plain),
      sk_unseal = \<lambda>_ blob. Inr (drop 16 blob), sk_unlocks = \<lambda>_ ref content. Inl (Sentinel ErrAuth),
      sk_random = \<lambda>_. Inl ''no entropy'', sk_acl = \<lambda>_ _ _. None\<rparr>
     (enroll_env.fields
       (\<lambda>_ token. Inr \<lparr>eo_device_id = [], eo_installation_id = ''inst-2'', eo_generation_id = ''gen-2'',
          eo_control_credential = ''cred'', eo_gateway_username = [], eo_gateway_credential = [],
          eo_gateway_location = [], eo_site_id = []\<rparr>)
       (\<lambda>_ _. None) (\<lambda>_. Inr ''{}''))"

definition ex_unenrolled :: enrollment where
  "ex_unenrolled = \<lparr>dk_files = [], dk_pos = 0, ew_config = default_pilot\<lparr>cf_pilot_root := ''C:''\<rparr>, ew_refs_nil = True, ew_tokens = [], ew_aborted = []\<rparr>"

definition ex_enrolling :: "(go_error + enroll_summary) \<times> enrollment" where
  "ex_enrolling = enroll_run ex_enroll_env ''service'' ''https://control.example.com'' ''token'' ex_unenrolled"

section \<open>Qualification\<close>

definition ex_qual_env :: qual_env where
  "ex_qual_env = sealing_env.extend
     \<lparr>sk_disk = \<lambda>_. None, sk_seal = \<lambda>_ scope plain. Inr plain, sk_unseal = \<lambda>_ blob. Inr blob,
      sk_unlocks = \<lambda>_ ref content. Inl (Sentinel ErrAuth), sk_random = \<lambda>_. Inl ''no entropy'', sk_acl = \<lambda>_ _ _. None\<rparr>
     (qual_env.fields (\<lambda>_. Inr \<lparr>qr_schema = request_schema, qr_run_id = ''run-1'', qr_operation = ''BACKUP'', qr_synthetic_corpus = True\<rparr>)
       (\<lambda>_. ''{}'') Inr (\<lambda>_ n. Inr []))"

definition ex_qual_runner :: "string disk qual_runner" where
  "ex_qual_runner = \<lparr>ql_dir = ''C:/Q'', ql_allowed_source = ''C:/T'', ql_config_sources = [''C:/T''],
     ql_repository = \<lparr>rd_backend_kind = BackendRESTGateway, rd_location = ''rest:https://gw.example.com/dev-1'',
       rd_expected_repo_id = [], rd_generation_id = [], rd_device_id = ''dev-1'', rd_transport_profile = [],
       rd_credential_refs = [],
       rd_tls = \<lparr>tls_min_version = [], tls_insecure_skip_verify = False, tls_pinned_ca_path = []\<rparr>,
       rd_capabilities = default_capabilities BackendRESTGateway\<rparr>,
     ql_vss_mode = VSSRequired, ql_password_ref = no_secret_ref,
     ql_device_id = ''dev-1'', ql_installation_id = ''inst-1'', ql_policy_revision_id = [], ql_cache_dir = [], ql_host = [],
     ql_free_space_floor = 0, ql_bandwidth_kibps = 0, ql_workload_bytes = 0, ql_allow_execute = None,
     ql_inspect_acl = None, ql_journal = None, ql_backup = None\<rparr>"

text \<open>An executor that wipes the disk for every request but a qualification of device \<open>dev-1\<close>.\<close>

definition ex_rogue :: "backup_request \<Rightarrow> string disk \<Rightarrow> (backup_result \<times> go_error option) \<times> string disk" where
  "ex_rogue req w = ((zero_result, None),
     if bq_source_roots req = [win_clean ''C:/T''] \<and> bq_attempt_class req = AttemptQualification \<and> bq_device_id req = ''dev-1'' then w
     else w\<lparr>dk_files := []\<rparr>)"

section \<open>Evidence\<close>

text \<open>A run whose output reports the snapshot of drive D, read by the parsers of the program.\<close>

definition ex_vss_line :: string where
  "ex_vss_line = ''successfully created snapshot for [d:'' @ [CHR 0x5C, CHR '']'']"

definition ex_vss_output :: string where
  "ex_vss_output =
     ''snapshot aaaaaaaa saved'' @ [CHR 0x0A] @
     ex_vss_line @ [CHR 0x0A]"

definition ex_decoders :: json_decoders where
  "ex_decoders = \<lparr>jd_valid = \<lambda>_. False, jd_head = \<lambda>_. None, jd_summary = \<lambda>_. None, jd_snapshots = \<lambda>_. Inr [ex_snapshot],
     jd_snapshot = \<lambda>_. None, jd_repo_config = \<lambda>_. Inr ''repo'', jd_exit_error = \<lambda>_. None, jd_ls = \<lambda>_. None\<rparr>"

definition ex_vss_env :: environment where
  "ex_vss_env = ex_env\<lparr>en_readers := restic_readers ex_decoders rev,
     en_run := \<lambda>n kind args. (RunDone \<lparr>ps_exit_code = 0, ps_timed_out = False, ps_cancelled = False,
         ps_stdout = (if kind = CmdBackup then ex_vss_output else ''[]''), ps_stderr = [],
         ps_stdout_truncated = False, ps_stderr_truncated = False\<rparr> None, False)\<rparr>"




definition ex_vss_run :: process_result where
  "ex_vss_run = \<lparr>ps_exit_code = 0, ps_timed_out = False, ps_cancelled = False,
         ps_stdout = ex_vss_output, ps_stderr = [],
         ps_stdout_truncated = False, ps_stderr_truncated = False\<rparr>"

lemma ex_vss_steps:
  "ap_now (world_adapter ex_vss_env) (ex_idle 12 True ()) = (ex_now, ex_idle 13 True ())"
  "backup_validate ex_req1 = None"
  "adapter_bind (world_adapter ex_vss_env) (bq_repository ex_req1) (bq_password_ref ex_req1) (ex_idle 13 True ()) =
     (Inr (ex_bound, [(''RESTIC_PASSWORD'', ''pw'', True)]), ex_idle 15 True ())"
  "ap_now (world_adapter ex_vss_env) (ex_idle 15 True ()) = (ex_now, ex_idle 16 True ())"
  "ap_now (world_adapter ex_vss_env) (ex_idle 17 True ()) = (ex_now, ex_idle 18 True ())"
  by code_simp+

lemma ex_vss_observed:
  "run_observed (world_adapter ex_vss_env) CmdBackup ex_bound e
      [''--use-fs-snapshot'', ''--host'', ''dev-1'', ''--tag'', ''stowline'',
      ''--tag'', ''job:i10'', ''--tag'', ''attempt:i11'', ''--limit-upload'', ''500'', ''--exclude'', ''*.ost'', ''--'', ''D:/Work''] t (ex_idle 16 True ()) =
     ((RunDone ex_vss_run None, False), ex_idle 17 True ())"
  by code_simp


lemma ex_vss_ran:
  "adapter_backup (world_adapter ex_vss_env) ex_req1 (ex_idle 12 True ()) =
     backup_exited (world_adapter ex_vss_env) ex_req1
       (zero_result\<lparr>br_outcome := PhaseFailed, br_started_at := ex_now, br_ended_at := ex_now,
          br_duration := time_sub ex_now ex_now\<rparr>) ex_vss_run (ex_idle 18 True ())"
proof -
  have extras: "backup_extras ex_req1 = Inr [''--use-fs-snapshot'', ''--host'', ''dev-1'', ''--tag'', ''stowline'',
      ''--tag'', ''job:i10'', ''--tag'', ''attempt:i11'', ''--limit-upload'', ''500'', ''--exclude'', ''*.ost'', ''--'', ''D:/Work'']"
    by code_simp
  have run: "ps_cancelled ex_vss_run = False" "ps_timed_out ex_vss_run = False" by (simp_all add: ex_vss_run_def)
  show ?thesis
    unfolding adapter_backup_def ex_vss_steps Let_def prod.case sum.case option.case extras ex_vss_observed backup_ran_def run_outcome.case run simp_thms if_False
    by (rule TrueI)
qed


lemma ex_vss_raw: "raw_lines ex_vss_output =
    [''snapshot aaaaaaaa saved'', ex_vss_line]"
  by code_simp

lemma ex_vss_cr: "map drop_cr [''snapshot aaaaaaaa saved'', ex_vss_line] =
    [''snapshot aaaaaaaa saved'', ex_vss_line]"
  "map trim_space [''snapshot aaaaaaaa saved'', ex_vss_line] =
    [''snapshot aaaaaaaa saved'', ex_vss_line]"
  by code_simp+

lemma ex_vss_scan: "scan_lines max_vss_line ex_vss_output =
    ([''snapshot aaaaaaaa saved'', ex_vss_line], False)"
  using ex_vss_cr(1) by (simp add: scan_lines_def ex_vss_raw max_vss_line_def ex_vss_line_def)

lemma ex_vss_lines: "vss_lines ex_vss_output =
    [''snapshot aaaaaaaa saved'', ex_vss_line]"
  unfolding vss_lines_def ex_vss_scan fst_conv ex_vss_cr(2) by (simp add: ex_vss_line_def)

lemma ex_vss_classes: "classify_line ''snapshot aaaaaaaa saved'' = LineOther"
   "classify_line ex_vss_line = LineSuccess [CHR ''d'', CHR '':'', CHR 0x5C]"
  by code_simp+

lemma ex_vss_saved: "saved_snapshot ex_vss_output = Some ''aaaaaaaa''" by code_simp

lemma ex_vss_sum: "or_summary (restic_readers ex_decoders rev) ex_vss_output = zero_summary\<lparr>bs_message_seen := True, bs_snapshot_id := ''aaaaaaaa''\<rparr>"
   by (simp add: restic_readers_def parse_backup_summary_def parse_json_lines_def ex_vss_saved ex_decoders_def zero_summary_def)

lemma ex_vss_keys: "normalize_volume_key [CHR ''d'', CHR '':'', CHR 0x5C] = ''d:''" "volumes_for_roots (bq_source_roots ex_req1) = [[CHR ''d'', CHR '':'', CHR 0x5C]]"
   "trim_space [CHR ''d'', CHR '':'', CHR 0x5C] = [CHR ''d'', CHR '':'', CHR 0x5C]"
  by code_simp+

lemma ex_vss_evidence:
  "ve_mode (parse_vss_evidence_from_process rev ex_vss_output [] False VSSRequired [[CHR ''d'', CHR '':'', CHR 0x5C]] ver) = VSSRequired"
  "ve_positive_all_required (parse_vss_evidence_from_process rev ex_vss_output [] False VSSRequired [[CHR ''d'', CHR '':'', CHR 0x5C]] ver)"
   by (simp_all add: parse_vss_evidence_from_process_def engine_text_def parse_vss_evidence_def scan_vss_def ex_vss_lines ex_vss_scan Let_def scan_vss_line_def ex_vss_classes touch_volume_def no_volume_def ex_vss_keys volumes_positive_def find_volume_def)

lemma ex_vss_version: "adapter_version (world_adapter ex_vss_env) (ex_idle 18 True ()) = (Inr ''[]'', ex_idle 19 True ())"
  by code_simp

lemma ex_vss_read: "fst (adapter_read_snapshot (world_adapter ex_vss_env) (bq_repository ex_req1) (bq_password_ref ex_req1)
     ''aaaaaaaa'' (ex_idle 19 True ())) = Inr (Some ex_snapshot)"
  by code_simp

lemma ex_vss_published:
  assumes "br_consistency out = ConsistencyVerified" "br_snapshot_id out = ''aaaaaaaa''"
  shows "br_outcome (fst (fst (backup_published (world_adapter ex_vss_env) ex_req1 (classify_exit 0) out (ex_idle 19 True ())))) = PhaseSucceeded"
proof -
  obtain w where r: "adapter_read_snapshot (world_adapter ex_vss_env) (bq_repository ex_req1) (bq_password_ref ex_req1)
      ''aaaaaaaa'' (ex_idle 19 True ()) = (Inr (Some ex_snapshot), w)"
    using ex_vss_read by (metis surjective_pairing)
  have "rd_expected_repo_id (bq_repository ex_req1) = []" "\<not> ce_partial (classify_exit 0)" by code_simp+
  then show ?thesis using assms by (simp add: backup_published_def Let_def r)
qed

lemma ex_vss_succeeds:
  "br_outcome (fst (fst (adapter_backup (world_adapter ex_vss_env) ex_req1 (ex_idle 12 True ())))) = PhaseSucceeded"
proof -
  have run: "ps_exit_code ex_vss_run = 0" "ps_stdout ex_vss_run = ex_vss_output" "ps_stderr ex_vss_run = []"
      "engine_output ex_vss_run = ex_vss_output" "\<not> ps_stdout_truncated ex_vss_run" "\<not> ps_stderr_truncated ex_vss_run"
    by (simp_all add: ex_vss_run_def engine_output_def)
  have cl: "ce_known (classify_exit 0)" "\<not> ce_fatal (classify_exit 0)" "\<not> vss_privilege_error ex_vss_output"
    "bq_vss_mode ex_req1 = VSSRequired" by code_simp+
  have sum: "or_summary (ap_readers (world_adapter ex_vss_env)) ex_vss_output = zero_summary\<lparr>bs_message_seen := True, bs_snapshot_id := ''aaaaaaaa''\<rparr>"
    using ex_vss_sum by (simp add: world_adapter_def ex_vss_env_def)
  have ev: "or_evidence (ap_readers (world_adapter ex_vss_env)) ex_vss_output [] False VSSRequired (bq_source_roots ex_req1) ver =
     parse_vss_evidence_from_process rev ex_vss_output [] False VSSRequired [[CHR ''d'', CHR '':'', CHR 0x5C]] ver" for ver
    using ex_vss_keys(2) by (simp add: world_adapter_def ex_vss_env_def restic_readers_def)
  show ?thesis unfolding ex_vss_ran backup_exited_def Let_def ex_vss_version
    by (simp add: run cl sum ev ex_vss_published vss_class_def ex_vss_evidence)
qed

end
