(* ===== verification/Paths.thy ===== *)
theory Paths
  imports WinPath Domain_Types
begin

text \<open>
  The checks of restore destinations (\<open>internal/windows/paths\<close>): the lexical ones
  (\<open>validate.go\<close>) and those that ask the file system (\<open>validate_windows.go\<close>).
  The file system is what it answers at the time of the check: the attributes of a path, its
  final path, the full path of a relative one.
\<close>

section \<open>Lexical checks\<close>

definition issue :: "string \<Rightarrow> string \<Rightarrow> go_error option" where
  "issue reason p = Some (PlainError (reason @ '': '' @ p))"

definition reserved_names :: "string list" where
  "reserved_names = [''CON'', ''PRN'', ''AUX'', ''NUL''] @
     map (\<lambda>d. ''COM'' @ [d]) ''123456789'' @ map (\<lambda>d. ''LPT'' @ [d]) ''123456789''"

text \<open>\<open>unicode.IsLetter\<close> of one byte read as a rune.\<close>

definition byte_letter :: "char \<Rightarrow> bool" where
  "byte_letter c = (let n = (of_char c :: nat) in
     between 65 90 n \<or> between 97 122 n \<or> n = 170 \<or> n = 181 \<or> n = 186 \<or>
     between 192 214 n \<or> between 216 246 n \<or> between 248 255 n)"

definition has_drive_prefix :: "string \<Rightarrow> bool" where
  "has_drive_prefix n \<longleftrightarrow> 2 \<le> length n \<and> byte_letter (n ! 0) \<and> n ! 1 = CHR '':''"

text \<open>The first rune of a part that is refused, as in the loop over its runes.\<close>

function bad_rune :: "string \<Rightarrow> string option" where
  "bad_rune [] = None"
| "bad_rune (c # cs) =
     (let n = (of_char c :: nat); w = utf8_width (c # cs) in
      if n < 32 \<or> n = 127 \<or> w = 2 \<and> n = 194 \<and> byte_at (c # cs) 1 < 160 then Some ''control-char''
      else if c \<in> set (CHR 0x22 # ''<>|?*'') then Some ''illegal-char''
      else bad_rune (drop (w - 1) cs))"
  by pat_completeness auto
termination by (relation "measure length") auto

definition part_base :: "string \<Rightarrow> string" where
  "part_base part = takeWhile (\<lambda>c. c \<noteq> CHR ''.'') part"

definition check_part :: "string \<Rightarrow> string option" where
  "check_part part =
     (if part = ''..'' then Some ''dotdot''
      else if part_base part \<noteq> [] \<and> to_upper (part_base part) \<in> set reserved_names then Some ''reserved-name''
      else if (has_suffix part '' '' \<or> has_suffix part ''.'') \<and> part \<noteq> ''.'' \<and> part \<noteq> ''..'' \<and> part \<noteq> []
      then Some ''trailing-dot-or-space''
      else bad_rune part)"

fun first_bad_part :: "string list \<Rightarrow> string option" where
  "first_bad_part [] = None"
| "first_bad_part (x # xs) = (case check_part x of Some r \<Rightarrow> Some r | None \<Rightarrow> first_bad_part xs)"

definition reject_unsafe_lexical :: "string \<Rightarrow> go_error option" where
  "reject_unsafe_lexical p =
     (let n = from_slash p; bs = [backslash] in
      if p = [] then Some (Sentinel ErrRestorePathRejected)
      else if CHR 0x00 \<in> set p then issue ''nul'' p
      else if str_contains p ''://'' then issue ''url'' p
      else if has_prefix n (bs @ bs) then issue ''unc'' p
      else if has_prefix n (bs @ ''??'' @ bs) \<or> has_prefix (to_lower n) (bs @ ''device'' @ bs)
      then issue ''device-namespace'' p
      else if has_prefix n (bs @ bs @ ''?'' @ bs) then issue ''extended-prefix'' p
      else if CHR '':'' \<in> set n \<and> \<not> has_drive_prefix n then issue ''ads-or-colon'' p
      else if has_drive_prefix n \<and> (length n = 2 \<or> n ! 2 \<noteq> backslash) then issue ''drive-relative'' p
      else case first_bad_part (split_on backslash n) of Some r \<Rightarrow> issue r p | None \<Rightarrow> None)"

definition forbidden_restore_targets :: "string list" where
  "forbidden_restore_targets = map from_slash
     [''C:/Windows'', ''C:/Program Files'', ''C:/Program Files (x86)'', ''C:/ProgramData/Stowline'',
      ''C:/ProgramData/Microsoft/Windows/Start Menu/Programs/Startup'', ''C:/Stowline/state'',
      ''C:/Stowline/secrets'', ''C:/Stowline/bin'']"

definition normalize_compare :: "string \<Rightarrow> string" where
  "normalize_compare p = to_lower (trim_right (\<lambda>c. c = backslash) (from_slash (win_clean p)))"

definition is_forbidden_target :: "string \<Rightarrow> bool" where
  "is_forbidden_target dest =
     list_ex (\<lambda>f. let d = normalize_compare dest; fl = normalize_compare f in
                  d = fl \<or> has_prefix d (fl @ [backslash])) forbidden_restore_targets"

section \<open>The file system\<close>

text \<open>\<open>Lstat\<close> and \<open>GetFileAttributes\<close>; \<open>GetFinalPathNameByHandle\<close>; \<open>syscall.FullPath\<close>.\<close>

record path_env =
  pe_attributes :: "string \<Rightarrow> nat option"
  pe_final :: "string \<Rightarrow> go_error + string"
  pe_full :: "string \<Rightarrow> go_error + string"

definition path_exists :: "path_env \<Rightarrow> string \<Rightarrow> bool" where
  "path_exists env p \<longleftrightarrow> pe_attributes env p \<noteq> None"

definition has_attribute :: "nat \<Rightarrow> nat \<Rightarrow> bool" where
  "has_attribute flags k \<longleftrightarrow> odd (flags div 2 ^ k)"

text \<open>Bit 10 is the reparse point; bits 18 and 22 recall a file from the cloud.\<close>

definition is_reparse :: "path_env \<Rightarrow> string \<Rightarrow> bool" where
  "is_reparse env p = (case pe_attributes env p of None \<Rightarrow> False | Some a \<Rightarrow> has_attribute a 10)"

definition is_cloud_placeholder :: "path_env \<Rightarrow> string \<Rightarrow> bool" where
  "is_cloud_placeholder env p =
     (case pe_attributes env p of None \<Rightarrow> False | Some a \<Rightarrow> has_attribute a 18 \<or> has_attribute a 22)"

definition trim_prefix :: "string \<Rightarrow> string \<Rightarrow> string" where
  "trim_prefix p s = (if has_prefix s p then drop (length p) s else s)"

definition final_path_resolved :: "path_env \<Rightarrow> string \<Rightarrow> go_error + string" where
  "final_path_resolved env p =
     (if \<not> path_exists env p then Inr (win_clean p)
      else case pe_final env p of
        Inl _ \<Rightarrow> Inl (PlainError (''final-path: '' @ p))
      | Inr s \<Rightarrow> Inr (trim_right (\<lambda>c. c = backslash)
          (trim_prefix (''UNC'' @ [backslash]) (trim_prefix ([backslash, backslash] @ ''?'' @ [backslash]) s))))"

definition validate_root_os :: "path_env \<Rightarrow> string \<Rightarrow> go_error option" where
  "validate_root_os env root =
     (if is_forbidden_target root then Some (Sentinel ErrRestorePathRejected)
      else if \<not> path_exists env root then None
      else if is_reparse env root then issue ''reparse-point'' root
      else case final_path_resolved env root of
        Inl e \<Rightarrow> Some e
      | Inr final \<Rightarrow>
          if is_forbidden_target final then Some (Sentinel ErrRestorePathRejected)
          else if is_reparse env final then issue ''reparse-point'' final else None)"

text \<open>The walk of \<open>rejectReparseEscape\<close> from a path up to the directory below \<open>root\<close>.\<close>

fun reject_reparse :: "path_env \<Rightarrow> string \<Rightarrow> string list \<Rightarrow> go_error option" where
  "reject_reparse env root [] = None"
| "reject_reparse env root (cur # dirs) =
     (if is_reparse env cur then issue ''reparse-point'' cur
      else if is_cloud_placeholder env cur then issue ''cloud-placeholder'' cur
      else case dirs of
        [] \<Rightarrow> None
      | next_dir # _ \<Rightarrow> if equal_fold (win_clean next_dir) (win_clean root) then None
                     else reject_reparse env root dirs)"

definition existing_ancestor :: "path_env \<Rightarrow> string \<Rightarrow> string" where
  "existing_ancestor env p =
     (case find (path_exists env) (ancestors p) of Some q \<Rightarrow> q | None \<Rightarrow> last (ancestors p))"

definition confined_os :: "path_env \<Rightarrow> string \<Rightarrow> string \<Rightarrow> go_error option" where
  "confined_os env root dest =
     (case validate_root_os env root of Some e \<Rightarrow> Some e | None \<Rightarrow>
      if is_forbidden_target dest then Some (Sentinel ErrRestorePathRejected)
      else case final_path_resolved env (existing_ancestor env dest) of Inl e \<Rightarrow> Some e | Inr dest_final \<Rightarrow>
        if is_forbidden_target dest_final then Some (Sentinel ErrRestorePathRejected)
        else case final_path_resolved env root of Inl e \<Rightarrow> Some e | Inr root_final \<Rightarrow>
          (let rf = normalize_compare root_final; df = normalize_compare dest_final in
           if df \<noteq> rf \<and> \<not> has_prefix df (rf @ [backslash]) then Some (Sentinel ErrStagingEscape)
           else reject_reparse env root (ancestors dest)))"

section \<open>The checks of a destination\<close>

definition abs_path :: "path_env \<Rightarrow> string \<Rightarrow> go_error + string" where
  "abs_path env p = (if win_is_abs p then Inr (win_clean p) else map_sum id win_clean (pe_full env p))"

definition rel_escapes :: "string \<Rightarrow> bool" where
  "rel_escapes rel \<longleftrightarrow> rel = ''..'' \<or> has_prefix rel (''..'' @ [backslash]) \<or> win_is_abs rel"

definition confined_to_root :: "path_env \<Rightarrow> string \<Rightarrow> string \<Rightarrow> go_error option" where
  "confined_to_root env root dest =
     (case abs_path env root of Inl e \<Rightarrow> Some e | Inr r \<Rightarrow>
      (case abs_path env dest of Inl e \<Rightarrow> Some e | Inr d \<Rightarrow>
       (case win_rel r d of None \<Rightarrow> Some (Sentinel ErrStagingEscape) | Some rel \<Rightarrow>
        if rel_escapes rel then Some (Sentinel ErrStagingEscape) else confined_os env r d)))"

definition validate_restore_destination :: "path_env \<Rightarrow> string \<Rightarrow> string \<Rightarrow> go_error option" where
  "validate_restore_destination env root dest =
     (if dest = [] \<or> root = [] then Some (Sentinel ErrRestorePathRejected)
      else case reject_unsafe_lexical dest of Some e \<Rightarrow> Some e | None \<Rightarrow>
      (case reject_unsafe_lexical root of Some e \<Rightarrow> Some e | None \<Rightarrow> confined_to_root env root dest))"

definition validate_staging_root :: "path_env \<Rightarrow> string \<Rightarrow> go_error option" where
  "validate_staging_root env root =
     (if root = [] then Some (Sentinel ErrRestorePathRejected)
      else case reject_unsafe_lexical root of Some e \<Rightarrow> Some e | None \<Rightarrow>
      if is_forbidden_target root then Some (Sentinel ErrRestorePathRejected)
      else validate_root_os env root)"

section \<open>Facts\<close>

text \<open>What a path that passed the lexical checks is made of.\<close>

lemma reject_unsafe_lexical_None:
  assumes "reject_unsafe_lexical p = None"
  shows "p \<noteq> []" "CHR 0x00 \<notin> set p" "\<not> str_contains p ''://''" "\<not> has_prefix (from_slash p) [backslash, backslash]"
    "CHR '':'' \<in> set (from_slash p) \<Longrightarrow> has_drive_prefix (from_slash p) \<and> 2 < length (from_slash p) \<and> from_slash p ! 2 = backslash"
    "first_bad_part (split_on backslash (from_slash p)) = None"
proof -
  have c: "CHR '':'' \<notin> set (from_slash p) \<or> has_drive_prefix (from_slash p)"
    and d: "\<not> (has_drive_prefix (from_slash p) \<and> (length (from_slash p) = 2 \<or> from_slash p ! 2 \<noteq> backslash))"
    and f: "first_bad_part (split_on backslash (from_slash p)) = None"
    using assms by (auto simp: reject_unsafe_lexical_def Let_def issue_def split: if_splits option.splits)
  show "p \<noteq> []" "CHR 0x00 \<notin> set p" "\<not> str_contains p ''://''" "\<not> has_prefix (from_slash p) [backslash, backslash]"
    using assms by (auto simp: reject_unsafe_lexical_def Let_def issue_def split: if_splits)
  show "first_bad_part (split_on backslash (from_slash p)) = None" by (rule f)
  show "has_drive_prefix (from_slash p) \<and> 2 < length (from_slash p) \<and> from_slash p ! 2 = backslash"
    if "CHR '':'' \<in> set (from_slash p)"
    using c d that by (auto simp: has_drive_prefix_def)
qed

lemma first_bad_part_None: "first_bad_part xs = None \<longleftrightarrow> (\<forall>x\<in>set xs. check_part x = None)"
  by (induction xs) (auto split: option.splits)

lemma join_dotdot: "rel_escapes (join_with [backslash] (''..'' # xs))"
  by (cases xs) (simp_all add: rel_escapes_def)

text \<open>A path that is no escape extends the root, element by element.\<close>

lemma win_rel_confined:
  assumes "win_rel r d = Some rel" "\<not> rel_escapes rel"
  shows "equal_fold (parts_path (clean_parts d)) (parts_path (clean_parts r)) \<or>
    (\<exists>pre rest. pt_elems (clean_parts d) = pre @ rest \<and> list_all2 equal_fold (pt_elems (clean_parts r)) pre \<and>
       equal_fold (pt_volume (clean_parts r)) (pt_volume (clean_parts d)))"
proof (cases "equal_fold (parts_path (clean_parts d)) (parts_path (clean_parts r))")
  case other: False
  obtain bs ts where s: "strip_common (pt_elems (clean_parts r)) (pt_elems (clean_parts d)) = (bs, ts)" by force
  have v: "equal_fold (pt_volume (clean_parts r)) (pt_volume (clean_parts d))"
    using assms(1) other by (auto simp: win_rel_def Let_def split: if_splits)
  have "bs = []"
  proof (rule ccontr)
    assume "bs \<noteq> []"
    then obtain x xs where b: "bs = x # xs" by (cases bs) auto
    have "rel = join_with [backslash] (''..'' # replicate (length xs) ''..'' @ ts)"
      using assms(1) other s b by (auto simp: win_rel_def Let_def split: if_splits)
    then show False using assms(2) join_dotdot by simp
  qed
  then show ?thesis using strip_common_split [OF s] v by auto
qed simp

end
