(* ===== verification/Staging.thy ===== *)
theory Staging
  imports Paths Ports
begin

text \<open>
  The staging directory of a restore and the comparison of what was restored with an
  independent manifest (\<open>internal/windows/restore/staging.go\<close>). The directory walk is the list
  of the regular files it visits, or the error that ends it.
\<close>

section \<open>The staging directory\<close>

text \<open>What \<open>os.Stat\<close>, \<open>os.MkdirAll\<close> and the write of the marker answer.\<close>

datatype stat_answer = StatMissing | StatDir | StatFile

record staging_env =
  se_paths :: path_env
  se_stat :: "string \<Rightarrow> stat_answer"
  se_mkdir :: "string \<Rightarrow> go_error option"
  se_marker :: "string \<Rightarrow> go_error option"

definition prepare_staging :: "staging_env \<Rightarrow> string \<Rightarrow> string \<Rightarrow> go_error + staging_dir" where
  "prepare_staging env rt job =
     (if rt = [] \<or> job = [] then Inl (Sentinel ErrRestorePathRejected)
      else let dest = win_join rt job in
      case validate_restore_destination (se_paths env) rt dest of Some e \<Rightarrow> Inl e | None \<Rightarrow>
      (case validate_staging_root (se_paths env) rt of Some e \<Rightarrow> Inl e | None \<Rightarrow>
       if is_forbidden_target dest then Inl (Sentinel ErrRestorePathRejected)
       else if se_stat env dest = StatFile then Inl (Sentinel ErrRestorePathRejected)
       else case (if se_stat env dest = StatMissing then se_mkdir env dest else None) of Some e \<Rightarrow> Inl e | None \<Rightarrow>
       (case se_marker env (win_join dest ''.stowline-staging'') of Some e \<Rightarrow> Inl e
        | None \<Rightarrow> Inr \<lparr>sd_root = rt, sd_path = dest, sd_job_id = job\<rparr>)))"

definition revalidate_staging :: "staging_env \<Rightarrow> staging_dir \<Rightarrow> go_error option" where
  "revalidate_staging env d =
     (case validate_staging_root (se_paths env) (sd_root d) of Some e \<Rightarrow> Some e
      | None \<Rightarrow> validate_restore_destination (se_paths env) (sd_root d) (sd_path d))"

section \<open>Manifests\<close>

definition is_own_file :: "string \<Rightarrow> bool" where
  "is_own_file base \<longleftrightarrow> equal_fold base ''.stowline-staging'' \<or> equal_fold base ''result-manifest.json''"

definition path_base :: "string \<Rightarrow> string" where
  "path_base p = last (split_on CHR ''/'' (to_slash p))"

text \<open>The files of \<open>result-manifest.json\<close>: path relative to the directory, size and digest of each file found.\<close>

definition manifest_files :: "(string \<times> string \<times> int \<times> string) list \<Rightarrow> corpus_file list" where
  "manifest_files walk =
     map (\<lambda>(full, rel, sz, sha). \<lparr>cf_rel_path = to_slash rel, cf_size = sz, cf_sha256 = sha\<rparr>)
       (filter (\<lambda>(full, rel, sz, sha). \<not> is_own_file (path_base full)) walk)"

definition path_matches_rel :: "string \<Rightarrow> string \<Rightarrow> bool" where
  "path_matches_rel full rel0 =
     (let rel1 = to_slash rel0; rel = (if has_prefix rel1 ''./'' then drop 2 rel1 else rel1) in
      rel \<noteq> [] \<and> (full = rel \<or> has_suffix full (CHR ''/'' # rel)))"

type_synonym found_files = "string \<rightharpoonup> int \<times> string"

definition note_found :: "corpus_file list \<Rightarrow> found_files \<Rightarrow> string \<times> int \<times> string \<Rightarrow> found_files" where
  "note_found expected found f =
     (case f of (full, sz, sha) \<Rightarrow>
      if is_own_file (path_base full) then found
      else foldl (\<lambda>m want. if path_matches_rel (to_slash full) (cf_rel_path want)
                           then m(to_slash (cf_rel_path want) \<mapsto> (sz, sha)) else m) found expected)"

definition count_if :: "('a \<Rightarrow> bool) \<Rightarrow> 'a list \<Rightarrow> int" where
  "count_if p xs = int (length (filter p xs))"

definition compare_independent :: "go_error + (string \<times> int \<times> string) list \<Rightarrow> corpus_file list \<Rightarrow> go_error option" where
  "compare_independent walk expected =
     (if expected = [] then Some (wrap_msg ErrIncompleteStaging ''empty independent reference'')
      else case walk of Inl e \<Rightarrow> Some e | Inr files \<Rightarrow>
        (let found = foldl (note_found expected) Map.empty files;
             missing = count_if (\<lambda>w. found (to_slash (cf_rel_path w)) = None) expected;
             mismatch = count_if (\<lambda>w. case found (to_slash (cf_rel_path w)) of None \<Rightarrow> False
                          | Some (sz, sha) \<Rightarrow> sha \<noteq> cf_sha256 w \<or> sz \<noteq> cf_size w) expected
         in if missing > 0 \<or> mismatch > 0
            then Some (wrap_msg ErrIncompleteStaging (''missing='' @ show_int missing @ '' mismatch='' @ show_int mismatch))
            else None))"

section \<open>Facts\<close>

text \<open>Whatever the comparison holds for found was found by the walk, at a path that ends in the relative one.\<close>

definition found_in :: "(string \<times> int \<times> string) list \<Rightarrow> found_files \<Rightarrow> bool" where
  "found_in files found \<longleftrightarrow> (\<forall>rel sz sha. found rel = Some (sz, sha) \<longrightarrow>
     (\<exists>full rel0. (full, sz, sha) \<in> set files \<and> \<not> is_own_file (path_base full) \<and> to_slash rel0 = rel \<and>
        path_matches_rel (to_slash full) rel0))"

lemma foldl_wants:
  assumes "found_in files found" "(full, sz, sha) \<in> set files" "\<not> is_own_file (path_base full)"
  shows "found_in files (foldl (\<lambda>m want. if path_matches_rel (to_slash full) (cf_rel_path want)
      then m(to_slash (cf_rel_path want) \<mapsto> (sz, sha)) else m) found wants)"
  using assms(1)
proof (induction wants arbitrary: found)
  case (Cons w wants)
  have "found_in files (if path_matches_rel (to_slash full) (cf_rel_path w)
      then found(to_slash (cf_rel_path w) \<mapsto> (sz, sha)) else found)"
    using Cons.prems assms(2,3) unfolding found_in_def by auto
  then show ?case using Cons.IH by simp
qed simp

lemma foldl_found:
  assumes "found_in files found" "set xs \<subseteq> set files"
  shows "found_in files (foldl (note_found expected) found xs)"
  using assms
proof (induction xs arbitrary: found)
  case (Cons f xs)
  obtain full sz sha where f: "f = (full, sz, sha)" by (metis surj_pair)
  have "found_in files (note_found expected found f)"
    using Cons.prems foldl_wants [of files found full sz sha expected] by (simp add: note_found_def f)
  then show ?case using Cons by simp
qed simp

lemma count_if_none: "\<not> 0 < count_if p xs \<longleftrightarrow> (\<forall>x\<in>set xs. \<not> p x)"
  by (auto simp: count_if_def filter_empty_conv)

lemma compare_independent_None:
  assumes "compare_independent walk expected = None"
  shows "\<exists>files. walk = Inr files \<and> expected \<noteq> [] \<and> (\<forall>w\<in>set expected. \<exists>full rel0.
    (full, cf_size w, cf_sha256 w) \<in> set files \<and> to_slash rel0 = to_slash (cf_rel_path w) \<and>
    path_matches_rel (to_slash full) rel0)"
proof -
  obtain files where w: "walk = Inr files" "expected \<noteq> []"
    using assms by (auto simp: compare_independent_def split: if_splits sum.splits)
  let ?f = "foldl (note_found expected) Map.empty files"
  have n: "\<forall>w\<in>set expected. ?f (to_slash (cf_rel_path w)) \<noteq> None"
    and m: "\<forall>w\<in>set expected. \<not> (case ?f (to_slash (cf_rel_path w)) of None \<Rightarrow> False
       | Some (sz, sha) \<Rightarrow> sha \<noteq> cf_sha256 w \<or> sz \<noteq> cf_size w)"
    using assms w unfolding count_if_none [symmetric] by (auto simp: compare_independent_def Let_def split: if_splits)
  have f: "found_in files ?f" by (rule foldl_found) (simp_all add: found_in_def)
  have "\<exists>full rel0. (full, cf_size w, cf_sha256 w) \<in> set files \<and> to_slash rel0 = to_slash (cf_rel_path w) \<and>
      path_matches_rel (to_slash full) rel0" if "w \<in> set expected" for w
  proof -
    obtain sz sha where "?f (to_slash (cf_rel_path w)) = Some (sz, sha)" using n \<open>w \<in> _\<close> by fastforce
    moreover from this m \<open>w \<in> _\<close> have "sz = cf_size w" "sha = cf_sha256 w" by fastforce+
    ultimately show ?thesis using f unfolding found_in_def by blast
  qed
  then show ?thesis using w by blast
qed

end
