(* ===== verification/Storage_Connector.thy ===== *)
theory Storage_Connector
  imports Restic_Args WinPath
begin

text \<open>
  The storage connector (\<open>internal/adapters/storage/connector.go\<close>): a typed repository becomes the
  location and the options of the engine, and what it may not carry is refused. The pinned rclone
  binary is the connector's configuration.
\<close>

definition connector_bound :: "repository_descriptor \<Rightarrow> bound_repository" where
  "connector_bound d = \<lparr>bd_location = [], bd_options = [], bd_env = [], bd_capabilities = rd_capabilities d, bd_binary_pins = []\<rparr>"

definition bind_local :: "repository_descriptor \<Rightarrow> go_error + bound_repository" where
  "bind_local d =
     (if \<not> any_is_abs (rd_location d) then Inl (wrap_msg ErrConfig ''LOCAL backend cannot use rclone location'')
      else Inr ((connector_bound d)\<lparr>bd_location := rd_location d\<rparr>))"

definition rclone_pin_ok :: "binary_pin \<Rightarrow> bool" where
  "rclone_pin_ok pin \<longleftrightarrow>
     any_is_abs (bp_path pin) \<and> bp_sha256 pin \<noteq> [] \<and>
     \<not> contains_any (bp_path pin) [CHR 0x22, CHR 0x0D, CHR 0x0A, CHR 0x00, CHR '',''] \<and>
     \<not> contains_any (to_slash (bp_path pin)) [CHR '' '', CHR 0x09, CHR 0x5C]"

definition bind_rclone :: "binary_pin \<Rightarrow> repository_descriptor \<Rightarrow> go_error + bound_repository" where
  "bind_rclone pin d =
     (if \<not> rclone_pin_ok pin then
        Inl (wrap_msg ErrConfig ''rclone pin must be an absolute, digest-pinned path with no spaces'')
      else if \<not> has_prefix (rd_location d) ''rclone:'' then
        Inl (wrap_msg ErrConfig ''rclone backends require location rclone:<remote>:<path>'')
      else Inr ((connector_bound d)\<lparr>bd_location := rd_location d,
             bd_options := [(''rclone.program'', to_slash (bp_path pin))], bd_binary_pins := [pin],
             bd_env := (case map_of (rd_credential_refs d) ''rclone-config'' of
                          Some ref \<Rightarrow> if sr_locator ref \<noteq> [] then [(''RCLONE_CONFIG'', sr_locator ref, False)] else []
                        | None \<Rightarrow> [])\<rparr>))"

definition bind_rest :: "repository_descriptor \<Rightarrow> go_error + bound_repository" where
  "bind_rest d =
     (let loc = rd_location d; lab = has_prefix loc ''rest:http://'' in
      if \<not> (has_prefix loc ''rest:https://'' \<or> lab) then
        Inl (wrap_msg ErrConfig ''REST_GATEWAY location must be rest:https://host/path'')
      else if str_contains loc ''@'' then
        Inl (wrap_msg ErrConfig ''credentials must not appear in repository URLs'')
      else if lab \<and> rd_transport_profile d \<noteq> ''lab-insecure-http'' then
        Inl (wrap_msg ErrTLSVerification ''HTTP REST gateway requires transport_profile=lab-insecure-http'')
      else if str_contains loc ''..'' then Inl (wrap_msg ErrConfig ''gateway path rejected'')
      else Inr ((connector_bound d)\<lparr>bd_location := loc\<rparr>))"

definition connector_bind :: "binary_pin \<Rightarrow> repository_descriptor \<Rightarrow> go_error + bound_repository" where
  "connector_bind pin d =
     (case repository_validate d of Some e \<Rightarrow> Inl e
      | None \<Rightarrow>
          (case rd_backend_kind d of
             BackendLocal \<Rightarrow> bind_local d
           | BackendPilotRcloneLocal \<Rightarrow> bind_rclone pin d
           | BackendPilotRcloneDrive \<Rightarrow> bind_rclone pin d
           | BackendRESTGateway \<Rightarrow> bind_rest d
           | BackendS3 \<Rightarrow> Inl (Sentinel ErrCapabilityUnsupported)
           | BackendB2 \<Rightarrow> Inl (Sentinel ErrCapabilityUnsupported)
           | _ \<Rightarrow> Inl (wrap_msg ErrCapabilityUnsupported ''unsupported backend'')))"

section \<open>Facts\<close>

text \<open>
  A bound repository names the location of the descriptor; its options are words the engine does not
  split, its programs are pinned, and a gateway is reached without credentials in its location and
  over TLS outside the laboratory.
\<close>

lemma to_slash_mem: "c \<in> set (to_slash p) \<Longrightarrow> c = CHR ''/'' \<or> c \<in> set p"
  by (auto simp: to_slash_def)

lemma rclone_program_word:
  assumes "rclone_pin_ok pin"
  shows "\<not> contains_any (to_slash (bp_path pin)) [CHR '' '', CHR 0x09, CHR 0x5C, CHR '','', CHR 0x22, CHR 0x0D, CHR 0x0A]"
  using assms to_slash_mem [of _ "bp_path pin"]
  by (fastforce simp: rclone_pin_ok_def contains_any_def list_ex_iff)

lemma connector_bind_Inr:
  assumes "connector_bind pin d = Inr b"
  shows "repository_validate d = None" "bd_location b = rd_location d" "bd_capabilities b = rd_capabilities d"
    "\<forall>(k, v)\<in>set (bd_options b). \<not> contains_any v [CHR '' '', CHR 0x09, CHR 0x5C, CHR '','', CHR 0x22, CHR 0x0D, CHR 0x0A]"
    "\<forall>p\<in>set (bd_binary_pins b). any_is_abs (bp_path p) \<and> bp_sha256 p \<noteq> []"
    "rd_backend_kind d = BackendRESTGateway \<Longrightarrow> \<not> str_contains (bd_location b) ''@'' \<and>
       (has_prefix (bd_location b) ''rest:https://'' \<or> rd_transport_profile d = ''lab-insecure-http'')"
proof -
  show "repository_validate d = None" using assms by (simp add: connector_bind_def split: option.splits)
  then have "bind_local d = Inr b \<and> rd_backend_kind d \<noteq> BackendRESTGateway \<or>
      bind_rclone pin d = Inr b \<and> rd_backend_kind d \<noteq> BackendRESTGateway \<or> bind_rest d = Inr b"
    using assms by (auto simp: connector_bind_def split: backend_kind.splits)
  then consider (loc) "bind_local d = Inr b" "rd_backend_kind d \<noteq> BackendRESTGateway"
    | (rcl) "bind_rclone pin d = Inr b" "rd_backend_kind d \<noteq> BackendRESTGateway" | (rest) "bind_rest d = Inr b" by blast
  then have "bd_location b = rd_location d \<and> bd_capabilities b = rd_capabilities d \<and>
    (\<forall>(k, v)\<in>set (bd_options b). \<not> contains_any v [CHR '' '', CHR 0x09, CHR 0x5C, CHR '','', CHR 0x22, CHR 0x0D, CHR 0x0A]) \<and>
    (\<forall>p\<in>set (bd_binary_pins b). any_is_abs (bp_path p) \<and> bp_sha256 p \<noteq> []) \<and>
    (rd_backend_kind d = BackendRESTGateway \<longrightarrow> \<not> str_contains (bd_location b) ''@'' \<and>
       (has_prefix (bd_location b) ''rest:https://'' \<or> rd_transport_profile d = ''lab-insecure-http''))"
  proof cases
    case rcl
    then have pin: "rclone_pin_ok pin" and b: "bd_location b = rd_location d" "bd_capabilities b = rd_capabilities d"
        "bd_options b = [(''rclone.program'', to_slash (bp_path pin))]" "bd_binary_pins b = [pin]"
      by (auto simp: bind_rclone_def connector_bound_def split: if_splits)
    show ?thesis using rclone_program_word [OF pin] pin rcl(2) unfolding b by (simp add: rclone_pin_ok_def)
  next
    case loc
    then show ?thesis by (auto simp: bind_local_def connector_bound_def split: if_splits)
  next
    case rest
    then show ?thesis by (auto simp: bind_rest_def connector_bound_def Let_def split: if_splits)
  qed
  then show "bd_location b = rd_location d" "bd_capabilities b = rd_capabilities d"
    "\<forall>(k, v)\<in>set (bd_options b). \<not> contains_any v [CHR '' '', CHR 0x09, CHR 0x5C, CHR '','', CHR 0x22, CHR 0x0D, CHR 0x0A]"
    "\<forall>p\<in>set (bd_binary_pins b). any_is_abs (bp_path p) \<and> bp_sha256 p \<noteq> []"
    "rd_backend_kind d = BackendRESTGateway \<Longrightarrow> \<not> str_contains (bd_location b) ''@'' \<and>
       (has_prefix (bd_location b) ''rest:https://'' \<or> rd_transport_profile d = ''lab-insecure-http'')"
    by blast+
qed

end
