(* ===== verification/Restore_Jobs.thy ===== *)
theory Restore_Jobs
  imports Files Domain_Redact Paths GoJson
begin

text \<open>
  The restores a user starts from the page of the agent (\<open>cmd/stowline-agent/localrestore.go\<close>). The
  list of jobs is shared under one lock by the page, the goroutine of the running restore and the
  timers of the reports; every locked section is one step here, and the steps interleave freely. A
  goroutine holds a pointer to its job: as ids are never reused it is found by its id. The list is kept
  in a file over restarts of the agent. What \<open>Run\<close> and \<open>GrantRead\<close> answer is an argument of the step in
  which the goroutine ends; JSON, \<open>filepath.Abs\<close> and the clock are the environment's.
\<close>

section \<open>Jobs\<close>

record restore_progress =
  rg_percent :: rat
  rg_files_done :: int
  rg_total_files :: int
  rg_bytes_done :: int
  rg_total_bytes :: int

datatype local_state = LocalRunning | LocalDone | LocalFailed | LocalCancelled

record restore_job =
  rj_id :: string
  rj_snapshot_id :: string
  rj_selections :: "string list"
  rj_state :: local_state
  rj_progress :: restore_progress
  rj_started_at :: time
  rj_ended_at :: time
  rj_staging :: string
  rj_delivered_to :: string
  rj_error :: string
  rj_reported :: bool
  rj_owner :: string
  rj_cancel :: bool

definition max_restore_jobs :: nat where "max_restore_jobs = 20"

definition restore_busy :: go_error where
  "restore_busy = PlainError ''a restore is already running''"

text \<open>
  The process: the jobs, the ids it has issued, the goroutines under way, the contexts cancelled, the
  timers and the deliveries whose report is still to come; and what it did outside, the directories
  it removed and the reports it sent.
\<close>

record restore_world = "string disk" +
  rw_jobs :: "restore_job list"
  rw_issued :: "string list"
  rw_live :: "string list"
  rw_cancelled :: "string list"
  rw_timers :: "string list"
  rw_pending :: "(string \<times> string) list"
  rw_removed :: "string list"
  rw_reports :: "(string \<times> string) list"

record restore_env =
  rz_disk :: "string disk_env"
  rz_state_path :: string
  rz_staging_root :: string
  rz_encode :: "restore_job list \<Rightarrow> string option"
  rz_decode :: "string \<Rightarrow> restore_job list option"
  rz_abs :: "string \<Rightarrow> string option"
  rz_now :: "nat \<Rightarrow> time"
  rz_grants :: bool
  rz_reports :: bool
  rz_report_delay :: duration

definition set_jobs :: "(restore_job list \<Rightarrow> restore_job list) \<Rightarrow> restore_world \<Rightarrow> restore_world" where
  "set_jobs f w = w\<lparr>rw_jobs := f (rw_jobs w)\<rparr>"

definition update_job :: "string \<Rightarrow> (restore_job \<Rightarrow> restore_job) \<Rightarrow> restore_world \<Rightarrow> restore_world" where
  "update_job i f = set_jobs (row_update rj_id i f)"

definition clock :: "restore_env \<Rightarrow> restore_world \<Rightarrow> time \<times> restore_world" where
  "clock env w = (rz_now env (dk_pos w), disk_step w)"

section \<open>The file of the jobs\<close>

definition save_locked :: "restore_env \<Rightarrow> restore_world \<Rightarrow> restore_world" where
  "save_locked env w =
     (let path = rz_state_path env; tmp = path @ ''.tmp'' in
      if path = [] then w
      else case rz_encode env (rw_jobs w) of None \<Rightarrow> w
      | Some raw \<Rightarrow>
          (case os_write (rz_disk env) tmp raw (snd (os_mkdir_all (rz_disk env) (win_dir path) w)) of
             (Some _, w1) \<Rightarrow> w1
           | (None, w1) \<Rightarrow> snd (os_rename (rz_disk env) tmp path w1)))"

text \<open>A job that was running when the agent stopped is shown as failed.\<close>

definition interrupt_job :: "restore_env \<Rightarrow> restore_job \<Rightarrow> restore_world \<Rightarrow> restore_job \<times> restore_world" where
  "interrupt_job env j w =
     (if rj_state j \<noteq> LocalRunning then (j, w)
      else
        let j1 = j\<lparr>rj_state := LocalFailed, rj_error := ''interrupted''\<rparr> in
        if rj_ended_at j \<noteq> 0 then (j1, w)
        else case clock env w of (now, w1) \<Rightarrow> (j1\<lparr>rj_ended_at := now\<rparr>, w1))"

fun interrupt_jobs :: "restore_env \<Rightarrow> restore_job list \<Rightarrow> restore_world \<Rightarrow> restore_job list \<times> restore_world" where
  "interrupt_jobs env [] w = ([], w)"
| "interrupt_jobs env (j # js) w =
     (case interrupt_job env j w of (k, w1) \<Rightarrow>
      case interrupt_jobs env js w1 of (ks, w2) \<Rightarrow> (k # ks, w2))"

definition load_jobs :: "restore_env \<Rightarrow> restore_world \<Rightarrow> restore_world" where
  "load_jobs env w =
     (if rz_state_path env = [] then w
      else case os_read (rz_disk env) (rz_state_path env) w of
        (Inl _, w1) \<Rightarrow> w1
      | (Inr raw, w1) \<Rightarrow>
          (case rz_decode env raw of None \<Rightarrow> w1
           | Some js \<Rightarrow> (case interrupt_jobs env js w1 of (ks, w2) \<Rightarrow> set_jobs (\<lambda>_. ks) w2)))"

section \<open>Operations\<close>

definition running_locked :: "restore_job list \<Rightarrow> restore_job option" where
  "running_locked js = find (\<lambda>j. rj_state j = LocalRunning) js"

definition no_progress :: restore_progress where
  "no_progress = \<lparr>rg_percent = 0, rg_files_done = 0, rg_total_files = 0, rg_bytes_done = 0, rg_total_bytes = 0\<rparr>"

definition start_as :: "restore_env \<Rightarrow> string \<Rightarrow> string \<Rightarrow> string \<Rightarrow> string list \<Rightarrow> restore_world \<Rightarrow>
    (go_error + restore_job) \<times> restore_world" where
  "start_as env uid owner snapshot selections w =
     (if running_locked (rw_jobs w) \<noteq> None then (Inl restore_busy, w)
      else case clock env (w\<lparr>rw_issued := uid # rw_issued w\<rparr>) of (now, w1) \<Rightarrow>
        let job = \<lparr>rj_id = uid, rj_snapshot_id = snapshot, rj_selections = selections, rj_state = LocalRunning,
              rj_progress = no_progress, rj_started_at = now, rj_ended_at = 0, rj_staging = [], rj_delivered_to = [],
              rj_error = [], rj_reported = False, rj_owner = owner, rj_cancel = True\<rparr>;
            w2 = save_locked env (set_jobs (\<lambda>js. take max_restore_jobs (job # js)) w1)
        in (Inr job, w2\<lparr>rw_live := uid # rw_live w2\<rparr>))"

definition job_progress :: "string \<Rightarrow> restore_progress \<Rightarrow> restore_world \<Rightarrow> restore_world" where
  "job_progress i p = update_job i (\<lambda>j. j\<lparr>rj_progress := p\<rparr>)"

text \<open>\<open>removeStagingLocked\<close>: a job's own directory, never one outside the staging root.\<close>

definition remove_staging :: "restore_env \<Rightarrow> string \<Rightarrow> restore_world \<Rightarrow> restore_world" where
  "remove_staging env staging w =
     (if staging = [] \<or> rz_staging_root env = [] then w
      else case rz_abs env (rz_staging_root env) of None \<Rightarrow> w
      | Some base \<Rightarrow>
          (case rz_abs env staging of None \<Rightarrow> w
           | Some dir \<Rightarrow>
               (case win_rel base dir of None \<Rightarrow> w
                | Some rel \<Rightarrow>
                    if rel = ''.'' \<or> has_prefix rel ''..'' \<or> win_is_abs rel then w
                    else w\<lparr>rw_removed := rw_removed w @ [dir]\<rparr>)))"

definition full_progress :: "restore_progress \<Rightarrow> restore_progress" where
  "full_progress p = p\<lparr>rg_percent := 100,
     rg_bytes_done := (if rg_total_bytes p > 0 then rg_total_bytes p else rg_bytes_done p),
     rg_files_done := (if rg_total_files p > 0 then rg_total_files p else rg_files_done p)\<rparr>"

text \<open>The end of the goroutine, after \<open>Run\<close> has returned the staging directory and its error.\<close>

definition granted :: "restore_env \<Rightarrow> string \<Rightarrow> go_error option \<Rightarrow> go_error option \<Rightarrow> go_error option" where
  "granted env staging err grant = (if err = None \<and> staging \<noteq> [] \<and> rz_grants env then grant else err)"

definition ended_job :: "bool \<Rightarrow> string \<Rightarrow> go_error option \<Rightarrow> time \<Rightarrow> restore_job \<Rightarrow> restore_job" where
  "ended_job cancelled staging err now j =
     (let j1 = j\<lparr>rj_ended_at := now, rj_cancel := False\<rparr> in
      if cancelled then j1\<lparr>rj_state := LocalCancelled\<rparr>
      else case err of
        Some e \<Rightarrow> j1\<lparr>rj_state := LocalFailed, rj_error := redact (error_text e)\<rparr>
      | None \<Rightarrow> j1\<lparr>rj_state := LocalDone, rj_staging := staging, rj_progress := full_progress (rj_progress j)\<rparr>)"

definition end_run :: "restore_env \<Rightarrow> string \<Rightarrow> string \<Rightarrow> go_error option \<Rightarrow> go_error option \<Rightarrow> restore_world \<Rightarrow> restore_world" where
  "end_run env i staging run_err grant w =
     (let err = granted env staging run_err grant; cancelled = i \<in> set (rw_cancelled w); ok = \<not> cancelled \<and> err = None in
      case clock env w of (now, w1) \<Rightarrow>
        let w2 = update_job i (ended_job cancelled staging err now) w1;
            w3 = save_locked env (if ok then w2 else remove_staging env staging w2)
        in w3\<lparr>rw_live := removeAll i (rw_live w3),
              rw_timers := (if ok \<and> rz_reports env \<and> rz_report_delay env > 0 then i # rw_timers w3 else rw_timers w3)\<rparr>)"

text \<open>The last job of the list with an id, as the loops without a break find it.\<close>

definition job_by_id :: "string \<Rightarrow> restore_world \<Rightarrow> restore_job option" where
  "job_by_id i w = row_find rj_id i (rev (rw_jobs w))"

definition report_once :: "restore_env \<Rightarrow> string \<Rightarrow> string \<Rightarrow> restore_world \<Rightarrow> restore_world" where
  "report_once env i destination w =
     (case job_by_id i w of None \<Rightarrow> w
      | Some j \<Rightarrow>
          if rj_reported j \<or> \<not> rz_reports env then w
          else
            let w1 = save_locked env (update_job i (\<lambda>j. j\<lparr>rj_reported := True\<rparr>) w)
            in w1\<lparr>rw_reports := rw_reports w1 @ [(i, if destination = [] then rj_staging j else destination)]\<rparr>)"

text \<open>The locked part of \<open>Delivered\<close>; the report follows in a step of its own.\<close>

definition delivered :: "restore_env \<Rightarrow> string \<Rightarrow> string \<Rightarrow> restore_world \<Rightarrow> go_error option \<times> restore_world" where
  "delivered env i destination w =
     (case job_by_id i w of None \<Rightarrow> (Some (PlainError ''unknown restore''), w)
      | Some j \<Rightarrow>
          if rj_state j \<noteq> LocalDone then (Some (PlainError ''restore is not finished''), w)
          else
            let w1 = save_locked env (update_job i (\<lambda>j. j\<lparr>rj_delivered_to := destination, rj_staging := []\<rparr>)
                       (remove_staging env (rj_staging j) w))
            in (None, w1\<lparr>rw_pending := (i, destination) # rw_pending w1\<rparr>))"

definition cancel_job :: "string \<Rightarrow> restore_world \<Rightarrow> bool \<times> restore_world" where
  "cancel_job i w =
     (case find (\<lambda>j. rj_id j = i \<and> rj_state j = LocalRunning \<and> rj_cancel j) (rw_jobs w) of
        None \<Rightarrow> (False, w)
      | Some _ \<Rightarrow> (True, w\<lparr>rw_cancelled := i # rw_cancelled w\<rparr>))"

definition get_job :: "string \<Rightarrow> restore_world \<Rightarrow> restore_job option" where
  "get_job i w = row_find rj_id i (rw_jobs w)"

definition list_jobs :: "restore_world \<Rightarrow> restore_job list" where
  "list_jobs w = rw_jobs w"

definition list_for :: "string \<Rightarrow> restore_world \<Rightarrow> restore_job list" where
  "list_for owner w = filter (\<lambda>j. rj_owner j = owner) (list_jobs w)"

definition current_job :: "restore_world \<Rightarrow> restore_job option" where
  "current_job w = running_locked (rw_jobs w)"

section \<open>The process\<close>

text \<open>A stop of the agent: what is in memory is gone, and the next start reads the file.\<close>

definition restart_jobs :: "restore_env \<Rightarrow> restore_world \<Rightarrow> restore_world" where
  "restart_jobs env w =
     load_jobs env (w\<lparr>rw_jobs := [], rw_live := [], rw_cancelled := [], rw_timers := [], rw_pending := []\<rparr>)"

text \<open>\<open>NewJobID\<close> returns a random UUID: an id is never issued twice.\<close>

inductive restore_step :: "restore_env \<Rightarrow> restore_world \<Rightarrow> restore_world \<Rightarrow> bool" for env where
  start: "uid \<notin> set (rw_issued w) \<Longrightarrow> restore_step env w (snd (start_as env uid owner snapshot selections w))"
| progress: "i \<in> set (rw_live w) \<Longrightarrow> restore_step env w (job_progress i p w)"
| ends: "i \<in> set (rw_live w) \<Longrightarrow> restore_step env w (end_run env i staging err grant w)"
| cancel: "restore_step env w (snd (cancel_job i w))"
| deliver: "restore_step env w (snd (delivered env i destination w))"
| report: "(i, d) \<in> set (rw_pending w) \<Longrightarrow>
    restore_step env w (report_once env i d (w\<lparr>rw_pending := removeAll (i, d) (rw_pending w)\<rparr>))"
| timer: "i \<in> set (rw_timers w) \<Longrightarrow>
    restore_step env w (report_once env i [] (w\<lparr>rw_timers := removeAll i (rw_timers w)\<rparr>))"
| restart: "restore_step env w (restart_jobs env w)"

inductive restore_reach :: "restore_env \<Rightarrow> restore_world \<Rightarrow> restore_world \<Rightarrow> bool" for env w0 where
  init: "restore_reach env w0 w0"
| step: "restore_reach env w0 w \<Longrightarrow> restore_step env w w' \<Longrightarrow> restore_reach env w0 w'"

section \<open>Facts\<close>

text \<open>Saving writes the file of the jobs or leaves it as it was, and changes nothing in memory.\<close>

lemma restore_more:
  "disk.more w' = disk.more w \<Longrightarrow> rw_jobs w' = rw_jobs w \<and> rw_issued w' = rw_issued w \<and> rw_live w' = rw_live w \<and>
     rw_cancelled w' = rw_cancelled w \<and> rw_timers w' = rw_timers w \<and> rw_pending w' = rw_pending w \<and>
     rw_removed w' = rw_removed w \<and> rw_reports w' = rw_reports w" for w w' :: restore_world
  by (cases w; cases w') simp

lemma save_more: "disk.more (save_locked env w) = disk.more w"
  unfolding save_locked_def Let_def
  by (auto split: option.splits prod.splits dest!: os_more(3))

lemmas save_fields [simp] = restore_more [OF save_more, THEN conjunct1]
  restore_more [OF save_more, THEN conjunct2, THEN conjunct1]
  restore_more [OF save_more, THEN conjunct2, THEN conjunct2, THEN conjunct1]
  restore_more [OF save_more, THEN conjunct2, THEN conjunct2, THEN conjunct2, THEN conjunct1]
  restore_more [OF save_more, THEN conjunct2, THEN conjunct2, THEN conjunct2, THEN conjunct2, THEN conjunct1]
  restore_more [OF save_more, THEN conjunct2, THEN conjunct2, THEN conjunct2, THEN conjunct2, THEN conjunct2, THEN conjunct1]
  restore_more [OF save_more, THEN conjunct2, THEN conjunct2, THEN conjunct2, THEN conjunct2, THEN conjunct2, THEN conjunct2, THEN conjunct1]
  restore_more [OF save_more, THEN conjunct2, THEN conjunct2, THEN conjunct2, THEN conjunct2, THEN conjunct2, THEN conjunct2, THEN conjunct2]

lemma save_file:
  "disk_file (save_locked env w) (rz_state_path env) = disk_file w (rz_state_path env) \<or>
   (\<exists>raw. rz_encode env (rw_jobs w) = Some raw \<and> disk_file (save_locked env w) (rz_state_path env) = Some raw)"
proof (cases "rz_state_path env = [] \<or> rz_encode env (rw_jobs w) = None")
  case True
  then show ?thesis by (auto simp: save_locked_def Let_def)
next
  case False
  let ?path = "rz_state_path env" and ?tmp = "rz_state_path env @ ''.tmp''"
  obtain raw where raw: "rz_encode env (rw_jobs w) = Some raw" using False by blast
  obtain e w1 where wr: "os_write (rz_disk env) ?tmp raw (snd (os_mkdir_all (rz_disk env) (win_dir ?path) w)) = (e, w1)" by force
  have kept: "disk_file w1 ?path = disk_file w ?path"
    using os_write_file(2) [OF wr] by auto
  show ?thesis
  proof (cases e)
    case (Some x)
    then show ?thesis using kept False raw wr by (simp add: save_locked_def Let_def)
  next
    case None
    obtain e2 w2 where mv: "os_rename (rz_disk env) ?tmp ?path w1 = (e2, w2)" by force
    have saved: "save_locked env w = w2" using False raw wr None mv by (simp add: save_locked_def Let_def)
    have "disk_file w1 ?tmp = Some raw" using os_write_file(1) [OF wr None] by simp
    then show ?thesis using os_rename_file [OF mv] kept saved raw by (cases e2) auto
  qed
qed

definition saved_jobs :: "restore_env \<Rightarrow> restore_world \<Rightarrow> restore_job list option" where
  "saved_jobs env w =
     (if rz_state_path env = [] then None else Option.bind (disk_file w (rz_state_path env)) (rz_decode env))"

text \<open>What JSON keeps of a job: everything but the function that cancels it.\<close>

definition jobs_codec :: "restore_env \<Rightarrow> bool" where
  "jobs_codec env \<longleftrightarrow> (\<forall>js raw. rz_encode env js = Some raw \<longrightarrow>
     rz_decode env raw = Some (map (\<lambda>j. j\<lparr>rj_cancel := False\<rparr>) js))"

definition jobs_ok :: "string list \<Rightarrow> restore_job list \<Rightarrow> bool" where
  "jobs_ok issued js \<longleftrightarrow> distinct (map rj_id js) \<and> rj_id ` set js \<subseteq> set issued \<and> length js \<le> max_restore_jobs \<and>
     (\<forall>j\<in>set js. rj_state j \<noteq> LocalDone \<longrightarrow> rj_staging j = [])"

lemma jobs_ok_update:
  assumes "jobs_ok issued js" "\<And>j. rj_id (f j) = rj_id j"
    "\<And>j. j \<in> set js \<Longrightarrow> rj_id j = i \<Longrightarrow> rj_state (f j) \<noteq> LocalDone \<Longrightarrow> rj_staging (f j) = []"
  shows "jobs_ok issued (row_update rj_id i f js)"
proof -
  have ids: "map rj_id (row_update rj_id i f js) = map rj_id js" by (rule map_row_update) (rule assms(2))
  then have "rj_id ` set (row_update rj_id i f js) = rj_id ` set js" by (metis set_map)
  then show ?thesis using assms(1,3) ids by (auto simp: jobs_ok_def set_row_update)
qed

lemma jobs_ok_codec: "jobs_ok issued (map (\<lambda>j. j\<lparr>rj_cancel := False\<rparr>) js) = jobs_ok issued js"
  by (simp add: jobs_ok_def comp_def image_image)

lemma jobs_ok_issued: "jobs_ok issued js \<Longrightarrow> jobs_ok (i # issued) js"
  by (auto simp: jobs_ok_def)

definition files_ok :: "restore_env \<Rightarrow> restore_world \<Rightarrow> bool" where
  "files_ok env w \<longleftrightarrow> jobs_ok (rw_issued w) (rw_jobs w) \<and> (\<forall>js. saved_jobs env w = Some js \<longrightarrow> jobs_ok (rw_issued w) js)"

lemma files_ok_save:
  assumes "jobs_codec env" "files_ok env w"
  shows "files_ok env (save_locked env w)"
  using save_file [of env w] assms
  by (auto simp: files_ok_def saved_jobs_def jobs_codec_def jobs_ok_codec)

text \<open>
  What holds in every state: the jobs in memory and in the file have ids of their own and number at
  most twenty; the running ones are those of the goroutines, of which there is at most one; and every
  directory that was removed lies below the staging root.
\<close>

definition staged_below :: "restore_env \<Rightarrow> string \<Rightarrow> bool" where
  "staged_below env d \<longleftrightarrow> (\<exists>base pre rest. rz_abs env (rz_staging_root env) = Some base \<and>
     pt_elems (clean_parts d) = pre @ rest \<and> list_all2 equal_fold (pt_elems (clean_parts base)) pre \<and>
     equal_fold (pt_volume (clean_parts base)) (pt_volume (clean_parts d)))"

definition live_ok :: "restore_world \<Rightarrow> bool" where
  "live_ok w \<longleftrightarrow> (\<forall>j\<in>set (rw_jobs w). rj_state j = LocalRunning \<longleftrightarrow> rj_id j \<in> set (rw_live w)) \<and>
     (\<forall>i\<in>set (rw_live w). \<forall>k\<in>set (rw_live w). i = k) \<and> set (rw_live w) \<subseteq> rj_id ` set (rw_jobs w)"

definition restores_ok :: "restore_env \<Rightarrow> restore_world \<Rightarrow> bool" where
  "restores_ok env w \<longleftrightarrow> files_ok env w \<and> live_ok w \<and> (\<forall>d\<in>set (rw_removed w). staged_below env d)"

lemma running_none: "running_locked js = None \<longleftrightarrow> (\<forall>j\<in>set js. rj_state j \<noteq> LocalRunning)"
  by (auto simp: running_locked_def find_None_iff)

lemma disk_step_fields [simp]:
  "rw_jobs (disk_step w) = rw_jobs w" "rw_issued (disk_step w) = rw_issued w" "rw_live (disk_step w) = rw_live w"
  "rw_removed (disk_step w) = rw_removed w" "rw_cancelled (disk_step w) = rw_cancelled w"
  "rw_reports (disk_step w) = rw_reports w" "rw_timers (disk_step w) = rw_timers w" "rw_pending (disk_step w) = rw_pending w"
  for w :: restore_world
  by (simp_all add: disk_step_def)

lemma set_jobs_fields [simp]:
  "rw_jobs (set_jobs f w) = f (rw_jobs w)" "rw_issued (set_jobs f w) = rw_issued w" "rw_live (set_jobs f w) = rw_live w"
  "rw_removed (set_jobs f w) = rw_removed w" "rw_cancelled (set_jobs f w) = rw_cancelled w" "disk_file (set_jobs f w) = disk_file w"
  "rw_reports (set_jobs f w) = rw_reports w" "rw_timers (set_jobs f w) = rw_timers w" "rw_pending (set_jobs f w) = rw_pending w"
  by (simp_all add: set_jobs_def disk_file_def)

lemma saved_jobs_cong: "disk_file w' = disk_file w \<Longrightarrow> saved_jobs env w' = saved_jobs env w"
  by (simp add: saved_jobs_def)

lemma memory_file [simp]:
  "disk_file (w\<lparr>rw_live := a\<rparr>) = disk_file w" "disk_file (w\<lparr>rw_issued := a\<rparr>) = disk_file w"
  "disk_file (w\<lparr>rw_cancelled := a\<rparr>) = disk_file w" "disk_file (w\<lparr>rw_timers := a\<rparr>) = disk_file w"
  "disk_file (w\<lparr>rw_pending := b\<rparr>) = disk_file w" "disk_file (w\<lparr>rw_removed := a\<rparr>) = disk_file w"
  "disk_file (w\<lparr>rw_reports := b\<rparr>) = disk_file w" "disk_file (w\<lparr>rw_jobs := c\<rparr>) = disk_file w"
  by (simp_all add: disk_file_def)

text \<open>Removing and reporting.\<close>

lemma remove_staging_cases:
  "remove_staging env staging w = w \<or>
   (\<exists>d. staged_below env d \<and> remove_staging env staging w = w\<lparr>rw_removed := rw_removed w @ [d]\<rparr>)"
proof -
  have "staged_below env d"
    if "rz_abs env (rz_staging_root env) = Some base" "win_rel base d = Some rel" "rel \<noteq> ''.''" "\<not> has_prefix rel ''..''" "\<not> win_is_abs rel"
    for base d rel
  proof -
    have "\<not> rel_escapes rel" using that by (auto simp: rel_escapes_def has_prefix_iff)
    moreover have "\<not> equal_fold (parts_path (clean_parts d)) (parts_path (clean_parts base))"
      using that(2,3) by (auto simp: win_rel_def Let_def split: if_splits)
    ultimately show ?thesis using win_rel_confined [OF that(2)] that(1) unfolding staged_below_def by blast
  qed
  then show ?thesis unfolding remove_staging_def by (auto split: option.splits)
qed

lemma remove_staging_ok:
  assumes "\<forall>d\<in>set (rw_removed w). staged_below env d"
  shows "\<forall>d\<in>set (rw_removed (remove_staging env staging w)). staged_below env d"
    "rw_jobs (remove_staging env staging w) = rw_jobs w" "rw_issued (remove_staging env staging w) = rw_issued w"
    "rw_live (remove_staging env staging w) = rw_live w" "disk_file (remove_staging env staging w) = disk_file w"
    "rw_timers (remove_staging env staging w) = rw_timers w" "rw_reports (remove_staging env staging w) = rw_reports w"
    "rw_pending (remove_staging env staging w) = rw_pending w"
  using remove_staging_cases [of env staging w] assms by auto

lemma interrupt_job_result:
  assumes "interrupt_job env j w = (k, w')"
  shows "rj_id k = rj_id j \<and> rj_state k \<noteq> LocalRunning \<and> rj_staging k = rj_staging j \<and> rj_reported k = rj_reported j \<and>
      (rj_state j \<noteq> LocalDone \<longrightarrow> rj_state k \<noteq> LocalDone) \<and> (rj_state j = LocalDone \<longrightarrow> rj_state k = LocalDone)"
    "disk.more w' = disk.more w" "disk_file w' = disk_file w"
  using assms by (auto simp: interrupt_job_def clock_def Let_def split: if_splits)

lemma interrupt_jobs_result:
  assumes "interrupt_jobs env js w = (ks, w')"
  shows "map rj_id ks = map rj_id js" "map rj_reported ks = map rj_reported js"
    "\<forall>k\<in>set ks. rj_state k \<noteq> LocalRunning" "disk.more w' = disk.more w" "disk_file w' = disk_file w"
    "\<forall>j\<in>set js. rj_state j \<noteq> LocalDone \<longrightarrow> rj_staging j = [] \<Longrightarrow> \<forall>k\<in>set ks. rj_state k \<noteq> LocalDone \<longrightarrow> rj_staging k = []"
proof -
  have "map rj_id ks = map rj_id js \<and> map rj_reported ks = map rj_reported js \<and> (\<forall>k\<in>set ks. rj_state k \<noteq> LocalRunning) \<and>
      disk.more w' = disk.more w \<and> disk_file w' = disk_file w \<and>
      ((\<forall>j\<in>set js. rj_state j \<noteq> LocalDone \<longrightarrow> rj_staging j = []) \<longrightarrow> (\<forall>k\<in>set ks. rj_state k \<noteq> LocalDone \<longrightarrow> rj_staging k = []))"
    using assms
  proof (induction js arbitrary: ks w w')
    case (Cons j js)
    obtain k w1 where k: "interrupt_job env j w = (k, w1)" by force
    obtain ms w2 where ms: "interrupt_jobs env js w1 = (ms, w2)" by force
    have "ks = k # ms" "w' = w2" using Cons.prems k ms by simp_all
    then show ?case using Cons.IH [OF ms] interrupt_job_result [OF k] by auto
  qed simp
  then show "map rj_id ks = map rj_id js" "map rj_reported ks = map rj_reported js"
    "\<forall>k\<in>set ks. rj_state k \<noteq> LocalRunning" "disk.more w' = disk.more w" "disk_file w' = disk_file w"
    "\<forall>j\<in>set js. rj_state j \<noteq> LocalDone \<longrightarrow> rj_staging j = [] \<Longrightarrow> \<forall>k\<in>set ks. rj_state k \<noteq> LocalDone \<longrightarrow> rj_staging k = []"
    by blast+
qed

lemma load_jobs_result:
  obtains (kept) "rw_jobs (load_jobs env w) = rw_jobs w"
  | (loaded) js w1 w2 ks where "saved_jobs env w = Some js" "interrupt_jobs env js w1 = (ks, w2)" "rw_jobs (load_jobs env w) = ks"
proof (cases "rz_state_path env = []")
  case True
  then show ?thesis using kept by (simp add: load_jobs_def)
next
  case False
  obtain x w1 where rd: "os_read (rz_disk env) (rz_state_path env) w = (x, w1)" by force
  note m = restore_more [OF os_more(1) [OF rd]]
  show ?thesis
  proof (cases x)
    case (Inl e)
    then show ?thesis using kept False rd m by (simp add: load_jobs_def)
  next
    case (Inr raw)
    then have raw: "disk_file w (rz_state_path env) = Some raw" using os_read_cases(2) [OF rd] by simp
    show ?thesis
    proof (cases "rz_decode env raw")
      case None
      then show ?thesis using kept False rd Inr m by (simp add: load_jobs_def)
    next
      case (Some js)
      obtain ks w2 where i: "interrupt_jobs env js w1 = (ks, w2)" by force
      show ?thesis using loaded [OF _ i] False rd Inr Some raw i by (simp add: load_jobs_def saved_jobs_def)
    qed
  qed
qed

lemma load_jobs_keeps:
  "disk_file (load_jobs env w) = disk_file w" "rw_issued (load_jobs env w) = rw_issued w" "rw_live (load_jobs env w) = rw_live w"
  "rw_removed (load_jobs env w) = rw_removed w" "rw_reports (load_jobs env w) = rw_reports w"
  "rw_timers (load_jobs env w) = rw_timers w" "rw_pending (load_jobs env w) = rw_pending w"
  unfolding load_jobs_def
  by (auto split: prod.splits sum.splits option.splits dest!: os_more(1) interrupt_jobs_result(4) restore_more
      simp: os_read_cases(1) interrupt_jobs_result(5))

text \<open>Each step keeps it.\<close>

lemma live_ok_update:
  assumes "live_ok w" "\<And>j. rj_id (f j) = rj_id j" "\<And>j. rj_state (f j) = rj_state j"
    "rw_jobs w' = row_update rj_id i f (rw_jobs w)" "rw_live w' = rw_live w"
  shows "live_ok w'"
proof -
  have "map rj_id (row_update rj_id i f (rw_jobs w)) = map rj_id (rw_jobs w)" by (rule map_row_update) (rule assms(2))
  then have "rj_id ` set (rw_jobs w') = rj_id ` set (rw_jobs w)" unfolding assms(4) by (metis set_map)
  then show ?thesis using assms(1) unfolding live_ok_def assms(5)
    by (auto simp: assms(2,3,4) set_row_update)
qed

lemma files_ok_step [simp]: "files_ok env (disk_step w) = files_ok env w"
  by (simp add: files_ok_def saved_jobs_def)

lemma start_as_ok:
  assumes "jobs_codec env" "restores_ok env w" "uid \<notin> set (rw_issued w)"
  shows "restores_ok env (snd (start_as env uid owner snapshot selections w))"
proof (cases "running_locked (rw_jobs w)")
  case (Some j)
  then show ?thesis using assms(2) by (simp add: start_as_def)
next
  case None
  let ?w1 = "disk_step (w\<lparr>rw_issued := uid # rw_issued w\<rparr>)"
  define job where "job = \<lparr>rj_id = uid, rj_snapshot_id = snapshot, rj_selections = selections, rj_state = LocalRunning,
              rj_progress = no_progress, rj_started_at = rz_now env (dk_pos w), rj_ended_at = 0, rj_staging = [], rj_delivered_to = [],
              rj_error = [], rj_reported = False, rj_owner = owner, rj_cancel = True\<rparr>"
  define w2 where "w2 = set_jobs (\<lambda>js. take max_restore_jobs (job # js)) ?w1"
  have st: "snd (start_as env uid owner snapshot selections w) = (save_locked env w2)\<lparr>rw_live := uid # rw_live w\<rparr>"
    using None by (simp add: start_as_def clock_def job_def w2_def Let_def)
  have idle: "\<forall>j\<in>set (rw_jobs w). rj_state j \<noteq> LocalRunning" using None by (simp add: running_none)
  have old: "jobs_ok (rw_issued w) (rw_jobs w)" "\<forall>js. saved_jobs env w = Some js \<longrightarrow> jobs_ok (rw_issued w) js" "live_ok w"
    using assms(2) by (simp_all add: restores_ok_def files_ok_def)
  have fresh: "uid \<notin> rj_id ` set (rw_jobs w)" using old(1) assms(3) by (auto simp: jobs_ok_def)
  have js: "rw_jobs w2 = job # take 19 (rw_jobs w)" by (simp add: w2_def max_restore_jobs_def)
  have job: "rj_id job = uid" "rj_state job = LocalRunning" "rj_staging job = []" by (simp_all add: job_def)
  have "\<forall>j\<in>set (take 19 (rw_jobs w)). j \<in> set (rw_jobs w)" by (blast dest: in_set_takeD)
  then have others: "\<forall>j\<in>set (take 19 (rw_jobs w)). rj_state j \<noteq> LocalRunning \<and> rj_id j \<noteq> uid"
    using idle fresh by blast
  have "\<forall>j\<in>set (take 19 (rw_jobs w)). j \<in> set (rw_jobs w)" by (blast dest: in_set_takeD)
  moreover have "distinct (map rj_id (take 19 (rw_jobs w)))"
    using old(1) by (simp add: jobs_ok_def distinct_take flip: take_map)
  ultimately have ok: "jobs_ok (uid # rw_issued w) (rw_jobs w2)"
    using old(1) fresh job unfolding js jobs_ok_def by (auto simp: max_restore_jobs_def image_subset_iff)
  have "saved_jobs env w2 = saved_jobs env w" "rw_issued w2 = uid # rw_issued w"
    by (simp_all add: w2_def saved_jobs_def)
  then have "files_ok env w2"
    unfolding files_ok_def using ok old(2) by (metis jobs_ok_issued)
  then have f: "files_ok env (save_locked env w2)" by (rule files_ok_save [OF assms(1)])
  have "i \<notin> set (rw_live w)" for i
  proof
    assume i: "i \<in> set (rw_live w)"
    then obtain j where "j \<in> set (rw_jobs w)" "rj_id j = i" using old(3) unfolding live_ok_def by blast
    then show False using i old(3) idle unfolding live_ok_def by metis
  qed
  then have "rw_live w = []" by (metis list.set_intros(1) neq_Nil_conv)
  then have "live_ok ((save_locked env w2)\<lparr>rw_live := uid # rw_live w\<rparr>)"
    using others job by (auto simp: live_ok_def js)
  moreover have "files_ok env ((save_locked env w2)\<lparr>rw_live := uid # rw_live w\<rparr>)"
    using f by (simp add: files_ok_def saved_jobs_def)
  moreover have "rw_removed w2 = rw_removed w" by (simp add: w2_def)
  ultimately show ?thesis using assms(2) unfolding st restores_ok_def by simp
qed

text \<open>A step that changes one job, removes at most a staging directory and saves.\<close>

lemma update_files_ok:
  assumes "files_ok env w" "\<And>j. rj_id (f j) = rj_id j"
    "\<And>j. j \<in> set (rw_jobs w) \<Longrightarrow> rj_id j = i \<Longrightarrow> rj_state (f j) \<noteq> LocalDone \<Longrightarrow> rj_staging (f j) = []"
    "rw_jobs w' = row_update rj_id i f (rw_jobs w)" "rw_issued w' = rw_issued w" "disk_file w' = disk_file w"
  shows "files_ok env w'"
  using assms jobs_ok_update [of "rw_issued w" "rw_jobs w" f i] by (simp add: files_ok_def saved_jobs_def)

lemma update_job_fields [simp]:
  "rw_jobs (update_job i f w) = row_update rj_id i f (rw_jobs w)" "rw_issued (update_job i f w) = rw_issued w"
  "rw_live (update_job i f w) = rw_live w" "rw_removed (update_job i f w) = rw_removed w"
  "disk_file (update_job i f w) = disk_file w" "rw_cancelled (update_job i f w) = rw_cancelled w"
  "rw_reports (update_job i f w) = rw_reports w" "rw_timers (update_job i f w) = rw_timers w"
  "rw_pending (update_job i f w) = rw_pending w"
  by (simp_all add: update_job_def)

lemma ended_job_simps [simp]:
  "rj_id (ended_job c st err now j) = rj_id j" "rj_state (ended_job c st err now j) \<noteq> LocalRunning"
  "rj_reported (ended_job c st err now j) = rj_reported j"
  "rj_state (ended_job c st err now j) \<noteq> LocalDone \<Longrightarrow> rj_staging (ended_job c st err now j) = rj_staging j"
  by (simp_all add: ended_job_def Let_def split: option.splits if_splits)

lemma restores_ok_memory:
  assumes "restores_ok env w" "rw_jobs w' = rw_jobs w" "rw_issued w' = rw_issued w" "rw_live w' = rw_live w"
    "rw_removed w' = rw_removed w" "disk_file w' = disk_file w"
  shows "restores_ok env w'"
  using assms by (simp add: restores_ok_def files_ok_def saved_jobs_def live_ok_def)

lemma restores_ok_files:
  "restores_ok env w \<longleftrightarrow> files_ok env w \<and> live_ok w \<and> (\<forall>d\<in>set (rw_removed w). staged_below env d)"
  by (rule restores_ok_def)

lemma live_ok_cong: "rw_jobs w' = rw_jobs w \<Longrightarrow> rw_live w' = rw_live w \<Longrightarrow> live_ok w' = live_ok w"
  by (simp add: live_ok_def)

lemma save_ok:
  assumes "jobs_codec env" "restores_ok env w"
  shows "restores_ok env (save_locked env w)"
  using assms files_ok_save [OF assms(1)] live_ok_cong [of "save_locked env w" w] by (simp add: restores_ok_def)

lemma end_run_ok:
  assumes "jobs_codec env" "restores_ok env w" "i \<in> set (rw_live w)"
  shows "restores_ok env (end_run env i staging run_err grant w)"
proof -
  define err where "err = granted env staging run_err grant"
  define c where "c = (i \<in> set (rw_cancelled w))"
  define w2 where "w2 = update_job i (ended_job c staging err (rz_now env (dk_pos w))) (disk_step w)"
  define w3 where "w3 = (if \<not> c \<and> err = None then w2 else remove_staging env staging w2)"
  have old: "files_ok env w" "live_ok w" "\<forall>d\<in>set (rw_removed w). staged_below env d"
    using assms(2) by (simp_all add: restores_ok_def)
  have running: "\<forall>j\<in>set (rw_jobs w). rj_id j = i \<longrightarrow> rj_staging j = []"
    using old(1,2) assms(3) by (auto simp: files_ok_def jobs_ok_def live_ok_def)
  have "\<forall>d\<in>set (rw_removed w2). staged_below env d" using old(3) by (simp add: w2_def)
  note rm = remove_staging_ok [OF this]
  have w3: "rw_jobs w3 = rw_jobs w2" "rw_issued w3 = rw_issued w2" "rw_live w3 = rw_live w2" "disk_file w3 = disk_file w2"
      "\<forall>d\<in>set (rw_removed w3). staged_below env d"
    using rm old(3) by (auto simp: w3_def w2_def)
  have "files_ok env w2"
    by (rule update_files_ok [OF old(1)]) (use running in \<open>simp_all add: w2_def\<close>)
  then have "files_ok env w3" using w3 by (simp add: files_ok_def saved_jobs_def)
  then have f: "files_ok env (save_locked env w3)" by (rule files_ok_save [OF assms(1)])
  define w4 where "w4 = end_run env i staging run_err grant w"
  have e: "w4 = (save_locked env w3)\<lparr>rw_live := removeAll i (rw_live w3), rw_timers := rw_timers w4\<rparr>"
    unfolding w4_def end_run_def clock_def Let_def err_def c_def w3_def w2_def by simp
  have w4: "rw_jobs w4 = row_update rj_id i (ended_job c staging err (rz_now env (dk_pos w))) (rw_jobs w)"
      "rw_live w4 = removeAll i (rw_live w)" "rw_removed w4 = rw_removed w3" "rw_issued w4 = rw_issued w"
      "disk_file w4 = disk_file (save_locked env w3)"
    by (subst e, simp add: w3 w2_def)+
  have "files_ok env w4" using f w4 w3 by (simp add: files_ok_def saved_jobs_def w2_def)
  moreover have "live_ok w4"
    using old(2) assms(3) unfolding live_ok_def w4 by (auto simp: set_row_update image_iff)
  ultimately show ?thesis using w3(5) w4(3) unfolding w4_def [symmetric] restores_ok_def by simp
qed

lemma report_once_ok:
  assumes "jobs_codec env" "restores_ok env w"
  shows "restores_ok env (report_once env i d w)"
proof (cases "job_by_id i w")
  case None
  then show ?thesis using assms(2) by (simp add: report_once_def)
next
  case (Some j)
  define w1 where "w1 = update_job i (\<lambda>j. j\<lparr>rj_reported := True\<rparr>) w"
  have old: "files_ok env w" "live_ok w" using assms(2) by (simp_all add: restores_ok_def)
  have "files_ok env w1"
    by (rule update_files_ok [OF old(1), of "\<lambda>j. j\<lparr>rj_reported := True\<rparr>"]) (use old(1) in \<open>auto simp: w1_def files_ok_def jobs_ok_def\<close>)
  moreover have "live_ok w1"
    by (rule live_ok_update [OF old(2), of "\<lambda>j. j\<lparr>rj_reported := True\<rparr>" _ i]) (simp_all add: w1_def)
  ultimately have "restores_ok env (save_locked env w1)"
    using save_ok [OF assms(1)] assms(2) by (simp add: restores_ok_def w1_def)
  then have "restores_ok env ((save_locked env w1)\<lparr>rw_reports := r\<rparr>)" for r
    by (rule restores_ok_memory) simp_all
  then show ?thesis using Some assms(2) by (simp add: report_once_def w1_def [symmetric] Let_def)
qed


lemma delivered_ok:
  assumes "jobs_codec env" "restores_ok env w"
  shows "restores_ok env (snd (delivered env i d w))"
proof (cases "\<exists>j. job_by_id i w = Some j \<and> rj_state j = LocalDone")
  case False
  then show ?thesis using assms(2) by (auto simp: delivered_def split: option.splits)
next
  case True
  then obtain j where j: "job_by_id i w = Some j" "rj_state j = LocalDone" by blast
  let ?f = "\<lambda>j. j\<lparr>rj_delivered_to := d, rj_staging := []\<rparr>"
  define w1 where "w1 = update_job i ?f (remove_staging env (rj_staging j) w)"
  have old: "files_ok env w" "live_ok w" "\<forall>d\<in>set (rw_removed w). staged_below env d"
    using assms(2) by (simp_all add: restores_ok_def)
  note rm = remove_staging_ok [OF old(3), of "rj_staging j"]
  have "files_ok env w1" by (rule update_files_ok [OF old(1), of ?f]) (simp_all add: w1_def rm)
  moreover have "live_ok w1" by (rule live_ok_update [OF old(2), of ?f _ i]) (simp_all add: w1_def rm)
  ultimately have "restores_ok env (save_locked env w1)"
    using save_ok [OF assms(1)] rm(1) by (simp add: restores_ok_def w1_def)
  then have "restores_ok env ((save_locked env w1)\<lparr>rw_pending := q\<rparr>)" for q
    by (rule restores_ok_memory) simp_all
  then show ?thesis using j by (simp add: delivered_def w1_def [symmetric] Let_def)
qed

lemma restart_ok:
  assumes "restores_ok env w"
  shows "restores_ok env (restart_jobs env w)" "running_locked (rw_jobs (restart_jobs env w)) = None"
proof -
  let ?w0 = "w\<lparr>rw_jobs := [], rw_live := [], rw_cancelled := [], rw_timers := [], rw_pending := []\<rparr>"
  have saved: "saved_jobs env ?w0 = saved_jobs env w" "saved_jobs env (restart_jobs env w) = saved_jobs env w"
    by (simp_all add: saved_jobs_def restart_jobs_def load_jobs_keeps)
  have "jobs_ok (rw_issued w) (rw_jobs (restart_jobs env w)) \<and> (\<forall>j\<in>set (rw_jobs (restart_jobs env w)). rj_state j \<noteq> LocalRunning)"
  proof (rule load_jobs_result [of env ?w0])
    assume "rw_jobs (load_jobs env ?w0) = rw_jobs ?w0"
    then show ?thesis by (simp add: restart_jobs_def jobs_ok_def)
  next
    fix js w1 w2 ks
    assume 2: "saved_jobs env ?w0 = Some js" "interrupt_jobs env js w1 = (ks, w2)" "rw_jobs (load_jobs env ?w0) = ks"
    note i = interrupt_jobs_result [OF 2(2)]
    have ok: "jobs_ok (rw_issued w) js" using 2(1) assms saved(1) by (simp add: restores_ok_def files_ok_def)
    have "rj_id ` set ks = rj_id ` set js" "length ks = length js" using i(1) by (metis set_map, metis length_map)
    then show ?thesis using ok i(1,3,6) 2(3) by (simp add: restart_jobs_def jobs_ok_def)
  qed
  then show "running_locked (rw_jobs (restart_jobs env w)) = None" "restores_ok env (restart_jobs env w)"
    using assms saved(2)
    by (auto simp: running_none restores_ok_def files_ok_def live_ok_def restart_jobs_def load_jobs_keeps)
qed

lemma cancel_ok: "restores_ok env w \<Longrightarrow> restores_ok env (snd (cancel_job i w))"
  by (auto simp: cancel_job_def split: option.splits intro: restores_ok_memory)

lemma progress_ok:
  assumes "restores_ok env w"
  shows "restores_ok env (job_progress i p w)"
proof -
  let ?f = "\<lambda>j. j\<lparr>rj_progress := p\<rparr>"
  have old: "files_ok env w" "live_ok w" using assms by (simp_all add: restores_ok_def)
  have "files_ok env (job_progress i p w)"
    by (rule update_files_ok [OF old(1), of ?f]) (use old(1) in \<open>auto simp: job_progress_def files_ok_def jobs_ok_def\<close>)
  moreover have "live_ok (job_progress i p w)"
    by (rule live_ok_update [OF old(2), of ?f _ i]) (simp_all add: job_progress_def)
  ultimately show ?thesis using assms by (simp add: restores_ok_def job_progress_def)
qed

lemma restore_step_ok:
  assumes "restore_step env w w'" "jobs_codec env" "restores_ok env w"
  shows "restores_ok env w'"
  using assms
proof (induction rule: restore_step.induct)
  case (report i d w)
  have "restores_ok env (w\<lparr>rw_pending := removeAll (i, d) (rw_pending w)\<rparr>)"
    by (rule restores_ok_memory [OF report(3)]) simp_all
  then show ?case by (rule report_once_ok [OF report(2)])
next
  case (timer i w)
  have "restores_ok env (w\<lparr>rw_timers := removeAll i (rw_timers w)\<rparr>)"
    by (rule restores_ok_memory [OF timer(3)]) simp_all
  then show ?case by (rule report_once_ok [OF timer(2)])
qed (simp_all add: start_as_ok progress_ok end_run_ok cancel_ok delivered_ok restart_ok(1))

lemma restore_reach_ok:
  assumes "restore_reach env w0 w" "jobs_codec env" "restores_ok env w0"
  shows "restores_ok env w"
  using assms by (induction rule: restore_reach.induct) (auto intro: restore_step_ok)

section \<open>Reports\<close>


definition flagged :: "string set \<Rightarrow> restore_job list \<Rightarrow> bool" where
  "flagged sent js \<longleftrightarrow> (\<forall>j\<in>set js. rj_id j \<in> sent \<longrightarrow> rj_reported j)"

definition reported_ok :: "restore_env \<Rightarrow> restore_world \<Rightarrow> bool" where
  "reported_ok env w \<longleftrightarrow> distinct (map fst (rw_reports w)) \<and> fst ` set (rw_reports w) \<subseteq> set (rw_issued w) \<and>
     flagged (fst ` set (rw_reports w)) (rw_jobs w) \<and>
     (\<forall>js. saved_jobs env w = Some js \<longrightarrow> flagged (fst ` set (rw_reports w)) js)"


lemma flagged_codec [simp]: "flagged sent (map (\<lambda>j. j\<lparr>rj_cancel := False\<rparr>) js) = flagged sent js"
  by (simp add: flagged_def)














section \<open>Properties\<close>

definition fresh_restores :: "restore_env \<Rightarrow> restore_world \<Rightarrow> bool" where
  "fresh_restores env w \<longleftrightarrow> rw_jobs w = [] \<and> rw_live w = [] \<and> rw_removed w = [] \<and> rw_reports w = [] \<and>
     (rz_state_path env = [] \<or> disk_file w (rz_state_path env) = None)"

lemma fresh_restores_ok:
  assumes "fresh_restores env w"
  shows "restores_ok env w" "reported_ok env w"
  using assms by (auto simp: fresh_restores_def restores_ok_def reported_ok_def files_ok_def live_ok_def saved_jobs_def
      jobs_ok_def flagged_def)

lemma one_running:
  assumes "restores_ok env w"
  shows "length (filter (\<lambda>j. rj_state j = LocalRunning) (rw_jobs w)) \<le> 1"
proof (rule ccontr)
  let ?r = "filter (\<lambda>j. rj_state j = LocalRunning) (rw_jobs w)"
  assume "\<not> length ?r \<le> 1"
  then obtain a b js where r: "?r = a # b # js" by (metis One_nat_def Suc_le_length_iff not_less_eq_eq)
  have ids: "distinct (map rj_id (rw_jobs w))" using assms by (simp add: restores_ok_def files_ok_def jobs_ok_def)
  have "distinct (map rj_id ?r)" by (rule distinct_map_filter [OF ids])
  then have "rj_id a \<noteq> rj_id b" by (simp add: r)
  moreover have "a \<in> set ?r" "b \<in> set ?r" by (simp_all add: r)
  then have "rj_id a \<in> set (rw_live w)" "rj_id b \<in> set (rw_live w)" using assms by (auto simp: restores_ok_def live_ok_def)
  ultimately show False using assms by (auto simp: restores_ok_def live_ok_def)
qed

text \<open>
  C30: from an empty list, whatever steps the page, the goroutines, the timers and restarts of the
  agent take in whatever order and whatever calls of the disk fail: there are at most twenty jobs, no
  two with the same id; at most one is running, and a job is running exactly if its goroutine is alive,
  so none hangs; every directory that was removed lies below the staging root; and after a restart of
  the agent the next restore is never refused as busy.
\<close>

theorem restore_jobs_reachable:
  assumes "jobs_codec env" "fresh_restores env w0" "restore_reach env w0 w"
  shows "length (rw_jobs w) \<le> 20 \<and> distinct (map rj_id (rw_jobs w)) \<and>
    length (filter (\<lambda>j. rj_state j = LocalRunning) (rw_jobs w)) \<le> 1 \<and>
    (\<forall>j\<in>set (rw_jobs w). rj_state j = LocalRunning \<longleftrightarrow> rj_id j \<in> set (rw_live w)) \<and>
    (\<forall>d\<in>set (rw_removed w). staged_below env d) \<and>
    fst (start_as env uid owner snapshot selections (restart_jobs env w)) \<noteq> Inl restore_busy"
proof (intro conjI)
  have ok: "restores_ok env w" by (rule restore_reach_ok [OF assms(3,1) fresh_restores_ok(1) [OF assms(2)]])
  then show "length (rw_jobs w) \<le> 20" "distinct (map rj_id (rw_jobs w))"
    by (simp_all add: restores_ok_def files_ok_def jobs_ok_def max_restore_jobs_def)
  show "length (filter (\<lambda>j. rj_state j = LocalRunning) (rw_jobs w)) \<le> 1" by (rule one_running [OF ok])
  show "\<forall>j\<in>set (rw_jobs w). rj_state j = LocalRunning \<longleftrightarrow> rj_id j \<in> set (rw_live w)"
    "\<forall>d\<in>set (rw_removed w). staged_below env d"
    using ok by (simp_all add: restores_ok_def live_ok_def)
  show "fst (start_as env uid owner snapshot selections (restart_jobs env w)) \<noteq> Inl restore_busy"
    using restart_ok(2) [OF ok] by (simp add: start_as_def clock_def Let_def)
qed

definition ex_restores :: restore_env where
  "ex_restores = \<lparr>rz_disk = \<lambda>_. None, rz_state_path = ''C:/s/restores.json'', rz_staging_root = ''C:/stage'',
     rz_encode = \<lambda>js. if js = [] then Some ''[]'' else None, rz_decode = \<lambda>raw. if raw = ''[]'' then Some [] else None,
     rz_abs = Some, rz_now = \<lambda>n. 100 + int n, rz_grants = True, rz_reports = True, rz_report_delay = 60\<rparr>"

definition ex_restore_world :: restore_world where
  "ex_restore_world = \<lparr>dk_files = [], dk_pos = 0, rw_jobs = [], rw_issued = [], rw_live = [], rw_cancelled = [],
     rw_timers = [], rw_pending = [], rw_removed = [], rw_reports = []\<rparr>"

definition ex_started :: restore_world where
  "ex_started = snd (start_as ex_restores ''a'' ''S-1'' ''snap'' [''C:/x''] ex_restore_world)"

definition ex_cancelled :: restore_world where
  "ex_cancelled = end_run ex_restores ''a'' ''C:/stage/a'' None None (snd (cancel_job ''a'' ex_started))"

lemma ex_restores_ok: "jobs_codec ex_restores" "fresh_restores ex_restores ex_restore_world"
  by (simp_all add: jobs_codec_def fresh_restores_def ex_restores_def ex_restore_world_def disk_file_def)

lemma ex_cancelled_runs:
  "rw_live ex_started = [''a'']" "map rj_state (rw_jobs ex_cancelled) = [LocalCancelled]"
  "rw_removed ex_cancelled = [''C:/stage/a'']"
  by code_simp+

lemma ex_cancelled_reach: "restore_reach ex_restores ex_restore_world ex_cancelled"
proof -
  have "restore_reach ex_restores ex_restore_world ex_started"
    unfolding ex_started_def
    by (rule restore_reach.step [OF restore_reach.init]) (rule restore_step.start, simp add: ex_restore_world_def)
  moreover have "restore_step ex_restores ex_started (snd (cancel_job ''a'' ex_started))" by (rule restore_step.cancel)
  moreover have "rw_live (snd (cancel_job ''a'' ex_started)) = [''a'']" by code_simp
  then have "restore_step ex_restores (snd (cancel_job ''a'' ex_started)) ex_cancelled"
    unfolding ex_cancelled_def by (intro restore_step.ends) simp
  ultimately show ?thesis by (blast intro: restore_reach.step)
qed

theorem restore_jobs_reachable_witness:
  "map rj_state (rw_jobs ex_cancelled) = [LocalCancelled] \<and> staged_below ex_restores ''C:/stage/a''"
  using restore_jobs_reachable [OF ex_restores_ok ex_cancelled_reach] ex_cancelled_runs by simp


definition ex_memory_restores :: restore_env where
  "ex_memory_restores = ex_restores\<lparr>rz_state_path := []\<rparr>"

definition ex_finished :: restore_world where
  "ex_finished = end_run ex_memory_restores ''a'' ''C:/stage/a'' None None
     (snd (start_as ex_memory_restores ''a'' ''S-1'' ''snap'' [''C:/x''] ex_restore_world))"

definition ex_handed :: restore_world where
  "ex_handed = snd (delivered ex_memory_restores ''a'' ''C:/home'' ex_finished)"





text \<open>A timer that takes its turn between a delivery and its report is the one that reports.\<close>

lemma timer_wins: "rw_reports (report_once ex_memory_restores ''a'' [] ex_handed) = [(''a'', [])]"
  by code_simp



end
