(* ===== verification/Local_Caller.thy ===== *)
theory Local_Caller
  imports GoStrings
begin

text \<open>
  The account behind a request to the page of the agent (\<open>cmd/stowline-agent/localcaller.go\<close>): on a PC
  that several people share, each sees their own profile and the folders outside every profile. Paths
  are compared as keys, the form of a snapshot path in lower case. Finding the account of the process
  at the other end of the connection is left to the environment.
\<close>

record local_caller =
  lc_sid :: string
  lc_profile :: string
  lc_profiles_dir :: string
  lc_other_profiles :: "string list"

definition snapshot_path_key :: "string \<Rightarrow> string" where
  "snapshot_path_key path =
     (let p = map (\<lambda>c. if c = CHR 0x5C then CHR ''/'' else c) (trim_space path);
          q = (if 2 \<le> length p \<and> p ! 1 = CHR '':'' then ''/'' @ take 1 p @ drop 2 p else p);
          r = trim_right (\<lambda>c. c = CHR ''/'') q
      in to_lower (if r \<noteq> [] \<and> \<not> has_prefix r ''/'' then ''/'' @ r else r))"

definition lies_within :: "string \<Rightarrow> string \<Rightarrow> bool" where
  "lies_within p base \<longleftrightarrow> base \<noteq> [] \<and> (p = base \<or> has_prefix p (base @ ''/''))"

definition new_local_caller :: "string \<Rightarrow> string \<Rightarrow> string \<Rightarrow> string list \<Rightarrow> local_caller" where
  "new_local_caller sid profile profiles_dir all_profiles =
     \<lparr>lc_sid = sid, lc_profile = snapshot_path_key profile, lc_profiles_dir = snapshot_path_key profiles_dir,
      lc_other_profiles = filter (\<lambda>k. k \<noteq> [] \<and> k \<noteq> snapshot_path_key profile) (map snapshot_path_key all_profiles)\<rparr>"

definition hidden_key :: "local_caller \<Rightarrow> string \<Rightarrow> bool" where
  "hidden_key c p =
     (if lies_within p (lc_profile c) then False
      else if list_ex (lies_within p) (lc_other_profiles c) then True
      else if lc_profiles_dir c \<noteq> [] \<and> has_prefix p (lc_profiles_dir c @ ''/'') then
        takeWhile (\<lambda>x. x \<noteq> CHR ''/'') (drop (length (lc_profiles_dir c) + 1) p) \<noteq> ''public''
      else False)"

definition hidden :: "local_caller \<Rightarrow> string \<Rightarrow> bool" where
  "hidden c path = hidden_key c (snapshot_path_key path)"

definition may_restore :: "local_caller \<Rightarrow> string \<Rightarrow> bool" where
  "may_restore c path =
     (let p = snapshot_path_key path in
      if p = [] \<or> hidden c p then False
      else if lc_profiles_dir c \<noteq> [] \<and> lies_within (lc_profiles_dir c) p then False
      else \<not> list_ex (\<lambda>other. lies_within other p) (lc_other_profiles c))"

section \<open>Facts\<close>

lemma within_prefix: "lies_within p base \<longleftrightarrow> base \<noteq> [] \<and> (p = base \<or> (\<exists>t. p = base @ ''/'' @ t))"
  by (auto simp: lies_within_def has_prefix_iff)

lemma within_trans: "lies_within a b \<Longrightarrow> lies_within b c \<Longrightarrow> lies_within a c"
  by (auto simp: within_prefix)

lemma within_refl: "p \<noteq> [] \<Longrightarrow> lies_within p p"
  by (simp add: lies_within_def)

text \<open>Two folders that hold the same path lie one in the other.\<close>

lemma within_comparable:
  assumes "lies_within f a" "lies_within f b"
  shows "lies_within a b \<or> lies_within b a"
proof -
  have "a @ ''/'' @ t = b @ ''/'' @ u \<Longrightarrow> a = b \<or> (\<exists>v. a = b @ ''/'' @ v) \<or> (\<exists>v. b = a @ ''/'' @ v)" for a b t u
    by (auto simp: append_eq_append_conv2 append_eq_Cons_conv Cons_eq_append_conv)
  then show ?thesis using assms unfolding within_prefix by metis
qed

text \<open>
  The isolation of the accounts: what lies in a folder that a person may restore is visible to them, so
  no restore of a path brings along a file of another profile.
\<close>

lemma may_restore_visible:
  assumes "may_restore c path" "snapshot_path_key (snapshot_path_key path) = snapshot_path_key path"
    "lies_within f (snapshot_path_key path)"
  shows "\<not> hidden_key c f"
proof -
  let ?p = "snapshot_path_key path"
  have p: "?p \<noteq> []" "\<not> hidden_key c ?p" "lc_profiles_dir c = [] \<or> \<not> lies_within (lc_profiles_dir c) ?p"
      "\<forall>o'\<in>set (lc_other_profiles c). \<not> lies_within o' ?p"
    using assms(1,2) by (auto simp: may_restore_def hidden_def Let_def list_ex_iff split: if_splits)
  show ?thesis
  proof (cases "lies_within ?p (lc_profile c)")
    case True
    then show ?thesis using within_trans [OF assms(3)] by (simp add: hidden_key_def)
  next
    case False
    then have visible: "\<forall>o'\<in>set (lc_other_profiles c). \<not> lies_within ?p o'"
      using p(2) by (auto simp: hidden_key_def list_ex_iff split: if_splits)
    have "\<not> lies_within f o'" if "o' \<in> set (lc_other_profiles c)" for o'
      using within_comparable [OF assms(3)] visible p(4) that by blast
    moreover have "takeWhile (\<lambda>x. x \<noteq> CHR ''/'') (drop (length (lc_profiles_dir c) + 1) f) = ''public''"
      if d: "lc_profiles_dir c \<noteq> []" "has_prefix f (lc_profiles_dir c @ ''/'')"
    proof -
      let ?d = "lc_profiles_dir c"
      have "lies_within f ?d" using d by (simp add: lies_within_def)
      then have "lies_within ?p ?d" using within_comparable [OF assms(3)] p(3) d(1) by blast
      moreover have "?p \<noteq> ?d" using p(3) d(1) within_refl by metis
      ultimately obtain u where u: "?p = ?d @ ''/'' @ u" by (auto simp: within_prefix)
      have pub: "takeWhile (\<lambda>x. x \<noteq> CHR ''/'') u = ''public''"
        using p(2) False visible d(1) by (auto simp: hidden_key_def u list_ex_iff has_prefix_iff split: if_splits)
      obtain v where "f = ?p \<or> f = ?p @ ''/'' @ v" using assms(3) by (auto simp: within_prefix)
      then have "f = ?d @ ''/'' @ u \<or> f = ?d @ ''/'' @ u @ ''/'' @ v" using u by simp
      moreover have "takeWhile (\<lambda>x. x \<noteq> CHR ''/'') (u @ ''/'' @ v) = takeWhile (\<lambda>x. x \<noteq> CHR ''/'') u"
        by (induction u) auto
      ultimately show ?thesis using pub by auto
    qed
    ultimately show ?thesis by (auto simp: hidden_key_def list_ex_iff)
  qed
qed

end
