(* ===== verification/WinVolume.thy ===== *)
theory WinVolume
  imports WinPath
begin

text \<open>
  Package \<open>path/filepath\<close> on Windows for every path, network shares and device paths too: the
  length of the volume name, \<open>IsAbs\<close>, \<open>Clean\<close>, \<open>Dir\<close> and \<open>Join\<close>. Theory WinPath has the
  functions on drive paths, to which these come down where the volume is a drive or empty.
\<close>

text \<open>\<open>pathHasPrefixFold\<close>: the prefix, up to case and kind of separator, and then the end or a separator.\<close>

definition sep_eq :: "char \<Rightarrow> char \<Rightarrow> bool" where
  "sep_eq c p \<longleftrightarrow> (if is_sep p then is_sep c else upper_char c = upper_char p)"

definition path_has_prefix :: "string \<Rightarrow> string \<Rightarrow> bool" where
  "path_has_prefix s p \<longleftrightarrow> length p \<le> length s \<and> list_all2 sep_eq (take (length p) s) p \<and>
     (length p < length s \<longrightarrow> is_sep (s ! length p))"

text \<open>\<open>uncLen\<close>: up to the second separator after the prefix.\<close>

fun to_separator :: "nat \<Rightarrow> string \<Rightarrow> nat" where
  "to_separator k [] = 0"
| "to_separator k (c # s) =
     (if is_sep c then (case k of 0 \<Rightarrow> 0 | Suc j \<Rightarrow> Suc (to_separator j s)) else Suc (to_separator k s))"

definition unc_len :: "string \<Rightarrow> nat \<Rightarrow> nat" where
  "unc_len s n = n + to_separator 1 (drop n s)"

abbreviation device_unc :: string where "device_unc \<equiv> [backslash, backslash, CHR ''.'', backslash] @ ''UNC''"

definition volume_len :: "string \<Rightarrow> nat" where
  "volume_len s =
     (if 2 \<le> length s \<and> s ! 1 = CHR '':'' then 2
      else if s = [] \<or> \<not> is_sep (hd s) then 0
      else if path_has_prefix s device_unc then min (length s) (unc_len s 8)
      else if path_has_prefix s [backslash, backslash, CHR ''.''] \<or> path_has_prefix s [backslash, backslash, CHR ''?''] \<or>
        path_has_prefix s [backslash, CHR ''?'', CHR ''?''] then
        (if length s = 3 then 3 else 4 + to_separator 0 (drop 4 s))
      else if 2 \<le> length s \<and> is_sep (s ! 1) then unc_len s 2
      else 0)"

definition double_sep :: "string \<Rightarrow> bool" where
  "double_sep s \<longleftrightarrow> 2 \<le> length s \<and> is_sep (s ! 0) \<and> is_sep (s ! 1)"

definition path_is_abs :: "string \<Rightarrow> bool" where
  "path_is_abs s \<longleftrightarrow>
     (let l = volume_len s in
      if l = 0 then False
      else if double_sep s then True
      else (case drop l s of [] \<Rightarrow> False | c # _ \<Rightarrow> is_sep c))"

definition rest_parts :: "string \<Rightarrow> path_parts" where
  "rest_parts rest =
     (let rooted = (case rest of [] \<Rightarrow> False | c # _ \<Rightarrow> is_sep c)
      in \<lparr>pt_volume = [], pt_rooted = rooted,
          pt_elems = rev (foldl (clean_elem rooted) [] (split_on backslash (from_slash rest)))\<rparr>)"

definition path_clean :: "string \<Rightarrow> string" where
  "path_clean s =
     (let l = volume_len s; rest = drop l s in
      if l = 0 then win_clean s
      else if rest = [] then (if double_sep s then from_slash s else s @ ''.'')
      else from_slash (take l s) @ parts_path (rest_parts rest))"

definition path_dir :: "string \<Rightarrow> string" where
  "path_dir s =
     (let l = volume_len s; vol = take l s;
          dir = path_clean (rev (dropWhile (\<lambda>c. \<not> is_sep c) (rev (drop l s))))
      in if dir = ''.'' \<and> l > 2 then vol else vol @ dir)"

text \<open>\<open>Join\<close> of a directory that is not empty and one name that is not empty.\<close>

definition path_join :: "string \<Rightarrow> string \<Rightarrow> string" where
  "path_join dir name =
     (if is_sep (last dir) then
        (let e = dropWhile is_sep name in
         path_clean (dir @ (if length dir = 1 \<and> has_prefix e ''??'' \<and> (length e = 2 \<or> is_sep (e ! 2)) then [CHR ''.'', backslash] else []) @ e))
      else if last dir = CHR '':'' then path_clean (dir @ name)
      else path_clean (dir @ [backslash] @ name))"

section \<open>Facts\<close>

text \<open>On a path with a drive they are the functions of WinPath.\<close>

lemma volume_len_drive: "volume s \<noteq> [] \<Longrightarrow> volume_len s = 2 \<and> volume s = take 2 s"
  by (simp add: volume_def volume_len_def split: if_splits)

lemma double_sep_drive: "volume s \<noteq> [] \<Longrightarrow> \<not> double_sep s"
  by (auto simp: volume_def double_sep_def is_sep_def split: if_splits)

lemma path_is_abs_drive: "volume s \<noteq> [] \<Longrightarrow> path_is_abs s = win_is_abs s"
  using volume_len_drive [of s] double_sep_drive [of s] by (simp add: path_is_abs_def win_is_abs_def)

lemma rest_parts_elems: "pt_elems (rest_parts (drop (length (volume s)) s)) = pt_elems (clean_parts s)"
  "pt_rooted (rest_parts (drop (length (volume s)) s)) = pt_rooted (clean_parts s)"
  by (simp_all add: rest_parts_def clean_parts_def Let_def)

lemma path_clean_drive:
  assumes "volume s \<noteq> []" "drop 2 s \<noteq> []"
  shows "path_clean s = win_clean s"
proof -
  have v: "volume_len s = 2" "volume s = take 2 s" "length (volume s) = 2"
    using assms(1) volume_len_drive [OF assms(1)] by (simp_all add: volume_def split: if_splits)
  have "pt_volume (rest_parts (drop 2 s)) = []" by (simp add: rest_parts_def Let_def)
  moreover have "pt_volume (clean_parts s) = from_slash (volume s)" by (simp add: clean_parts_def Let_def)
  ultimately show ?thesis
    using v assms rest_parts_elems [of s] by (simp add: path_clean_def win_clean_def Let_def parts_path_def)
qed

lemma path_clean_values:
  "path_clean ([backslash, backslash] @ ''h'' @ [backslash] @ ''s'' @ [backslash] @ ''a'' @ [backslash] @ ''..'' @ [backslash] @ ''b'') =
     [backslash, backslash] @ ''h'' @ [backslash] @ ''s'' @ [backslash] @ ''b''"
  "path_clean ''C:/a//b/'' = ''C:'' @ [backslash] @ ''a'' @ [backslash] @ ''b''"
  "path_is_abs ([backslash, backslash] @ ''h'')" "\<not> path_is_abs ''C:a''" "\<not> path_is_abs ([backslash] @ ''a'')"
  by code_simp+

end
