(* ===== verification/Selection.thy ===== *)
theory Selection
  imports Files WinVolume GoJson Pilot_Config Source_Roots
begin

text \<open>
  The selection of the folders to back up (\<open>cmd/stowline-agent/apply_selection.go\<close>,
  \<open>sensitivity.go\<close>): the command of the control plane and the desktop page rewrite \<open>source_roots\<close>
  of \<open>pilot.json\<close> through a temporary file and a rename. The JSON package is a decoder and an
  encoder of documents, the name of the temporary file the environment's choice; the calls of the
  disk may fail each.
\<close>

record selection_env =
  sl_disk :: "string disk_env"
  sl_decode :: "string \<Rightarrow> go_error + json"
  sl_encode :: "json_object \<Rightarrow> go_error + string"
  sl_temp :: "nat \<Rightarrow> go_error + string"

section \<open>Roots\<close>

text \<open>One root of the request: skipped, refused or kept, once up to case.\<close>

definition selection_rejected :: "string \<Rightarrow> go_error" where
  "selection_rejected msg = wrap_msg ErrSelectionRejected msg"

definition has_control :: "string \<Rightarrow> bool" where
  "has_control s = list_ex (\<lambda>c. (of_char c :: nat) < 32) s"

fun clean_roots :: "string set \<Rightarrow> string list \<Rightarrow> go_error + string list" where
  "clean_roots seen [] = Inr []"
| "clean_roots seen (r # rs) =
     (let root = trim_space r in
      if root = [] then clean_roots seen rs
      else if has_control root then Inl (selection_rejected ''control byte in path'')
      else if \<not> path_is_abs root then Inl (selection_rejected (''absolute path required: '' @ root))
      else let c = path_clean root; key = to_lower c in
        if key \<in> seen then clean_roots seen rs
        else case clean_roots (insert key seen) rs of Inl e \<Rightarrow> Inl e | Inr cs \<Rightarrow> Inr (c # cs))"

section \<open>Documents\<close>

text \<open>
  A document decoded into a Go map: the members in order, the last of each name. \<open>None\<close> is the nil
  map that the document \<open>null\<close> leaves.
\<close>

definition go_map :: "json_object \<Rightarrow> json_object" where
  "go_map m = foldl (\<lambda>acc kv. AList.update (fst kv) (snd kv) acc) [] m"

definition parse_object :: "selection_env \<Rightarrow> string \<Rightarrow> go_error + json_object option" where
  "parse_object env raw =
     (case sl_decode env (strip_bom raw) of
        Inl e \<Rightarrow> Inl e
      | Inr JNull \<Rightarrow> Inr None
      | Inr (JObj m) \<Rightarrow> Inr (Some (go_map m))
      | Inr _ \<Rightarrow> Inl (PlainError ''json: cannot unmarshal into Go value of type map[string]interface {}''))"

definition string_list :: "json option \<Rightarrow> string list option" where
  "string_list v =
     (case Option.bind v json_arr of None \<Rightarrow> None
      | Some xs \<Rightarrow> if list_all (\<lambda>x. json_str x \<noteq> None) xs then Some (map (\<lambda>x. the (json_str x)) xs) else None)"

definition selection_result :: "string \<Rightarrow> string list \<Rightarrow> string list \<Rightarrow> json_object" where
  "selection_result revision roots consents =
     [(''revision_id'', JStr revision), (''source_roots'', JArr (map JStr roots)),
      (''source_root_count'', JNum (of_nat (length roots))), (''sensitive_consents'', JArr (map JStr consents))]"

definition set_selection :: "string \<Rightarrow> string list \<Rightarrow> json_object \<Rightarrow> json_object" where
  "set_selection revision roots m =
     AList.update ''selection_revision_id'' (JStr revision) (AList.update ''source_roots'' (JArr (map JStr roots)) m)"

section \<open>The file\<close>

text \<open>A call on the temporary file that may fail and changes no file: sync, close, chmod.\<close>

definition os_touch :: "'c disk_env \<Rightarrow> ('c, 'z) disk_scheme \<Rightarrow> io_error option \<times> ('c, 'z) disk_scheme" where
  "os_touch env w = (case env (dk_pos w) of Some (IOFault msg _) \<Rightarrow> Some (IOError msg) | None \<Rightarrow> None, disk_step w)"

text \<open>\<open>os.CreateTemp\<close>: a new empty file, never one that exists.\<close>

definition os_create_temp :: "selection_env \<Rightarrow> (string, 'z) disk_scheme \<Rightarrow> (go_error + string) \<times> (string, 'z) disk_scheme" where
  "os_create_temp env w =
     (case sl_temp env (dk_pos w) of
        Inl e \<Rightarrow> (Inl e, disk_step w)
      | Inr name \<Rightarrow>
          (case disk_file w name of
             Some _ \<Rightarrow> (Inl (PlainError ''The file exists.''), disk_step w)
           | None \<Rightarrow>
               (case os_write (sl_disk env) name [] w of
                  (Some e, w1) \<Rightarrow> (Inl (io_go e), w1) | (None, w1) \<Rightarrow> (Inr name, w1))))"

text \<open>
  The write of the temporary file and the rename, without the removal that is deferred: \<open>None\<close> or the
  error, a failed write or sync followed by the close of the file.
\<close>

definition replace_file :: "selection_env \<Rightarrow> string \<Rightarrow> string \<Rightarrow> string \<Rightarrow> (string, 'z) disk_scheme \<Rightarrow>
    go_error option \<times> (string, 'z) disk_scheme" where
  "replace_file env tmp path out w =
     (let d = sl_disk env; fail = (\<lambda>what e. Some (Wrapped (what @ '': '') (io_go e) [])) in
      case os_write d tmp out w of
        (Some e, w1) \<Rightarrow> (fail ''write temp config'' e, snd (os_touch d w1))
      | (None, w1) \<Rightarrow>
      (case os_touch d w1 of
        (Some e, w2) \<Rightarrow> (fail ''sync temp config'' e, snd (os_touch d w2))
      | (None, w2) \<Rightarrow>
      (case os_touch d w2 of
        (Some e, w3) \<Rightarrow> (fail ''close temp config'' e, w3)
      | (None, w3) \<Rightarrow>
      (case os_touch d w3 of
        (Some e, w4) \<Rightarrow> (fail ''chmod temp config'' e, w4)
      | (None, w4) \<Rightarrow>
      (case os_rename d tmp path w4 of
        (Some e, w5) \<Rightarrow> (fail ''rename temp config into place'' e, w5)
      | (None, w5) \<Rightarrow> (None, w5))))))"

text \<open>\<open>atomicUpdatePilotJSON\<close>; writing into the nil map of the document \<open>null\<close> panics.\<close>

datatype update_outcome = Updated | UpdateFailed go_error | UpdatePanic

definition update_failed :: "string \<Rightarrow> go_error \<Rightarrow> update_outcome" where
  "update_failed what e = UpdateFailed (Wrapped (what @ '': '') e [])"

definition atomic_update_pilot_json :: "selection_env \<Rightarrow> string \<Rightarrow> (json_object \<Rightarrow> json_object) \<Rightarrow>
    (string, 'z) disk_scheme \<Rightarrow> update_outcome \<times> (string, 'z) disk_scheme" where
  "atomic_update_pilot_json env path mutate w =
     (case os_read (sl_disk env) path w of
        (Inl e, w1) \<Rightarrow> (update_failed ''read pilot.json'' (io_go e), w1)
      | (Inr raw, w1) \<Rightarrow>
          (case parse_object env raw of
             Inl e \<Rightarrow> (update_failed ''parse pilot.json'' e, w1)
           | Inr None \<Rightarrow> (UpdatePanic, w1)
           | Inr (Some m) \<Rightarrow>
               (case sl_encode env (mutate m) of
                  Inl e \<Rightarrow> (update_failed ''encode pilot.json'' e, w1)
                | Inr out \<Rightarrow>
                    (case os_create_temp env w1 of
                       (Inl e, w2) \<Rightarrow> (update_failed ''create temp config'' e, w2)
                     | (Inr tmp, w2) \<Rightarrow>
                         (case replace_file env tmp path out w2 of (e, w3) \<Rightarrow>
                            (case e of None \<Rightarrow> Updated | Some e \<Rightarrow> UpdateFailed e,
                             snd (os_remove (sl_disk env) tmp w3)))))))"

section \<open>The command\<close>

text \<open>The result of the handler and its error; \<open>None\<close> for a panic.\<close>

type_synonym selection_answer = "(json_object option \<times> go_error option) option"

abbreviation selection_refused :: "string \<Rightarrow> selection_answer" where
  "selection_refused msg \<equiv> Some (None, Some (selection_rejected msg))"

definition apply_selection :: "selection_env \<Rightarrow> string \<Rightarrow> string \<Rightarrow> string list \<Rightarrow> string list \<Rightarrow>
    (string, 'z) disk_scheme \<Rightarrow> selection_answer \<times> (string, 'z) disk_scheme" where
  "apply_selection env path revision roots consents w =
     (if trim_space revision = [] then (selection_refused ''revision_id required'', w)
      else if roots = [] then (selection_refused ''at least one source root required'', w)
      else case clean_roots {} roots of
        Inl e \<Rightarrow> (Some (None, Some e), w)
      | Inr cleaned \<Rightarrow>
          if cleaned = [] then (selection_refused ''no valid source roots after validation'', w)
          else case os_read (sl_disk env) path w of
            (Inl e, w1) \<Rightarrow> (selection_refused (''read pilot.json: '' @ error_text (io_go e)), w1)
          | (Inr raw, w1) \<Rightarrow>
              (case parse_object env raw of
                 Inl e \<Rightarrow> (selection_refused (''parse pilot.json: '' @ error_text e), w1)
               | Inr current \<Rightarrow>
                   let m = (case current of None \<Rightarrow> [] | Some m \<Rightarrow> m) in
                   if member_str m ''selection_revision_id'' = revision then
                     (if string_list (map_of m ''source_roots'') \<noteq> Some cleaned then
                        (selection_refused ''revision_id already applied with different source_roots'', w1)
                      else (Some (Some (selection_result revision cleaned consents), None), w1))
                   else case atomic_update_pilot_json env path (set_selection revision cleaned) w1 of
                     (Updated, w2) \<Rightarrow> (Some (Some (selection_result revision cleaned consents), None), w2)
                   | (UpdateFailed e, w2) \<Rightarrow> (selection_refused (error_text e), w2)
                   | (UpdatePanic, w2) \<Rightarrow> (None, w2)))"

section \<open>Sensitive names\<close>

definition sensitive_names :: "string list" where
  "sensitive_names = [''.env'', ''.env.local'', ''.env.production'', ''credentials.json'', ''secrets.json'', ''id_rsa'', ''id_ed25519'']"

definition sensitive_exts :: "string list" where
  "sensitive_exts = [''.pem'', ''.key'', ''.pfx'', ''.p12'']"

text \<open>\<open>filepath.Ext\<close> of a name without separators: from its last dot.\<close>

definition name_ext :: "string \<Rightarrow> string" where
  "name_ext s = (case last_index_char CHR ''.'' s of None \<Rightarrow> [] | Some i \<Rightarrow> drop i s)"

definition is_sensitive_path :: "string \<Rightarrow> bool" where
  "is_sensitive_path path =
     (let name = win_base path in name \<in> set sensitive_names \<or> to_lower (name_ext name) \<in> set sensitive_exts)"

section \<open>Facts\<close>

text \<open>The roots kept: clean, absolute before that, without control bytes, distinct up to case.\<close>

lemma clean_roots_ok:
  assumes "clean_roots seen rs = Inr cs"
  shows "distinct (map to_lower cs) \<and> to_lower ` set cs \<inter> seen = {} \<and>
    (\<forall>c\<in>set cs. \<exists>r\<in>set rs. c = path_clean (trim_space r) \<and> path_is_abs (trim_space r) \<and> \<not> has_control (trim_space r))"
  using assms
proof (induction seen rs arbitrary: cs rule: clean_roots.induct)
  case (2 seen r rs)
  let ?r = "trim_space r" and ?c = "path_clean (trim_space r)"
  show ?case
  proof (cases "?r = []")
    case True
    then show ?thesis using 2(1) [OF refl] 2(4) by auto
  next
    case nonempty: False
    then have r: "\<not> has_control ?r" "path_is_abs ?r" using 2(4) by (auto simp: Let_def split: if_splits)
    show ?thesis
    proof (cases "to_lower ?c \<in> seen")
      case True
      then show ?thesis using 2(2) [OF refl nonempty r(1) _ refl refl True] 2(4) nonempty r by (auto simp: Let_def)
    next
      case False
      then obtain ds where ds: "clean_roots (insert (to_lower ?c) seen) rs = Inr ds" "cs = ?c # ds"
        using 2(4) nonempty r by (auto simp: Let_def split: sum.splits)
      have "distinct (map to_lower ds) \<and> to_lower ` set ds \<inter> insert (to_lower ?c) seen = {} \<and>
          (\<forall>c\<in>set ds. \<exists>r\<in>set rs. c = path_clean (trim_space r) \<and> path_is_abs (trim_space r) \<and> \<not> has_control (trim_space r))"
        using 2(3) [OF refl nonempty r(1) _ refl refl False] ds r by simp
      then show ?thesis using ds(2) False r by auto
    qed
  qed
qed simp

text \<open>What the calls leave: a file that existed is never changed, but for the one that is replaced.\<close>

definition keeps_files :: "(string, 'z) disk_scheme \<Rightarrow> (string, 'z) disk_scheme \<Rightarrow> string set \<Rightarrow> bool" where
  "keeps_files w w' except \<longleftrightarrow> (\<forall>p. p \<notin> except \<longrightarrow> disk_file w p \<noteq> None \<longrightarrow> disk_file w' p = disk_file w p)"

lemma keeps_files_same: "disk_file w' = disk_file w \<Longrightarrow> keeps_files w w' P"
  by (simp add: keeps_files_def)

lemma os_touch_file: "os_touch d w = (e, w') \<Longrightarrow> disk_file w' = disk_file w"
  by (auto simp: os_touch_def)

lemma os_touch_snd [simp]: "disk_file (snd (os_touch d w)) = disk_file w"
  by (simp add: os_touch_def)

lemma create_temp_file:
  assumes "os_create_temp env w = (r, w')"
  shows "r = Inr name \<Longrightarrow> disk_file w name = None \<and> disk_file w' = (disk_file w)(name \<mapsto> [])"
    "keeps_files w w' {}"
proof -
  show "r = Inr name \<Longrightarrow> disk_file w name = None \<and> disk_file w' = (disk_file w)(name \<mapsto> [])"
    using assms by (auto simp: os_create_temp_def split: sum.splits option.splits prod.splits dest!: os_write_file(1))
  show "keeps_files w w' {}"
  proof (cases "sl_temp env (dk_pos w)")
    case (Inl e)
    then show ?thesis using assms by (auto simp: os_create_temp_def keeps_files_def)
  next
    case (Inr tmp)
    obtain e w1 where wr: "os_write (sl_disk env) tmp [] w = (e, w1)" by force
    show ?thesis
    proof (cases "disk_file w tmp")
      case None
      then have "w' = w1" using assms Inr wr by (auto simp: os_create_temp_def split: option.splits)
      then show ?thesis using None os_write_other [OF wr] unfolding keeps_files_def by metis
    qed (use assms Inr in \<open>auto simp: os_create_temp_def keeps_files_def\<close>)
  qed
qed

lemma replace_file_result:
  assumes "replace_file env tmp path out w = (e, w')" "tmp \<noteq> path"
  shows "e = None \<Longrightarrow> disk_file w' path = Some out" "p \<noteq> tmp \<Longrightarrow> p \<noteq> path \<Longrightarrow> disk_file w' p = disk_file w p"
    "e \<noteq> None \<Longrightarrow> disk_file w' path = disk_file w path"
proof -
  let ?d = "sl_disk env"
  obtain e1 w1 where wr: "os_write ?d tmp out w = (e1, w1)" by force
  obtain e2 w2 where sync: "os_touch ?d w1 = (e2, w2)" by force
  obtain e3 w3 where close: "os_touch ?d w2 = (e3, w3)" by force
  obtain e4 w4 where chmod: "os_touch ?d w3 = (e4, w4)" by force
  obtain e5 w5 where mv: "os_rename ?d tmp path w4 = (e5, w5)" by force
  note same = os_touch_file [OF sync] os_touch_file [OF close] os_touch_file [OF chmod]
  note kept = os_write_other [OF wr]
  have early: "(\<forall>p. p \<noteq> tmp \<longrightarrow> disk_file w' p = disk_file w p) \<and> e \<noteq> None" if "e1 \<noteq> None \<or> e2 \<noteq> None \<or> e3 \<noteq> None \<or> e4 \<noteq> None"
    using that assms(1) wr sync close chmod same kept
    by (cases e1; cases e2; cases e3; cases e4) (auto simp: replace_file_def Let_def)
  have "(e = None \<longrightarrow> disk_file w' path = Some out) \<and> (p \<noteq> tmp \<longrightarrow> p \<noteq> path \<longrightarrow> disk_file w' p = disk_file w p) \<and>
      (e \<noteq> None \<longrightarrow> disk_file w' path = disk_file w path)"
  proof (cases "e1 \<noteq> None \<or> e2 \<noteq> None \<or> e3 \<noteq> None \<or> e4 \<noteq> None")
    case True
    then show ?thesis using early assms(2) by auto
  next
    case False
    then have w': "w' = w5" "e = None \<longleftrightarrow> e5 = None"
      using assms(1) wr sync close chmod mv by (auto simp: replace_file_def Let_def split: option.splits)
    have "disk_file w1 = (disk_file w)(tmp \<mapsto> out)" using os_write_file(1) [OF wr] False by simp
    then show ?thesis using os_rename_file [OF mv] same assms(2) unfolding w' by (cases e5) auto
  qed
  then show "e = None \<Longrightarrow> disk_file w' path = Some out" "p \<noteq> tmp \<Longrightarrow> p \<noteq> path \<Longrightarrow> disk_file w' p = disk_file w p"
    "e \<noteq> None \<Longrightarrow> disk_file w' path = disk_file w path" by blast+
qed

text \<open>The update as a whole: the complete new document or the old file.\<close>

lemma atomic_update_result:
  assumes "atomic_update_pilot_json env path f w = (r, w')"
  shows "keeps_files w w' {path}" "r \<noteq> Updated \<Longrightarrow> disk_file w' path = disk_file w path"
    "r = Updated \<Longrightarrow> \<exists>raw m out. disk_file w path = Some raw \<and> parse_object env raw = Inr (Some m) \<and>
       sl_encode env (f m) = Inr out \<and> disk_file w' path = Some out"
    "r = UpdatePanic \<Longrightarrow> \<exists>raw. disk_file w path = Some raw \<and> parse_object env raw = Inr None"
proof -
  let ?goal = "keeps_files w w' {path} \<and> (r \<noteq> Updated \<longrightarrow> disk_file w' path = disk_file w path) \<and>
    (r = Updated \<longrightarrow> (\<exists>raw m out. disk_file w path = Some raw \<and> parse_object env raw = Inr (Some m) \<and>
       sl_encode env (f m) = Inr out \<and> disk_file w' path = Some out)) \<and>
    (r = UpdatePanic \<longrightarrow> (\<exists>raw. disk_file w path = Some raw \<and> parse_object env raw = Inr None))"
  obtain x w1 where rd: "os_read (sl_disk env) path w = (x, w1)" by force
  note w1 = os_read_cases(1) [OF rd]
  have ?goal
  proof (cases "\<exists>raw m out. x = Inr raw \<and> parse_object env raw = Inr (Some m) \<and> sl_encode env (f m) = Inr out")
    case False
    then show ?thesis using assms rd w1 os_read_cases(2) [OF rd]
      by (auto simp: atomic_update_pilot_json_def update_failed_def keeps_files_same split: sum.splits option.splits)
  next
    case True
    then obtain raw m out where x: "x = Inr raw" "parse_object env raw = Inr (Some m)" "sl_encode env (f m) = Inr out" by blast
    have raw: "disk_file w path = Some raw" using os_read_cases(2) [OF rd x(1)] .
    obtain t w2 where tmp: "os_create_temp env w1 = (t, w2)" by force
    note kept = create_temp_file(2) [OF tmp]
    show ?thesis
    proof (cases t)
      case (Inl e)
      then have "w' = w2" "r = update_failed ''create temp config'' e"
        using assms rd x tmp by (simp_all add: atomic_update_pilot_json_def)
      then show ?thesis using kept w1 raw by (auto simp: keeps_files_def update_failed_def)
    next
      case (Inr name)
      note fresh = create_temp_file(1) [OF tmp Inr]
      obtain e w3 where rp: "replace_file env name path out w2 = (e, w3)" by force
      obtain e4 w4 where rm: "os_remove (sl_disk env) name w3 = (e4, w4)" by force
      have res: "w' = w4" "r = (case e of None \<Rightarrow> Updated | Some e \<Rightarrow> UpdateFailed e)"
        using assms rd x tmp Inr rp rm by (simp_all add: atomic_update_pilot_json_def)
      have ne: "name \<noteq> path" using fresh raw w1 by auto
      note rep = replace_file_result [OF rp ne]
      have w4: "p \<noteq> name \<Longrightarrow> disk_file w4 p = disk_file w3 p" for p using os_remove_file(1) [OF rm] by auto
      have w2: "p \<noteq> name \<Longrightarrow> disk_file w2 p = disk_file w p" for p using fresh w1 by simp
      have "disk_file w' p = disk_file w p" if "p \<noteq> path" "disk_file w p \<noteq> None" for p
      proof -
        have "p \<noteq> name" using that(2) fresh w1 by auto
        then show ?thesis using rep(2) [of p] that(1) w4 w2 res(1) by simp
      qed
      then have "keeps_files w w' {path}" by (simp add: keeps_files_def)
      moreover have "disk_file w' path = disk_file w3 path" using w4 [of path] ne res(1) by simp
      ultimately show ?thesis using rep(1,3) w2 [of path] ne raw x res(2) by (cases e) auto
    qed
  qed
  then show "keeps_files w w' {path}" "r \<noteq> Updated \<Longrightarrow> disk_file w' path = disk_file w path"
    "r = Updated \<Longrightarrow> \<exists>raw m out. disk_file w path = Some raw \<and> parse_object env raw = Inr (Some m) \<and>
       sl_encode env (f m) = Inr out \<and> disk_file w' path = Some out"
    "r = UpdatePanic \<Longrightarrow> \<exists>raw. disk_file w path = Some raw \<and> parse_object env raw = Inr None"
    by blast+
qed

section \<open>The documents before and after\<close>

text \<open>The map a document is for the agent, and the selection as a change of that map.\<close>

definition pilot_object :: "selection_env \<Rightarrow> string \<Rightarrow> (string, 'z) disk_scheme \<Rightarrow> json_object option" where
  "pilot_object env path w =
     Option.bind (disk_file w path) (\<lambda>raw. case sl_decode env (strip_bom raw) of Inr (JObj m) \<Rightarrow> Some m | _ \<Rightarrow> None)"

definition pilot_document :: "selection_env \<Rightarrow> string \<Rightarrow> (string, 'z) disk_scheme \<Rightarrow> (string \<Rightarrow> json option) option" where
  "pilot_document env path w = map_option (\<lambda>m. map_of (go_map m)) (pilot_object env path w)"

definition select_spec :: "string \<Rightarrow> string list \<Rightarrow> (string \<Rightarrow> json option) \<Rightarrow> string \<Rightarrow> json option" where
  "select_spec revision cleaned doc =
     (if doc ''selection_revision_id'' = Some (JStr revision) then doc
      else doc(''source_roots'' \<mapsto> JArr (map JStr cleaned), ''selection_revision_id'' \<mapsto> JStr revision))"

text \<open>What JSON keeps of a map: \<open>MarshalIndent\<close> writes its members once each, in its own order.\<close>

definition selection_codec :: "selection_env \<Rightarrow> bool" where
  "selection_codec env \<longleftrightarrow> (\<forall>m out. distinct (map fst m) \<longrightarrow> sl_encode env m = Inr out \<longrightarrow>
     (\<exists>m'. sl_decode env (strip_bom out) = Inr (JObj m') \<and> distinct (map fst m') \<and> set m' = set m))"

text \<open>A document as the agent and the installer write it: each member once, in its usual case.\<close>

definition plain_object :: "json_object \<Rightarrow> bool" where
  "plain_object m \<longleftrightarrow> distinct (map fst m) \<and> (\<forall>kv\<in>set m. equal_fold (fst kv) ''source_roots'' \<longrightarrow> fst kv = ''source_roots'')"

lemma go_map_distinct [simp]: "distinct (map fst (go_map m))"
proof -
  have "distinct (map fst (foldl (\<lambda>acc kv. AList.update (fst kv) (snd kv) acc) acc m))" if "distinct (map fst acc)" for acc
    using that by (induction m arbitrary: acc) (auto simp: distinct_update)
  then show ?thesis by (simp add: go_map_def)
qed

lemma go_map_plain: "distinct (map fst m) \<Longrightarrow> go_map m = m"
proof -
  have absent: "k \<notin> fst ` set acc \<Longrightarrow> AList.update k v acc = acc @ [(k, v)]" for k v and acc :: json_object
    by (induction acc) auto
  have "foldl (\<lambda>acc kv. AList.update (fst kv) (snd kv) acc) acc m = acc @ m" if "distinct (map fst (acc @ m))" for acc
    using that
  proof (induction m arbitrary: acc)
    case (Cons kv m)
    have "fst kv \<notin> fst ` set acc" using Cons.prems by auto
    then have "AList.update (fst kv) (snd kv) acc = acc @ [kv]" using absent by simp
    then show ?case using Cons.IH [of "acc @ [kv]"] Cons.prems by simp
  qed simp
  then show "distinct (map fst m) \<Longrightarrow> go_map m = m" by (simp add: go_map_def)
qed

lemma parse_object_Some:
  "parse_object env raw = Inr (Some m) \<longleftrightarrow> (\<exists>d. sl_decode env (strip_bom raw) = Inr (JObj d) \<and> m = go_map d)"
  by (auto simp: parse_object_def split: sum.splits json.splits)

lemma set_selection_distinct: "distinct (map fst m) \<Longrightarrow> distinct (map fst (set_selection revision cleaned m))"
  by (simp add: set_selection_def distinct_update)

lemma set_selection_map:
  "map_of (set_selection revision cleaned m) =
     (map_of m)(''source_roots'' \<mapsto> JArr (map JStr cleaned), ''selection_revision_id'' \<mapsto> JStr revision)"
  by (simp add: set_selection_def update_conv')

text \<open>The struct the backups decode sees the one member of the name.\<close>

lemma current_source_roots_plain:
  assumes "plain_object m" "string_list (map_of m ''source_roots'') = Some cleaned" "cleaned \<noteq> []"
  shows "current_source_roots (Some m) fallback = cleaned"
proof -
  have d: "distinct (map fst m)" "\<forall>kv\<in>set m. equal_fold (fst kv) ''source_roots'' \<longrightarrow> fst kv = ''source_roots''"
    using assms(1) by (simp_all add: plain_object_def)
  obtain xs where xs: "map_of m ''source_roots'' = Some (JArr xs)" "list_all (\<lambda>x. json_str x \<noteq> None) xs"
      "cleaned = map (\<lambda>x. the (json_str x)) xs"
    using assms(2) by (cases "map_of m ''source_roots''") (auto simp: string_list_def json_arr_def split: json.splits if_splits)
  have mem: "(''source_roots'', JArr xs) \<in> set m" using xs(1) by (rule map_of_SomeD)
  have only: "filter (\<lambda>kv. equal_fold (fst kv) ''source_roots'') m = [(''source_roots'', JArr xs)]"
    using d mem
  proof (induction m)
    case (Cons kv m)
    show ?case
    proof (cases "kv = (''source_roots'', JArr xs)")
      case True
      then have "\<not> equal_fold (fst y) ''source_roots''" if "y \<in> set m" for y using Cons.prems that by force
      then show ?thesis using True by (simp add: equal_fold_def)
    next
      case False
      then have "(''source_roots'', JArr xs) \<in> set m" using Cons.prems(3) by simp
      then have "fst kv \<noteq> ''source_roots''" using Cons.prems(1) by force
      then show ?thesis using Cons False by simp
    qed
  qed simp
  have "string_items (JArr xs) = Some cleaned"
    using xs(2,3) by (auto simp: string_items_def list_all_iff)
  then show ?thesis using only assms(3) by (simp add: current_source_roots_def field_strings_def)
qed

lemma set_selection_plain:
  assumes "plain_object m"
  shows "plain_object (set_selection revision cleaned m)"
proof -
  have upd: "kv \<in> set (AList.update k v m) \<Longrightarrow> kv \<in> set m \<or> fst kv = k" for kv k v and m :: json_object
    by (induction m) (auto split: if_splits)
  have "kv \<in> set (set_selection revision cleaned m) \<Longrightarrow>
      kv \<in> set m \<or> fst kv = ''source_roots'' \<or> fst kv = ''selection_revision_id''" for kv
    unfolding set_selection_def by (blast dest: upd)
  moreover have "\<not> equal_fold ''selection_revision_id'' ''source_roots''" by code_simp
  ultimately show ?thesis using assms set_selection_distinct unfolding plain_object_def by metis
qed

lemma plain_object_set: "set m' = set m \<Longrightarrow> distinct (map fst m') \<Longrightarrow> plain_object m \<Longrightarrow> plain_object m'"
  by (simp add: plain_object_def)

lemma string_list_strs [simp]: "string_list (Some (JArr (map JStr cs))) = Some cs"
  by (simp add: string_list_def json_arr_def json_str_def list_all_iff comp_def)

text \<open>A file the update has replaced, read again.\<close>

lemma updated_document:
  assumes "selection_codec env" "disk_file w path = Some raw" "parse_object env raw = Inr (Some m)"
    "sl_encode env (set_selection revision cleaned m) = Inr out" "disk_file w' path = Some out"
    "member_str m ''selection_revision_id'' \<noteq> revision"
  shows "\<exists>doc. pilot_document env path w = Some doc \<and> pilot_document env path w' = Some (select_spec revision cleaned doc)"
    "cleaned \<noteq> [] \<Longrightarrow> \<forall>d. pilot_object env path w = Some d \<longrightarrow> plain_object d \<longrightarrow>
       current_source_roots (pilot_object env path w') fallback = cleaned"
proof -
  obtain d where d: "sl_decode env (strip_bom raw) = Inr (JObj d)" "m = go_map d"
    using assms(3) by (auto simp: parse_object_Some)
  let ?new = "set_selection revision cleaned m"
  have "distinct (map fst ?new)" by (rule set_selection_distinct) (simp add: d(2))
  then obtain d' where d': "sl_decode env (strip_bom out) = Inr (JObj d')" "distinct (map fst d')" "set d' = set ?new"
    using assms(1,4) unfolding selection_codec_def by blast
  have obj: "pilot_object env path w = Some d" "pilot_object env path w' = Some d'"
    using assms(2,5) d(1) d'(1) by (simp_all add: pilot_object_def)
  have same: "map_of d' = map_of ?new"
    using d' \<open>distinct (map fst ?new)\<close> by (metis map_of_inject_set)
  have "map_of m ''selection_revision_id'' \<noteq> Some (JStr revision)"
    using assms(6) by (auto simp: member_str_def json_str_def)
  then have "map_of (go_map d') = select_spec revision cleaned (map_of (go_map d))"
    using d(2) d'(2) by (simp add: go_map_plain same set_selection_map select_spec_def)
  then show "\<exists>doc. pilot_document env path w = Some doc \<and> pilot_document env path w' = Some (select_spec revision cleaned doc)"
    by (simp add: pilot_document_def obj)
  show "\<forall>d. pilot_object env path w = Some d \<longrightarrow> plain_object d \<longrightarrow> current_source_roots (pilot_object env path w') fallback = cleaned"
    if "cleaned \<noteq> []"
  proof (intro allI impI)
    fix e assume "pilot_object env path w = Some e" "plain_object e"
    then have "plain_object m" using obj d(2) by (simp add: go_map_plain plain_object_def)
    then have "plain_object d'" using plain_object_set [OF d'(3,2)] set_selection_plain by blast
    moreover have "string_list (map_of d' ''source_roots'') = Some cleaned" by (simp add: same set_selection_map)
    ultimately show "current_source_roots (pilot_object env path w') fallback = cleaned"
      using current_source_roots_plain that obj by simp
  qed
qed

section \<open>The property\<close>

definition refusal :: "selection_answer \<Rightarrow> bool" where
  "refusal r \<longleftrightarrow> (\<exists>e. r = Some (None, Some e) \<and> errors_is e ErrSelectionRejected)"

definition selection_done :: "selection_env \<Rightarrow> string \<Rightarrow> string \<Rightarrow> string list \<Rightarrow> string list \<Rightarrow> string list \<Rightarrow> json_object \<Rightarrow>
    (string, 'z) disk_scheme \<Rightarrow> (string, 'z) disk_scheme \<Rightarrow> bool" where
  "selection_done env path revision roots consents fallback res w w' \<longleftrightarrow>
     (\<exists>cleaned doc. clean_roots {} roots = Inr cleaned \<and> res = selection_result revision cleaned consents \<and>
        cleaned \<noteq> [] \<and> distinct (map to_lower cleaned) \<and>
        pilot_document env path w = Some doc \<and>
        pilot_document env path w' = Some (select_spec revision cleaned doc) \<and>
        string_list (select_spec revision cleaned doc ''source_roots'') = Some cleaned \<and>
        (\<forall>d. pilot_object env path w = Some d \<longrightarrow> plain_object d \<longrightarrow>
           current_source_roots (pilot_object env path w') fallback = cleaned))"

lemma refusal_rejected [simp]: "refusal (selection_refused msg)"
  by (simp add: refusal_def selection_rejected_def)

lemma clean_roots_error: "clean_roots seen rs = Inl e \<Longrightarrow> errors_is e ErrSelectionRejected"
  by (induction seen rs rule: clean_roots.induct) (auto simp: Let_def selection_rejected_def split: if_splits sum.splits)

text \<open>The ways a command that got past the checks of its arguments ends.\<close>

lemma apply_selection_cases:
  assumes "apply_selection env path revision roots consents w = (r, w')"
  obtains (refused) "refusal r" "disk_file w' path = disk_file w path" "keeps_files w w' {path}"
  | (panic) raw where "r = None" "disk_file w path = Some raw" "parse_object env raw = Inr None"
      "disk_file w' path = disk_file w path" "keeps_files w w' {path}"
  | (replay) cleaned raw m where "r = Some (Some (selection_result revision cleaned consents), None)" "clean_roots {} roots = Inr cleaned"
      "cleaned \<noteq> []" "disk_file w path = Some raw" "parse_object env raw = Inr (Some m)" "member_str m ''selection_revision_id'' = revision"
      "revision \<noteq> []" "string_list (map_of m ''source_roots'') = Some cleaned" "disk_file w' = disk_file w"
  | (applied) cleaned raw m out where "r = Some (Some (selection_result revision cleaned consents), None)" "clean_roots {} roots = Inr cleaned"
      "cleaned \<noteq> []" "disk_file w path = Some raw" "parse_object env raw = Inr (Some m)" "member_str m ''selection_revision_id'' \<noteq> revision"
      "sl_encode env (set_selection revision cleaned m) = Inr out" "disk_file w' path = Some out" "keeps_files w w' {path}"
proof (cases "trim_space revision = [] \<or> roots = [] \<or> (\<exists>e. clean_roots {} roots = Inl e) \<or> clean_roots {} roots = Inr []")
  case True
  then have "refusal r" "w' = w"
    using assms clean_roots_error [of "{}" roots] by (auto simp: apply_selection_def refusal_def selection_rejected_def split: if_splits)
  then show ?thesis using refused by (simp add: keeps_files_def)
next
  case False
  then obtain cleaned where c: "clean_roots {} roots = Inr cleaned" "cleaned \<noteq> []" "trim_space revision \<noteq> []" "roots \<noteq> []"
    by (cases "clean_roots {} roots") auto
  have rev: "revision \<noteq> []" using c(3) by (auto simp: trim_space_def trim_left_def trim_right_def)
  obtain x w1 where rd: "os_read (sl_disk env) path w = (x, w1)" by force
  note w1 = os_read_cases(1) [OF rd]
  show ?thesis
  proof (cases x)
    case (Inl e)
    then have "refusal r" "w' = w1" using assms c rd by (auto simp: apply_selection_def)
    then show ?thesis using refused w1 by (simp add: keeps_files_same)
  next
    case (Inr raw)
    have raw: "disk_file w path = Some raw" using os_read_cases(2) [OF rd Inr] .
    show ?thesis
    proof (cases "parse_object env raw")
      case (Inl e)
      then have "refusal r" "w' = w1" using assms c rd \<open>x = Inr raw\<close> by (auto simp: apply_selection_def)
      then show ?thesis using refused w1 by (simp add: keeps_files_same)
    next
      case (Inr cur)
      define m where "m = (case cur of None \<Rightarrow> [] | Some m \<Rightarrow> m)"
      have nil: "member_str [] k = []" for k by (simp add: member_str_def)
      show ?thesis
      proof (cases "member_str m ''selection_revision_id'' = revision")
        case True
        then have cur: "cur = Some m" using rev nil by (cases cur) (auto simp: m_def)
        have "w' = w1 \<and> (if string_list (map_of m ''source_roots'') \<noteq> Some cleaned then refusal r
            else r = Some (Some (selection_result revision cleaned consents), None))"
          using assms c rd \<open>x = Inr raw\<close> Inr True unfolding cur by (auto simp: apply_selection_def split: if_splits)
        then show ?thesis using refused replay [OF _ c(1,2) raw _ True rev] Inr cur w1
          by (auto simp: keeps_files_same split: if_splits)
      next
        case False
        obtain u w2 where up: "atomic_update_pilot_json env path (set_selection revision cleaned) w1 = (u, w2)" by force
        have r: "w' = w2" "r = (case u of Updated \<Rightarrow> Some (Some (selection_result revision cleaned consents), None)
            | UpdateFailed e \<Rightarrow> selection_refused (error_text e) | UpdatePanic \<Rightarrow> None)"
          using assms c rd \<open>x = Inr raw\<close> Inr False up
          by (auto simp: apply_selection_def m_def [symmetric] Let_def split: update_outcome.splits)
        note res = atomic_update_result [OF up]
        have keeps: "keeps_files w w' {path}" using res(1) w1 r(1) by (simp add: keeps_files_def)
        have same: "u \<noteq> Updated \<Longrightarrow> disk_file w' path = disk_file w path" using res(2) w1 r(1) by simp
        show ?thesis
        proof (cases u)
          case Updated
          then obtain raw' m' out where u: "disk_file w1 path = Some raw'" "parse_object env raw' = Inr (Some m')"
              "sl_encode env (set_selection revision cleaned m') = Inr out" "disk_file w2 path = Some out" using res(3) by blast
          then have "raw' = raw" "m' = m" using w1 raw Inr by (auto simp: m_def)
          then show ?thesis using applied [OF _ c(1,2) raw] u r keeps False Updated by simp
        next
          case (UpdateFailed e)
          then show ?thesis using refused r same keeps by simp
        next
          case UpdatePanic
          then show ?thesis using panic [OF _ raw] res(4) w1 raw r same keeps by auto
        qed
      qed
    qed
  qed
qed

text \<open>
  C31: the command that selects the folders to back up refines a change of the map that
  \<open>pilot.json\<close> holds, whatever call of the disk fails or wherever the process stops. It never changes
  another file that was there. If it answers with an error (every one of which is a refused selection)
  or the document \<open>null\<close> makes it panic, \<open>pilot.json\<close> is byte for byte the old one. If it answers
  with a result, the map of the document is changed as the specification says: not at all if the revision
  was applied before, which takes the same folders, else by the two members; the folders are those of the
  request, clean and each once up to case; and the next backup of a plain document reads exactly them.
\<close>

theorem apply_selection_refines:
  assumes "selection_codec env" "apply_selection env path revision roots consents w = (r, w')"
  shows "keeps_files w w' {path} \<and> (refusal r \<or> r = None \<or> (\<exists>res. r = Some (Some res, None))) \<and>
    ((\<forall>res. r \<noteq> Some (Some res, None)) \<longrightarrow> disk_file w' path = disk_file w path) \<and>
    (r = None \<longrightarrow> (\<exists>raw. disk_file w path = Some raw \<and> sl_decode env (strip_bom raw) = Inr JNull)) \<and>
    (\<forall>res. r = Some (Some res, None) \<longrightarrow> selection_done env path revision roots consents fallback res w w')"
proof (cases rule: apply_selection_cases [OF assms(2), case_names refused panic replay applied])
    case refused
    then show ?thesis by (auto simp: refusal_def)
  next
    case (panic raw)
    then have "sl_decode env (strip_bom raw) = Inr JNull" by (auto simp: parse_object_def split: sum.splits json.splits)
    then show ?thesis using panic by auto
  next
    case (replay cleaned raw m)
    obtain d where d: "sl_decode env (strip_bom raw) = Inr (JObj d)" "m = go_map d"
      using replay(5) by (auto simp: parse_object_Some)
    have obj: "pilot_object env path w = Some d" "pilot_object env path w' = Some d"
      using replay(4,9) d(1) by (simp_all add: pilot_object_def)
    have "map_of m ''selection_revision_id'' = Some (JStr revision)"
      using replay(6,7) by (auto simp: member_str_def json_str_def split: option.splits json.splits bind_splits)
    then have spec: "select_spec revision cleaned (map_of (go_map d)) = map_of m" by (simp add: select_spec_def d(2))
    have "current_source_roots (Some d) fallback = cleaned" if "plain_object d"
      using current_source_roots_plain [OF that _ replay(3)] replay(8) that by (simp add: d(2) go_map_plain plain_object_def)
    then show ?thesis using replay obj spec d(2) clean_roots_ok [OF replay(2)]
      by (auto simp: keeps_files_same pilot_document_def selection_done_def)
  next
    case (applied cleaned raw m out)
    note doc = updated_document [OF assms(1) applied(4,5,7,8,6)]
    have "string_list (select_spec revision cleaned doc ''source_roots'') = Some cleaned"
      if "pilot_document env path w = Some doc" for doc
    proof -
      have "doc = map_of m" using that applied(4,5) by (auto simp: pilot_document_def pilot_object_def parse_object_Some)
      then have "doc ''selection_revision_id'' \<noteq> Some (JStr revision)" using applied(6) by (auto simp: member_str_def json_str_def)
      then show ?thesis by (simp add: select_spec_def)
    qed
    then show ?thesis using applied(1,2,3,9) doc(1) doc(2) [OF applied(3)] clean_roots_ok [OF applied(2)]
      by (auto simp: selection_done_def)
qed

definition ex_selected :: json_object where
  "ex_selected = [(''pilot_root'', JStr ''C:''), (''source_roots'', JArr [JStr (''D:'' @ [backslash] @ ''Work'')]),
     (''selection_revision_id'', JStr ''r2'')]"

definition ex_selection :: selection_env where
  "ex_selection = \<lparr>sl_disk = \<lambda>_. None,
     sl_decode = \<lambda>raw. if raw = ''old'' then Inr (JObj [(''pilot_root'', JStr ''C:''), (''source_roots'', JNull)])
       else if raw = ''new'' then Inr (JObj ex_selected) else Inl (PlainError ''invalid character''),
     sl_encode = \<lambda>m. if m = ex_selected then Inr ''new'' else Inl (PlainError ''unsupported value''),
     sl_temp = \<lambda>n. Inr ''C:/.pilot-1.json.tmp''\<rparr>"

definition ex_selection_disk :: "string disk" where
  "ex_selection_disk = \<lparr>dk_files = [(''C:/pilot.json'', ''old'')], dk_pos = 0\<rparr>"

lemma ex_selection_codec: "selection_codec ex_selection"
proof -
  have "distinct (map fst ex_selected)" by (simp add: ex_selected_def)
  then show ?thesis by (auto simp: selection_codec_def ex_selection_def strip_bom_def split: if_splits)
qed

lemma ex_selection_runs:
  "fst (apply_selection ex_selection ''C:/pilot.json'' ''r2'' [''D:/Work/'', '' d:/WORK/x/..''] [] ex_selection_disk) =
     Some (Some (selection_result ''r2'' [''D:'' @ [backslash] @ ''Work''] []), None)"
  "dk_files (snd (apply_selection ex_selection ''C:/pilot.json'' ''r2'' [''D:/Work/'', '' d:/WORK/x/..''] [] ex_selection_disk)) =
     [(''C:/pilot.json'', ''new'')]"
  by code_simp+

theorem apply_selection_refines_witness:
  "\<exists>w'. apply_selection ex_selection ''C:/pilot.json'' ''r2'' [''D:/Work/'', '' d:/WORK/x/..''] [] ex_selection_disk =
       (Some (Some (selection_result ''r2'' [''D:'' @ [backslash] @ ''Work''] []), None), w') \<and>
     selection_done ex_selection ''C:/pilot.json'' ''r2'' [''D:/Work/'', '' d:/WORK/x/..''] [] []
       (selection_result ''r2'' [''D:'' @ [backslash] @ ''Work''] []) ex_selection_disk w'"
proof -
  obtain r w' where run: "apply_selection ex_selection ''C:/pilot.json'' ''r2'' [''D:/Work/'', '' d:/WORK/x/..''] [] ex_selection_disk = (r, w')"
    by force
  then show ?thesis using apply_selection_refines [OF ex_selection_codec run, of "[]"] ex_selection_runs(1) by simp
qed

end
