(* ===== verification/Local_Page.thy ===== *)
theory Local_Page
  imports Restore_Jobs Local_Caller Selection Restic_Readers Journal_Tables
begin

text \<open>
  The page of the agent for the person at the PC (\<open>cmd/stowline-agent/localui.go\<close>): the guard of every
  request, the account behind it, and one handler per operation, over the restores of Restore_Jobs.
  What the other parts of the agent answer (journal, engine, control plane, folder sizes), the decoding
  of request bodies and the account of a connection are the environment's; a part the agent runs
  without is \<open>None\<close>. A response is its status and the values its JSON is made of.
\<close>

section \<open>Requests, responses and the server\<close>


record attempt_summary =
  as_total_files :: int
  as_total_bytes :: int
  as_data_added :: int
  as_duration_ms :: int

datatype history_item = BackupItem attempt_record attempt_summary | RestoreItem restore_job

record folder_size =
  fz_bytes :: int
  fz_files :: int
  fz_complete :: bool
  fz_pending :: bool

datatype backup_step = StepPreparing | StepFinalizing | StepScanning

record status_info =
  si_running :: "(backup_step \<times> restore_progress) option"
  si_last_attempt :: "(attempt_record \<times> attempt_summary) option"
  si_last_success :: "(attempt_record \<times> attempt_summary) option"
  si_restore :: "restore_job option"

datatype page_body = MuxAnswer | PageText | ScriptText | ErrorBody string | StatusBody status_info
  | FoldersBody "(string \<times> folder_size option) list" | NeedsConfirmation "string list"
  | SnapshotsBody "(string \<times> time \<times> attempt_summary) list"
  | EntriesBody "snapshot_entry list" string bool | ResultsBody "snapshot_entry list" bool
  | JobBody restore_job | JobsBody "restore_job list" | DoneBody string | HistoryBody "history_item list"

record page_response =
  ps_status :: nat
  ps_body :: page_body

text \<open>
  What the server changes: the restores, the listing it searched last, and what it had done outside:
  the folder lists applied and reported, the backups asked for and the messages sent.
\<close>

record page_world =
  pw_restores :: restore_world
  pw_search_snap :: string
  pw_search_cache :: "snapshot_entry list"
  pw_applied :: "string list list"
  pw_reported :: "string list list"
  pw_backups :: nat
  pw_messages :: "string list"


type_synonym page_step = "page_world \<Rightarrow> page_response \<times> page_world"

definition respond :: "nat \<Rightarrow> page_body \<Rightarrow> page_step" where
  "respond status body w = (\<lparr>ps_status = status, ps_body = body\<rparr>, w)"


section \<open>The guard\<close>






section \<open>Attempts\<close>





section \<open>Handlers\<close>


























section \<open>The multiplexer\<close>




section \<open>What a request may see and do\<close>






lemma respond_simps [simp]: "respond status body w = (\<lparr>ps_status = status, ps_body = body\<rparr>, w)"
  by (simp add: respond_def)
























lemma remove_staging_jobs [simp]: "rw_jobs (remove_staging env staging v) = rw_jobs v"
  using remove_staging_cases [of env staging v] by auto























section \<open>The property\<close>


definition ex_person :: local_caller where
  "ex_person = new_local_caller ''S-1-5-21-1'' ''C:/Users/ayse'' ''C:/Users'' [''C:/Users/ayse'', ''C:/Users/veli'']"





text \<open>
  A selection is compared as a path, while the engine takes it as a pattern: one that stands for the
  folder of another account, or for a name anywhere, passes.
\<close>

lemma patterns_pass:
  "may_restore ex_person ''/C/*/veli''" "may_restore ex_person ''diary.docx''" "may_restore ex_person ''/C/Users/ayse/../veli''"
  "\<not> may_restore ex_person ''/C/Users/veli/diary.docx''"
  by code_simp+


end
