(* ===== verification/Local_Browse.thy ===== *)
theory Local_Browse
  imports WinVolume Selection "HOL-Library.List_Lexorder" "HOL-Library.Char_ord"
begin

text \<open>
  The listing of one directory of the machine for an administrator who picks folders to back up
  (\<open>cmd/stowline-agent/browse_local.go\<close>): the checks of the path, and the pages of the sorted names.
  What \<open>os.Stat\<close>, \<open>os.ReadDir\<close> and \<open>IsReparse\<close> answer is the environment's.
\<close>

datatype fs_error = FsPermission | FsNotExist | FsOther string

record browse_env =
  bz_stat :: "string \<Rightarrow> fs_error + bool"
  bz_read_dir :: "string \<Rightarrow> fs_error + (string \<times> bool) list"
  bz_reparse :: "string \<Rightarrow> bool"

datatype entry_kind = EntryFile | EntryDirectory | EntryReparse

record dir_entry =
  de_name :: string
  de_path :: string
  de_kind :: entry_kind

record dir_page =
  dp_path :: string
  dp_parent :: string
  dp_entries :: "dir_entry list"
  dp_cursor :: string

definition browse_max_limit :: int where "browse_max_limit = 1000"

definition browse_rejected :: "string \<Rightarrow> go_error" where
  "browse_rejected msg = wrap_msg ErrBrowsePathRejected msg"

section \<open>The path\<close>

definition off_limits :: "string \<Rightarrow> string list" where
  "off_limits pilot_root =
     (if pilot_root = [] then []
      else let base = path_clean pilot_root in [path_join base ''secrets'', path_join base ''config''])"

definition is_off_limits :: "string \<Rightarrow> string \<Rightarrow> bool" where
  "is_off_limits clean off \<longleftrightarrow> equal_fold clean off \<or> has_prefix (to_lower clean) (to_lower off @ [backslash])"

definition safe_browse_dir :: "browse_env \<Rightarrow> string \<Rightarrow> string \<Rightarrow> go_error + string" where
  "safe_browse_dir env raw_path pilot_root =
     (let raw = trim_space raw_path in
      if raw = [] then Inl (browse_rejected ''empty path'')
      else if has_control raw then Inl (browse_rejected ''control byte in path'')
      else if \<not> path_is_abs raw then Inl (browse_rejected ''absolute path required'')
      else let clean = path_clean raw in
        if list_ex (is_off_limits clean) (off_limits pilot_root) then
          Inl (browse_rejected ''this directory is not browsable'')
        else case bz_stat env clean of
          Inl FsPermission \<Rightarrow> Inl (browse_rejected ''access denied'')
        | Inl _ \<Rightarrow> Inl (browse_rejected ''not found'')
        | Inr is_dir \<Rightarrow> if \<not> is_dir then Inl (browse_rejected ''not a directory'') else Inr clean)"

section \<open>The page\<close>

text \<open>The position of the first name behind the cursor in the sorted names.\<close>

definition page_start :: "string \<Rightarrow> string list \<Rightarrow> nat" where
  "page_start cursor names = (if cursor = [] then 0 else length (takeWhile (\<lambda>n. n \<le> cursor) names))"

definition entry_of :: "browse_env \<Rightarrow> string \<Rightarrow> (string \<times> bool) list \<Rightarrow> string \<Rightarrow> dir_entry" where
  "entry_of env clean entries name =
     (let full = path_join clean name in
      \<lparr>de_name = name, de_path = full,
       de_kind = (if bz_reparse env full then EntryReparse
                  else if map_of (rev entries) name = Some True then EntryDirectory else EntryFile)\<rparr>)"

definition page_names :: "nat \<Rightarrow> string \<Rightarrow> string list \<Rightarrow> string list \<times> string" where
  "page_names limit cursor names =
     (let rest = drop (page_start cursor names) names; shown = take limit rest
      in (shown, if length rest > limit then last shown else []))"

definition browse_local_dir :: "browse_env \<Rightarrow> string \<Rightarrow> string \<Rightarrow> int \<Rightarrow> string \<Rightarrow> go_error + dir_page" where
  "browse_local_dir env raw_path cursor limit0 pilot_root =
     (let limit = (if limit0 \<le> 0 \<or> limit0 > browse_max_limit then browse_max_limit else limit0) in
      case safe_browse_dir env raw_path pilot_root of
        Inl e \<Rightarrow> Inl e
      | Inr clean \<Rightarrow>
          (case bz_read_dir env clean of
             Inl FsPermission \<Rightarrow> Inl (browse_rejected ''access denied'')
           | Inl FsNotExist \<Rightarrow> Inl (browse_rejected ''not found'')
           | Inl (FsOther msg) \<Rightarrow> Inl (browse_rejected msg)
           | Inr entries \<Rightarrow>
               let names = sort (map fst entries);
                   page = page_names (nat limit) cursor names;
                   parent = path_dir clean
               in Inr \<lparr>dp_path = clean, dp_parent = (if parent = clean then [] else parent),
                       dp_entries = map (entry_of env clean entries) (fst page), dp_cursor = snd page\<rparr>))"

text \<open>A client that asks for one page after the other, with the cursor of the last; at most \<open>n\<close> pages.\<close>

fun browse_all :: "browse_env \<Rightarrow> string \<Rightarrow> int \<Rightarrow> string \<Rightarrow> nat \<Rightarrow> string \<Rightarrow> (go_error + dir_entry list) option" where
  "browse_all env raw_path limit pilot_root 0 cursor = None"
| "browse_all env raw_path limit pilot_root (Suc n) cursor =
     (case browse_local_dir env raw_path cursor limit pilot_root of
        Inl e \<Rightarrow> Some (Inl e)
      | Inr page \<Rightarrow>
          if dp_cursor page = [] then Some (Inr (dp_entries page))
          else map_option (map_sum id (\<lambda>es. dp_entries page @ es)) (browse_all env raw_path limit pilot_root n (dp_cursor page)))"

section \<open>Facts\<close>

text \<open>In sorted distinct names the page behind a cursor of the list starts behind that name.\<close>

lemma takeWhile_le_nth:
  fixes xs :: "'a :: linorder list"
  assumes "sorted xs" "distinct xs" "k < length xs"
  shows "takeWhile (\<lambda>x. x \<le> xs ! k) xs = take (Suc k) xs"
  using assms
proof (induction xs arbitrary: k)
  case (Cons x xs)
  show ?case
  proof (cases k)
    case 0
    then have "takeWhile (\<lambda>y. y \<le> x) xs = []" using Cons.prems by (cases xs) (auto simp: less_le)
    then show ?thesis using 0 by simp
  next
    case (Suc j)
    then have "x \<le> xs ! j" using Cons.prems by simp
    then show ?thesis using Cons.IH [of j] Cons.prems Suc by simp
  qed
qed simp

lemma page_start_nth:
  assumes "sorted names" "distinct names" "k < length names" "names ! k \<noteq> []"
  shows "page_start (names ! k) names = Suc k"
  using assms takeWhile_le_nth [OF assms(1-3)] by (simp add: page_start_def)

text \<open>The pages behind a position, one after the other, are the names behind it.\<close>

lemma page_names_next:
  assumes "page_start cursor names = k" "0 < limit"
  shows "page_names limit cursor names =
    (take limit (drop k names), if k + limit < length names then names ! (k + limit - 1) else [])"
proof -
  have "last (take limit (drop k names)) = names ! (k + limit - 1)" if "k + limit < length names"
  proof -
    have "take limit (drop k names) \<noteq> []" "length (take limit (drop k names)) = limit" using that assms(2) by auto
    then show ?thesis using that assms(2) by (simp add: last_conv_nth)
  qed
  then show ?thesis using assms(1) by (simp add: page_names_def Let_def less_diff_conv add.commute)
qed

definition page_limit :: "int \<Rightarrow> nat" where
  "page_limit limit0 = nat (if limit0 \<le> 0 \<or> limit0 > browse_max_limit then browse_max_limit else limit0)"

lemma page_limit_range: "0 < page_limit l" "page_limit l \<le> 1000"
  by (auto simp: page_limit_def browse_max_limit_def)

lemma browse_page:
  assumes "safe_browse_dir env raw pilot_root = Inr clean" "bz_read_dir env clean = Inr entries"
  shows "\<exists>page. browse_local_dir env raw cursor limit pilot_root = Inr page \<and>
    dp_entries page = map (entry_of env clean entries) (fst (page_names (page_limit limit) cursor (sort (map fst entries)))) \<and>
    dp_cursor page = snd (page_names (page_limit limit) cursor (sort (map fst entries)))"
  using assms by (simp add: browse_local_dir_def Let_def page_limit_def)

lemma browse_all_from:
  assumes "safe_browse_dir env raw pilot_root = Inr clean" "bz_read_dir env clean = Inr entries"
    "distinct (map fst entries)" "\<forall>e\<in>set entries. fst e \<noteq> []"
    "page_start cursor (sort (map fst entries)) = k" "length entries < k + n" "k \<le> length entries"
  shows "browse_all env raw limit pilot_root n cursor =
    Some (Inr (map (entry_of env clean entries) (drop k (sort (map fst entries)))))"
  using assms(5-7)
proof (induction n arbitrary: cursor k)
  case (Suc n)
  let ?names = "sort (map fst entries)" and ?l = "page_limit limit"
  have names: "sorted ?names" "distinct ?names" "length ?names = length entries" "\<forall>x\<in>set ?names. x \<noteq> []"
    using assms(3,4) by auto
  have page: "page_names ?l cursor ?names =
      (take ?l (drop k ?names), if k + ?l < length entries then ?names ! (k + ?l - 1) else [])"
    using page_names_next [OF Suc.prems(1) page_limit_range(1)] names(3) by simp
  obtain p where p: "browse_local_dir env raw cursor limit pilot_root = Inr p"
      "dp_entries p = map (entry_of env clean entries) (take ?l (drop k ?names))"
      "dp_cursor p = (if k + ?l < length entries then ?names ! (k + ?l - 1) else [])"
    using browse_page [OF assms(1,2), of cursor limit] unfolding page by auto
  show ?case
  proof (cases "k + ?l < length entries")
    case False
    then show ?thesis using p names(3) by simp
  next
    case True
    let ?c = "?names ! (k + ?l - 1)"
    have pos: "k + ?l - 1 < length ?names" using True names(3) by simp
    then have ne: "?c \<noteq> []" using names(4) nth_mem by blast
    have "page_start ?c ?names = k + ?l"
      using page_start_nth [OF names(1,2) pos ne] page_limit_range(1) [of limit] by simp
    then have "browse_all env raw limit pilot_root n ?c =
        Some (Inr (map (entry_of env clean entries) (drop (k + ?l) ?names)))"
      using Suc.IH [of ?c "k + ?l"] Suc.prems(2) True page_limit_range(1) [of limit] by simp
    moreover have "take ?l (drop k ?names) @ drop (k + ?l) ?names = drop k ?names"
      by (metis append_take_drop_id drop_drop add.commute)
    ultimately show ?thesis using p True ne by (simp flip: map_append)
  qed
qed simp

text \<open>
  The directories kept from the listing are compared as text: one with a trailing dot, which Windows
  drops when it opens a path, passes.
\<close>

definition ex_browse :: browse_env where
  "ex_browse = \<lparr>bz_stat = \<lambda>_. Inr True, bz_read_dir = \<lambda>_. Inr [(''b'', True), (''c.txt'', False), (''a'', True)], bz_reparse = \<lambda>_. False\<rparr>"

lemma off_limits_dot:
  "safe_browse_dir ex_browse ''C:/Stowline/secrets'' ''C:/Stowline'' = Inl (browse_rejected ''this directory is not browsable'')"
  "safe_browse_dir ex_browse ''C:/Stowline/secrets.'' ''C:/Stowline'' =
     Inr (''C:'' @ [backslash] @ ''Stowline'' @ [backslash] @ ''secrets.'')"
  by code_simp+

section \<open>The property\<close>

text \<open>
  C29: an administrator who lists a directory page by page, with the cursor of one page in the request for
  the next, sees each of its entries exactly once, in the order of their names, and is done after at most
  one page more than there are entries, whatever limit is asked for; no page is longer than the limit or
  a thousand entries; and the directory was given as an absolute path and is, as its path reads, neither
  the secrets or the configuration of the agent nor below them.
\<close>

theorem browse_pages_complete:
  assumes "safe_browse_dir env raw pilot_root = Inr clean" "bz_read_dir env clean = Inr entries"
    "distinct (map fst entries)" "\<forall>e\<in>set entries. fst e \<noteq> []"
  shows "browse_all env raw limit pilot_root (Suc (length entries)) [] =
      Some (Inr (map (entry_of env clean entries) (sort (map fst entries)))) \<and>
    (\<forall>cursor page. browse_local_dir env raw cursor limit pilot_root = Inr page \<longrightarrow>
      length (dp_entries page) \<le> 1000 \<and> (0 < limit \<longrightarrow> limit \<le> 1000 \<longrightarrow> int (length (dp_entries page)) \<le> limit)) \<and>
    clean = path_clean (trim_space raw) \<and> path_is_abs (trim_space raw) \<and>
    (\<forall>off\<in>set (off_limits pilot_root). \<not> equal_fold clean off \<and> \<not> has_prefix (to_lower clean) (to_lower off @ [backslash]))"
proof (intro conjI)
  show "browse_all env raw limit pilot_root (Suc (length entries)) [] =
      Some (Inr (map (entry_of env clean entries) (sort (map fst entries))))"
    using browse_all_from [OF assms, of "[]" 0] by (simp add: page_start_def del: browse_all.simps)
  have "length (dp_entries page) \<le> page_limit limit" if "browse_local_dir env raw cursor limit pilot_root = Inr page" for cursor page
    using browse_page [OF assms(1,2), of cursor limit] that by (auto simp: page_names_def Let_def)
  moreover have "page_limit limit \<le> 1000 \<and> (0 < limit \<longrightarrow> limit \<le> 1000 \<longrightarrow> int (page_limit limit) \<le> limit)"
    using page_limit_range(2) [of limit] by (simp add: page_limit_def browse_max_limit_def)
  ultimately show "\<forall>cursor page. browse_local_dir env raw cursor limit pilot_root = Inr page \<longrightarrow>
      length (dp_entries page) \<le> 1000 \<and> (0 < limit \<longrightarrow> limit \<le> 1000 \<longrightarrow> int (length (dp_entries page)) \<le> limit)"
    by (smt (verit, best) le_trans of_nat_le_iff)
  show "clean = path_clean (trim_space raw)" "path_is_abs (trim_space raw)"
    "\<forall>off\<in>set (off_limits pilot_root). \<not> equal_fold clean off \<and> \<not> has_prefix (to_lower clean) (to_lower off @ [backslash])"
    using assms(1) by (auto simp: safe_browse_dir_def Let_def is_off_limits_def list_ex_iff split: if_splits sum.splits fs_error.splits)
qed

lemma ex_browse_accepted: "safe_browse_dir ex_browse ''D:/Work'' ''C:/Stowline'' = Inr (''D:'' @ [backslash] @ ''Work'')"
  by code_simp

theorem browse_pages_complete_witness:
  "browse_all ex_browse ''D:/Work'' 2 ''C:/Stowline'' 4 [] =
     Some (Inr (map (entry_of ex_browse (''D:'' @ [backslash] @ ''Work'') [(''b'', True), (''c.txt'', False), (''a'', True)]) [''a'', ''b'', ''c.txt'']))"
proof -
  have "bz_read_dir ex_browse (''D:'' @ [backslash] @ ''Work'') = Inr [(''b'', True), (''c.txt'', False), (''a'', True)]"
    by (simp add: ex_browse_def)
  from browse_pages_complete [OF ex_browse_accepted this, of 2] show ?thesis by (simp add: numeral_eq_Suc)
qed

end
