(* ===== verification/Catalog.thy ===== *)
theory Catalog
  imports Restic_Readers
begin

text \<open>
  The catalog of a snapshot (\<open>cmd/stowline-agent/catalog.go\<close>): the listing of the engine is uploaded to
  the control plane in batches and finalized with its totals. The engine and the client are ports; the
  facts are about the ports that answer as an environment says and record every call.
\<close>

section \<open>The ports\<close>

record catalog_entry =
  ce_path :: string
  ce_parent :: string
  ce_name :: string
  ce_type :: string
  ce_size :: int
  ce_mtime :: string

record catalog_totals =
  ct_files :: nat
  ct_directories :: nat
  ct_bytes :: int
  ct_checksum :: string

record 'w catalog_port =
  cp_create :: "string \<Rightarrow> 'w \<Rightarrow> (go_error + string \<times> string) \<times> 'w"
  cp_list :: "string \<Rightarrow> 'w \<Rightarrow> (go_error + snapshot_entry list) \<times> 'w"
  cp_upload :: "string \<Rightarrow> catalog_entry list \<Rightarrow> 'w \<Rightarrow> go_error option \<times> 'w"
  cp_finalize :: "string \<Rightarrow> catalog_totals \<Rightarrow> 'w \<Rightarrow> (go_error + bool) \<times> 'w"
  cp_fail :: "string \<Rightarrow> string \<Rightarrow> 'w \<Rightarrow> go_error option \<times> 'w"

section \<open>Entries and totals\<close>

definition catalog_upload_batch_size :: nat where "catalog_upload_batch_size = 500"

definition parent_of :: "string \<Rightarrow> string" where
  "parent_of path = (case last_index_char CHR ''/'' path of None \<Rightarrow> [] | Some i \<Rightarrow> take i path)"

definition entry_for :: "snapshot_entry \<Rightarrow> catalog_entry" where
  "entry_for n = \<lparr>ce_path = se_path n, ce_parent = parent_of (se_path n), ce_name = se_name n, ce_type = se_type n,
     ce_size = se_size n, ce_mtime = se_mtime n\<rparr>"

text \<open>The sum of the sizes of files, an \<open>int64\<close> that wraps around.\<close>

definition total_size :: "snapshot_entry list \<Rightarrow> int" where
  "total_size nodes = foldl (\<lambda>sum n. if se_type n = ''file'' then wrap64 (sum + se_size n) else sum) 0 nodes"

definition totals_for :: "(string \<Rightarrow> string) \<Rightarrow> snapshot_entry list \<Rightarrow> catalog_totals" where
  "totals_for sha nodes =
     \<lparr>ct_files = length (filter (\<lambda>n. se_type n = ''file'') nodes),
      ct_directories = length (filter (\<lambda>n. se_type n \<noteq> ''file'') nodes),
      ct_bytes = total_size nodes,
      ct_checksum = catalog_checksum sha (map (\<lambda>n. path_hash sha (se_path n)) nodes)\<rparr>"

section \<open>The upload\<close>

function upload_batches :: "'w catalog_port \<Rightarrow> string \<Rightarrow> catalog_entry list \<Rightarrow> 'w \<Rightarrow> go_error option \<times> 'w" where
  "upload_batches P i es w =
     (if es = [] then (None, w)
      else case cp_upload P i (take catalog_upload_batch_size es) w of
        (Some e, w1) \<Rightarrow> (Some e, w1)
      | (None, w1) \<Rightarrow> upload_batches P i (drop catalog_upload_batch_size es) w1)"
  by pat_completeness auto

termination by (relation "measure (\<lambda>(_, _, es, _). length es)") (auto simp: catalog_upload_batch_size_def)

declare upload_batches.simps [simp del]

definition build_catalog :: "(string \<Rightarrow> string) \<Rightarrow> 'w catalog_port \<Rightarrow> string \<Rightarrow> 'w \<Rightarrow> go_error option \<times> 'w" where
  "build_catalog sha P snapshot w =
     (case cp_create P snapshot w of
        (Inl e, w1) \<Rightarrow> (Some e, w1)
      | (Inr (i, state), w1) \<Rightarrow>
          if state = ''READY'' then (None, w1)
          else case cp_list P snapshot w1 of
            (Inl e, w2) \<Rightarrow>
              (case cp_fail P i ''ENUMERATE_FAILED'' w2 of (_, w3) \<Rightarrow>
                 (Some (wrap_msg ErrCatalogEnumerationFailed (error_text e)), w3))
          | (Inr nodes, w2) \<Rightarrow>
              (case upload_batches P i (map entry_for nodes) w2 of
                 (Some e, w3) \<Rightarrow> (Some e, w3)
               | (None, w3) \<Rightarrow>
                   (case cp_finalize P i (totals_for sha nodes) w3 of
                      (Inl e, w4) \<Rightarrow> (Some e, w4)
                    | (Inr ok, w4) \<Rightarrow>
                        if \<not> ok then (Some (PlainError (''catalog '' @ i @ '': finalize reported mismatch'')), w4)
                        else (None, w4))))"

section \<open>Recorded calls\<close>

datatype catalog_call = CreateCall string | ListCall string | UploadCall string "catalog_entry list"
  | FinalizeCall string catalog_totals | FailCall string string

record catalog_answers =
  ca_create :: "nat \<Rightarrow> string \<Rightarrow> go_error + string \<times> string"
  ca_list :: "nat \<Rightarrow> string \<Rightarrow> go_error + snapshot_entry list"
  ca_upload :: "nat \<Rightarrow> string \<Rightarrow> catalog_entry list \<Rightarrow> go_error option"
  ca_finalize :: "nat \<Rightarrow> string \<Rightarrow> catalog_totals \<Rightarrow> go_error + bool"
  ca_fail :: "nat \<Rightarrow> string \<Rightarrow> string \<Rightarrow> go_error option"

definition recording_port :: "catalog_answers \<Rightarrow> catalog_call list catalog_port" where
  "recording_port A =
     \<lparr>cp_create = \<lambda>s w. (ca_create A (length w) s, w @ [CreateCall s]),
      cp_list = \<lambda>s w. (ca_list A (length w) s, w @ [ListCall s]),
      cp_upload = \<lambda>i es w. (ca_upload A (length w) i es, w @ [UploadCall i es]),
      cp_finalize = \<lambda>i t w. (ca_finalize A (length w) i t, w @ [FinalizeCall i t]),
      cp_fail = \<lambda>i c w. (ca_fail A (length w) i c, w @ [FailCall i c])\<rparr>"

section \<open>Facts\<close>

text \<open>Batches that were sent: none empty, none over the size, all of one catalog.\<close>

definition batches_ok :: "catalog_entry list list \<Rightarrow> bool" where
  "batches_ok bs \<longleftrightarrow> (\<forall>b\<in>set bs. b \<noteq> [] \<and> length b \<le> 500)"

lemma upload_batches_calls:
  assumes "upload_batches (recording_port A) i es w = (e, w')"
  shows "\<exists>bs. w' = w @ map (UploadCall i) bs \<and> batches_ok bs \<and> (e = None \<longrightarrow> concat bs = es) \<and>
     (e \<noteq> None \<longrightarrow> (\<exists>rest. es = concat bs @ rest))"
  using assms
proof (induction es arbitrary: w rule: length_induct)
  case (1 es)
  show ?case
  proof (cases "es = []")
    case True
    then show ?thesis using 1(2) by (intro exI [of _ "[]"]) (simp add: upload_batches.simps batches_ok_def)
  next
    case False
    let ?b = "take 500 es" and ?w1 = "w @ [UploadCall i (take 500 es)]"
    have b: "?b \<noteq> []" "length ?b \<le> 500" "concat [?b] @ drop 500 es = es" using False by simp_all
    have up: "upload_batches (recording_port A) i es w =
        (case ca_upload A (length w) i ?b of Some x \<Rightarrow> (Some x, ?w1)
         | None \<Rightarrow> upload_batches (recording_port A) i (drop 500 es) ?w1)"
      using False by (subst upload_batches.simps)
        (simp add: recording_port_def catalog_upload_batch_size_def split: option.splits)
    show ?thesis
    proof (cases "ca_upload A (length w) i ?b")
      case (Some x)
      then show ?thesis using 1(2) b unfolding up
        by (intro exI [of _ "[?b]"]) (auto simp: batches_ok_def intro: exI [of _ "drop 500 es"])
    next
      case None
      have "length (drop 500 es) < length es" using False by (simp add: length_greater_0_conv [symmetric] del: length_greater_0_conv)
      moreover have "upload_batches (recording_port A) i (drop 500 es) ?w1 = (e, w')" using 1(2) None unfolding up by simp
      ultimately have "\<exists>bs. w' = ?w1 @ map (UploadCall i) bs \<and> batches_ok bs \<and> (e = None \<longrightarrow> concat bs = drop 500 es) \<and>
          (e \<noteq> None \<longrightarrow> (\<exists>rest. drop 500 es = concat bs @ rest))" using 1(1) by blast
      then obtain bs where all: "w' = ?w1 @ map (UploadCall i) bs \<and> batches_ok bs \<and> (e = None \<longrightarrow> concat bs = drop 500 es) \<and>
          (e \<noteq> None \<longrightarrow> (\<exists>rest. drop 500 es = concat bs @ rest))" ..
      note bs = all [THEN conjunct1] all [THEN conjunct2, THEN conjunct1]
        all [THEN conjunct2, THEN conjunct2, THEN conjunct1] all [THEN conjunct2, THEN conjunct2, THEN conjunct2]
      have "batches_ok (?b # bs)" using bs(2) b by (simp add: batches_ok_def)
      moreover have "w' = w @ map (UploadCall i) (?b # bs)" using bs(1) by simp
      moreover have "e = None \<longrightarrow> concat (?b # bs) = es" using bs(3) by simp
      moreover have "e \<noteq> None \<longrightarrow> (\<exists>rest. es = concat (?b # bs) @ rest)"
      proof
        assume failed: "e \<noteq> None"
        obtain rest where r: "drop 500 es = concat bs @ rest" using bs(4) failed by blast
        show "\<exists>rest. es = concat (?b # bs) @ rest" by (rule exI [of _ rest]) (simp add: r [symmetric])
      qed
      ultimately show ?thesis by (intro exI [of _ "?b # bs"] conjI)
    qed
  qed
qed

text \<open>Every way a build ends, with the calls it made.\<close>

lemma build_catalog_calls:
  assumes "build_catalog sha (recording_port A) snap w = (e, w')"
  obtains (create) "e \<noteq> None" "w' = w @ [CreateCall snap]"
  | (ready) i where "e = None" "w' = w @ [CreateCall snap]" "ca_create A (length w) snap = Inr (i, ''READY'')"
  | (unlisted) i x y where "e = Some (wrap_msg ErrCatalogEnumerationFailed x)" "ca_list A (Suc (length w)) snap = Inl y"
      "w' = w @ [CreateCall snap, ListCall snap, FailCall i ''ENUMERATE_FAILED'']"
  | (broken) i nodes bs rest where "e \<noteq> None" "ca_list A (Suc (length w)) snap = Inr nodes" "batches_ok bs"
      "map entry_for nodes = concat bs @ rest" "w' = w @ [CreateCall snap, ListCall snap] @ map (UploadCall i) bs"
  | (final) i nodes bs where "ca_list A (Suc (length w)) snap = Inr nodes" "batches_ok bs" "concat bs = map entry_for nodes"
      "w' = w @ [CreateCall snap, ListCall snap] @ map (UploadCall i) bs @ [FinalizeCall i (totals_for sha nodes)]"
      "e = None \<longleftrightarrow> ca_finalize A (length w' - 1) i (totals_for sha nodes) = Inr True"
proof -
  let ?P = "recording_port A"
  have port: "cp_create ?P s v = (ca_create A (length v) s, v @ [CreateCall s])"
      "cp_list ?P s v = (ca_list A (length v) s, v @ [ListCall s])"
      "cp_finalize ?P i t v = (ca_finalize A (length v) i t, v @ [FinalizeCall i t])"
      "cp_fail ?P i c v = (ca_fail A (length v) i c, v @ [FailCall i c])" for s v i t c
    by (simp_all add: recording_port_def)
  show thesis
  proof (cases "ca_create A (length w) snap")
    case (Inl x)
    then have "e = Some x" "w' = w @ [CreateCall snap]" using assms by (simp_all add: build_catalog_def port)
    then show thesis using create by simp
  next
    case (Inr answer)
    obtain i state where i: "answer = (i, state)" by force
    show thesis
    proof (cases "state = ''READY''")
      case True
      then show thesis using ready assms Inr i by (simp add: build_catalog_def port)
    next
      case unready: False
      show thesis
      proof (cases "ca_list A (Suc (length w)) snap")
        case (Inl y)
        then show thesis using unlisted [OF _ Inl] assms \<open>ca_create A (length w) snap = Inr answer\<close> i unready
          by (auto simp: build_catalog_def port)
      next
        case nodes: (Inr nodes)
        let ?w2 = "w @ [CreateCall snap, ListCall snap]"
        obtain e3 w3 where up: "upload_batches ?P i (map entry_for nodes) ?w2 = (e3, w3)" by force
        obtain bs where all: "w3 = ?w2 @ map (UploadCall i) bs \<and> batches_ok bs \<and> (e3 = None \<longrightarrow> concat bs = map entry_for nodes) \<and>
            (e3 \<noteq> None \<longrightarrow> (\<exists>rest. map entry_for nodes = concat bs @ rest))"
          using upload_batches_calls [OF up] ..
        note bs = all [THEN conjunct1] all [THEN conjunct2, THEN conjunct1]
          all [THEN conjunct2, THEN conjunct2, THEN conjunct1] all [THEN conjunct2, THEN conjunct2, THEN conjunct2]
        have run: "(e, w') = (case e3 of Some x \<Rightarrow> (Some x, w3)
            | None \<Rightarrow> (case ca_finalize A (length w3) i (totals_for sha nodes) of
                Inl x \<Rightarrow> Some x | Inr ok \<Rightarrow> if ok then None else Some (PlainError (''catalog '' @ i @ '': finalize reported mismatch'')),
                w3 @ [FinalizeCall i (totals_for sha nodes)]))"
          using assms Inr i unready nodes up
          by (cases e3; cases "ca_finalize A (length w3) i (totals_for sha nodes)") (auto simp: build_catalog_def port split: if_splits)
        show thesis
        proof (cases e3)
          case (Some x)
          then obtain rest where "map entry_for nodes = concat bs @ rest" using bs(4) by blast
          moreover have "e = Some x" "w' = w @ [CreateCall snap, ListCall snap] @ map (UploadCall i) bs"
            using bs(1) run Some by simp_all
          ultimately show thesis using broken [of nodes bs rest i] nodes bs(2) by blast
        next
          case None
          then show thesis using final [OF nodes bs(2)] bs(1,3) run by (auto split: sum.splits if_splits)
        qed
      qed
    qed
  qed
qed

text \<open>The sum of the sizes is exact as long as it fits.\<close>

lemma wrap64_small: "0 \<le> n \<Longrightarrow> n < 2 ^ 63 \<Longrightarrow> wrap64 n = n"
  by (simp add: wrap64_def)

definition file_sizes :: "snapshot_entry list \<Rightarrow> int" where
  "file_sizes nodes = sum_list (map se_size (filter (\<lambda>n. se_type n = ''file'') nodes))"

lemma total_size_exact:
  assumes "\<forall>n\<in>set nodes. 0 \<le> se_size n" "file_sizes nodes < 2 ^ 63"
  shows "total_size nodes = file_sizes nodes"
proof -
  have "foldl (\<lambda>sum n. if se_type n = ''file'' then wrap64 (sum + se_size n) else sum) s nodes = s + file_sizes nodes"
    if "0 \<le> s" "s + file_sizes nodes < 2 ^ 63" for s
    using that assms(1)
  proof (induction nodes arbitrary: s)
    case (Cons n nodes)
    have "0 \<le> file_sizes nodes" unfolding file_sizes_def using Cons.prems(3) by (intro sum_list_nonneg) auto
    then show ?case using Cons.IH [of s] Cons.IH [of "s + se_size n"] Cons.prems
      by (cases "se_type n = ''file''") (simp_all add: file_sizes_def wrap64_small)
  qed (simp add: file_sizes_def)
  then show ?thesis using assms(2) by (simp add: total_size_def)
qed

section \<open>The property\<close>

definition uploaded :: "catalog_call list \<Rightarrow> catalog_entry list" where
  "uploaded calls = concat (map (\<lambda>c. case c of UploadCall _ es \<Rightarrow> es | _ \<Rightarrow> []) calls)"

lemma uploaded_batches [simp]: "uploaded (map (UploadCall i) bs) = concat bs"
  by (simp add: uploaded_def comp_def)

lemma uploaded_append [simp]: "uploaded (xs @ ys) = uploaded xs @ uploaded ys"
  by (simp add: uploaded_def)

lemma uploaded_other [simp]:
  "uploaded [] = []" "uploaded (CreateCall s # cs) = uploaded cs" "uploaded (ListCall s # cs) = uploaded cs"
  "uploaded (FinalizeCall i t # cs) = uploaded cs" "uploaded (FailCall i c # cs) = uploaded cs"
  by (simp_all add: uploaded_def)

definition totals_exact :: "(string \<Rightarrow> string) \<Rightarrow> snapshot_entry list \<Rightarrow> catalog_totals \<Rightarrow> bool" where
  "totals_exact sha nodes t \<longleftrightarrow>
     ct_files t + ct_directories t = length nodes \<and> ct_files t = length (filter (\<lambda>n. se_type n = ''file'') nodes) \<and>
     ct_checksum t = catalog_checksum sha (map (\<lambda>n. path_hash sha (se_path n)) nodes) \<and>
     ((\<forall>n\<in>set nodes. 0 \<le> se_size n) \<longrightarrow> file_sizes nodes < 2 ^ 63 \<longrightarrow> ct_bytes t = file_sizes nodes)"

lemma totals_for_exact: "totals_exact sha nodes (totals_for sha nodes)"
  using sum_length_filter_compl [of "\<lambda>n. se_type n = ''file''" nodes] total_size_exact [of nodes]
  by (simp add: totals_exact_def totals_for_def)

text \<open>
  C22: whatever the control plane and the engine answer, a catalog is finalized only with the totals of
  exactly the entries that were uploaded before, which are all of the listing in its order, in batches of
  one to five hundred; a build without error either found the catalog ready or was finalized with the
  agreement of the control plane; and a listing that fails is reported to it and returned as such.
\<close>

theorem catalog_finalized_exactly:
  assumes "build_catalog sha (recording_port A) snap w = (e, w')"
  shows "\<exists>calls. w' = w @ calls \<and>
    (\<forall>c es. UploadCall c es \<in> set calls \<longrightarrow> es \<noteq> [] \<and> length es \<le> 500) \<and>
    (\<forall>c t. FinalizeCall c t \<in> set calls \<longrightarrow>
       (\<exists>nodes. ca_list A (Suc (length w)) snap = Inr nodes \<and> uploaded calls = map entry_for nodes \<and> totals_exact sha nodes t)) \<and>
    (e = None \<longrightarrow> (\<exists>c. ca_create A (length w) snap = Inr (c, ''READY'') \<and> calls = [CreateCall snap]) \<or>
       (\<exists>c t n. last calls = FinalizeCall c t \<and> ca_finalize A n c t = Inr True)) \<and>
    (\<forall>y. ca_list A (Suc (length w)) snap = Inl y \<longrightarrow> length calls > 1 \<longrightarrow>
       (\<exists>c x. last calls = FailCall c ''ENUMERATE_FAILED'' \<and> e = Some (wrap_msg ErrCatalogEnumerationFailed x)))"
proof (cases rule: build_catalog_calls [OF assms, case_names create ready unlisted broken final])
  case create
  then show ?thesis by (intro exI [of _ "[CreateCall snap]"]) auto
next
  case (ready i)
  then show ?thesis by (intro exI [of _ "[CreateCall snap]"]) simp
next
  case (unlisted i x y)
  then show ?thesis by (intro exI [of _ "[CreateCall snap, ListCall snap, FailCall i ''ENUMERATE_FAILED'']"]) auto
next
  case (broken i nodes bs rest)
  then show ?thesis by (intro exI [of _ "[CreateCall snap, ListCall snap] @ map (UploadCall i) bs"]) (auto simp: batches_ok_def)
next
  case (final i nodes bs)
  then show ?thesis using totals_for_exact [of sha nodes]
    by (intro exI [of _ "[CreateCall snap, ListCall snap] @ map (UploadCall i) bs @ [FinalizeCall i (totals_for sha nodes)]"])
      (auto simp: batches_ok_def)
qed

definition ex_catalog_answers :: catalog_answers where
  "ex_catalog_answers = \<lparr>ca_create = \<lambda>_ _. Inr (''cat'', ''PENDING''),
     ca_list = \<lambda>_ _. Inr [\<lparr>se_name = ''d'', se_path = ''/C/d'', se_type = ''dir'', se_size = 0, se_mtime = []\<rparr>,
       \<lparr>se_name = ''f'', se_path = ''/C/d/f'', se_type = ''file'', se_size = 7, se_mtime = []\<rparr>],
     ca_upload = \<lambda>_ _ _. None, ca_finalize = \<lambda>_ _ t. Inr (ct_bytes t = 7 \<and> ct_files t = 1), ca_fail = \<lambda>_ _ _. None\<rparr>"

lemma ex_catalog_final:
  "list_ex (\<lambda>c. c = FinalizeCall ''cat'' (totals_for id (projr (ca_list ex_catalog_answers 1 ''s''))))
     (snd (build_catalog id (recording_port ex_catalog_answers) ''s'' []))"
  by code_simp

theorem catalog_finalized_exactly_witness:
  "uploaded (snd (build_catalog id (recording_port ex_catalog_answers) ''s'' [])) =
     map entry_for (projr (ca_list ex_catalog_answers 1 ''s''))"
proof -
  obtain e w' where run: "build_catalog id (recording_port ex_catalog_answers) ''s'' [] = (e, w')" by force
  obtain c t where "FinalizeCall c t \<in> set w'" using ex_catalog_final by (auto simp: run list_ex_iff)
  moreover have "\<forall>c t. FinalizeCall c t \<in> set w' \<longrightarrow> (\<exists>nodes. ca_list ex_catalog_answers (Suc 0) ''s'' = Inr nodes \<and>
      uploaded w' = map entry_for nodes \<and> totals_exact id nodes t)"
    using catalog_finalized_exactly [OF run] unfolding append_Nil list.size(3) by (elim exE conjE) simp
  ultimately have "\<exists>nodes. ca_list ex_catalog_answers 1 ''s'' = Inr nodes \<and> uploaded w' = map entry_for nodes" by force
  then show ?thesis by (auto simp: run)
qed

end
