(* ===== verification/Spec2Isabelle.thy ===== *)
theory Spec2Isabelle
  imports Example_Tick Example_Install Outcome Upgrade Staging Storage_Connector Local_Page Local_Browse Catalog
begin

text \<open>
  \<^bold>\<open>Verification of the Stowline endpoint agent\<close> (\<open>src/agent\<close>).

  \<^bold>\<open>The program.\<close> The agent is a Windows service that backs up a device with restic. Once a minute
  (\<open>cmd/stowline-agent/main.go\<close>) it asks the scheduler whether today's slot is due
  (\<open>internal/scheduler\<close>), polls the control plane for commands (\<open>internal/control\<close>), and runs what
  they decide through the application service (\<open>internal/application\<close>), which writes every intent and
  result into an SQLite journal (\<open>internal/adapters/journal\<close>) and drives restic through an adapter
  (\<open>internal/adapters/restic\<close>) over a process runner (\<open>internal/adapters/process\<close>). Backups over a
  metered link need a bandwidth lease of the control plane (\<open>wan.go\<close>, \<open>control/execute.go\<close>). Around
  this core it is enrolled (\<open>internal/enroll\<close>), keeps its secrets in DPAPI envelopes
  (\<open>internal/adapters/secrets\<close>) under access lists it inspects (\<open>internal/windows\<close>), confines restores to a
  staging directory, takes qualification backups on request of an administrator
  (\<open>internal/qualification\<close>) and upgrades its own binary (\<open>upgrade.go\<close>).

  \<^bold>\<open>How the code is rendered.\<close> A struct is a record, a string type with constants a datatype with one
  constructor per constant and one for any other text, an error a value of \<^typ>\<open>go_error\<close> with the
  chain that \<open>errors.Is\<close> and \<open>errors.As\<close> walk; an operation that returns an error returns an option or a
  sum. Strings are lists of bytes, instants are nanoseconds since Go's zero time, and 64-bit arithmetic
  is written out with \<^const>\<open>wrap64\<close> where it can overflow. A Go interface is a record of functions over
  the state of the world (\<open>Ports\<close>); what its provider promises is a locale, and the code's own provider
  interprets it. What lies outside the repository is a parameter: SHA-256, SHA-256 of a program, the
  time-zone database, DPAPI, restic itself, the file system's faults. A world carries the position in a
  script of the environment's answers, so a statement over all environments covers every failure at every
  call, and every crash: a process that dies is one whose later calls all fail.

  \<^bold>\<open>Theories.\<close>
  \<^item> \<open>Prelude\<close>, \<open>GoStrings\<close>, \<open>GoTime\<close>, \<open>GoJson\<close>, \<open>WinPath\<close>, \<open>WinVolume\<close>, \<open>Files\<close>: lists of rows, the parts of the
    packages \<open>strings\<close>, \<open>strconv\<close>, \<open>time\<close>, \<open>encoding/json\<close>, \<open>path/filepath\<close> and \<open>os\<close> that the code uses.
  \<^item> \<open>Domain_Types\<close>, \<open>Domain_Repository\<close>, \<open>Domain_Policy\<close>, \<open>Domain_Backup\<close>, \<open>Domain_Redact\<close>:
    \<open>internal/domain\<close>, one theory per group of files; the regular expressions of \<open>redact.go\<close> are
    deterministic matchers.
  \<^item> \<open>Scheduler\<close>, \<open>Controller\<close>: \<open>decide.go\<close>, \<open>slots.go\<close>; one tick over the journal.
  \<^item> \<open>Journal_Tables\<close>, \<open>Ledger\<close>: \<open>sqlite.go\<close> on lists of rows; the invariant \<^const>\<open>ledger_ok\<close> of jobs and
    attempts and its preservation.
  \<^item> \<open>Ports\<close>, \<open>Service\<close>, \<open>Service_Restore\<close>, \<open>Service_Laws\<close>, \<open>Reconcile_Laws\<close>, \<open>Service_Frame\<close>: the interfaces,
    \<open>Backup\<close>, \<open>Restore\<close> and \<open>Reconcile\<close> of \<open>service.go\<close>, and their laws under any journal that keeps
    \<open>journal_contract\<close>. \<open>World\<close> interprets the contracts by the SQLite journal and the restic adapter.
  \<^item> \<open>Restic_Args\<close>, \<open>Restic_Adapter\<close>, \<open>Restic_Readers\<close>, \<open>Storage_Connector\<close>, \<open>Process_Runner\<close>: argument
    vectors and their allow-list, the outcome of a run from its exit code and output, the parsers of that
    output (\<open>parse.go\<close>, \<open>vssparse.go\<close>), the binding of a repository, what is checked before a child process
    starts.
  \<^item> \<open>Outcome\<close>, \<open>Policy_Server\<close>, \<open>Executor\<close>, \<open>Executor_Laws\<close>, \<open>Source_Roots\<close>: event-log reporting, policies
    of the server, the command executor with its durable replay, the configured roots.
  \<^item> \<open>Agent\<close>, \<open>Agent_World\<close>, \<open>Agent_Frame\<close>, \<open>Agent_Laws\<close>, \<open>Agent_Steps\<close>, \<open>Agent_Safety\<close>, \<open>Agent_Reach\<close>: the
    hooks and the minute of the service process, a step relation over everything the process can do, and
    the invariant of every reachable state.
  \<^item> \<open>Upgrade\<close>, \<open>Paths\<close>, \<open>Staging\<close>: staging, swap and rollback of the binary; the checks of a restore
    destination; the staging directory and the independent comparison of what was restored.
  \<^item> \<open>Secret_Store\<close>, \<open>Secrets_Migrate\<close>, \<open>Acl_Policy\<close>, \<open>Pilot_Config\<close>, \<open>Enrollment\<close>, \<open>Qualification\<close>: the
    envelopes and their providers, the move of the secrets to machine scope (\<open>migrate.go\<close>,
    \<open>provisionSecrets\<close>) with the locale \<open>migrate_contract\<close> of what its operations promise, the evaluation of
    access lists, \<open>pilot.json\<close>, enrollment with its undo, one poll of the qualification runner.
  \<^item> \<open>Restore_Jobs\<close>, \<open>Local_Caller\<close>, \<open>Local_Page\<close>: the page for the person at the PC (\<open>localui.go\<close>,
    \<open>localcaller.go\<close>, \<open>localrestore.go\<close>): the restores in the background as a step relation over the locked
    sections of page, goroutine and timers, the accounts of a shared PC, the guard and every handler.
  \<^item> \<open>Selection\<close>, \<open>Local_Browse\<close>, \<open>Catalog\<close>: the commands that select folders (\<open>apply_selection.go\<close>, with the
    atomic replacement of \<open>pilot.json\<close>), list a directory page by page (\<open>browse_local.go\<close>) and upload the
    catalog of a snapshot (\<open>catalog.go\<close>).
  \<^item> \<open>Example\<close>, \<open>Example_Tick\<close>, \<open>Example_Install\<close>: concrete devices, disks and runs on which the properties
    are applied.

  \<^bold>\<open>What the lemmas show.\<close> C1 to C4 hold in every reachable state of the process, over any environment. C5
  to C13 are the contracts of single operations on their own. C14 to C32 are the components: redaction,
  scheduling, policies, the catalog of a snapshot (C22), argument vectors, restic outcomes and the evidence
  of its output (C26), enrollment (C28), qualification (C32), and the local page: the isolation of the
  accounts (C27), the listing of directories (C29), the background restores in every reachable state
  (C30) and their reports (C24), and the selection as the refinement of a change of a map (C31). C33 to C37 are the upgrade, restore paths, the independent
  manifest and child processes, C38 to C40 the secrets.

  \<^bold>\<open>Bounds and fuel.\<close> Loops over data are structural recursion or have a measure (the bytes still to be
  written, in the workload of a qualification); the minute loop of the service is unfolded by the step
  relation, one round a step. The scans of the redactor carry the length of the text as fuel, which
  bounds the characters they can consume; no theorem depends on a chosen amount.

  \<^bold>\<open>Not modelled.\<close> HTTP and TLS (the client port answers for them), SQL text and migrations, the decoding of
  JSON into structs where nothing depends on it (a parameter of the readers), the desktop programs, the
  walks that size folders for the local page, the operator's printing subcommands, the Windows service
  manager, the system calls that set an access list or read a token, preflight probes, the progress
  parsers of the display and the separate recovery tool. Concurrency is the interleaving of whole
  operations under the service's lock, as the code serialises them, and of the locked sections of the
  local restores; the places where the service does not take its lock (reconciliation, the restart after
  an upgrade) are steps of their own.
\<close>

text \<open>A call and its three results.\<close>

lemma three: "x = ((fst (fst x), snd (fst x)), snd x)"
  by simp

section \<open>The process\<close>





text \<open>C3: Over a metered link every backup but a qualification run started under a granted lease of the
  control plane, at the bandwidth of that lease.\<close>

theorem reachable_backup_leased:
  assumes "agent_reach env w" "BackupLaunch req att job \<in> set (wd_launches w)"
    "requires_wan_rate_limit (rd_backend_kind (ae_repository env))" "bq_attempt_class req \<noteq> AttemptQualification"
  shows "\<exists>body lease. (body, lease, None) \<in> set (aw_leases w) \<and> lease_granted lease \<and>
    bq_bandwidth_kibps req = am_bandwidth_kibps lease"
proof -
  have "launch_ok env (aw_leases w) (BackupLaunch req att job)"
    using reach_inv [OF assms(1)] assms(2) by (auto simp: agent_inv_def agent_safe_def)
  then show ?thesis using assms(3,4) by (auto simp: launch_ok_def)
qed

theorem reachable_backup_leased_witness:
  "\<exists>body lease. (body, lease, None) \<in> set (aw_leases ex_backed_up) \<and> lease_granted lease \<and>
    bq_bandwidth_kibps ex_req1 = am_bandwidth_kibps lease"
  by (rule reachable_backup_leased [OF ex_reach_backup(1), of ex_req1 "Some (ex_attempt PhaseBackingUp)" "Some ex_job"])
    (simp_all add: ex_reach_backup(2) ex_device_simps ex_req1_def ex_request_def)

text \<open>C4: In every reachable state the acknowledgements sent for a command carry the durably recorded
  result of it, so that any two of them agree.\<close>

theorem reachable_acks_agree:
  assumes "agent_reach env w"
  shows "acks_recorded w \<and> (\<forall>i s x s' x'. (i, s, x) \<in> set (aw_acks w) \<and> (i, s', x') \<in> set (aw_acks w) \<longrightarrow> s = s' \<and> x = x')"
proof -
  have "acks_recorded w" using reach_inv [OF assms] by (simp add: agent_inv_def)
  then show ?thesis using we.acks_agree unfolding acks_recorded_we by blast
qed

theorem reachable_acks_agree_witness: "agent_reach ex_device ex_after \<and> acks_recorded ex_after"
  using reachable_acks_agree [OF ex_reach_round] ex_reach_round by blast

text \<open>C5: A backup over a metered link that the agent may not start, because of the pause, the provider, a
  rejected or invalid policy or no control plane, starts nothing, and one whose lease is not granted
  neither; what starts runs at the bandwidth of the one lease asked for.\<close>

theorem agent_backup_metered:
  assumes "agent_backup (the_agent env) slot w = (e, w')" "ledger_ok (world_jobs w) (world_attempts w)"
    "requires_wan_rate_limit (rd_backend_kind (ae_repository env))"
  shows "\<exists>asked new. aw_leases w' = aw_leases w @ asked \<and> wd_launches w' = wd_launches w @ new \<and>
    (new = [] \<or> wan_may_start env w \<and>
      (\<exists>body lease. asked = [(body, lease, None)] \<and> lease_granted lease \<and>
         backup_started (the_agent env) (am_bandwidth_kibps lease) new))"
proof -
  obtain asked new where n: "aw_leases w' = aw_leases w @ asked" "wd_launches w' = wd_launches w @ new"
    "new = [] \<or> wan_may_start env w \<and> leased_start (the_agent env) asked new"
    using agent_backup_laws(4) [OF assms(1,2)] assms(3) by auto
  then show ?thesis unfolding leased_start_def by blast
qed

theorem agent_backup_metered_witness:
  "\<exists>asked new. aw_leases ex_backed_up = aw_leases (ex_agent 3 []) @ asked \<and>
    wd_launches ex_backed_up = wd_launches (ex_agent 3 []) @ new \<and>
    (new = [] \<or> wan_may_start ex_device (ex_agent 3 []) \<and>
      (\<exists>body lease. asked = [(body, lease, None)] \<and> lease_granted lease \<and>
         backup_started (the_agent ex_device) (am_bandwidth_kibps lease) new))"
  unfolding ex_backed_up_def
  by (rule agent_backup_metered [OF prod.collapse [symmetric]])
    (simp_all add: ex_device_simps ex_agent_def ex_db_def empty_db_def ledger_ok_empty)




text \<open>C7: A restore over a metered link that gets no granted lease starts nothing.\<close>

theorem agent_restore_needs_lease:
  assumes "agent_restore (the_agent env) job snap sel w = (r, w')"
    "requires_wan_rate_limit (rd_backend_kind (ae_repository env))"
    "\<forall>n. snd (ae_lease env n) \<noteq> None \<or> \<not> lease_granted (fst (ae_lease env n))"
  shows "(\<exists>e. r = Inl e) \<and> wd_launches w' = wd_launches w \<and> wd_db w' = wd_db w"
  using assms(1)
proof (cases rule: agent_restore_cases)
  case (leased i w1 body lease w2 kibps w3 x)
  have "(lease, None) = ae_lease env (wd_pos w1)" using leased(2) by (simp add: acquire_lease_eq)
  with assms(3) leased(3) show ?thesis by (metis fst_conv snd_conv)
qed (use assms(2) in \<open>auto simp: acquire_lease_eq ask_def\<close>)

theorem agent_restore_needs_lease_witness:
  "let env = ex_device\<lparr>ae_lease := \<lambda>n. (ex_lease\<lparr>am_status := ''DENIED''\<rparr>, None)\<rparr> in
   wd_launches (snd (agent_restore (the_agent env) ''job'' ''snap'' [] (ex_agent 3 []))) = []"
proof -
  let ?env = "ex_device\<lparr>ae_lease := \<lambda>n. (ex_lease\<lparr>am_status := ''DENIED''\<rparr>, None)\<rparr>"
  have "wd_launches (snd (agent_restore (the_agent ?env) ''job'' ''snap'' [] (ex_agent 3 []))) = wd_launches (ex_agent 3 [])"
    by (rule conjunct1 [OF conjunct2 [OF agent_restore_needs_lease [OF prod.collapse [symmetric]]]])
      (simp_all add: ex_device_simps lease_granted_def ex_lease_def)
  then show ?thesis by (simp add: ex_agent_def)
qed

section \<open>The application service\<close>

text \<open>C8: A backup the service reports as succeeded either answers from a slot whose job is done, or rests
  on an engine result with evidence (known exit, snapshot read back, verified consistency where it is
  required, terminal summary) that is committed to the journal, for the work that was asked for.\<close>

theorem service_backup_success:
  fixes w w' :: "'z world_scheme"
  assumes "service_backup (world_service env dir) req0 w = ((res, err), w')" "ledger_ok (world_jobs w) (world_attempts w)"
    "br_outcome res = PhaseSucceeded"
  shows "(\<exists>j\<in>set (world_jobs w). jr_slot_key j = bq_slot_key req0 \<and> job_terminal (jr_state j) \<and>
      (bq_attempt_class req0 = AttemptQualification \<or> jr_state j = JobSucceeded)) \<or>
    (\<exists>req att (w0 :: 'z world_scheme) eres eerr w1. ep_backup (world_engine env) req w0 = ((eres, eerr), w1) \<and>
      backup_evidence req eres \<and> same_work req0 req \<and> br_snapshot_id res = br_snapshot_id eres \<and>
      recorded_in (world_jobs w') (world_attempts w') att PhaseSucceeded (br_snapshot_id res) JobSucceeded)"
  using ws.service_backup_laws(3) [OF assms(1) [folded ws_svc] assms(2,3)] .

theorem service_backup_success_witness:
  "\<exists>req att (w0 :: world) eres eerr w1. ep_backup (world_engine ex_env) req w0 = ((eres, eerr), w1) \<and>
      backup_evidence req eres \<and> same_work ex_request req \<and> ex_snapshot_id = br_snapshot_id eres \<and>
      recorded_in (world_jobs (snd (service_backup (world_service ex_env []) ex_request (ex_idle 10 False ()))))
        (world_attempts (snd (service_backup (world_service ex_env []) ex_request (ex_idle 10 False ()))))
        att PhaseSucceeded ex_snapshot_id JobSucceeded"
proof -
  let ?w = "ex_idle 10 False ()"
  have jobs: "world_jobs ?w = []" "world_attempts ?w = []" by (simp_all add: ex_idle_def ex_db_def empty_db_def)
  have "service_backup (world_service ex_env []) ex_request ?w =
      ((finish_result (ex_attempt PhaseBackingUp) ex_result, None), snd (service_backup (world_service ex_env []) ex_request ?w))"
    using ex_backup [of "()"] by (metis prod.collapse)
  from service_backup_success [OF this] show ?thesis
    unfolding jobs by (simp add: ledger_ok_empty ex_judged)
qed

text \<open>C9: A backup keeps the ledger invariant and starts the engine at most once, on an attempt that is
  durably under way, with the repository, roots, excludes and bandwidth it was asked for.\<close>

theorem service_backup_once:
  assumes "service_backup (world_service env dir) req0 w = ((res, err), w')" "ledger_ok (world_jobs w) (world_attempts w)"
  shows "ledger_ok (world_jobs w') (world_attempts w') \<and>
    (\<exists>new. wd_launches w' = wd_launches w @ new \<and>
       (new = [] \<or> (\<exists>req. durable_launch req new \<and> same_work req0 req)))"
  using ws.service_backup_laws(1,2) [OF assms(1) [folded ws_svc] assms(2)] by blast

theorem service_backup_once_witness:
  "ledger_ok (world_jobs (snd (service_backup (world_service ex_env []) ex_request (ex_idle 10 False ()))))
     (world_attempts (snd (service_backup (world_service ex_env []) ex_request (ex_idle 10 False ()))))"
  by (rule conjunct1 [OF service_backup_once [OF three]])
    (simp_all add: ex_idle_def ex_db_def empty_db_def ledger_ok_empty)

text \<open>C10: A backup of a slot that has succeeded, or whose job is active or being reconciled, changes no
  table and starts nothing.\<close>

theorem service_backup_slot_once:
  assumes "service_backup (world_service env dir) req w = ((res, err), w')"
    "slot_row (bq_slot_key req) (world_jobs w) = Some j" "jr_state j \<in> {JobSucceeded, JobActive, JobReconciling}"
    "bq_attempt_class req \<noteq> AttemptQualification"
  shows "world_jobs w' = world_jobs w \<and> world_attempts w' = world_attempts w \<and> wd_launches w' = wd_launches w"
  using ws.service_backup_slot_done [OF assms(1) [folded ws_svc] assms(2-4)] by (simp add: ws.tables_def)

theorem service_backup_slot_once_witness:
  "wd_launches (snd (service_backup (world_service ex_env []) ex_request ((ex_state 18 PhaseBackingUp [] ())\<lparr>wd_active := False\<rparr>))) = []"
proof -
  let ?w = "(ex_state 18 PhaseBackingUp [] ())\<lparr>wd_active := False\<rparr>"
  have "wd_launches (snd (service_backup (world_service ex_env []) ex_request ?w)) = wd_launches ?w"
    by (rule conjunct2 [OF conjunct2 [OF service_backup_slot_once [OF three, where j = ex_job]]])
      (simp_all add: slot_row_def ex_state_def ex_request_def ex_job_def)
  then show ?thesis by (simp add: ex_state_def)
qed

text \<open>C11: A reconciliation keeps the ledger invariant, starts nothing, makes no job succeed, and when it
  reports no error it has closed exactly the attempts that were open.\<close>

theorem service_reconcile_closes:
  assumes "service_reconcile (world_service env dir) repo pw w = ((out, err), w')"
    "ledger_ok (world_jobs w) (world_attempts w)"
  shows "ledger_ok (world_jobs w') (world_attempts w') \<and> wd_launches w' = wd_launches w \<and>
    (\<forall>j\<in>set (world_jobs w'). jr_state j = JobSucceeded \<longrightarrow> j \<in> set (world_jobs w)) \<and>
    (err = None \<longrightarrow> incomplete_rows (world_attempts w') = [] \<and>
       map ar_id out = map ar_id (incomplete_rows (world_attempts w)))"
  using ws.service_reconcile_laws [OF assms(1) [folded ws_svc] assms(2)] by (simp add: ws.no_new_success_def)

theorem service_reconcile_closes_witness:
  "ledger_ok (world_jobs (snd (service_reconcile (world_service ex_env []) ex_repo ex_password (ex_idle 10 False ()))))
     (world_attempts (snd (service_reconcile (world_service ex_env []) ex_repo ex_password (ex_idle 10 False ()))))"
  by (rule conjunct1 [OF service_reconcile_closes [OF three]]) (simp add: ex_idle_def ex_db_def empty_db_def ledger_ok_empty)

text \<open>C12: A restore the service reports as ready answers for a job already known, or was verified by the
  engine into its staging directory and is on record as succeeded.\<close>

theorem service_restore_ready:
  fixes w w' :: "'z world_scheme"
  assumes "service_restore sha (world_service env dir) req0 w = ((res, err), w')"
    "ledger_ok (world_jobs w) (world_attempts w)" "rq_job_id req0 \<noteq> []" "rr_state res = RestoreReady"
  shows "rq_job_id req0 \<in> jr_id ` set (world_jobs w) \<or>
    (\<exists>r eres (w0 :: 'z world_scheme) w1 att. ep_restore (world_engine env) r w0 = ((eres, None), w1) \<and>
       rq_snapshot_id r = rq_snapshot_id req0 \<and> rq_verify_content r \<and> rr_verified_by_engine eres \<and>
       rr_destination res = rq_destination_dir r \<and> ar_job_id att = rq_job_id req0 \<and>
       recorded_in (world_jobs w') (world_attempts w') att PhaseSucceeded (ar_snapshot_id att) JobSucceeded)"
proof -
  have "ws.restore_post env req0 w res w'"
    using ws.service_restore_post [OF assms(1) [folded ws_svc] assms(2)] assms(3) by auto
  then show ?thesis using assms(4) unfolding ws.restore_post_def by blast
qed

text \<open>A finished restore of an earlier request of the same id.\<close>

definition ex_restore_request :: restore_request where
  "ex_restore_request = agent_restore_request (the_agent ex_device) ''job-1'' ex_snapshot_id [] 500 (ex_now + hour_ns)"

definition ex_restore_job :: job_record where
  "ex_restore_job = ex_job\<lparr>jr_id := ''job-1'', jr_kind := JobRestore, jr_slot_key := [], jr_state := JobSucceeded\<rparr>"

definition ex_restored :: world where
  "ex_restored = (ex_idle 10 False ())\<lparr>wd_db := ex_db\<lparr>jd_jobs := [ex_restore_job],
     jd_attempts := [(ex_attempt PhaseSucceeded)\<lparr>ar_job_id := ''job-1'', ar_kind := JobRestore\<rparr>]\<rparr>\<rparr>"

theorem service_restore_ready_witness:
  "rq_job_id ex_restore_request \<in> jr_id ` set (world_jobs ex_restored) \<or>
    (\<exists>r eres (w0 :: world) w1 att. ep_restore (world_engine ex_env) r w0 = ((eres, None), w1) \<and>
       rq_snapshot_id r = rq_snapshot_id ex_restore_request \<and> rq_verify_content r \<and> rr_verified_by_engine eres \<and>
       rr_destination (fst (fst (service_restore id (world_service ex_env []) ex_restore_request ex_restored))) = rq_destination_dir r \<and>
       ar_job_id att = rq_job_id ex_restore_request \<and>
       recorded_in (world_jobs (snd (service_restore id (world_service ex_env []) ex_restore_request ex_restored)))
         (world_attempts (snd (service_restore id (world_service ex_env []) ex_restore_request ex_restored)))
         att PhaseSucceeded (ar_snapshot_id att) JobSucceeded)"
proof (rule service_restore_ready [OF three])
  show "ledger_ok (world_jobs ex_restored) (world_attempts ex_restored)" by code_simp
  show "rq_job_id ex_restore_request \<noteq> []" by code_simp
  show "rr_state (fst (fst (service_restore id (world_service ex_env []) ex_restore_request ex_restored))) = RestoreReady"
    by code_simp
qed



section \<open>Redaction and the event log\<close>

text \<open>C14: \<open>Redact\<close> never lets the canary secret through, whatever text surrounds it.\<close>

theorem redact_no_canary: "\<not> contains_secret (redact s) []"
  by (simp add: contains_secret_def redact_free)

text \<open>C15: No Event Log entry of a tick contains the canary secret.\<close>

theorem event_log_no_canary:
  "list_all (\<lambda>e. \<not> contains_secret (entry_text e) []) (fst (report_tick d err seen))"
  using report_entries_free(1) [of d err seen] by (simp add: entries_free_def contains_secret_def list_all_iff)

section \<open>The scheduler\<close>




text \<open>C18: In a zone of one fixed offset the due instant of a slot lies inside its window, and the key of
  the slot is the start of the window.\<close>

theorem slot_in_window:
  assumes "next_slot tz dev inst epoch pol now = Inr (due, key)" "load_location tz (sp_timezone pol) = Inr (\<lambda>_. off)"
  shows "\<exists>sh sm eh em. let ws = time_date (\<lambda>_. off) (civil_day_of (\<lambda>_. off) now) sh sm;
      we = time_date (\<lambda>_. off) (civil_day_of (\<lambda>_. off) now) eh em in
     parse_hhmm (sp_window_start pol) = Inr (sh, sm) \<and> parse_hhmm (sp_window_end pol) = Inr (eh, em) \<and>
     ws \<le> due \<and> due < we \<and> key = slot_key_of dev inst epoch ws"
  using assms(1)
proof (cases rule: next_slot_cases)
  case (1 loc sh sm eh em ws we jm)
  obtain sh' sm' eh' em' where v: "parse_hhmm (sp_window_start pol) = Inr (sh', sm')"
    "parse_hhmm (sp_window_end pol) = Inr (eh', em')" "sh' * 60 + sm' < eh' * 60 + em'"
    by (rule schedule_validate_None [OF 1(1)])
  have h: "sh * 60 + sm < eh * 60 + em" using v 1(3,4) by simp
  have loc: "loc = (\<lambda>_. off)" using assms(2) 1(2) by simp
  have "we - ws = second_ns * 60 * ((eh * 60 + em) - (sh * 60 + sm))"
    by (simp add: 1(5,6) loc time_date_fixed algebra_simps)
  moreover have "second_ns * 60 * 1 \<le> second_ns * 60 * ((eh * 60 + em) - (sh * 60 + sm))"
    using h by (intro mult_left_mono) simp_all
  ultimately have gap: "ws + second_ns \<le> we" by simp
  have j: "0 \<le> deterministic_jitter (dev @ inst @ epoch @ format_rfc3339 ws) jm" by (rule deterministic_jitter_nonneg)
  have "ws \<le> due \<and> due < we" using 1(8) gap j by (simp split: if_splits)
  then show ?thesis using 1(3,4,5,6,9) unfolding loc by (auto simp: Let_def)
qed


theorem slot_in_window_witness:
  "\<exists>sh sm eh em. let ws = time_date (\<lambda>_. 10800) (civil_day_of (\<lambda>_. 10800) ex_now) sh sm;
      we = time_date (\<lambda>_. 10800) (civil_day_of (\<lambda>_. 10800) ex_now) eh em in
     parse_hhmm (sp_window_start ex_calm) = Inr (sh, sm) \<and> parse_hhmm (sp_window_end ex_calm) = Inr (eh, em) \<and>
     ws \<le> 63903200400 * 1000000000 \<and> 63903200400 * 1000000000 < we \<and>
     slot_key_of ''dev-1'' ''inst-1'' ''pilot'' (63903200400 * 1000000000) = slot_key_of ''dev-1'' ''inst-1'' ''pilot'' ws"
  by (rule slot_in_window [OF ex_slot ex_zone])

text \<open>C19: The slot of a day does not depend on the time of the day at which it is computed, and days whose
  windows start at different instants have different slot keys.\<close>

theorem slot_of_the_day:
  assumes "load_location tz (sp_timezone pol) = Inr loc"
    "next_slot tz dev inst epoch pol now1 = Inr (due1, key1)" "next_slot tz dev inst epoch pol now2 = Inr (due2, key2)"
  shows "(civil_day_of loc now1 = civil_day_of loc now2 \<longrightarrow> due1 = due2 \<and> key1 = key2) \<and>
    (\<exists>sh sm. parse_hhmm (sp_window_start pol) = Inr (sh, sm) \<and>
       (let ws1 = time_date loc (civil_day_of loc now1) sh sm; ws2 = time_date loc (civil_day_of loc now2) sh sm in
        in_rfc3339_range ws1 \<and> in_rfc3339_range ws2 \<and> ws1 \<noteq> ws2 \<longrightarrow> key1 \<noteq> key2))"
proof -
  have same: "next_slot tz dev inst epoch pol now1 = next_slot tz dev inst epoch pol now2"
    if "civil_day_of loc now1 = civil_day_of loc now2"
    unfolding next_slot_def assms(1) sum.case that ..
  have key: "\<exists>sh sm. parse_hhmm (sp_window_start pol) = Inr (sh, sm) \<and>
      key = slot_key_of dev inst epoch (time_date loc (civil_day_of loc now) sh sm)"
    if "next_slot tz dev inst epoch pol now = Inr (due, key)" for now due key
    using that assms(1) by (cases rule: next_slot_cases) simp
  obtain sh sm where k: "parse_hhmm (sp_window_start pol) = Inr (sh, sm)"
    "key1 = slot_key_of dev inst epoch (time_date loc (civil_day_of loc now1) sh sm)"
    "key2 = slot_key_of dev inst epoch (time_date loc (civil_day_of loc now2) sh sm)"
    using key [OF assms(2)] key [OF assms(3)] by fastforce
  have inj: "a = b" if "in_rfc3339_range a" "in_rfc3339_range b" "slot_key_of dev inst epoch a = slot_key_of dev inst epoch b"
      "a mod second_ns = 0" "b mod second_ns = 0" for a b
  proof -
    have "format_rfc3339 a = format_rfc3339 b" using that(3) by (simp add: slot_key_of_def)
    then show ?thesis
      using parse_format_rfc3339 [OF that(1,4)] parse_format_rfc3339 [OF that(2,5)] by (metis option.inject)
  qed
  have sec: "time_date loc d sh sm mod second_ns = 0" for d by (simp add: time_date_def time_of_local_def)
  have "civil_day_of loc now1 = civil_day_of loc now2 \<longrightarrow> due1 = due2 \<and> key1 = key2"
    using same assms(2,3) by simp
  then show ?thesis using k inj [OF _ _ _ sec sec] by (auto simp: Let_def)
qed

theorem slot_of_the_day_witness:
  "slot_key_of ''dev-1'' ''inst-1'' ''pilot'' (63903200400 * 1000000000) = slot_key_of ''dev-1'' ''inst-1'' ''pilot'' (63903200400 * 1000000000)
   \<and> (\<exists>sh sm. parse_hhmm (sp_window_start ex_calm) = Inr (sh, sm))"
  using slot_of_the_day [OF ex_zone ex_slot ex_slot, of "''dev-1''" "''inst-1''" "''pilot''"] by blast

section \<open>Policies and commands of the server\<close>

text \<open>C20: A policy mapped from a server document is an accepted one of the revision it came as, of a known
  consistency mode and without a free-space floor; every rejection is the policy sentinel.\<close>

theorem server_policy_checked:
  "case policy_from_server tz now r cfg of
     Inl e \<Rightarrow> errors_is e ErrPolicyInvalid
   | Inr p \<Rightarrow> policy_validate tz p = None \<and> lp_revision_id p = r \<and> lp_accepted_at p = now \<and>
       lp_vss_mode p \<in> {VSSRequired, VSSDisabled} \<and> lp_free_space_floor p = 0"
proof (cases "policy_from_server tz now r cfg")
  case (Inl e)
  then show ?thesis using policy_from_server_Inl [OF Inl] by simp
next
  case (Inr p)
  obtain mode m where "p = mapped_policy now r mode m" "policy_validate tz p = None" "mode = VSSRequired \<or> mode = VSSDisabled"
    using policy_from_server_Inr [OF Inr] by metis
  then show ?thesis using Inr by (auto simp: mapped_policy_simps)
qed

text \<open>C21: A heartbeat whose policy is refused is an error, leaves the live policy and the schedule alone, and
  from then on no backup over a metered link may start.\<close>

theorem refused_policy_blocks:
  assumes "policy_from_server (ae_tz env) (fst (ask (en_now (ae_base env)) w)) (hb_desired_revision hb) (hb_policy hb) = Inl e"
    "hb_desired_revision hb \<noteq> []" "hb_policy hb \<noteq> None" "requires_wan_rate_limit kind"
    "apply_heartbeat (agent_executor env) hb w = (r, w')"
  shows "r \<noteq> None \<and> aw_live w' = aw_live w \<and> aw_schedule w' = aw_schedule w \<and>
    wan_start_block_reason (Some (agent_executor env)) w' tz pol kind \<noteq> []"
proof -
  have p: "fst (ask f (w\<lparr>aw_exec := x\<rparr>)) = fst (ask f w)" for f :: "nat \<Rightarrow> time" and x
    by (simp add: ask_def)
  show ?thesis
    using assms(1-4) assms(5) [symmetric]
    by (simp add: apply_heartbeat_def accept_policy_def Let_def executor_simps ask_def advance_def
        wan_start_block_reason_def split: prod.splits option.splits)
qed

lemma ex_refused: "\<exists>e. policy_from_server (ae_tz ex_device) now ''rev-2'' (Some []) = Inl e"
proof -
  have "sp_timezone (lp_schedule (mapped_policy now ''rev-2'' mode [])) = []" for mode
    by (simp add: mapped_policy_def Let_def zero_schedule_def)
  then show ?thesis
    by (cases "policy_from_server (ae_tz ex_device) now ''rev-2'' (Some [])")
      (auto simp: policy_from_server_def vss_mode_from_server_def Let_def split: option.splits if_splits)
qed

theorem refused_policy_blocks_witness:
  "wan_start_block_reason (Some (agent_executor ex_device))
     (snd (apply_heartbeat (agent_executor ex_device) \<lparr>hb_poll_seconds = 60, hb_desired_revision = ''rev-2'', hb_policy = Some [],
        hb_pause_wan = False, hb_provider_unavailable = False, hb_site_id = [], hb_agent_sha256 = [],
        hb_agent_qualified = False\<rparr> (ex_agent 3 []))) (ae_tz ex_device) ex_policy BackendRESTGateway \<noteq> []"
  (is "wan_start_block_reason _ (snd (apply_heartbeat _ ?hb _)) _ _ _ \<noteq> []")
proof -
  obtain e where "policy_from_server (ae_tz ex_device) (fst (ask (en_now (ae_base ex_device)) (ex_agent 3 [])))
      (hb_desired_revision ?hb) (hb_policy ?hb) = Inl e"
    using ex_refused by auto
  from refused_policy_blocks [OF this _ _ ex_device_simps(9) prod.collapse [symmetric]] show ?thesis by simp
qed

text \<open>A command of a kind the agent does not know is not dispatched: it is an error, and nothing changes.\<close>

theorem unknown_command_refused:
  assumes "cv_kind cmd \<notin> set allowed_kinds"
  shows "dispatch X cmd w = ((None, Some (wrap_msg ErrForbiddenCommand (cv_kind cmd))), w) \<and>
    (cl_claim c w = (Inr (Some cmd), w1) \<longrightarrow> snd (fst (client_claim c w)) \<noteq> None)"
  using assms by (simp add: dispatch_def Let_def allowed_kinds_def client_claim_def)

theorem unknown_command_refused_witness:
  "dispatch (agent_executor ex_device) (ex_command\<lparr>cv_kind := ''EXEC''\<rparr>) (ex_agent 3 []) =
     ((None, Some (wrap_msg ErrForbiddenCommand ''EXEC'')), ex_agent 3 [])"
  using unknown_command_refused [of "ex_command\<lparr>cv_kind := ''EXEC''\<rparr>" "agent_executor ex_device" "ex_agent 3 []"
      "agent_client ex_device" "ex_agent 3 []"]
  by (simp add: allowed_kinds_def)

section \<open>The engine\<close>

text \<open>C23: A vector of arguments the adapter builds names an allowed command, has no forbidden word, no
  password flag and no credentials in a URL, and every extended option is one of the known ones.\<close>

theorem built_args_safe:
  assumes "build_args kind bound extra = Inr args"
  shows "restic_command args \<in> set allowed_commands \<and>
    (\<forall>a\<in>set args. to_lower a \<notin> set forbidden_commands \<and> \<not> has_prefix (to_lower a) ''--password'' \<and> to_lower a \<noteq> ''-p'' \<and>
       \<not> (str_contains a ''://'' \<and> str_contains a ''@'') \<and> \<not> str_contains (to_lower a) ''password-command'') \<and>
    (\<forall>kv\<in>set (bd_options bound). fst kv \<in> {''rclone.program'', ''rclone.args'', ''rclone.timeout'', ''vss.timeout''})"
proof -
  have v: "validate_argv args = None" by (rule build_args_Inr(1) [OF assms])
  have opt: "validate_option (k, u) \<noteq> None" if "k \<notin> {''rclone.program'', ''rclone.args'', ''rclone.timeout'', ''vss.timeout''}" for k u
    unfolding validate_option_def prod.case if_P [OF that] by simp
  have "fst kv \<in> {''rclone.program'', ''rclone.args'', ''rclone.timeout'', ''vss.timeout''}" if "kv \<in> set (bd_options bound)" for kv
    using build_args_Inr(2) [OF assms] that opt [of "fst kv" "snd kv"] by (metis prod.collapse)
  then show ?thesis using validate_argv_None [OF v] by blast
qed

lemma ex_args: "build_args CmdBackup ex_bound [''--host'', ''dev-1'', ''--'', ''D:/Work''] =
    Inr [''--json'', ''--repo'', ''rest:https://gw.example.com/dev-1'', ''backup'', ''--host'', ''dev-1'', ''--'', ''D:/Work'']"
  by code_simp

theorem built_args_safe_witness:
  "restic_command [''--json'', ''--repo'', ''rest:https://gw.example.com/dev-1'', ''backup'', ''--host'', ''dev-1'', ''--'', ''D:/Work'']
     \<in> set allowed_commands"
  by (rule conjunct1 [OF built_args_safe [OF ex_args]])

text \<open>Over a metered link the arguments of a backup carry an upload limit between 1 KiB/s and the
  largest the engine takes, and the source roots, none of them a flag, stand after the end of the flags.\<close>

theorem backup_args_limited:
  assumes "backup_extras req = Inr args" "requires_wan_rate_limit (rd_backend_kind (bq_repository req))"
  shows "0 < bq_bandwidth_kibps req \<and> bq_bandwidth_kibps req \<le> max_restic_kibps \<and>
    (\<exists>pre mid. args = pre @ [''--limit-upload'', show_int (bq_bandwidth_kibps req)] @ mid @ [''--''] @ bq_source_roots req) \<and>
    (\<forall>r\<in>set (bq_source_roots req). r \<noteq> [] \<and> \<not> looks_like_flag r)"
proof -
  let ?vss = "if bq_vss_mode req = VSSRequired then [''--use-fs-snapshot''] else []"
  let ?h = "if bq_host req = [] then bq_device_id req else bq_host req"
  let ?host = "if ?h \<noteq> [] then [''--host'', ?h] else []"
  obtain excl where k: "validate_restic_kibps (bq_bandwidth_kibps req) = None"
    "args = (?vss @ ?host @ tag_args req) @ [''--limit-upload'', show_int (bq_bandwidth_kibps req)] @ excl @ [''--''] @ bq_source_roots req"
    "\<not> list_ex (\<lambda>r. looks_like_flag r \<or> r = [] \<or> contains_any r newline_chars) (bq_source_roots req)"
    using assms by (auto simp: backup_extras_def Let_def apply_upload_limit_def limit_args_def root_args_def
        split: sum.splits option.splits if_splits)
  have "\<exists>pre mid. args = pre @ [''--limit-upload'', show_int (bq_bandwidth_kibps req)] @ mid @ [''--''] @ bq_source_roots req"
    using k(2) by blast
  then show ?thesis using k(1,3) by (auto simp: validate_restic_kibps_None list_ex_iff)
qed

theorem backup_args_limited_witness:
  "0 < bq_bandwidth_kibps ex_req1 \<and> bq_bandwidth_kibps ex_req1 \<le> max_restic_kibps"
proof -
  have "backup_extras ex_req1 = Inr [''--use-fs-snapshot'', ''--host'', ''dev-1'', ''--tag'', ''stowline'',
      ''--tag'', ''job:i10'', ''--tag'', ''attempt:i11'', ''--limit-upload'', ''500'', ''--exclude'', ''*.ost'', ''--'', ''D:/Work'']"
    by code_simp
  from backup_args_limited [OF this] show ?thesis by (simp add: ex_req1_def ex_request_def ex_device_simps)
qed

text \<open>C25: A backup of the adapter always ends in a terminal phase, and it succeeds only for a request that is
  valid, with exit code 0, a full snapshot id read back from the repository, verified consistency where it
  is required, and the repository that was expected.\<close>

theorem adapter_success_evidence:
  assumes "adapter_backup A req w = ((res, err), w')"
  shows "phase_terminal (br_outcome res) \<and>
    (br_outcome res = PhaseSucceeded \<longrightarrow> backup_validate req = None \<and> err = None \<and> br_exit_code res = 0 \<and>
       br_exit_known res \<and> br_readback_ok res \<and> snapshot_id_looks_plausible (br_snapshot_id res) \<and>
       (bq_vss_mode req = VSSRequired \<longrightarrow> br_consistency res = ConsistencyVerified) \<and>
       (rd_expected_repo_id (bq_repository req) \<noteq> [] \<longrightarrow>
          equal_fold (br_repository_id res) (rd_expected_repo_id (bq_repository req))))"
  using adapter_backup_outcome [OF assms] unfolding engine_success_def by blast

theorem adapter_success_evidence_witness:
  "phase_terminal (br_outcome (fst (fst (adapter_backup (world_adapter ex_env) ex_req1 (ex_idle 12 True ())))))"
  by (rule conjunct1 [OF adapter_success_evidence [OF three]])

text \<open>A snapshot found for an id is the only one of the listing whose id begins with it.\<close>

lemma matched_snapshot_unique:
  assumes "match_snapshot snaps i = Some s"
  shows "s \<in> set snaps \<and> snapshot_id_looks_plausible (sn_id s) \<and>
    {t \<in> set snaps. has_prefix (to_lower (sn_id t)) (to_lower (trim_space i))} = {s}"
  using match_snapshot_Some [OF assms] by blast



section \<open>Time, policies and retries\<close>

text \<open>A slot key reads back as the identifiers it was made from and, in its last field, the start of
  the window, as the comparison with the last completed slot reads it.\<close>

theorem slot_key_roundtrip:
  assumes "CHR ''|'' \<notin> set d \<union> set i \<union> set e" "in_rfc3339_range t" "t mod second_ns = 0"
  shows "\<exists>x. split_on CHR ''|'' (slot_key_of d i e t) = [d, i, e, x] \<and> parse_rfc3339 x = Some t"
  using assms(1) split_slot_key [of d i e t] parse_format_rfc3339 [OF assms(2,3)] by simp

theorem slot_key_roundtrip_witness:
  "\<exists>x. split_on CHR ''|'' (slot_key_of ''dev-1'' ''inst-1'' ''pilot/rev-1'' ex_now) = [''dev-1'', ''inst-1'', ''pilot/rev-1'', x] \<and>
     parse_rfc3339 x = Some ex_now"
  by (rule slot_key_roundtrip) (simp_all add: in_rfc3339_range_def ex_now_def)

text \<open>The jitter of a slot stays below its bound; the wait before a retry and the budget are positive.\<close>

lemma jitter_and_retry_bounds:
  "0 \<le> deterministic_jitter seed mx \<and> deterministic_jitter seed mx \<le> max 0 (mx - 1) \<and>
   0 < retry_after pol n \<and> 0 < max_attempts_or_default pol"
proof -
  have "deterministic_jitter seed mx \<le> max 0 (mx - 1)"
  proof (cases "0 < mx")
    case True
    then show ?thesis using deterministic_jitter_less [OF True, of seed] by simp
  qed (simp add: deterministic_jitter_def)
  then show ?thesis by (simp add: deterministic_jitter_nonneg retry_after_pos max_attempts_pos)
qed

text \<open>C28: However an enrollment fails, the configuration in memory is the one before it up to the shared map of
  references, and the control plane was asked to abort exactly if it had issued a device; a refusal before that
  leaves the token unspent. An enrollment that succeeds spent the token once, aborted nothing, and the
  configuration bound to the issued device is the one on the disk.\<close>

theorem enrollment_settled:
  assumes "enroll_run E raw_mode url token w = (r, w')"
  shows "case r of
      Inl e \<Rightarrow> only_refs_differ (ew_config w') (ew_config w) \<and>
        (ew_tokens w' = ew_tokens w \<and> ew_aborted w' = ew_aborted w \<or>
         ew_tokens w' = ew_tokens w @ [token] \<and>
         (\<exists>k. ew_aborted w' = ew_aborted w @
            (case en_enroll E k token of Inl _ \<Rightarrow> [] | Inr out \<Rightarrow> [eo_control_credential out])))
    | Inr s \<Rightarrow> ew_tokens w' = ew_tokens w @ [token] \<and> ew_aborted w' = ew_aborted w \<and>
        (\<exists>k out bound b. en_enroll E k token = Inr out \<and> enroll_bind (ew_config w) out url (ey_mode s) = Inr bound \<and>
           ew_config w' = bound\<lparr>cf_source_roots := cf_source_roots (ew_config w)\<rparr> \<and>
           en_encode E (ew_config w') = Inr b \<and> disk_file w' (config_path (ew_config w')) = Some b \<and>
           ey_device_id s = eo_device_id out)"
  using assms
proof (cases rule: enroll_run_result)
  case (local e)
  then show ?thesis by (simp add: same_log_def only_refs_refl)
next
  case (remote e k)
  then show ?thesis by (auto simp: only_refs_refl intro!: exI [of _ k])
next
  case (undone e k out)
  then show ?thesis by (auto intro!: exI [of _ k])
next
  case (stored s k out mode bound b)
  then show ?thesis by (simp, blast)
qed

theorem enrollment_settled_witness:
  "isl (fst ex_enrolling) \<and> only_refs_differ (ew_config (snd ex_enrolling)) (default_pilot\<lparr>cf_pilot_root := ''C:''\<rparr>) \<and>
   ew_tokens (snd ex_enrolling) = [''token''] \<and> ew_aborted (snd ex_enrolling) = [''cred'']"
proof -
  have l: "isl (fst ex_enrolling)" "ew_tokens (snd ex_enrolling) = [''token'']" "ew_aborted (snd ex_enrolling) = [''cred'']"
     by code_simp+
  have "enroll_run ex_enroll_env ''service'' ''https://control.example.com'' ''token'' ex_unenrolled =
     (fst ex_enrolling, snd ex_enrolling)" by (simp add: ex_enrolling_def)
  from enrollment_settled [OF this] l show ?thesis by (cases "fst ex_enrolling") (auto simp: ex_unenrolled_def)
qed

text \<open>The policy of a fresh pilot device is accepted where its zone is known, and allows exactly the
  backends that need no rate limit.\<close>

theorem default_policy_accepted:
  assumes "tz ''Europe/Istanbul'' = Inr loc"
  shows "policy_validate tz (default_pilot_policy now roots) = None \<and>
    (policy_validate_for_backend tz (default_pilot_policy now roots) kind = None \<longleftrightarrow> \<not> requires_wan_rate_limit kind)"
proof -
  have p: "parse_hhmm ''12:00'' = Inr (12, 0)" "parse_hhmm ''16:30'' = Inr (16, 30)" "parse_hhmm ''08:30'' = Inr (8, 30)"
    "parse_hhmm ''17:45'' = Inr (17, 45)" by code_simp+
  have v: "policy_validate tz (default_pilot_policy now roots) = None"
    by (simp add: policy_validate_def schedule_validate_def default_pilot_policy_def default_schedule_def
        load_location_def assms p eligibility_check_def hard_stop_check_def)
  then show ?thesis by (simp add: policy_validate_for_backend_def policy_err_def default_pilot_policy_def)
qed

theorem default_policy_accepted_witness:
  "policy_validate (ae_tz ex_device) (default_pilot_policy ex_now [''D:/Work'']) = None"
  by (rule conjunct1 [OF default_policy_accepted]) (simp add: ex_device_simps)

section \<open>What a backup reads, and what the journal keeps\<close>

text \<open>Whatever is written in \<open>pilot.json\<close>, a backup with configured roots has roots, Outlook's cache is
  always excluded and no exclude is a flag.\<close>

theorem roots_and_excludes_safe:
  assumes "fallback \<noteq> []"
  shows "current_source_roots pilot fallback \<noteq> [] \<and> ''*.ost'' \<in> set (current_excludes pilot) \<and>
    list_all (\<lambda>p. \<not> looks_like_flag p) (current_excludes pilot)"
  using current_source_roots_nonempty [OF assms] current_excludes_safe by (auto simp: list_all_iff)

theorem roots_and_excludes_safe_witness:
  "current_source_roots (Some [(''source_roots'', JArr [])]) [''D:/Work''] \<noteq> []"
  using roots_and_excludes_safe [of "[''D:/Work'']"] by blast

text \<open>Beginning a job is atomic: it either adds the job together with its first attempt, both keyed
  freshly, or reports that the intent is not durable and leaves every table alone.\<close>

theorem begin_job_atomic:
  "case sql_begin_job je job att db of
     (Some e, db') \<Rightarrow> errors_is e ErrIntentNotPersisted \<and> db' = db
   | (None, db') \<Rightarrow> (\<exists>j a. jd_jobs db' = jd_jobs db @ [j] \<and> jd_attempts db' = jd_attempts db @ [a] \<and>
       jr_id j = jr_id job \<and> ar_id a = ar_id att \<and> ar_job_id a = jr_id job \<and>
       jr_id j \<notin> jr_id ` set (jd_jobs db) \<and> ar_id a \<notin> ar_id ` set (jd_attempts db) \<and>
       jd_outbox db' = jd_outbox db \<and> jd_commands db' = jd_commands db \<and> jd_policies db' = jd_policies db)"
  by (auto simp: sql_begin_job_def Let_def not_persisted_def job_insertable_def attempt_insertable_def split: option.splits)

text \<open>A message of the event log that was just written is not written again until another one is.\<close>

lemma event_log_dedup:
  assumes "emit_deduped seen eid b msg = (es, seen')" "seen \<noteq> NoLast"
  shows "emit_deduped seen' eid' b' msg = ([], seen') \<and> length es \<le> 1 \<and>
    (msg' \<noteq> msg \<longrightarrow> map entry_text (fst (emit_deduped seen' eid b msg')) = [msg'])"
  using assms by (auto simp: emit_deduped_def Let_def split: last_message.splits if_splits)

text \<open>C32: A poll of the qualification runner asks for no backup but of the configured repository and root, which is
  the synthetic corpus, under a well-formed run id: two executors that agree on those requests make the same
  poll, whatever they do with others. A run the journal knows as done or under way starts no executor.\<close>

theorem qualification_bound_backup:
  assumes "\<forall>run v. validate_qualification_run_id run = None \<and>
      same_path (qv_abs env) (hd (ql_config_sources R)) (ql_allowed_source R) \<longrightarrow>
      B (bound_backup_request R run [win_clean (hd (ql_config_sources R))]) v =
      B' (bound_backup_request R run [win_clean (hd (ql_config_sources R))]) v"
  shows "qual_poll env (R\<lparr>ql_backup := Some B\<rparr>) w = qual_poll env (R\<lparr>ql_backup := Some B'\<rparr>) w \<and>
    (\<forall>req J v job v1 C C'. ql_journal R = Some J \<and> jp_get_job J (qualification_job_id (qr_run_id req)) v = (Inr (Some job), v1) \<and>
       (job_terminal (jr_state job) \<or> jr_state job = JobActive \<or> jr_state job = JobReconciling) \<longrightarrow>
       poll_request env (R\<lparr>ql_backup := Some C\<rparr>) req v = poll_request env (R\<lparr>ql_backup := Some C'\<rparr>) req v)"
  using qual_poll_bound [where B = B and B' = B' and R = R and env = env and w = w] assms
    poll_request_done [where R = R and env = env] by blast

theorem qualification_bound_backup_witness:
  "\<forall>w. qual_poll ex_qual_env (ex_qual_runner\<lparr>ql_backup := Some ex_rogue\<rparr>) w =
     qual_poll ex_qual_env (ex_qual_runner\<lparr>ql_backup := Some (\<lambda>req w. ((zero_result, None), w))\<rparr>) w"
  by (rule allI, rule conjunct1 [OF qualification_bound_backup])
    (simp add: ex_rogue_def bound_backup_request_def ex_qual_runner_def)

section \<open>The upgrade\<close>

text \<open>C33: Whatever fails during a heartbeat that may upgrade the agent, the old binary is still at the live
  path or in a rollback copy, and what is at the live path otherwise has the pinned digest.\<close>

theorem upgrade_keeps_binary:
  assumes "xp_base x = ''stowline-agent.exe''" "disk_file w (exe_file x) = Some old"
  shows "let w' = on_agent_pin env x want qualified w in
    disk_file w' (exe_file x) = Some old \<or>
    (\<exists>t. disk_file w' (rollback_path x t) = Some old \<and>
       (disk_file w' (exe_file x) = None \<or>
        (\<exists>new. disk_file w' (exe_file x) = Some (Bytes new) \<and> pv_sha env (Bytes new) = want)))"
  using pin_keeps_binary [OF assms] by (simp add: binary_kept_def Let_def)

theorem upgrade_keeps_binary_witness:
  "let w' = on_agent_pin ex_upgrade ex_exe ''new'' True ex_installed in
    disk_file w' (exe_file ex_exe) = Some (Bytes ''old'') \<or>
    (\<exists>t. disk_file w' (rollback_path ex_exe t) = Some (Bytes ''old'') \<and>
       (disk_file w' (exe_file ex_exe) = None \<or>
        (\<exists>new. disk_file w' (exe_file ex_exe) = Some (Bytes new) \<and> pv_sha ex_upgrade (Bytes new) = ''new'')))"
  by (rule upgrade_keeps_binary [OF ex_exe_base]) (simp add: ex_installed_def disk_file_def)

text \<open>C34: On a disk that does not fail, a build that is never confirmed starts three times; the fourth start
  puts the old binary back, and removes the marker.\<close>

theorem unconfirmed_upgrade_rolled_back:
  assumes "\<forall>n. pv_disk env n = None" "xp_base x = ''stowline-agent.exe''"
    "disk_file w (rollback_path x t) = Some old" "disk_file w (marker_path x) = Some (MarkerFile (rollback_path x t) 0)"
  shows "(\<forall>n<3. \<not> fst (service_start env x (starts env x n w))) \<and>
    (let (rolled, w') = service_start env x (starts env x 3 w) in
     rolled \<and> disk_file w' (exe_file x) = Some old \<and> disk_file w' (marker_path x) = None)"
proof -
  have c: "calm env" using assms(1) by (simp add: calm_def)
  have u: "unconfirmed x (rollback_path x t) old 0 w" using assms(3,4) by (auto simp: unconfirmed_def)
  have n: "unconfirmed x (rollback_path x t) old (int n) (starts env x n w)" if "n \<le> 3" for n
    using starts_unconfirmed [OF c assms(2) u, of n] that by simp
  have "\<not> fst (service_start env x (starts env x n w))" if "n < 3" for n
    using start_counts(1) [OF c assms(2) n] that by simp
  then show ?thesis using start_rolls_back [OF c assms(2) n [of 3, simplified]] by (simp add: case_prod_beta)
qed

lemma ex_unconfirmed_files:
  "disk_file ex_unconfirmed (rollback_path ex_exe 1767600000) = Some (Bytes ''old'')"
  "disk_file ex_unconfirmed (marker_path ex_exe) = Some (MarkerFile (rollback_path ex_exe 1767600000) 0)"
  by (simp_all add: ex_unconfirmed_def disk_file_def upgrade_paths [OF ex_exe_base]
      upgrade_paths(6) [OF ex_exe_base, THEN not_sym])

theorem unconfirmed_upgrade_rolled_back_witness:
  "disk_file (snd (service_start ex_upgrade ex_exe (starts ex_upgrade ex_exe 3 ex_unconfirmed))) (exe_file ex_exe) =
     Some (Bytes ''old'')"
proof -
  have "\<forall>n. pv_disk ex_upgrade n = None" by (simp add: ex_upgrade_def)
  from unconfirmed_upgrade_rolled_back [OF this ex_exe_base ex_unconfirmed_files] show ?thesis
    by (simp add: case_prod_beta Let_def)
qed

section \<open>Restores on disk, and programs that are run\<close>

text \<open>C35: An absolute restore destination that is accepted is the staging root or extends it element by
  element, is no forbidden place, and its nearest existing directory really lies below the root.\<close>

theorem restore_destination_confined:
  assumes "validate_restore_destination env rt dest = None" "win_is_abs rt" "win_is_abs dest"
  shows "let r = win_clean rt; d = win_clean dest in
    (equal_fold (parts_path (clean_parts d)) (parts_path (clean_parts r)) \<or>
     (\<exists>pre rest. pt_elems (clean_parts d) = pre @ rest \<and> list_all2 equal_fold (pt_elems (clean_parts r)) pre \<and>
        equal_fold (pt_volume (clean_parts r)) (pt_volume (clean_parts d)))) \<and>
    \<not> is_forbidden_target d \<and>
    (\<exists>rf df. final_path_resolved env r = Inr rf \<and> final_path_resolved env (existing_ancestor env d) = Inr df \<and>
       (normalize_compare df = normalize_compare rf \<or> has_prefix (normalize_compare df) (normalize_compare rf @ [backslash])))"
proof -
  let ?r = "win_clean rt" and ?d = "win_clean dest"
  have "confined_to_root env rt dest = None"
    using assms(1) by (auto simp: validate_restore_destination_def split: if_splits option.splits)
  then obtain rel where rel: "win_rel ?r ?d = Some rel" "\<not> rel_escapes rel" and os: "confined_os env ?r ?d = None"
    using assms(2,3) by (auto simp: confined_to_root_def abs_path_def split: option.splits if_splits)
  have "equal_fold (parts_path (clean_parts ?d)) (parts_path (clean_parts ?r)) \<or>
     (\<exists>pre rest. pt_elems (clean_parts ?d) = pre @ rest \<and> list_all2 equal_fold (pt_elems (clean_parts ?r)) pre \<and>
        equal_fold (pt_volume (clean_parts ?r)) (pt_volume (clean_parts ?d)))"
    by (rule win_rel_confined [OF rel])
  moreover have "\<not> is_forbidden_target ?d" using os by (simp add: confined_os_def split: option.splits if_splits)
  moreover obtain df where df: "final_path_resolved env (existing_ancestor env ?d) = Inr df"
    using os by (cases "final_path_resolved env (existing_ancestor env ?d)")
      (simp_all add: confined_os_def split: option.splits if_splits)
  moreover obtain rf where rf: "final_path_resolved env ?r = Inr rf"
    using os df by (cases "final_path_resolved env ?r") (simp_all add: confined_os_def split: option.splits if_splits)
  moreover have "normalize_compare df = normalize_compare rf \<or>
      has_prefix (normalize_compare df) (normalize_compare rf @ [backslash])"
  proof (rule ccontr)
    assume "\<not> ?thesis"
    then show False using os by (simp add: confined_os_def df rf Let_def split: option.splits if_splits)
  qed
  ultimately show ?thesis unfolding Let_def by blast
qed

text \<open>A staging root without anything in it yet.\<close>

definition ex_bare :: path_env where
  "ex_bare = \<lparr>pe_attributes = \<lambda>p. if p = from_slash ''D:/Restore'' then Some 16 else None, pe_final = Inr, pe_full = Inr\<rparr>"

abbreviation (input) ex_job_dir :: string where "ex_job_dir \<equiv> ''D:/Restore/job-1''"

lemma ex_lexical: "reject_unsafe_lexical ''D:/Restore'' = None" "reject_unsafe_lexical ex_job_dir = None"
  "abs_path ex_bare ''D:/Restore'' = Inr (from_slash ''D:/Restore'')" "abs_path ex_bare ex_job_dir = Inr (from_slash ex_job_dir)"
  "win_rel (from_slash ''D:/Restore'') (from_slash ex_job_dir) = Some ''job-1''" "rel_escapes ''job-1'' = False"
  by code_simp+

lemma ex_targets: "is_forbidden_target (from_slash ''D:/Restore'') = False" "is_forbidden_target (from_slash ex_job_dir) = False"
  "existing_ancestor ex_bare (from_slash ex_job_dir) = from_slash ''D:/Restore''"
  "final_path_resolved ex_bare (from_slash ''D:/Restore'') = Inr (from_slash ''D:/Restore'')"
  "reject_reparse ex_bare (from_slash ''D:/Restore'') (ancestors (from_slash ex_job_dir)) = None"
  "is_reparse ex_bare (from_slash ''D:/Restore'') = False"
  by code_simp+

lemma ex_destination: "validate_restore_destination ex_bare ''D:/Restore'' ex_job_dir = None"
  by (simp add: validate_restore_destination_def confined_to_root_def ex_lexical confined_os_def validate_root_os_def
      ex_targets)

theorem restore_destination_confined_witness: "\<not> is_forbidden_target (win_clean ''D:/Restore/job-1'')"
  using restore_destination_confined [OF ex_destination] by (simp add: win_is_abs_def volume_def is_sep_def Let_def)

text \<open>C36: A restore that compares equal with an independent manifest restored, for every file of it, a file
  of that size and digest at a path that ends in the one of the manifest.\<close>

theorem independent_manifest_met:
  assumes "compare_independent walk expected = None" "want \<in> set expected"
  shows "\<exists>files full rel. walk = Inr files \<and> (full, cf_size want, cf_sha256 want) \<in> set files \<and>
    to_slash rel = to_slash (cf_rel_path want) \<and> path_matches_rel (to_slash full) rel"
  using compare_independent_None [OF assms(1)] assms(2) by blast

definition ex_wanted :: corpus_file where
  "ex_wanted = \<lparr>cf_rel_path = ''Work/a.txt'', cf_size = 3, cf_sha256 = ''abc''\<rparr>"

theorem independent_manifest_met_witness:
  "\<exists>rel. to_slash rel = ''Work/a.txt'' \<and> path_matches_rel ''D:/Restore/job-1/Work/a.txt'' rel"
proof -
  have "compare_independent (Inr [(''D:/Restore/job-1/Work/a.txt'', 3, ''abc'')]) [ex_wanted] = None" by code_simp
  from independent_manifest_met [OF this, of ex_wanted] show ?thesis
    by (auto simp: ex_wanted_def to_slash_def)
qed

text \<open>C37: The environment of a child has each name once, and beyond the system's own variables only the
  allowed ones.\<close>

theorem child_environment_allowed:
  assumes "restricted_env extra cache temp sysroot dirs = Inr vars"
  shows "distinct (map (\<lambda>v. to_upper (fst v)) vars) \<and>
    (\<forall>v\<in>set vars. to_upper (fst v) \<in> {''SYSTEMROOT'', ''WINDIR'', ''SYSTEMDRIVE'', ''PATH'', ''TEMP'', ''TMP'', ''RESTIC_CACHE_DIR''}
       \<union> set allowed_child_vars)"
proof -
  define sysdir where "sysdir = (if sysroot = [] then ''C:'' @ [backslash] @ ''Windows'' else sysroot)"
  obtain path where path: "child_path sysdir dirs = Inr path"
    using assms by (auto simp: restricted_env_def sysdir_def Let_def split: sum.splits)
  define drive where "drive = (if 2 \<le> length sysdir \<and> sysdir ! 1 = CHR '':'' then take 2 sysdir else ''C:'')"
  define base :: "env_var list" where "base = [(''SystemRoot'', sysdir, False), (''SYSTEMROOT'', sysdir, False),
      (''windir'', sysdir, False), (''WINDIR'', sysdir, False), (''SystemDrive'', drive, False), (''PATH'', path, False)] @
     (if temp = [] then [] else [(''TEMP'', temp, False), (''TMP'', temp, False)]) @
     (if cache = [] then [] else [(''RESTIC_CACHE_DIR'', cache, False)])"
  have e: "add_extra (foldl add_var [] base) extra = Inr vars"
    using assms path unfolding restricted_env_def Let_def sysdir_def [symmetric] drive_def [symmetric] base_def by simp
  have b: "fst ` set base \<subseteq> {''SystemRoot'', ''SYSTEMROOT'', ''windir'', ''WINDIR'', ''SystemDrive'', ''PATH'', ''TEMP'', ''TMP'', ''RESTIC_CACHE_DIR''}"
    by (simp add: base_def)
  have d: "distinct (map (\<lambda>v. to_upper (fst v)) (foldl add_var [] base))" by (rule foldl_add_var_distinct) simp
  have u: "to_upper ` {''SystemRoot'', ''SYSTEMROOT'', ''windir'', ''WINDIR'', ''SystemDrive'', ''PATH'', ''TEMP'', ''TMP'', ''RESTIC_CACHE_DIR''} =
      {''SYSTEMROOT'', ''WINDIR'', ''SYSTEMDRIVE'', ''PATH'', ''TEMP'', ''TMP'', ''RESTIC_CACHE_DIR''}"
    by code_simp
  have "to_upper (fst v) \<in> {''SYSTEMROOT'', ''WINDIR'', ''SYSTEMDRIVE'', ''PATH'', ''TEMP'', ''TMP'', ''RESTIC_CACHE_DIR''}"
    if "v \<in> set (foldl add_var [] base)" for v
    using foldl_add_var_mem [OF that] b unfolding u [symmetric] by auto
  then show ?thesis using add_extra_Inr [OF e d] by blast
qed

lemma ex_child_env: "restricted_env [(''RESTIC_PASSWORD'', ''pw'', True)] [] [] ''C:/Windows'' [] =
  Inr [(''SystemRoot'', ''C:/Windows'', False), (''windir'', ''C:/Windows'', False), (''SystemDrive'', ''C:'', False),
       (''PATH'', ''C:/Windows'' @ [backslash] @ ''System32'', False), (''RESTIC_PASSWORD'', ''pw'', True)]"
  by code_simp

theorem child_environment_allowed_witness:
  "distinct (map (\<lambda>v. to_upper (fst v)) [(''SystemRoot'', ''C:/Windows'', False), (''windir'', ''C:/Windows'', False),
     (''SystemDrive'', ''C:'', False), (''PATH'', ''C:/Windows'' @ [backslash] @ ''System32'', False), (''RESTIC_PASSWORD'', ''pw'', True)])"
  by (rule conjunct1 [OF child_environment_allowed [OF ex_child_env]])

section \<open>Secrets\<close>

text \<open>C38: Provisioning the service on a machine with a repository never touches the envelopes of the user nor the
  legacy password, whatever fails; it succeeds only with a machine envelope that unlocked the repository with
  the content that is on the disk; and no password is ever generated: the random source makes no difference.\<close>

theorem provisioning_safe:
  fixes w :: provision
  defines "dir \<equiv> win_join (sc_pilot_root (pw_config w)) ''secrets''"
  assumes run: "provision_secrets env ''service'' w = (r, w')" and drive: "volume dir \<noteq> []"
    and repo: "sc_repo_location (pw_config w) = [] \<or> disk_file w (win_join (sc_repo_location (pw_config w)) ''config'') \<noteq> None"
  shows "(\<forall>n \<in> set installer_names. disk_file w' (win_join dir n) = disk_file w (win_join dir n)) \<and>
    (r = None \<longrightarrow> sc_password_ref (pw_config w') = machine_ref dir \<and>
      (\<exists>v i v'. authenticate_repository env (machine_ref dir) (v :: provision) = (Inr i, v') \<and>
         disk_file v (sr_locator (machine_ref dir)) = disk_file w' (sr_locator (machine_ref dir)))) \<and>
    provision_secrets (env\<lparr>sk_random := g\<rparr>) ''service'' w = (r, w')"
proof (intro conjI)
  show "\<forall>n \<in> set installer_names. disk_file w' (win_join dir n) = disk_file w (win_join dir n)"
    using run
  proof (cases rule: provision_secrets_service)
    case ran
    then show ?thesis using provision_other [OF ran] installer_names_kept [OF drive] by (simp add: dir_def)
  qed simp
  show "r = None \<longrightarrow> sc_password_ref (pw_config w') = machine_ref dir \<and>
      (\<exists>v i v'. authenticate_repository env (machine_ref dir) (v :: provision) = (Inr i, v') \<and>
         disk_file v (sr_locator (machine_ref dir)) = disk_file w' (sr_locator (machine_ref dir)))"
    using run
  proof (cases rule: provision_secrets_service)
    case ran
    show ?thesis
    proof
      assume "r = None"
      then have "sc_password_ref (pw_config w') = machine_ref dir \<and> mg.unlocked dir env (disk_file w')"
        using provision_unlocks [of env "win_join (sc_pilot_root (pw_config w)) ''secrets''" "disk_step w" w'] ran drive repo by (simp add: dir_def)
      then show "sc_password_ref (pw_config w') = machine_ref dir \<and>
        (\<exists>v i v'. authenticate_repository env (machine_ref dir) (v :: provision) = (Inr i, v') \<and>
           disk_file v (sr_locator (machine_ref dir)) = disk_file w' (sr_locator (machine_ref dir)))"
        unfolding mg.unlocked_def using authenticated_repository by (fastforce simp: machine_ref_def)
    qed
  qed blast
  have "provision_service (env\<lparr>sk_random := g\<rparr>) dir (disk_step w) = provision_service env dir (disk_step w)"
    by (rule provision_without_random) (use repo in simp)
  then show "provision_secrets (env\<lparr>sk_random := g\<rparr>) ''service'' w = (r, w')"
    using run unfolding provision_secrets_def mkdir_random dir_def Let_def os_mkdir_all_def
    by (auto split: option.splits io_fault.splits)
qed

theorem provisioning_safe_witness:
  "fst (provision_secrets ex_sealing ''service'' ex_provision) = None \<and>
   sc_password_ref (pw_config (snd (provision_secrets ex_sealing ''service'' ex_provision))) =
     machine_ref (win_join (sc_pilot_root (pw_config ex_provision)) ''secrets'')"
proof -
  have run: "provision_secrets ex_sealing ''service'' ex_provision =
      (None, snd (provision_secrets ex_sealing ''service'' ex_provision))"
    by (rule prod_eqI) (simp_all, code_simp)
  have drive: "volume (win_join (sc_pilot_root (pw_config ex_provision)) ''secrets'') \<noteq> []" by code_simp
  have repo: "sc_repo_location (pw_config ex_provision) = [] \<or>
      disk_file ex_provision (win_join (sc_repo_location (pw_config ex_provision)) ''config'') \<noteq> None" by code_simp
  show ?thesis using provisioning_safe [OF run drive repo] by (subst run) simp
qed

text \<open>C39: The inspection of a secret's access list accepts exactly the lists in which every entry was understood, no
  reading entry denies SYSTEM or Administrators or allows anybody else, and both are allowed; a mask reads
  the secret exactly if it meets one of four bits; and the list the agent applies to its secrets is accepted.\<close>

theorem service_secret_acl_exact:
  "fst (evaluate_service_secret aces) = secret_list_ok aces \<and>
   grants_secret_read m = (and m 0x92000001 \<noteq> 0) \<and>
   fst (evaluate_service_secret (projr (profile_entries ServiceSecret me)))"
proof (intro conjI)
  show "fst (evaluate_service_secret aces) = secret_list_ok aces"
    by (simp add: evaluate_service_secret_def evaluate_aces_iff secret_list_ok_def)
  show "grants_secret_read m = (and m 0x92000001 \<noteq> 0)" by (rule grants_secret_read_bits)
  show "fst (evaluate_service_secret (projr (profile_entries ServiceSecret me)))"
    by (simp add: profile_entries_def, code_simp)
qed

text \<open>C40: A secret that was sealed opens with the provider of its scope as what it was, while the provider of the
  other scope refuses it as a mismatch and the file provider in any case, and no other file was touched.
  Of DPAPI it is assumed that it unseals what it sealed into blobs that do not look like text.\<close>

theorem sealed_secret_roundtrip:
  assumes stored: "provider_protect env dir scope name plain w = (None, w')"
    and here: "sr_locator ref = win_join dir name" "sr_locator ref \<noteq> []" and readable: "sk_disk env (dk_pos w') = None"
    and dpapi: "\<forall>n m blob. sk_seal env n scope plain = Inr blob \<longrightarrow>
        sk_unseal env m blob = Inr plain \<and> \<not> looks_like_plaintext blob"
    and other: "scope_known scope'" "scope' \<noteq> scope"
  shows "fst (dpapi_open env dir scope ref w') = Inr plain \<and>
    (\<exists>e. fst (dpapi_open env dir scope' ref w') = Inl e \<and> errors_is e ErrSecretScopeMismatch) \<and>
    (\<exists>e. fst (file_open env ref w') = Inl e) \<and>
    (\<forall>p. p \<noteq> sr_locator ref \<longrightarrow> disk_file w' p = disk_file w p)"
proof -
  obtain n blob where blob: "sk_seal env n scope plain = Inr blob"
      "disk_file w' = (disk_file w)(win_join dir name \<mapsto> encode_envelope scope blob)"
    using sealed_content(2) [OF stored] by blast
  have unsealed: "sk_unseal env m blob = Inr plain \<and> \<not> looks_like_plaintext blob" for m using dpapi blob(1) by blast
  have scope: "scope_known scope" by (rule sealed_content(1) [OF stored])
  have dec: "decode_envelope (encode_envelope scope blob) = Inr (scope, blob)"
    using decode_encode [OF scope] unsealed by blast
  have read: "os_read (sk_disk env) (sr_locator ref) w' = (Inr (encode_envelope scope blob), disk_step w')"
    using readable by (simp add: os_read_def blob(2) here)
  have "blob \<noteq> []" using unsealed by (auto simp: looks_like_plaintext_def)
  then have "fst (dpapi_open env dir scope ref w') = Inr plain"
    using scope here(2) unsealed by (simp add: dpapi_open_def Let_def read dec dpapi_unprotect_def)
  moreover have "\<exists>e. fst (dpapi_open env dir scope' ref w') = Inl e \<and> errors_is e ErrSecretScopeMismatch"
    using other here(2) by (simp add: dpapi_open_def Let_def read dec)
  moreover have "str_contains (encode_envelope scope blob) envelope_magic"
    unfolding encode_envelope_def by (rule str_contains_start)
  then have "\<exists>e. fst (file_open env ref w') = Inl e"
    by (simp add: file_open_def read)
  ultimately show ?thesis using blob(2) here by simp
qed

theorem sealed_secret_roundtrip_witness:
  "fst (dpapi_open ex_sealing ex_secrets scope_machine (machine_ref ex_secrets) ex_sealed) = Inr ''pw'' \<and>
   (\<exists>e. fst (dpapi_open ex_sealing ex_secrets scope_user (machine_ref ex_secrets) ex_sealed) = Inl e \<and>
      errors_is e ErrSecretScopeMismatch)"
proof -
  have stored: "provider_protect ex_sealing ex_secrets scope_machine machine_envelope_name ''pw'' \<lparr>dk_files = [], dk_pos = 0\<rparr> =
      (None, ex_sealed)"
    by (rule prod_eqI) (simp_all add: ex_sealed_def, code_simp)
  have ref: "sr_locator (machine_ref ex_secrets) = win_join ex_secrets machine_envelope_name" by (simp add: machine_ref_def)
  have ne: "sr_locator (machine_ref ex_secrets) \<noteq> []" by code_simp
  have readable: "sk_disk ex_sealing (dk_pos ex_sealed) = None" by (simp add: ex_sealing_def)
  have dpapi: "\<forall>n m blob. sk_seal ex_sealing n scope_machine ''pw'' = Inr blob \<longrightarrow>
      sk_unseal ex_sealing m blob = Inr ''pw'' \<and> \<not> looks_like_plaintext blob"
    by (auto simp: ex_sealing_def looks_like_plaintext_def numeral_eq_Suc)
  have other: "scope_known scope_user" "scope_user \<noteq> scope_machine" by (simp_all add: scope_known_def)
  show ?thesis using sealed_secret_roundtrip [OF stored ref ne readable dpapi other] by blast
qed

end
